(* ===== verification/Go_Prelude.thy ===== *)
theory Go_Prelude
  imports Main "HOL-Library.AList" "HOL-Library.Word"
begin

text \<open>
  Shared vocabulary of the development: the parts of the Go language and of its standard library
  that the gateway's sources use (package \<open>strings\<close> on byte strings, \<open>time.Time\<close> and
  \<open>time.Duration\<close> as integers of nanoseconds, \<open>http.Header\<close> and \<open>metadata.MD\<close> as association
  lists, the gRPC status codes), the collections of facts the component proofs share, and generic
  lemmas about them.

  A Go \<open>string\<close> is a byte sequence, so it is a \<^typ>\<open>string\<close> (a list of 8-bit characters).
  \<open>strings.ToLower\<close> and \<open>strings.ToUpper\<close> are modelled on ASCII letters; other bytes are kept.
\<close>

named_theorems go_strings \<open>unfolding rules for the string functions\<close>
named_theorems go_headers \<open>rules for header and metadata maps\<close>

type_synonym time = int \<comment> \<open>nanoseconds since the epoch\<close>
type_synonym duration = int \<comment> \<open>nanoseconds\<close>
type_synonym header = "(string \<times> string list) list"

abbreviation second :: duration where "second \<equiv> 1000000000"
abbreviation millisecond :: duration where "millisecond \<equiv> 1000000"
abbreviation minute :: duration where "minute \<equiv> 60000000000"
abbreviation hour :: duration where "hour \<equiv> 3600000000000"

section \<open>gRPC status codes\<close>

datatype code =
    OK | Canceled | Unknown | InvalidArgument | DeadlineExceeded | NotFound | AlreadyExists
  | PermissionDenied | ResourceExhausted | FailedPrecondition | Aborted | OutOfRange
  | Unimplemented | Internal | Unavailable | DataLoss | Unauthenticated

section \<open>Package strings\<close>

definition has_prefix :: "string \<Rightarrow> string \<Rightarrow> bool" where
  "has_prefix s p \<longleftrightarrow> take (length p) s = p"

definition has_suffix :: "string \<Rightarrow> string \<Rightarrow> bool" where
  "has_suffix s p \<longleftrightarrow> length p \<le> length s \<and> drop (length s - length p) s = p"

fun contains_sub :: "string \<Rightarrow> string \<Rightarrow> bool" where
  "contains_sub [] sub \<longleftrightarrow> sub = []"
| "contains_sub (c # s) sub \<longleftrightarrow> has_prefix (c # s) sub \<or> contains_sub s sub"

definition trim_prefix :: "string \<Rightarrow> string \<Rightarrow> string" where
  "trim_prefix s p = (if has_prefix s p then drop (length p) s else s)"

definition trim_suffix :: "string \<Rightarrow> string \<Rightarrow> string" where
  "trim_suffix s p = (if has_suffix s p then take (length s - length p) s else s)"

definition cut_prefix :: "string \<Rightarrow> string \<Rightarrow> string option" where
  "cut_prefix s p = (if has_prefix s p then Some (drop (length p) s) else None)"

fun index_byte :: "string \<Rightarrow> char \<Rightarrow> nat option" where
  "index_byte [] c = None"
| "index_byte (d # s) c = (if d = c then Some 0 else map_option Suc (index_byte s c))"

fun last_index_byte :: "string \<Rightarrow> char \<Rightarrow> nat option" where
  "last_index_byte [] c = None"
| "last_index_byte (d # s) c =
     (case last_index_byte s c of
        Some i \<Rightarrow> Some (Suc i)
      | None \<Rightarrow> if d = c then Some 0 else None)"

fun cut_sub :: "string \<Rightarrow> string \<Rightarrow> (string \<times> string) option" where
  \<comment> \<open>\<open>strings.Cut\<close>: the text before and after the first occurrence of a non-empty separator\<close>
  "cut_sub sep [] = (if sep = [] then Some ([], []) else None)"
| "cut_sub sep (c # s) =
     (if has_prefix (c # s) sep then Some ([], drop (length sep) (c # s))
      else map_option (\<lambda>(b, a). (c # b, a)) (cut_sub sep s))"

fun split_byte :: "char \<Rightarrow> string \<Rightarrow> string list" where
  \<comment> \<open>\<open>strings.Split\<close> with a one-byte separator; the result is never empty\<close>
  "split_byte c [] = [[]]"
| "split_byte c (d # s) =
     (if d = c then [] # split_byte c s
      else (case split_byte c s of [] \<Rightarrow> [[d]] | p # ps \<Rightarrow> (d # p) # ps))"

fun splitn_byte :: "nat \<Rightarrow> char \<Rightarrow> string \<Rightarrow> string list" where
  \<comment> \<open>\<open>strings.SplitN\<close> with a one-byte separator and at most \<open>n\<close> parts\<close>
  "splitn_byte 0 c s = []"
| "splitn_byte (Suc 0) c s = [s]"
| "splitn_byte (Suc (Suc n)) c s =
     (case index_byte s c of
        None \<Rightarrow> [s]
      | Some i \<Rightarrow> take i s # splitn_byte (Suc n) c (drop (Suc i) s))"

fun join_with :: "string \<Rightarrow> string list \<Rightarrow> string" where
  "join_with sep [] = []"
| "join_with sep [x] = x"
| "join_with sep (x # y # xs) = x @ sep @ join_with sep (y # xs)"

definition trim_left_byte :: "char \<Rightarrow> string \<Rightarrow> string" where
  "trim_left_byte c s = dropWhile (\<lambda>d. d = c) s"

definition trim_right_byte :: "char \<Rightarrow> string \<Rightarrow> string" where
  "trim_right_byte c s = rev (dropWhile (\<lambda>d. d = c) (rev s))"

definition trim_byte :: "char \<Rightarrow> string \<Rightarrow> string" where
  "trim_byte c s = trim_right_byte c (trim_left_byte c s)"

text \<open>
  \<open>strings.TrimSpace\<close> removes Unicode white space at both ends. The list holds the UTF-8 encodings
  of every code point that \<open>unicode.IsSpace\<close> accepts.
\<close>

definition space_runes :: "string list" where
  "space_runes =
     [[CHR 0x09], [CHR 0x0A], [CHR 0x0B], [CHR 0x0C], [CHR 0x0D], [CHR 0x20],
      [CHR 0xC2, CHR 0x85], [CHR 0xC2, CHR 0xA0], [CHR 0xE1, CHR 0x9A, CHR 0x80],
      [CHR 0xE2, CHR 0x80, CHR 0x80], [CHR 0xE2, CHR 0x80, CHR 0x81],
      [CHR 0xE2, CHR 0x80, CHR 0x82], [CHR 0xE2, CHR 0x80, CHR 0x83],
      [CHR 0xE2, CHR 0x80, CHR 0x84], [CHR 0xE2, CHR 0x80, CHR 0x85],
      [CHR 0xE2, CHR 0x80, CHR 0x86], [CHR 0xE2, CHR 0x80, CHR 0x87],
      [CHR 0xE2, CHR 0x80, CHR 0x88], [CHR 0xE2, CHR 0x80, CHR 0x89],
      [CHR 0xE2, CHR 0x80, CHR 0x8A], [CHR 0xE2, CHR 0x80, CHR 0xA8],
      [CHR 0xE2, CHR 0x80, CHR 0xA9], [CHR 0xE2, CHR 0x80, CHR 0xAF],
      [CHR 0xE2, CHR 0x81, CHR 0x9F], [CHR 0xE3, CHR 0x80, CHR 0x80]]"

lemma space_runes_nonempty: "w \<in> set space_runes \<Longrightarrow> w \<noteq> []"
  by (auto simp: space_runes_def)

function trim_left_space :: "string \<Rightarrow> string" where
  "trim_left_space s =
     (case find (has_prefix s) space_runes of
        None \<Rightarrow> s
      | Some w \<Rightarrow> trim_left_space (drop (length w) s))"
  by pat_completeness auto
termination
proof (relation "measure length", goal_cases)
  case (2 s w)
  then have "w \<in> set space_runes" "has_prefix s w"
    by (auto simp: find_Some_iff)
  then have "w \<noteq> []" "length w \<le> length s"
    by (auto dest: space_runes_nonempty simp: has_prefix_def) (metis nat_le_linear take_all)
  then show ?case
    by (auto intro!: diff_less simp: length_greater_0_conv [symmetric] simp del: length_greater_0_conv)
qed simp

declare trim_left_space.simps [simp del]

function trim_right_space :: "string \<Rightarrow> string" where
  "trim_right_space s =
     (case find (has_suffix s) space_runes of
        None \<Rightarrow> s
      | Some w \<Rightarrow> trim_right_space (take (length s - length w) s))"
  by pat_completeness auto
termination
proof (relation "measure length", goal_cases)
  case (2 s w)
  then have "w \<in> set space_runes" "has_suffix s w"
    by (auto simp: find_Some_iff)
  then have "w \<noteq> []" "length w \<le> length s"
    by (auto dest: space_runes_nonempty simp: has_suffix_def)
  then show ?case
    by (auto intro!: diff_less simp: length_greater_0_conv [symmetric] simp del: length_greater_0_conv)
qed simp

declare trim_right_space.simps [simp del]

definition trim_space :: "string \<Rightarrow> string" where
  "trim_space s = trim_right_space (trim_left_space s)"

definition lower_char :: "char \<Rightarrow> char" where
  "lower_char c = (let n = of_char c :: nat in
     if 65 \<le> n \<and> n \<le> 90 then char_of (n + 32) else c)"

definition upper_char :: "char \<Rightarrow> char" where
  "upper_char c = (let n = of_char c :: nat in
     if 97 \<le> n \<and> n \<le> 122 then char_of (n - 32) else c)"

definition to_lower :: "string \<Rightarrow> string" where "to_lower = map lower_char"
definition to_upper :: "string \<Rightarrow> string" where "to_upper = map upper_char"

definition equal_fold :: "string \<Rightarrow> string \<Rightarrow> bool" where
  "equal_fold s t \<longleftrightarrow> to_lower s = to_lower t"

lemmas [go_strings] =
  has_prefix_def has_suffix_def trim_prefix_def trim_suffix_def cut_prefix_def
  trim_left_byte_def trim_right_byte_def trim_byte_def

section \<open>HTTP headers and gRPC metadata\<close>

text \<open>
  \<open>http.Header\<close> maps a canonical key to its values; \<open>Get\<close>, \<open>Set\<close>, \<open>Add\<close> and \<open>Del\<close>
  canonicalise their argument (\<open>textproto.CanonicalMIMEHeaderKey\<close>: upper case at the start and
  after a hyphen, lower case elsewhere, unchanged when a byte is not a token byte).
  \<open>metadata.MD\<close> maps a lower-case key to its values, and its methods lower-case their argument.
\<close>

definition is_token_char :: "char \<Rightarrow> bool" where
  "is_token_char c = (let n = of_char c :: nat in
     (48 \<le> n \<and> n \<le> 57) \<or> (65 \<le> n \<and> n \<le> 90) \<or> (97 \<le> n \<and> n \<le> 122) \<or>
     c \<in> set ''!#$%&*+-.^_`|~'' \<or> n = 39)"

fun canonical_chars :: "bool \<Rightarrow> string \<Rightarrow> string" where
  "canonical_chars up [] = []"
| "canonical_chars up (c # s) =
     (if up then upper_char c else lower_char c) # canonical_chars (c = CHR ''-'') s"

definition canonical_key :: "string \<Rightarrow> string" where
  "canonical_key k = (if list_all is_token_char k then canonical_chars True k else k)"

definition hget :: "header \<Rightarrow> string \<Rightarrow> string" where
  "hget h k = (case map_of h (canonical_key k) of Some (v # _) \<Rightarrow> v | _ \<Rightarrow> [])"

definition hset :: "header \<Rightarrow> string \<Rightarrow> string \<Rightarrow> header" where
  "hset h k v = AList.update (canonical_key k) [v] h"

definition hadd :: "header \<Rightarrow> string \<Rightarrow> string \<Rightarrow> header" where
  "hadd h k v = (case map_of h (canonical_key k) of
     Some vs \<Rightarrow> AList.update (canonical_key k) (vs @ [v]) h
   | None \<Rightarrow> AList.update (canonical_key k) [v] h)"

definition hdel :: "header \<Rightarrow> string \<Rightarrow> header" where
  "hdel h k = AList.delete (canonical_key k) h"

definition md_get :: "header \<Rightarrow> string \<Rightarrow> string list" where
  "md_get m k = (case map_of m (to_lower k) of None \<Rightarrow> [] | Some vs \<Rightarrow> vs)"

definition md_first :: "header \<Rightarrow> string \<Rightarrow> string" where
  \<comment> \<open>the recurring idiom \<open>if v := md.Get(k); len(v) > 0 { x = v[0] }\<close> from an empty \<open>x\<close>\<close>
  "md_first m k = (case md_get m k of [] \<Rightarrow> [] | v # _ \<Rightarrow> v)"

definition md_set :: "header \<Rightarrow> string \<Rightarrow> string \<Rightarrow> header" where
  "md_set m k v = AList.update (to_lower k) [v] m"

definition md_append :: "header \<Rightarrow> string \<Rightarrow> string \<Rightarrow> header" where
  "md_append m k v = AList.update (to_lower k) (md_get m k @ [v]) m"

lemma hget_hset [go_headers]:
  "hget (hset h k v) k' = (if canonical_key k' = canonical_key k then v else hget h k')"
  by (simp add: hget_def hset_def update_conv)

lemma hget_hdel [go_headers]:
  "hget (hdel h k) k' = (if canonical_key k' = canonical_key k then [] else hget h k')"
  by (simp add: hget_def hdel_def delete_conv)

lemma md_get_md_set [go_headers]:
  "md_get (md_set m k v) k' = (if to_lower k' = to_lower k then [v] else md_get m k')"
  by (simp add: md_get_def md_set_def update_conv)

lemma md_get_md_append [go_headers]:
  "md_get (md_append m k v) k' = (if to_lower k' = to_lower k then md_get m k @ [v] else md_get m k')"
  by (simp add: md_get_def md_append_def update_conv)

section \<open>Decoded JSON and number formatting\<close>

text \<open>
  A value decoded by \<open>encoding/json\<close> into \<open>any\<close>. The gateway reads numbers only through
  \<open>int64(n)\<close>, so a number carries that truncated value.
\<close>

datatype json =
    JNull | JBool bool | JNum int | JStr string | JArr "json list" | JObj "(string \<times> json) list"

type_synonym claims = "(string \<times> json) list"

definition str_claim :: "claims \<Rightarrow> string \<Rightarrow> string" where
  \<comment> \<open>\<open>s, _ := m[k].(string)\<close>: the empty string when the key is absent or not a string\<close>
  "str_claim m k = (case map_of m k of Some (JStr s) \<Rightarrow> s | _ \<Rightarrow> [])"

fun nat_str :: "nat \<Rightarrow> string" where
  "nat_str n = (if n < 10 then [char_of (48 + n)] else nat_str (n div 10) @ [char_of (48 + n mod 10)])"

declare nat_str.simps [simp del]

definition int_str :: "int \<Rightarrow> string" where
  "int_str i = (if i < 0 then CHR ''-'' # nat_str (nat (- i)) else nat_str (nat i))"

section \<open>Encodings\<close>

text \<open>
  \<open>base64.RawURLEncoding.DecodeString\<close>: carriage returns and line feeds are skipped, padding is not
  accepted, a single left-over character is an error, and the unused low bits of the last character
  are not checked.
\<close>

definition b64url_value :: "char \<Rightarrow> nat option" where
  "b64url_value c = (let n = of_char c :: nat in
     if 65 \<le> n \<and> n \<le> 90 then Some (n - 65)
     else if 97 \<le> n \<and> n \<le> 122 then Some (n - 71)
     else if 48 \<le> n \<and> n \<le> 57 then Some (n + 4)
     else if c = CHR ''-'' then Some 62
     else if c = CHR ''_'' then Some 63
     else None)"

fun b64_groups :: "nat list \<Rightarrow> nat list option" where
  "b64_groups (a # b # c # d # vs) =
     map_option (\<lambda>bs. (a * 4 + b div 16) # (b mod 16 * 16 + c div 4) # (c mod 4 * 64 + d) # bs) (b64_groups vs)"
| "b64_groups [a, b, c] = Some [a * 4 + b div 16, b mod 16 * 16 + c div 4]"
| "b64_groups [a, b] = Some [a * 4 + b div 16]"
| "b64_groups [a] = None"
| "b64_groups [] = Some []"

definition b64url_decode :: "string \<Rightarrow> nat list option" where
  "b64url_decode s =
     Option.bind (those (map b64url_value (filter (\<lambda>c. c \<noteq> CHR 0x0A \<and> c \<noteq> CHR 0x0D) s))) b64_groups"

definition nat_of_bytes :: "nat list \<Rightarrow> nat" where
  \<comment> \<open>\<open>big.Int.SetBytes\<close>: big-endian\<close>
  "nat_of_bytes bs = foldl (\<lambda>acc b. acc * 256 + b) 0 bs"

definition bytes_str :: "nat list \<Rightarrow> string" where
  "bytes_str bs = map char_of bs"

section \<open>Generic lemmas\<close>

lemma has_prefix_append [simp]: "has_prefix (p @ s) p"
  by (simp add: has_prefix_def)

lemma has_prefix_iff: "has_prefix s p \<longleftrightarrow> (\<exists>t. s = p @ t)"
proof
  assume "has_prefix s p"
  then have "s = p @ drop (length p) s"
    by (metis append_take_drop_id has_prefix_def)
  then show "\<exists>t. s = p @ t" ..
qed (auto simp: has_prefix_def)

lemma has_suffix_iff: "has_suffix s p \<longleftrightarrow> (\<exists>t. s = t @ p)"
proof
  assume "has_suffix s p"
  then have "s = take (length s - length p) s @ p"
    by (metis append_take_drop_id has_suffix_def)
  then show "\<exists>t. s = t @ p" ..
qed (auto simp: has_suffix_def)

lemma has_prefix_Nil [simp]: "has_prefix s []"
  by (simp add: has_prefix_def)

lemma cut_prefix_Some: "cut_prefix s p = Some t \<longleftrightarrow> s = p @ t"
  by (auto simp: cut_prefix_def has_prefix_iff)

lemma cut_prefix_None: "cut_prefix s p = None \<longleftrightarrow> \<not> has_prefix s p"
  by (simp add: cut_prefix_def)

lemma contains_sub_iff: "contains_sub s sub \<longleftrightarrow> (\<exists>a b. s = a @ sub @ b)"
proof (induction s)
  case (Cons c s)
  have "has_prefix (c # s) sub \<longleftrightarrow> (\<exists>b. c # s = [] @ sub @ b)"
    by (simp add: has_prefix_iff)
  with Cons show ?case
    by (auto simp: Cons_eq_append_conv)
qed auto

lemma index_byte_None: "index_byte s c = None \<longleftrightarrow> c \<notin> set s"
  by (induction s) auto

lemma index_byte_Some:
  "index_byte s c = Some i \<longleftrightarrow> i < length s \<and> s ! i = c \<and> c \<notin> set (take i s)"
proof (induction s arbitrary: i)
  case (Cons d s)
  then show ?case by (cases i) auto
qed simp

lemma split_byte_nonempty [simp]: "split_byte c s \<noteq> []"
  by (induction s) (auto split: list.splits)

lemma split_byte_parts: "p \<in> set (split_byte c s) \<Longrightarrow> c \<notin> set p"
  by (induction s arbitrary: p) (auto split: list.splits if_splits)

lemma join_split_byte: "join_with [c] (split_byte c s) = s"
proof (induction s)
  case (Cons d s)
  then show ?case
  proof (cases "split_byte c s")
    case Nil
    then show ?thesis by simp
  next
    case (Cons p ps)
    with Cons.IH show ?thesis
      by (cases ps) auto
  qed
qed simp

lemma split_byte_no_sep: "c \<notin> set s \<Longrightarrow> split_byte c s = [s]"
  by (induction s) auto

lemma split_byte_append: "c \<notin> set a \<Longrightarrow> split_byte c (a @ c # b) = a # split_byte c b"
  by (induction a) auto

lemma split_join_byte:
  "ps \<noteq> [] \<Longrightarrow> (\<And>p. p \<in> set ps \<Longrightarrow> c \<notin> set p) \<Longrightarrow> split_byte c (join_with [c] ps) = ps"
proof (induction ps rule: induct_list012)
  case (3 x y zs)
  then show ?case by (simp add: split_byte_append)
qed (auto simp: split_byte_no_sep)

lemma map_of_filter_key:
  "map_of (filter (\<lambda>kv. P (fst kv)) xs) k = (if P k then map_of xs k else None)"
  by (induction xs) auto

lemma sep_left_unique:
  "c \<notin> set a \<Longrightarrow> c \<notin> set a' \<Longrightarrow> a @ c # x = a' @ c # x' \<longleftrightarrow> a = a' \<and> x = x'"
proof (induction a arbitrary: a')
  case Nil
  then show ?case by (cases a') auto
next
  case (Cons d a)
  then show ?case by (cases a') auto
qed

lemma sep_right_unique:
  assumes "c \<notin> set x" "c \<notin> set x'"
  shows "a @ c # x = a' @ c # x' \<longleftrightarrow> a = a' \<and> x = x'"
proof -
  have "a @ c # x = a' @ c # x' \<longleftrightarrow> rev (a @ c # x) = rev (a' @ c # x')"
    by (simp only: rev_is_rev_conv)
  also have "\<dots> \<longleftrightarrow> rev x @ c # rev a = rev x' @ c # rev a'"
    by simp
  also have "\<dots> \<longleftrightarrow> rev x = rev x' \<and> rev a = rev a'"
    using assms by (intro sep_left_unique) auto
  finally show ?thesis by auto
qed

lemma five_parts_unique:
  assumes "c \<notin> set p" "c \<notin> set m" "c \<notin> set k" "c \<notin> set h"
    and "c \<notin> set p'" "c \<notin> set m'" "c \<notin> set k'" "c \<notin> set h'"
    and "p @ c # m @ c # x @ c # k @ c # h = p' @ c # m' @ c # x' @ c # k' @ c # h'"
  shows "p = p' \<and> m = m' \<and> x = x' \<and> k = k' \<and> h = h'"
proof -
  have left: "p = p'" "m = m'" "x @ c # k @ c # h = x' @ c # k' @ c # h'"
    using assms by (simp_all add: sep_left_unique)
  then have "(x @ c # k) @ c # h = (x' @ c # k') @ c # h'"
    by simp
  then have "x @ c # k = x' @ c # k'" "h = h'"
    using sep_right_unique [OF assms(4,8)] by blast+
  then show ?thesis
    using left sep_right_unique [OF assms(3,7)] by blast
qed

lemma index_byte_append: "c \<notin> set a \<Longrightarrow> index_byte (a @ c # b) c = Some (length a)"
  by (induction a) auto

lemma last_index_byte_None: "last_index_byte s c = None \<longleftrightarrow> c \<notin> set s"
  by (induction s) (auto split: option.splits)

lemma last_index_byte_append: "c \<notin> set b \<Longrightarrow> last_index_byte (a @ c # b) c = Some (length a)"
  by (induction a) (auto simp: last_index_byte_None split: option.splits)

lemma set_join_with: "set (join_with sep xs) \<subseteq> \<Union> (set ` set xs) \<union> set sep"
  by (induction sep xs rule: join_with.induct) auto

lemma join_with_snoc: "xs \<noteq> [] \<Longrightarrow> join_with sep (xs @ [x]) = join_with sep xs @ sep @ x"
  by (induction xs rule: induct_list012) auto

lemma join_with_ends:
  assumes "x \<noteq> []"
  shows "hd (join_with sep (x # xs)) = hd x" "join_with sep (x # xs) \<noteq> []"
    "last (join_with sep (xs @ [x])) = last x"
proof -
  show "hd (join_with sep (x # xs)) = hd x" "join_with sep (x # xs) \<noteq> []"
    using assms by (cases xs; simp)+
  show "last (join_with sep (xs @ [x])) = last x"
    using assms by (cases "xs = []") (simp_all add: join_with_snoc)
qed

lemma trim_byte_id:
  assumes "s \<noteq> []" "hd s \<noteq> c" "last s \<noteq> c"
  shows "trim_byte c (c # s) = s" "trim_byte c s = s"
proof -
  have "dropWhile (\<lambda>d. d = c) s = s"
    using assms(1,2) by (cases s) auto
  moreover have "dropWhile (\<lambda>d. d = c) (rev s) = rev s"
    using assms(1,3) by (cases "rev s") (auto simp: rev_swap)
  ultimately show "trim_byte c (c # s) = s" "trim_byte c s = s"
    by (simp_all add: trim_byte_def trim_left_byte_def trim_right_byte_def)
qed

text \<open>Code equations that stop at the first mismatch.\<close>

lemma has_prefix_code [code]:
  "has_prefix s [] = True"
  "has_prefix [] (d # p) = False"
  "has_prefix (c # s) (d # p) = (if c = d then has_prefix s p else False)"
  by (simp_all add: has_prefix_def)

lemma contains_sub_code [code]:
  "contains_sub [] sub = (sub = [])"
  "contains_sub (c # s) sub = (if has_prefix (c # s) sub then True else contains_sub s sub)"
  by simp_all

end
