(* ===== verification/Edge_Context.thy ===== *)
theory Edge_Context
  imports Go_Prelude
begin

text \<open>
  What every HTTP and gRPC component of the gateway shares: the request (\<open>http.Request\<close>), the
  response writer (\<open>http.ResponseWriter\<close>), the names of the identity headers and metadata keys
  (\<^verbatim>\<open>internal/principalmeta\<close>) and the origin of the listener that accepted the connection
  (\<^verbatim>\<open>internal/listenerorigin\<close>).
\<close>

section \<open>Listener origin\<close>

datatype conn =
    Plain \<comment> \<open>any connection type that has no \<open>NetConn\<close> method\<close>
  | InternalConn conn \<comment> \<open>accepted by a listener wrapped by \<open>InternalListener\<close>\<close>
  | NetConn "conn option" \<comment> \<open>a wrapper with a \<open>NetConn\<close> method, which may return nil\<close>

record conn_ctx =
  origin_internal :: bool \<comment> \<open>the context holds the marker of the internal listener\<close>

definition ctx_background :: conn_ctx where
  "ctx_background = \<lparr>origin_internal = False\<rparr>"

definition is_external :: "conn_ctx option \<Rightarrow> bool" where
  "is_external ctx = (case ctx of None \<Rightarrow> True | Some c \<Rightarrow> \<not> origin_internal c)"

definition with_internal :: "conn_ctx \<Rightarrow> conn_ctx" where
  "with_internal ctx = ctx\<lparr>origin_internal := True\<rparr>"

definition internal_accept :: "conn + 'e \<Rightarrow> conn + 'e" where
  \<comment> \<open>\<open>Accept\<close> of the wrapped listener: an error is passed through\<close>
  "internal_accept r = (case r of Inl c \<Rightarrow> Inl (InternalConn c) | Inr e \<Rightarrow> Inr e)"

fun is_internal_conn :: "conn \<Rightarrow> bool" where
  "is_internal_conn (InternalConn c) = True"
| "is_internal_conn (NetConn (Some c)) = is_internal_conn c"
| "is_internal_conn (NetConn None) = False"
| "is_internal_conn Plain = False"

definition internal_conn_context :: "conn_ctx \<Rightarrow> conn \<Rightarrow> conn_ctx" where
  "internal_conn_context ctx c = (if is_internal_conn c then with_internal ctx else ctx)"

section \<open>Requests and responses\<close>

record http_request =
  req_method :: string
  req_path :: string
  req_query :: header \<comment> \<open>the parsed query: name to values\<close>
  req_header :: header
  req_body :: "string option" \<comment> \<open>\<open>None\<close>: no body\<close>
  req_host :: string
  req_remote :: string
  req_peer_certs :: "string list option" \<comment> \<open>\<open>None\<close>: not over TLS; else the DER peer certificates\<close>
  req_ctx :: conn_ctx

record resp_writer =
  w_header :: header
  w_status :: "int option"
  w_body :: string

definition writer_new :: resp_writer where
  "writer_new = \<lparr>w_header = [], w_status = None, w_body = []\<rparr>"

definition write_header :: "resp_writer \<Rightarrow> int \<Rightarrow> resp_writer" where
  \<comment> \<open>the first final status wins; informational statuses other than 101 are sent and forgotten\<close>
  "write_header w code =
     (if w_status w \<noteq> None then w
      else if 100 \<le> code \<and> code \<le> 199 \<and> code \<noteq> 101 then w
      else w\<lparr>w_status := Some code\<rparr>)"

definition write_body :: "resp_writer \<Rightarrow> string \<Rightarrow> resp_writer" where
  "write_body w b =
     (let w1 = (if w_status w = None then write_header w 200 else w) in w1\<lparr>w_body := w_body w1 @ b\<rparr>)"

definition client_status :: "resp_writer \<Rightarrow> int" where
  \<comment> \<open>the status the client sees when the handler returns\<close>
  "client_status w = (case w_status w of None \<Rightarrow> 200 | Some s \<Rightarrow> s)"

section \<open>Names of the identity headers and metadata keys\<close>

definition header_names :: "string list" where
  "header_names =
     [''X-Kacho-Principal-Type'', ''X-Kacho-Principal-Id'', ''X-Kacho-Principal-Display-Name'',
      ''X-Kacho-Token-Acr'', ''X-Kacho-Token-Jti'', ''X-Kacho-Token-Scope'', ''X-Kacho-Token-Exp'']"

abbreviation "HeaderPrincipalType \<equiv> ''X-Kacho-Principal-Type''"
abbreviation "HeaderPrincipalID \<equiv> ''X-Kacho-Principal-Id''"
abbreviation "HeaderPrincipalDisplay \<equiv> ''X-Kacho-Principal-Display-Name''"
abbreviation "HeaderTokenACR \<equiv> ''X-Kacho-Token-Acr''"
abbreviation "HeaderTokenJti \<equiv> ''X-Kacho-Token-Jti''"
abbreviation "HeaderTokenScope \<equiv> ''X-Kacho-Token-Scope''"
abbreviation "HeaderTokenExp \<equiv> ''X-Kacho-Token-Exp''"

definition header_grpc_meta :: "string \<Rightarrow> string" where
  \<comment> \<open>the \<open>HeaderGRPCMeta*\<close> constants\<close>
  "header_grpc_meta h = ''Grpc-Metadata-'' @ h"

definition meta_names :: "string list" where
  "meta_names =
     [''x-kacho-principal-type'', ''x-kacho-principal-id'', ''x-kacho-principal-display-name'',
      ''x-kacho-token-acr'', ''x-kacho-token-jti'', ''x-kacho-token-scope'']"

abbreviation "MetaPrincipalType \<equiv> ''x-kacho-principal-type''"
abbreviation "MetaPrincipalID \<equiv> ''x-kacho-principal-id''"
abbreviation "MetaPrincipalDisplay \<equiv> ''x-kacho-principal-display-name''"
abbreviation "MetaTokenACR \<equiv> ''x-kacho-token-acr''"
abbreviation "MetaTokenJti \<equiv> ''x-kacho-token-jti''"
abbreviation "MetaTokenScope \<equiv> ''x-kacho-token-scope''"
abbreviation "MetaPrincipalPrefix \<equiv> ''x-kacho-principal-''"
abbreviation "MetaGRPCPrincipalPrefix \<equiv> ''grpc-metadata-x-kacho-principal-''"

lemma meta_names_are_lowercase_headers: "meta_names = map to_lower (take 6 header_names)"
  by code_simp

lemma header_names_canonical:
  "\<forall>h \<in> set header_names. canonical_key h = h \<and> canonical_key (header_grpc_meta h) = header_grpc_meta h"
  by code_simp

section \<open>Path templates\<close>

definition is_placeholder :: "string \<Rightarrow> bool" where
  "is_placeholder seg \<longleftrightarrow> length seg \<ge> 2 \<and> hd seg = CHR ''{'' \<and> last seg = CHR ''}''"

section \<open>Forwarding of metadata to a backend\<close>

record grpc_ctx =
  incoming_md :: "header option"
  outgoing_md :: "header option"

definition outgoing_from_incoming :: "grpc_ctx \<Rightarrow> grpc_ctx" where
  "outgoing_from_incoming ctx =
     (case incoming_md ctx of None \<Rightarrow> ctx | Some md \<Rightarrow> ctx\<lparr>outgoing_md := Some md\<rparr>)"

section \<open>Fail-closed origin\<close>

inductive wraps_internal :: "conn \<Rightarrow> bool" where
  marked: "wraps_internal (InternalConn c)"
| unwrap: "wraps_internal c \<Longrightarrow> wraps_internal (NetConn (Some c))"

inductive_simps wraps_internal_simps [simp]:
  "wraps_internal Plain" "wraps_internal (InternalConn c)" "wraps_internal (NetConn x)"

lemma is_internal_conn_iff: "is_internal_conn c \<longleftrightarrow> wraps_internal c"
  by (induction c rule: is_internal_conn.induct) auto

lemma external_unless_marked:
  "is_external (Some (internal_conn_context ctx_background c)) \<longleftrightarrow> \<not> wraps_internal c"
  by (simp add: is_external_def internal_conn_context_def with_internal_def ctx_background_def
      is_internal_conn_iff)

end
