(* ===== verification/Lru_Cache.thy ===== *)
theory Lru_Cache
  imports Go_Prelude
begin

text \<open>
  The bounded TTL and LRU cache of \<^verbatim>\<open>internal/lrucache/lrucache.go\<close>. The Go structure keeps two
  views of the same elements: a map from keys to list elements and a doubly linked list in recency
  order. The model keeps both, with element identities (natural numbers) and a heap of entries, so
  that the agreement of the two views is an invariant to prove and not an assumption. The clock is
  an argument of each operation, one argument per reading of \<open>c.now()\<close>; the mutex makes every
  operation one atomic step. The generation counter is a \<^typ>\<open>64 word\<close> and wraps as
  \<open>uint64\<close> does.
\<close>

section \<open>State\<close>

record ('k, 'v) cache_entry =
  ekey :: 'k
  evalue :: 'v
  expiresAt :: time

record ('k, 'v) cache =
  items :: "('k \<times> nat) list"
  order :: "nat list"
  heap :: "nat \<Rightarrow> ('k, 'v) cache_entry"
  nextEl :: nat
  maxSize :: int
  cttl :: duration
  gen :: "64 word"

definition lru_new :: "int \<Rightarrow> duration \<Rightarrow> ('k, 'v) cache" where
  "lru_new n ttl =
     \<lparr>items = [], order = [], heap = (\<lambda>_. undefined), nextEl = 0,
      maxSize = (if n \<le> 0 then 10000 else n),
      cttl = (if ttl \<le> 0 then 5 * second else ttl), gen = 0\<rparr>"

section \<open>Operations\<close>

definition drop_el :: "('k, 'v) cache \<Rightarrow> 'k \<Rightarrow> nat \<Rightarrow> ('k, 'v) cache" where
  "drop_el c k el = c\<lparr>order := remove1 el (order c), items := AList.delete k (items c)\<rparr>"

definition move_to_front :: "('k, 'v) cache \<Rightarrow> nat \<Rightarrow> ('k, 'v) cache" where
  "move_to_front c el = c\<lparr>order := el # remove1 el (order c)\<rparr>"

definition expired :: "('k, 'v) cache \<Rightarrow> nat \<Rightarrow> time \<Rightarrow> bool" where
  "expired c el now \<longleftrightarrow> expiresAt (heap c el) < now"

definition lru_get :: "('k, 'v) cache \<Rightarrow> 'k \<Rightarrow> time \<Rightarrow> ('k, 'v) cache \<times> 'v option" where
  "lru_get c k now =
     (case map_of (items c) k of
        None \<Rightarrow> (c, None)
      | Some el \<Rightarrow>
          if expired c el now then (drop_el c k el, None)
          else (move_to_front c el, Some (evalue (heap c el))))"

definition lru_peek :: "('k, 'v) cache \<Rightarrow> 'k \<Rightarrow> time \<Rightarrow> ('k, 'v) cache \<times> 'v option" where
  "lru_peek c k now =
     (case map_of (items c) k of
        None \<Rightarrow> (c, None)
      | Some el \<Rightarrow>
          if expired c el now then (drop_el c k el, None)
          else (c, Some (evalue (heap c el))))"

definition put_locked :: "('k, 'v) cache \<Rightarrow> 'k \<Rightarrow> 'v \<Rightarrow> duration \<Rightarrow> time \<Rightarrow> ('k, 'v) cache" where
  "put_locked c k v ttl now =
     (case map_of (items c) k of
        Some el \<Rightarrow>
          move_to_front
            (c\<lparr>heap := (heap c)(el := (heap c el)\<lparr>evalue := v, expiresAt := now + ttl\<rparr>)\<rparr>) el
      | None \<Rightarrow>
          (let el = nextEl c;
               c1 = c\<lparr>heap := (heap c)(el := \<lparr>ekey = k, evalue = v, expiresAt = now + ttl\<rparr>),
                      nextEl := Suc el, order := el # order c,
                      items := AList.update k el (items c)\<rparr>
           in if int (length (items c1)) > maxSize c1 then
                (case order c1 of
                   [] \<Rightarrow> c1
                 | _ # _ \<Rightarrow> let back = last (order c1) in drop_el c1 (ekey (heap c1 back)) back)
              else c1))"

definition lru_put :: "('k, 'v) cache \<Rightarrow> 'k \<Rightarrow> 'v \<Rightarrow> time \<Rightarrow> ('k, 'v) cache" where
  "lru_put c k v now = put_locked c k v (cttl c) now"

definition add_if_absent ::
  "('k, 'v) cache \<Rightarrow> 'k \<Rightarrow> 'v \<Rightarrow> time \<Rightarrow> time \<Rightarrow> ('k, 'v) cache \<times> bool" where
  \<comment> \<open>\<open>now\<close> is the reading of the presence check, \<open>now'\<close> that of the insertion\<close>
  "add_if_absent c k v now now' =
     (case map_of (items c) k of
        Some el \<Rightarrow>
          if \<not> expired c el now then (c, False)
          else (let c1 = drop_el c k el in (put_locked c1 k v (cttl c1) now', True))
      | None \<Rightarrow> (put_locked c k v (cttl c) now', True))"

definition put_with_ttl ::
  "('k, 'v) cache \<Rightarrow> 'k \<Rightarrow> 'v \<Rightarrow> duration \<Rightarrow> time \<Rightarrow> ('k, 'v) cache" where
  "put_with_ttl c k v ttl now = put_locked c k v (if ttl \<le> 0 then cttl c else ttl) now"

definition generation :: "('k, 'v) cache \<Rightarrow> 64 word" where
  "generation c = gen c"

definition put_if_gen ::
  "('k, 'v) cache \<Rightarrow> 'k \<Rightarrow> 'v \<Rightarrow> 64 word \<Rightarrow> time \<Rightarrow> ('k, 'v) cache" where
  "put_if_gen c k v g now = (if gen c \<noteq> g then c else put_locked c k v (cttl c) now)"

definition put_if_gen_with_ttl ::
  "('k, 'v) cache \<Rightarrow> 'k \<Rightarrow> 'v \<Rightarrow> duration \<Rightarrow> 64 word \<Rightarrow> time \<Rightarrow> ('k, 'v) cache" where
  "put_if_gen_with_ttl c k v ttl g now =
     (if gen c \<noteq> g then c else put_locked c k v (if ttl \<le> 0 then cttl c else ttl) now)"

definition invalidate :: "('k, 'v) cache \<Rightarrow> ('k, 'v) cache" where
  "invalidate c = c\<lparr>items := [], order := [], gen := gen c + 1\<rparr>"

definition invalidate_key :: "('k, 'v) cache \<Rightarrow> 'k \<Rightarrow> ('k, 'v) cache" where
  "invalidate_key c k =
     (case map_of (items c) k of None \<Rightarrow> c | Some el \<Rightarrow> drop_el c k el)"

fun invalidate_loop ::
  "('k \<Rightarrow> bool) \<Rightarrow> ('k \<times> nat) list \<Rightarrow> ('k, 'v) cache \<Rightarrow> nat \<Rightarrow> ('k, 'v) cache \<times> nat" where
  "invalidate_loop P [] c removed = (c, removed)"
| "invalidate_loop P ((k, el) # its) c removed =
     (if P k then invalidate_loop P its (drop_el c k el) (Suc removed)
      else invalidate_loop P its c removed)"

definition invalidate_where ::
  "('k, 'v) cache \<Rightarrow> ('k \<Rightarrow> bool) \<Rightarrow> ('k, 'v) cache \<times> nat" where
  "invalidate_where c P = invalidate_loop P (items c) (c\<lparr>gen := gen c + 1\<rparr>) 0"

definition lru_len :: "('k, 'v) cache \<Rightarrow> time \<Rightarrow> nat" where
  "lru_len c now = length (filter (\<lambda>(k, el). \<not> expired c el now) (items c))"

section \<open>Invariant and abstraction\<close>

definition lru_links :: "('k, 'v) cache \<Rightarrow> bool" where
  \<comment> \<open>the map and the list hold the same elements\<close>
  "lru_links c \<longleftrightarrow>
     distinct (order c) \<and> (\<forall>el \<in> set (order c). el < nextEl c) \<and>
     distinct (map fst (items c)) \<and>
     (\<forall>k el. map_of (items c) k = Some el \<longleftrightarrow> el \<in> set (order c) \<and> ekey (heap c el) = k)"

definition lru_inv :: "('k, 'v) cache \<Rightarrow> bool" where
  "lru_inv c \<longleftrightarrow>
     lru_links c \<and> int (length (items c)) \<le> maxSize c \<and> 0 < maxSize c \<and> 0 < cttl c"

definition entries :: "('k, 'v) cache \<Rightarrow> ('k, 'v) cache_entry list" where
  "entries c = map (heap c) (order c)"

definition spec_find :: "'k \<Rightarrow> ('k, 'v) cache_entry list \<Rightarrow> ('k, 'v) cache_entry option" where
  "spec_find k es = find (\<lambda>e. ekey e = k) es"

definition spec_remove :: "'k \<Rightarrow> ('k, 'v) cache_entry list \<Rightarrow> ('k, 'v) cache_entry list" where
  "spec_remove k es = filter (\<lambda>e. ekey e \<noteq> k) es"

definition spec_get ::
  "'k \<Rightarrow> time \<Rightarrow> ('k, 'v) cache_entry list \<Rightarrow> ('k, 'v) cache_entry list \<times> 'v option" where
  "spec_get k now es =
     (case spec_find k es of
        None \<Rightarrow> (es, None)
      | Some e \<Rightarrow> if expiresAt e < now then (spec_remove k es, None)
                  else (e # spec_remove k es, Some (evalue e)))"

definition spec_put ::
  "nat \<Rightarrow> 'k \<Rightarrow> 'v \<Rightarrow> time \<Rightarrow> ('k, 'v) cache_entry list \<Rightarrow> ('k, 'v) cache_entry list" where
  "spec_put cap k v expires es =
     take cap (\<lparr>ekey = k, evalue = v, expiresAt = expires\<rparr> # spec_remove k es)"


section \<open>The two views agree\<close>

lemma links_map_of:
  "lru_links c \<Longrightarrow> map_of (items c) k = Some el \<longleftrightarrow> el \<in> set (order c) \<and> ekey (heap c el) = k"
  by (simp add: lru_links_def)

lemma links_items:
  assumes "lru_links c"
  shows "set (items c) = (\<lambda>el. (ekey (heap c el), el)) ` set (order c)"
proof -
  have "distinct (map fst (items c))"
    using assms by (simp add: lru_links_def)
  then have "(k, el) \<in> set (items c) \<longleftrightarrow> map_of (items c) k = Some el" for k el
    by simp
  then show ?thesis
    using links_map_of [OF assms] by force
qed

lemma links_unique:
  assumes "lru_links c" "x \<in> set (order c)" "y \<in> set (order c)" "ekey (heap c x) = ekey (heap c y)"
  shows "x = y"
proof -
  have "map_of (items c) (ekey (heap c x)) = Some x" "map_of (items c) (ekey (heap c x)) = Some y"
    using assms by (simp_all add: links_map_of)
  then show ?thesis by simp
qed

lemma links_length:
  assumes "lru_links c"
  shows "length (items c) = length (order c)"
proof -
  have "distinct (items c)"
    using assms by (simp add: lru_links_def distinct_map)
  then have "length (items c) = card (set (items c))"
    by (simp add: distinct_card)
  also have "\<dots> = card (set (order c))"
    unfolding links_items [OF assms] by (rule card_image) (simp add: inj_on_def)
  also have "\<dots> = length (order c)"
    using assms by (simp add: lru_links_def distinct_card)
  finally show ?thesis .
qed

lemma links_keys_distinct:
  assumes "lru_links c"
  shows "distinct (map ekey (entries c))"
proof -
  have "inj_on (\<lambda>el. ekey (heap c el)) (set (order c))"
    using links_unique [OF assms] by (auto intro: inj_onI)
  moreover have "map ekey (entries c) = map (\<lambda>el. ekey (heap c el)) (order c)"
    by (simp add: entries_def)
  ultimately show ?thesis
    using assms by (simp add: distinct_map lru_links_def)
qed

lemma links_drop_el:
  assumes "lru_links c" "map_of (items c) k = Some el"
  shows "lru_links (drop_el c k el)"
proof -
  have el: "el \<in> set (order c)" "ekey (heap c el) = k"
    using assms by (simp_all add: links_map_of)
  have "map_of (AList.delete k (items c)) k' = Some x \<longleftrightarrow>
      x \<in> set (order c) \<and> x \<noteq> el \<and> ekey (heap c x) = k'" for k' x
    using links_map_of [OF assms(1), of k'] links_unique [OF assms(1) _ el(1), of x] el
    by (auto simp: delete_conv)
  then show ?thesis
    using assms(1) by (simp add: lru_links_def drop_el_def distinct_delete)
qed

lemma links_move_to_front:
  "lru_links c \<Longrightarrow> el \<in> set (order c) \<Longrightarrow> lru_links (move_to_front c el)"
  by (auto simp: lru_links_def move_to_front_def)

lemma entries_remove:
  assumes "lru_links c" "map_of (items c) k = Some el"
  shows "map (heap c) (remove1 el (order c)) = spec_remove k (entries c)"
proof -
  have el: "el \<in> set (order c)" "ekey (heap c el) = k"
    using assms by (simp_all add: links_map_of)
  have "remove1 el (order c) = filter (\<lambda>x. x \<noteq> el) (order c)"
    using assms(1) by (simp add: lru_links_def distinct_remove1_removeAll removeAll_filter_not_eq)
      (metis (mono_tags, lifting))
  also have "\<dots> = filter (\<lambda>x. ekey (heap c x) \<noteq> k) (order c)"
  proof (rule filter_cong)
    fix x
    assume "x \<in> set (order c)"
    then show "(x \<noteq> el) = (ekey (heap c x) \<noteq> k)"
      using links_unique [OF assms(1), of x el] el by auto
  qed simp
  finally show ?thesis
    by (simp add: spec_remove_def entries_def filter_map comp_def)
qed

lemma entries_find:
  assumes "lru_links c"
  shows "spec_find k (entries c) = map_option (heap c) (map_of (items c) k)"
proof (cases "map_of (items c) k")
  case None
  then have "\<forall>el \<in> set (order c). ekey (heap c el) \<noteq> k"
    using assms links_map_of [OF assms, of k] by auto
  with None show ?thesis
    by (auto simp: spec_find_def entries_def find_None_iff)
next
  case (Some el)
  then have el: "el \<in> set (order c)" "ekey (heap c el) = k"
    using assms by (auto simp: links_map_of)
  then obtain e where e: "spec_find k (entries c) = Some e"
    by (cases "spec_find k (entries c)") (auto simp: spec_find_def entries_def find_None_iff)
  then have "e \<in> set (entries c)" "ekey e = k"
    by (auto simp: spec_find_def find_Some_iff)
  moreover have "heap c el \<in> set (entries c)" "ekey (heap c el) = k"
    using el by (simp_all add: entries_def)
  ultimately have "e = heap c el"
    using links_keys_distinct [OF assms] by (auto simp: distinct_map inj_on_def)
  with e Some show ?thesis by simp
qed


lemma entries_drop_el:
  "lru_links c \<Longrightarrow> map_of (items c) k = Some el \<Longrightarrow> entries (drop_el c k el) = spec_remove k (entries c)"
  by (simp add: entries_remove [symmetric]) (simp add: entries_def drop_el_def)

lemma entries_move_to_front:
  "lru_links c \<Longrightarrow> map_of (items c) k = Some el \<Longrightarrow>
     entries (move_to_front c el) = heap c el # spec_remove k (entries c)"
  by (simp add: entries_remove [symmetric]) (simp add: entries_def move_to_front_def)

lemma drop_el_frame [simp]:
  "maxSize (drop_el c k el) = maxSize c" "cttl (drop_el c k el) = cttl c"
  "gen (drop_el c k el) = gen c" "heap (drop_el c k el) = heap c"
  "items (drop_el c k el) = AList.delete k (items c)"
  by (simp_all add: drop_el_def)

lemma move_to_front_frame [simp]:
  "maxSize (move_to_front c el) = maxSize c" "cttl (move_to_front c el) = cttl c"
  "gen (move_to_front c el) = gen c" "heap (move_to_front c el) = heap c"
  "items (move_to_front c el) = items c"
  by (simp_all add: move_to_front_def)

lemma remove1_last:
  assumes "distinct xs" "xs \<noteq> []"
  shows "remove1 (last xs) xs = butlast xs"
proof -
  obtain ys y where xs: "xs = ys @ [y]"
    using assms(2) by (cases xs rule: rev_cases) auto
  then show ?thesis
    using assms(1) by (simp add: remove1_append)
qed

section \<open>Preservation of the invariant\<close>

named_theorems lru_invs \<open>every operation keeps the cache invariant\<close>

lemma inv_links: "lru_inv c \<Longrightarrow> lru_links c"
  by (simp add: lru_inv_def)

lemma inv_drop_el:
  assumes "lru_inv c" "map_of (items c) k = Some el"
  shows "lru_inv (drop_el c k el)"
proof -
  have "length (AList.delete k (items c)) \<le> length (items c)"
    by (rule length_delete_le)
  then show ?thesis
    using assms links_drop_el [OF inv_links [OF assms(1)] assms(2)] by (simp add: lru_inv_def)
qed

lemma inv_move_to_front: "lru_inv c \<Longrightarrow> el \<in> set (order c) \<Longrightarrow> lru_inv (move_to_front c el)"
  by (simp add: lru_inv_def links_move_to_front)

lemma lru_new_inv [lru_invs]: "lru_inv (lru_new n ttl)"
  by (simp add: lru_inv_def lru_links_def lru_new_def)

lemma lru_get_inv [lru_invs]: "lru_inv c \<Longrightarrow> lru_inv (fst (lru_get c k now))"
  by (auto simp: lru_get_def inv_drop_el inv_move_to_front links_map_of inv_links split: option.splits)

lemma lru_peek_inv [lru_invs]: "lru_inv c \<Longrightarrow> lru_inv (fst (lru_peek c k now))"
  by (auto simp: lru_peek_def inv_drop_el split: option.splits)

lemma links_refresh:
  "lru_links c \<Longrightarrow> lru_links (c\<lparr>heap := (heap c)(el := (heap c el)\<lparr>evalue := v, expiresAt := t\<rparr>)\<rparr>)"
  by (auto simp: lru_links_def)

definition insert_el :: "('k, 'v) cache \<Rightarrow> 'k \<Rightarrow> 'v \<Rightarrow> time \<Rightarrow> ('k, 'v) cache" where
  \<comment> \<open>the allocation step of \<open>putLocked\<close>, before the capacity check\<close>
  "insert_el c k v t =
     c\<lparr>heap := (heap c)(nextEl c := \<lparr>ekey = k, evalue = v, expiresAt = t\<rparr>),
       nextEl := Suc (nextEl c), order := nextEl c # order c,
       items := AList.update k (nextEl c) (items c)\<rparr>"

lemma links_insert_el:
  assumes "lru_links c" "map_of (items c) k = None"
  shows "lru_links (insert_el c k v t)"
proof -
  have fresh: "nextEl c \<notin> set (order c)"
    using assms(1) by (auto simp: lru_links_def)
  have absent: "x \<in> set (order c) \<Longrightarrow> ekey (heap c x) \<noteq> k" for x
    using assms by (auto simp: lru_links_def)
  have "map_of (AList.update k (nextEl c) (items c)) k' = Some x \<longleftrightarrow>
      (x = nextEl c \<and> k' = k) \<or> (x \<in> set (order c) \<and> ekey (heap c x) = k')" for k' x
    using links_map_of [OF assms(1), of k'] absent by (auto simp: update_conv)
  then show ?thesis
    using assms(1) fresh by (auto simp: lru_links_def insert_el_def distinct_update less_Suc_eq)
qed

lemma put_locked_eq:
  "put_locked c k v ttl now =
     (case map_of (items c) k of
        Some el \<Rightarrow>
          move_to_front
            (c\<lparr>heap := (heap c)(el := (heap c el)\<lparr>evalue := v, expiresAt := now + ttl\<rparr>)\<rparr>) el
      | None \<Rightarrow>
          (let c1 = insert_el c k v (now + ttl); back = last (order c1) in
           if int (length (items c1)) > maxSize c then drop_el c1 (ekey (heap c1 back)) back
           else c1))"
  by (simp add: put_locked_def insert_el_def Let_def split: option.splits)

lemma insert_el_facts [simp]:
  "maxSize (insert_el c k v t) = maxSize c" "cttl (insert_el c k v t) = cttl c"
  "gen (insert_el c k v t) = gen c" "order (insert_el c k v t) = nextEl c # order c"
  by (simp_all add: insert_el_def)

lemma length_items_insert_el:
  "lru_links c \<Longrightarrow> map_of (items c) k = None \<Longrightarrow>
     length (items (insert_el c k v t)) = Suc (length (items c))"
  using links_length [OF links_insert_el, of c k v t] links_length [of c] by simp

lemma last_in_order:
  assumes "lru_links c" "order c \<noteq> []"
  shows "map_of (items c) (ekey (heap c (last (order c)))) = Some (last (order c))"
  using assms by (simp add: links_map_of)

lemma put_locked_inv [lru_invs]:
  assumes "lru_inv c"
  shows "lru_inv (put_locked c k v ttl now)"
proof (cases "map_of (items c) k")
  case (Some el)
  let ?c = "c\<lparr>heap := (heap c)(el := (heap c el)\<lparr>evalue := v, expiresAt := now + ttl\<rparr>)\<rparr>"
  have "lru_inv ?c"
    using assms by (simp add: lru_inv_def links_refresh)
  moreover have "el \<in> set (order ?c)"
    using Some assms by (simp add: links_map_of inv_links)
  ultimately show ?thesis
    using Some by (simp add: put_locked_eq inv_move_to_front)
next
  case None
  let ?c = "insert_el c k v (now + ttl)"
  have links: "lru_links ?c"
    using None assms by (simp add: links_insert_el inv_links)
  have len: "length (items ?c) = Suc (length (items c))"
    using None assms by (simp add: length_items_insert_el inv_links)
  show ?thesis
  proof (cases "int (length (items ?c)) > maxSize c")
    case False
    then show ?thesis
      using None assms links by (simp add: put_locked_eq Let_def lru_inv_def)
  next
    case True
    let ?b = "last (order ?c)"
    let ?d = "drop_el ?c (ekey (heap ?c ?b)) ?b"
    have d: "lru_links ?d"
      using links by (intro links_drop_el last_in_order) simp_all
    have "length (items ?d) = length (order ?d)"
      using d by (rule links_length)
    also have "\<dots> = length (order c)"
      using links by (simp add: drop_el_def remove1_last lru_links_def)
    also have "\<dots> = length (items c)"
      using assms by (simp add: links_length inv_links)
    finally show ?thesis
      using None True assms d by (simp add: put_locked_eq Let_def lru_inv_def)
  qed
qed


lemma inv_gen: "lru_inv (c\<lparr>gen := g\<rparr>) = lru_inv c" "entries (c\<lparr>gen := g\<rparr>) = entries c"
  by (simp_all add: lru_inv_def lru_links_def entries_def)

lemma lru_put_inv [lru_invs]: "lru_inv c \<Longrightarrow> lru_inv (lru_put c k v now)"
  by (simp add: lru_put_def put_locked_inv)

lemma add_if_absent_inv [lru_invs]: "lru_inv c \<Longrightarrow> lru_inv (fst (add_if_absent c k v now now'))"
  by (auto simp: add_if_absent_def put_locked_inv inv_drop_el Let_def split: option.splits)

lemma put_with_ttl_inv [lru_invs]: "lru_inv c \<Longrightarrow> lru_inv (put_with_ttl c k v ttl now)"
  by (simp add: put_with_ttl_def put_locked_inv)

lemma put_if_gen_inv [lru_invs]: "lru_inv c \<Longrightarrow> lru_inv (put_if_gen c k v g now)"
  by (simp add: put_if_gen_def put_locked_inv)

lemma put_if_gen_with_ttl_inv [lru_invs]:
  "lru_inv c \<Longrightarrow> lru_inv (put_if_gen_with_ttl c k v ttl g now)"
  by (simp add: put_if_gen_with_ttl_def put_locked_inv)

lemma invalidate_inv [lru_invs]: "lru_inv c \<Longrightarrow> lru_inv (invalidate c)"
  by (simp add: lru_inv_def lru_links_def invalidate_def)

lemma invalidate_key_inv [lru_invs]: "lru_inv c \<Longrightarrow> lru_inv (invalidate_key c k)"
  by (simp add: invalidate_key_def inv_drop_el split: option.splits)

lemma invalidate_loop_spec:
  assumes "lru_inv c" "set its \<subseteq> set (items c)" "distinct (map fst its)"
  shows "lru_inv (fst (invalidate_loop P its c n)) \<and>
     entries (fst (invalidate_loop P its c n)) =
       filter (\<lambda>e. ekey e \<in> fst ` set its \<longrightarrow> \<not> P (ekey e)) (entries c) \<and>
     snd (invalidate_loop P its c n) = n + length (filter (\<lambda>x. P (fst x)) its) \<and>
     gen (fst (invalidate_loop P its c n)) = gen c \<and>
     maxSize (fst (invalidate_loop P its c n)) = maxSize c \<and>
     cttl (fst (invalidate_loop P its c n)) = cttl c"
  using assms
proof (induction P its c n rule: invalidate_loop.induct)
  case (2 P k el its c n)
  have m: "map_of (items c) k = Some el"
    using "2.prems" by (auto simp: lru_inv_def lru_links_def)
  show ?case
  proof (cases "P k")
    case True
    let ?d = "drop_el c k el"
    have "(k', x) \<in> set its \<Longrightarrow> (k', x) \<in> set (AList.delete k (items c))" for k' x
      using "2.prems" by (force simp: AList.delete_eq)
    then have sub: "set its \<subseteq> set (items ?d)"
      by auto
    have inv: "lru_inv ?d"
      using m "2.prems" by (simp add: inv_drop_el)
    have ent: "entries ?d = spec_remove k (entries c)"
      using m "2.prems" by (simp add: entries_drop_el inv_links)
    show ?thesis
      using "2.IH"(1) [OF True inv sub] "2.prems" True ent
      by (auto simp: spec_remove_def intro!: filter_cong)
  next
    case False
    with "2.IH"(2) "2.prems" show ?thesis
      by (auto intro!: filter_cong)
  qed
qed (auto simp: filter_id_conv)

lemma invalidate_where_spec:
  assumes "lru_inv c"
  shows "lru_inv (fst (invalidate_where c P))"
    and "entries (fst (invalidate_where c P)) = filter (\<lambda>e. \<not> P (ekey e)) (entries c)"
    and "snd (invalidate_where c P) = length (filter (\<lambda>e. P (ekey e)) (entries c))"
    and "gen (fst (invalidate_where c P)) = gen c + 1"
    and "maxSize (fst (invalidate_where c P)) = maxSize c"
    and "cttl (fst (invalidate_where c P)) = cttl c"
proof -
  let ?c = "c\<lparr>gen := gen c + 1\<rparr>"
  have its: "set (items c) = (\<lambda>el. (ekey (heap c el), el)) ` set (order c)"
    using assms by (simp add: links_items inv_links)
  have keys: "e \<in> set (entries c) \<Longrightarrow> ekey e \<in> fst ` set (items c)" for e
    by (auto simp: entries_def its image_image)
  have d: "distinct (map fst (items c))" "distinct (order c)" "distinct (map ekey (entries c))"
    using assms links_keys_distinct [of c] by (simp_all add: lru_inv_def lru_links_def)
  have spec: "lru_inv (fst (invalidate_where c P)) \<and>
     entries (fst (invalidate_where c P)) =
       filter (\<lambda>e. ekey e \<in> fst ` set (items c) \<longrightarrow> \<not> P (ekey e)) (entries c) \<and>
     snd (invalidate_where c P) = length (filter (\<lambda>x. P (fst x)) (items c)) \<and>
     gen (fst (invalidate_where c P)) = gen c + 1 \<and>
     maxSize (fst (invalidate_where c P)) = maxSize c \<and>
     cttl (fst (invalidate_where c P)) = cttl c"
    using invalidate_loop_spec [of ?c "items c" P 0] assms d(1)
    by (simp add: invalidate_where_def inv_gen)
  then show "lru_inv (fst (invalidate_where c P))"
    "gen (fst (invalidate_where c P)) = gen c + 1"
    "maxSize (fst (invalidate_where c P)) = maxSize c"
    "cttl (fst (invalidate_where c P)) = cttl c"
    by simp_all
  show "entries (fst (invalidate_where c P)) = filter (\<lambda>e. \<not> P (ekey e)) (entries c)"
    using spec keys by (auto intro!: filter_cong)
  have "length (filter (\<lambda>x. P (fst x)) (items c)) = length (filter P (map fst (items c)))"
    by (simp add: filter_map comp_def)
  also have "\<dots> = card (set (filter P (map fst (items c))))"
    using d(1) by (intro distinct_card [symmetric] distinct_filter)
  also have "set (filter P (map fst (items c))) = set (filter P (map ekey (entries c)))"
    by (auto simp: its entries_def image_image)
  also have "card \<dots> = length (filter P (map ekey (entries c)))"
    using d(3) by (intro distinct_card distinct_filter)
  also have "\<dots> = length (filter (\<lambda>e. P (ekey e)) (entries c))"
    by (simp add: filter_map comp_def)
  finally show "snd (invalidate_where c P) = length (filter (\<lambda>e. P (ekey e)) (entries c))"
    using spec by simp
qed

lemmas invalidate_where_inv [lru_invs] = invalidate_where_spec(1)


section \<open>Refinement of the recency-list specification\<close>

lemma lru_get_refines:
  assumes "lru_inv c"
  shows "entries (fst (lru_get c k now)) = fst (spec_get k now (entries c))"
    and "snd (lru_get c k now) = snd (spec_get k now (entries c))"
  using assms
  by (auto simp: lru_get_def spec_get_def entries_find inv_links entries_drop_el
      entries_move_to_front expired_def split: option.splits)

lemma spec_remove_absent: "spec_find k es = None \<Longrightarrow> spec_remove k es = es"
  by (auto simp: spec_find_def spec_remove_def find_None_iff filter_id_conv)

lemma put_locked_refines:
  assumes "lru_inv c"
  shows "entries (put_locked c k v ttl now) = spec_put (nat (maxSize c)) k v (now + ttl) (entries c)"
proof (cases "map_of (items c) k")
  case (Some el)
  let ?e = "(heap c el)\<lparr>evalue := v, expiresAt := now + ttl\<rparr>"
  let ?h = "(heap c)(el := ?e)"
  have el: "el \<in> set (order c)" "ekey (heap c el) = k"
    using Some assms by (simp_all add: links_map_of inv_links)
  have "map ?h (remove1 el (order c)) = map (heap c) (remove1 el (order c))"
    using assms by (auto simp: lru_inv_def lru_links_def)
  also have "\<dots> = spec_remove k (entries c)"
    using Some assms by (simp add: entries_remove inv_links)
  finally have "entries (put_locked c k v ttl now) = ?e # spec_remove k (entries c)"
    using Some by (simp add: put_locked_eq entries_def move_to_front_def)
  moreover have "?e = \<lparr>ekey = k, evalue = v, expiresAt = now + ttl\<rparr>"
    using el(2) by (cases "heap c el") auto
  moreover have "Suc (length (spec_remove k (entries c))) \<le> nat (maxSize c)"
  proof -
    have "length (spec_remove k (entries c)) = length (order c) - 1"
      using Some assms el(1) by (simp add: entries_remove [symmetric] inv_links length_remove1)
    moreover have "0 < length (order c)" "int (length (order c)) \<le> maxSize c"
      using assms el(1) links_length [of c] by (auto simp: lru_inv_def)
    ultimately show ?thesis by linarith
  qed
  ultimately show ?thesis by (simp add: spec_put_def)
next
  case None
  let ?c = "insert_el c k v (now + ttl)"
  let ?e = "\<lparr>ekey = k, evalue = v, expiresAt = now + ttl\<rparr>"
  have links: "lru_links ?c"
    using None assms by (simp add: links_insert_el inv_links)
  have fresh: "nextEl c \<notin> set (order c)"
    using assms by (auto simp: lru_inv_def lru_links_def)
  have abs: "spec_remove k (entries c) = entries c"
    using None assms by (intro spec_remove_absent) (simp add: entries_find inv_links)
  have ent: "entries ?c = ?e # entries c"
    using fresh by (auto simp: entries_def insert_el_def)
  have len: "length (items ?c) = Suc (length (order c))" "int (length (order c)) \<le> maxSize c"
    using None assms length_items_insert_el [of c k v "now + ttl"] links_length [of c]
    by (simp_all add: lru_inv_def)
  show ?thesis
  proof (cases "int (length (items ?c)) > maxSize c")
    case False
    then show ?thesis
      using None len abs ent by (simp add: put_locked_eq Let_def spec_put_def entries_def)
  next
    case True
    let ?b = "last (order ?c)"
    have "entries (put_locked c k v ttl now) = map (heap ?c) (remove1 ?b (order ?c))"
      using None True by (simp add: put_locked_eq Let_def entries_def drop_el_def)
    also have "remove1 ?b (order ?c) = butlast (order ?c)"
      using links by (intro remove1_last) (simp_all add: lru_links_def)
    also have "map (heap ?c) (butlast (order ?c)) = butlast (entries ?c)"
      by (simp add: entries_def map_butlast)
    also have "\<dots> = take (nat (maxSize c)) (entries ?c)"
    proof -
      have "nat (maxSize c) = length (entries ?c) - 1"
        using True len by (simp add: entries_def)
      then show ?thesis by (simp add: butlast_conv_take)
    qed
    finally show ?thesis
      using abs ent by (simp add: spec_put_def)
  qed
qed

section \<open>What a reader sees\<close>

definition lru_view :: "('k, 'v) cache \<Rightarrow> 'k \<Rightarrow> time \<Rightarrow> 'v option" where
  \<comment> \<open>the value \<open>Get\<close> or \<open>Peek\<close> would return\<close>
  "lru_view c k now = snd (lru_peek c k now)"

definition spec_view :: "'k \<Rightarrow> time \<Rightarrow> ('k, 'v) cache_entry list \<Rightarrow> 'v option" where
  "spec_view k now es =
     (case spec_find k es of
        None \<Rightarrow> None
      | Some e \<Rightarrow> if expiresAt e < now then None else Some (evalue e))"

lemma lru_view_refines: "lru_inv c \<Longrightarrow> lru_view c k now = spec_view k now (entries c)"
  by (auto simp: lru_view_def lru_peek_def spec_view_def entries_find inv_links expired_def
      split: option.splits)

lemma lru_get_view: "snd (lru_get c k now) = lru_view c k now"
  by (auto simp: lru_get_def lru_view_def lru_peek_def split: option.splits)

lemma spec_find_remove: "spec_find k' (spec_remove k es) = (if k' = k then None else spec_find k' es)"
  by (induction es) (auto simp: spec_find_def spec_remove_def)

lemma spec_find_Cons: "spec_find k (e # es) = (if ekey e = k then Some e else spec_find k es)"
  by (simp add: spec_find_def)

lemma spec_find_filter:
  "spec_find k (filter (\<lambda>e. P (ekey e)) es) = (if P k then spec_find k es else None)"
  by (induction es) (auto simp: spec_find_def)

lemma spec_find_take:
  "distinct (map ekey es) \<Longrightarrow> spec_find k (take n es) = spec_find k es \<or> spec_find k (take n es) = None"
proof (induction es arbitrary: n)
  case (Cons e es)
  then show ?case
    by (cases n) (auto simp: spec_find_def)
qed (simp add: spec_find_def)

lemmas spec_find_rules = spec_find_remove spec_find_Cons spec_find_filter

lemma distinct_keys_spec_remove:
  "distinct (map ekey es) \<Longrightarrow> distinct (map ekey (e # spec_remove (ekey e) es))"
  by (auto simp: spec_remove_def distinct_map intro: inj_on_subset)

lemma view_put_same:
  assumes "lru_inv c"
  shows "lru_view (put_locked c k v ttl now) k now' = (if now + ttl < now' then None else Some v)"
proof -
  obtain n where n: "nat (maxSize c) = Suc n"
    using assms by (cases "nat (maxSize c)") (auto simp: lru_inv_def)
  show ?thesis
    using assms
    by (simp add: lru_view_refines put_locked_inv put_locked_refines spec_put_def n spec_view_def
        spec_find_Cons)
qed

lemma view_put_other:
  assumes "lru_inv c" "k' \<noteq> k"
  shows "lru_view (put_locked c k v ttl now) k' now' \<in> {lru_view c k' now', None}"
proof -
  let ?e = "\<lparr>ekey = k, evalue = v, expiresAt = now + ttl\<rparr>"
  have "distinct (map ekey (?e # spec_remove (ekey ?e) (entries c)))"
    using assms by (intro distinct_keys_spec_remove links_keys_distinct) (simp add: inv_links)
  from spec_find_take [OF this, of k' "nat (maxSize c)"] show ?thesis
    using assms
    by (auto simp: lru_view_refines put_locked_inv put_locked_refines spec_put_def spec_view_def
        spec_find_rules split: option.splits)
qed

lemma view_get:
  assumes "lru_inv c" "now \<le> now'"
  shows "lru_view (fst (lru_get c k now)) k' now' = lru_view c k' now'"
  using assms
  by (auto simp: lru_view_refines lru_get_inv lru_get_refines spec_get_def spec_view_def
      spec_find_rules split: option.splits) (auto simp: spec_find_def find_Some_iff)

lemma view_invalidate_where:
  "lru_inv c \<Longrightarrow> lru_view (fst (invalidate_where c P)) k now = (if P k then None else lru_view c k now)"
  using spec_find_filter [of k "\<lambda>k. \<not> P k" "entries c"]
  by (simp add: lru_view_refines invalidate_where_spec spec_view_def)

lemma view_invalidate: "lru_view (invalidate c) k now = None"
  by (simp add: lru_view_def lru_peek_def invalidate_def)

lemma view_invalidate_key:
  "lru_inv c \<Longrightarrow> lru_view (invalidate_key c k) k' now = (if k' = k then None else lru_view c k' now)"
  by (auto simp: lru_view_def lru_peek_def invalidate_key_def expired_def delete_conv
      split: option.splits)


section \<open>What the cached values satisfy\<close>

definition cache_holds :: "('k \<Rightarrow> 'v \<Rightarrow> bool) \<Rightarrow> ('k, 'v) cache \<Rightarrow> bool" where
  \<comment> \<open>the invariant, and every stored pair satisfies the predicate\<close>
  "cache_holds P c \<longleftrightarrow> lru_inv c \<and> (\<forall>e \<in> set (entries c). P (ekey e) (evalue e))"

lemma holds_new [lru_invs]: "cache_holds P (lru_new n ttl)"
  by (simp add: cache_holds_def lru_new_inv) (simp add: lru_new_def entries_def)

lemma spec_find_in: "spec_find k es = Some e \<Longrightarrow> e \<in> set es \<and> ekey e = k"
  by (auto simp: spec_find_def find_Some_iff)

lemma holds_view:
  assumes "cache_holds P c" "lru_view c k now = Some v"
  shows "P k v"
proof -
  obtain e where "spec_find k (entries c) = Some e" "v = evalue e"
    using assms by (auto simp: cache_holds_def lru_view_refines spec_view_def split: option.splits if_splits)
  then show ?thesis
    using assms(1) spec_find_in [of k "entries c" e] by (auto simp: cache_holds_def)
qed

lemma holds_get_value: "cache_holds P c \<Longrightarrow> snd (lru_get c k now) = Some v \<Longrightarrow> P k v"
  unfolding lru_get_view by (rule holds_view)

lemma holds_get [lru_invs]: "cache_holds P c \<Longrightarrow> cache_holds P (fst (lru_get c k now))"
  by (auto simp: cache_holds_def lru_get_inv lru_get_refines spec_get_def spec_remove_def
      dest: spec_find_in split: option.splits)

lemma holds_put [lru_invs]: "cache_holds P c \<Longrightarrow> P k v \<Longrightarrow> cache_holds P (put_locked c k v ttl now)"
  by (auto simp: cache_holds_def put_locked_inv put_locked_refines spec_put_def spec_remove_def
      dest!: in_set_takeD)

lemma holds_put_if_gen [lru_invs]: "cache_holds P c \<Longrightarrow> P k v \<Longrightarrow> cache_holds P (put_if_gen c k v g now)"
  by (simp add: put_if_gen_def holds_put)

lemma holds_invalidate [lru_invs]: "cache_holds P c \<Longrightarrow> cache_holds P (invalidate c)"
  by (auto simp: cache_holds_def invalidate_inv) (simp add: invalidate_def entries_def)

lemma holds_invalidate_where [lru_invs]: "cache_holds P c \<Longrightarrow> cache_holds P (fst (invalidate_where c Q))"
  by (auto simp: cache_holds_def invalidate_where_spec)

section \<open>The contract the cache's clients rely on\<close>

text \<open>
  A client sees the cache through what a lookup returns (\<open>view\<close>), the invalidation epoch, and the
  operations. \<open>store\<close> may evict another key, so the law for other keys allows \<open>None\<close>.
\<close>

locale ttl_cache =
  fixes inv :: "'c \<Rightarrow> bool"
    and view :: "'c \<Rightarrow> 'k \<Rightarrow> time \<Rightarrow> 'v option"
    and epoch :: "'c \<Rightarrow> 64 word"
    and fetch :: "'c \<Rightarrow> 'k \<Rightarrow> time \<Rightarrow> 'c \<times> 'v option"
    and store :: "'c \<Rightarrow> 'k \<Rightarrow> 'v \<Rightarrow> duration \<Rightarrow> time \<Rightarrow> 'c"
    and purge :: "'c \<Rightarrow> ('k \<Rightarrow> bool) \<Rightarrow> 'c \<times> nat"
  assumes fetch_view: "snd (fetch c k now) = view c k now"
    and view_fetch: "inv c \<Longrightarrow> now \<le> now' \<Longrightarrow> view (fst (fetch c k now)) k' now' = view c k' now'"
    and view_store: "inv c \<Longrightarrow>
      view (store c k v ttl now) k now' = (if now + ttl < now' then None else Some v)"
    and view_store_other: "inv c \<Longrightarrow> k' \<noteq> k \<Longrightarrow>
      view (store c k v ttl now) k' now' \<in> {view c k' now', None}"
    and view_purge: "inv c \<Longrightarrow> view (fst (purge c P)) k now = (if P k then None else view c k now)"
    and epoch_purge: "inv c \<Longrightarrow> epoch (fst (purge c P)) = epoch c + 1"
    and inv_fetch: "inv c \<Longrightarrow> inv (fst (fetch c k now))"
    and inv_store: "inv c \<Longrightarrow> inv (store c k v ttl now)"
    and inv_purge: "inv c \<Longrightarrow> inv (fst (purge c P))"
begin

lemma fetch_after_store:
  "inv c \<Longrightarrow> snd (fetch (store c k v ttl now) k now') = (if now + ttl < now' then None else Some v)"
  by (simp add: fetch_view view_store)

lemma fetch_after_purge: "inv c \<Longrightarrow> P k \<Longrightarrow> snd (fetch (fst (purge c P)) k now) = None"
  by (simp add: fetch_view view_purge)

lemma purge_moves_epoch: "inv c \<Longrightarrow> epoch (fst (purge c P)) \<noteq> epoch c"
  by (simp add: epoch_purge)

lemma other_key_not_invented:
  \<comment> \<open>a value found under another key after a store was there before it\<close>
  assumes "inv c" "k' \<noteq> k" "snd (fetch (store c k v ttl now) k' now') = Some x"
  shows "snd (fetch c k' now') = Some x"
  using assms view_store_other [of c k' k v ttl now now'] by (auto simp: fetch_view)

end

lemma put_locked_frame [simp]:
  "gen (put_locked c k v ttl now) = gen c" "maxSize (put_locked c k v ttl now) = maxSize c"
  "cttl (put_locked c k v ttl now) = cttl c"
  by (auto simp: put_locked_eq Let_def split: option.splits)

interpretation lru: ttl_cache lru_inv lru_view gen lru_get put_locked invalidate_where
  by unfold_locales
    (auto simp: lru_get_view view_get view_put_same view_put_other view_invalidate_where
      invalidate_where_spec lru_invs dest: view_put_other)

section \<open>Interleavings of operations\<close>

text \<open>
  Every exported method holds the mutex, so a concurrent history of the cache is a sequence of
  operations. \<open>Put\<close> is \<open>PutWithTTL\<close> with a non-positive TTL.
\<close>

datatype ('k, 'v) lru_op =
    LGet 'k time
  | LPeek 'k time
  | LPut 'k 'v duration time
  | LAdd 'k 'v time time
  | LPutGen 'k 'v duration "64 word" time
  | LFlush
  | LDropKey 'k
  | LDropWhere "'k \<Rightarrow> bool"

fun lru_step :: "('k, 'v) cache \<Rightarrow> ('k, 'v) lru_op \<Rightarrow> ('k, 'v) cache" where
  "lru_step c (LGet k t) = fst (lru_get c k t)"
| "lru_step c (LPeek k t) = fst (lru_peek c k t)"
| "lru_step c (LPut k v ttl t) = put_with_ttl c k v ttl t"
| "lru_step c (LAdd k v t t') = fst (add_if_absent c k v t t')"
| "lru_step c (LPutGen k v ttl g t) = put_if_gen_with_ttl c k v ttl g t"
| "lru_step c LFlush = invalidate c"
| "lru_step c (LDropKey k) = invalidate_key c k"
| "lru_step c (LDropWhere P) = fst (invalidate_where c P)"

definition lru_run :: "('k, 'v) cache \<Rightarrow> ('k, 'v) lru_op list \<Rightarrow> ('k, 'v) cache" where
  "lru_run c ops = foldl lru_step c ops"

fun bumps_gen :: "('k, 'v) lru_op \<Rightarrow> bool" where
  "bumps_gen LFlush = True"
| "bumps_gen (LDropWhere P) = True"
| "bumps_gen _ = False"

lemma lru_step_inv: "lru_inv c \<Longrightarrow> lru_inv (lru_step c op)"
  by (cases op) (simp_all add: lru_invs)

lemma lru_run_inv: "lru_inv c \<Longrightarrow> lru_inv (lru_run c ops)"
  by (induction ops arbitrary: c) (simp_all add: lru_run_def lru_step_inv)

lemma lru_step_frame:
  "lru_inv c \<Longrightarrow> maxSize (lru_step c op) = maxSize c"
  "lru_inv c \<Longrightarrow> cttl (lru_step c op) = cttl c"
  "lru_inv c \<Longrightarrow> gen (lru_step c op) = gen c + (if bumps_gen op then 1 else 0)"
  by (cases op; auto simp: lru_get_def lru_peek_def put_with_ttl_def add_if_absent_def Let_def
      put_if_gen_with_ttl_def invalidate_def invalidate_key_def invalidate_where_spec
      split: option.splits)+

lemma lru_run_gen:
  "lru_inv c \<Longrightarrow> gen (lru_run c ops) = gen c + of_nat (length (filter bumps_gen ops))"
  by (induction ops arbitrary: c)
    (simp_all add: lru_run_def lru_step_inv lru_step_frame algebra_simps)

lemma lru_run_maxSize: "lru_inv c \<Longrightarrow> maxSize (lru_run c ops) = maxSize c"
  by (induction ops arbitrary: c) (simp_all add: lru_run_def lru_step_inv lru_step_frame)

lemma lru_run_cttl: "lru_inv c \<Longrightarrow> cttl (lru_run c ops) = cttl c"
  by (induction ops arbitrary: c) (simp_all add: lru_run_def lru_step_inv lru_step_frame)

lemma of_nat_64_neq_0:
  assumes "0 < n" "n < 2 ^ 64"
  shows "(of_nat n :: 64 word) \<noteq> 0"
proof
  assume "(of_nat n :: 64 word) = 0"
  then have "2 ^ 64 dvd n"
    by (simp add: word_of_nat_eq_0_iff)
  with assms show False
    by (auto dest: dvd_imp_le)
qed

lemma stale_snapshot:
  assumes "lru_inv c" "op \<in> set ops" "bumps_gen op" "length ops < 2 ^ 64"
  shows "gen (lru_run c ops) \<noteq> gen c"
proof -
  have "filter bumps_gen ops \<noteq> []" and "length (filter bumps_gen ops) < 2 ^ 64"
    using assms(2-4) order.strict_trans1 [OF length_filter_le assms(4), of bumps_gen]
    by (auto simp: filter_empty_conv)
  then show ?thesis
    using of_nat_64_neq_0 [of "length (filter bumps_gen ops)"] assms(1) by (simp add: lru_run_gen)
qed

section \<open>Properties\<close>

text \<open>
  C21: after any interleaving of operations on a fresh cache, the key map and the recency list hold
  exactly the same elements, and their number never exceeds the configured capacity (10000 when the
  configured one is not positive).
\<close>

theorem lru_bounded_and_consistent:
  "let c = lru_run (lru_new n ttl) ops in
     lru_links c \<and> length (order c) = length (items c) \<and>
     int (length (items c)) \<le> (if n \<le> 0 then 10000 else n)"
proof -
  let ?c = "lru_run (lru_new n ttl) ops"
  have "lru_inv ?c"
    by (simp add: lru_run_inv lru_new_inv)
  moreover have "maxSize ?c = (if n \<le> 0 then 10000 else n)"
    by (simp add: lru_run_maxSize lru_new_inv) (simp add: lru_new_def)
  ultimately show ?thesis
    using links_length [of ?c] by (simp add: Let_def lru_inv_def split: if_splits)
qed

text \<open>
  C20: in every reachable state, \<open>Get\<close> and \<open>PutWithTTL\<close> implement the abstract recency list: a
  lookup moves a live entry to the front and drops an expired one, and a store puts the entry in
  front of the others and keeps the most recent \<open>maxSize\<close> of them.
\<close>

theorem lru_refines_recency_list:
  "let c = lru_run (lru_new n ttl) ops in
     (entries (fst (lru_get c k now)), snd (lru_get c k now)) = spec_get k now (entries c) \<and>
     entries (put_with_ttl c k v d now) =
       spec_put (nat (if n \<le> 0 then 10000 else n)) k v
         (now + (if d \<le> 0 then (if ttl \<le> 0 then 5 * second else ttl) else d)) (entries c)"
proof -
  let ?c = "lru_run (lru_new n ttl) ops"
  have inv: "lru_inv ?c"
    by (simp add: lru_run_inv lru_new_inv)
  have "maxSize ?c = (if n \<le> 0 then 10000 else n)" "cttl ?c = (if ttl \<le> 0 then 5 * second else ttl)"
    by (simp_all add: lru_run_maxSize lru_run_cttl lru_new_inv) (simp_all add: lru_new_def)
  then show ?thesis
    using inv by (simp add: Let_def put_with_ttl_def put_locked_refines lru_get_refines prod_eq_iff)
qed

text \<open>
  The write-after-invalidate guard. A caller that read the generation in some state and whose
  computation overlaps at least one \<open>Invalidate\<close> or \<open>InvalidateWhere\<close> (among fewer than \<open>2^64\<close>
  operations) has its guarded write dropped: the cache is left as the other operations made it.
\<close>

theorem stale_guarded_write_dropped:
  assumes "lru_inv c" "op \<in> set ops" "bumps_gen op" "length ops < 2 ^ 64"
  shows "put_if_gen_with_ttl (lru_run c ops) k v ttl (generation c) now = lru_run c ops \<and>
    put_if_gen (lru_run c ops) k v (generation c) now = lru_run c ops"
  using stale_snapshot [OF assms] by (simp_all add: put_if_gen_with_ttl_def put_if_gen_def generation_def)

theorem stale_guarded_write_dropped_witness:
  "put_if_gen (lru_run (lru_new 2 5) [LPut ''a'' True 0 1, LFlush, LPut ''b'' True 0 2]) ''a'' True
     (generation (lru_new 2 5 :: (string, bool) cache)) 3 =
   lru_run (lru_new 2 5) [LPut ''a'' True 0 1, LFlush, LPut ''b'' True 0 2]"
  using stale_guarded_write_dropped
    [of "lru_new 2 5 :: (string, bool) cache" LFlush "[LPut ''a'' True 0 1, LFlush, LPut ''b'' True 0 2]"
      "''a''" True 0 3]
  by (simp add: lru_new_inv)

end
