(* ===== verification/Idempotency.thy ===== *)
theory Idempotency
  imports Edge_Context Lru_Cache
begin

text \<open>
  The idempotency middleware (\<^verbatim>\<open>internal/middleware/idempotency.go\<close>): the bounded store of
  completed responses in FIFO order, the single-flight reservation of a key, the response recorder,
  the request fingerprint and the handler. Pointers to list elements and to flights are natural
  numbers into a heap. The store methods hold the mutex and are functions; the handler runs
  concurrently with itself, so it is a step relation over requests that interleave between the
  atomic sections, with the downstream handler's response chosen by the environment.
\<close>

section \<open>Store\<close>

record idem_entry =
  ie_status :: int
  ie_body :: string
  ie_headers :: header
  ie_expires :: time

record idem_item =
  it_key :: string
  it_entry :: idem_entry

record idem_flight =
  fl_done :: bool
  fl_has_result :: bool
  fl_status :: int
  fl_body :: string
  fl_headers :: header

record idem_store =
  elems :: "(string \<times> nat) list"
  fifo :: "nat list"
  iheap :: "nat \<Rightarrow> idem_item"
  next_el :: nat
  inflight :: "(string \<times> nat) list"
  flights :: "nat \<Rightarrow> idem_flight"
  next_fl :: nat
  idem_ttl :: duration
  max_entries :: int

definition idem_new_cap :: "duration \<Rightarrow> int \<Rightarrow> idem_store" where
  "idem_new_cap ttl n =
     \<lparr>elems = [], fifo = [], iheap = (\<lambda>_. undefined), next_el = 0, inflight = [],
      flights = (\<lambda>_. undefined), next_fl = 0, idem_ttl = ttl,
      max_entries = (if n \<le> 0 then 10000 else n)\<rparr>"

definition idem_new :: "duration \<Rightarrow> idem_store" where
  "idem_new ttl = idem_new_cap ttl 10000"

definition remove_elem :: "idem_store \<Rightarrow> nat \<Rightarrow> idem_store" where
  "remove_elem s e = s\<lparr>fifo := remove1 e (fifo s), elems := AList.delete (it_key (iheap s e)) (elems s)\<rparr>"

datatype reservation = Cached idem_entry | Leader nat | Follower nat

definition reserve_flight :: "idem_store \<Rightarrow> string \<Rightarrow> idem_store \<times> reservation" where
  \<comment> \<open>the second half of \<open>reserve\<close>: no live entry for the key\<close>
  "reserve_flight s key =
     (case map_of (inflight s) key of
        Some fl \<Rightarrow> (s, Follower fl)
      | None \<Rightarrow>
          (let fl = next_fl s in
           (s\<lparr>next_fl := Suc fl, inflight := AList.update key fl (inflight s),
              flights := (flights s)(fl := \<lparr>fl_done = False, fl_has_result = False, fl_status = 0,
                                            fl_body = [], fl_headers = []\<rparr>)\<rparr>, Leader fl)))"

definition reserve :: "idem_store \<Rightarrow> string \<Rightarrow> time \<Rightarrow> idem_store \<times> reservation" where
  "reserve s key now =
     (case map_of (elems s) key of
        Some e \<Rightarrow>
          (let entry = it_entry (iheap s e) in
           if \<not> ie_expires entry < now then (s, Cached entry)
           else reserve_flight (remove_elem s e) key)
      | None \<Rightarrow> reserve_flight s key)"

function evict :: "idem_store \<Rightarrow> idem_store" where
  \<comment> \<open>the loop of \<open>putLocked\<close>: drop from the front until there is room\<close>
  "evict s =
     (if int (length (elems s)) \<ge> max_entries s then
        (case fifo s of front # _ \<Rightarrow> evict (remove_elem s front) | [] \<Rightarrow> s)
      else s)"
  by pat_completeness auto
termination by (relation "measure (\<lambda>s. length (fifo s))") (auto simp: remove_elem_def)

declare evict.simps [simp del]

definition idem_put_locked :: "idem_store \<Rightarrow> string \<Rightarrow> idem_entry \<Rightarrow> idem_store" where
  "idem_put_locked s key entry =
     (case map_of (elems s) key of
        Some e \<Rightarrow>
          s\<lparr>iheap := (iheap s)(e := (iheap s e)\<lparr>it_entry := entry\<rparr>), fifo := remove1 e (fifo s) @ [e]\<rparr>
      | None \<Rightarrow>
          (let s1 = evict s; e = next_el s1 in
           s1\<lparr>iheap := (iheap s1)(e := \<lparr>it_key = key, it_entry = entry\<rparr>), next_el := Suc e,
              fifo := fifo s1 @ [e], elems := AList.update key e (elems s1)\<rparr>))"

definition idem_put :: "idem_store \<Rightarrow> string \<Rightarrow> idem_entry \<Rightarrow> idem_store" where
  "idem_put s key entry = idem_put_locked s key entry"

definition idem_get :: "idem_store \<Rightarrow> string \<Rightarrow> time \<Rightarrow> idem_store \<times> idem_entry option" where
  "idem_get s key now =
     (case map_of (elems s) key of
        None \<Rightarrow> (s, None)
      | Some e \<Rightarrow>
          (let entry = it_entry (iheap s e) in
           if ie_expires entry < now then (remove_elem s e, None) else (s, Some entry)))"

definition idem_len :: "idem_store \<Rightarrow> nat" where
  "idem_len s = length (elems s)"

definition finish_leader ::
  "idem_store \<Rightarrow> string \<Rightarrow> nat \<Rightarrow> idem_entry \<Rightarrow> bool \<Rightarrow> idem_store" where
  "finish_leader s key fl entry cacheable =
     (let s1 = s\<lparr>flights := (flights s)(fl := (flights s fl)
                 \<lparr>fl_status := ie_status entry, fl_body := ie_body entry,
                  fl_headers := ie_headers entry, fl_has_result := True\<rparr>)\<rparr>;
          s2 = (if cacheable then idem_put_locked s1 key entry else s1);
          s3 = s2\<lparr>inflight := AList.delete key (inflight s2)\<rparr>
      in s3\<lparr>flights := (flights s3)(fl := (flights s3 fl)\<lparr>fl_done := True\<rparr>)\<rparr>)"

definition abort_leader :: "idem_store \<Rightarrow> string \<Rightarrow> nat \<Rightarrow> idem_store" where
  "abort_leader s key fl =
     (if map_of (inflight s) key = Some fl then
        s\<lparr>inflight := AList.delete key (inflight s),
          flights := (flights s)(fl := (flights s fl)\<lparr>fl_done := True\<rparr>)\<rparr>
      else s)"

fun gc_scan :: "time \<Rightarrow> nat list \<Rightarrow> idem_store \<Rightarrow> idem_store" where
  "gc_scan now [] s = s"
| "gc_scan now (e # es) s =
     gc_scan now es (if ie_expires (it_entry (iheap s e)) < now then remove_elem s e else s)"

definition gc_tick :: "idem_store \<Rightarrow> time \<Rightarrow> idem_store" where
  \<comment> \<open>one iteration of \<open>gcLoop\<close>, run by a ticker of this period\<close>
  "gc_tick s now = gc_scan now (fifo s) s"

definition gc_period :: "idem_store \<Rightarrow> duration" where
  "gc_period s = (let tick = idem_ttl s div 24 in if tick < minute then minute else tick)"

section \<open>Recorder, fingerprint and replay\<close>

record recorder =
  rec_writer :: resp_writer
  rec_body :: string
  rec_status :: int
  rec_wrote :: bool

definition recorder_new :: "resp_writer \<Rightarrow> recorder" where
  "recorder_new w = \<lparr>rec_writer = w, rec_body = [], rec_status = 200, rec_wrote = False\<rparr>"

definition rec_write_header :: "recorder \<Rightarrow> int \<Rightarrow> recorder" where
  "rec_write_header r code =
     (if rec_wrote r then r
      else r\<lparr>rec_wrote := True, rec_status := code, rec_writer := write_header (rec_writer r) code\<rparr>)"

definition rec_write :: "recorder \<Rightarrow> string \<Rightarrow> recorder" where
  "rec_write r b =
     (let r1 = (if \<not> rec_wrote r then rec_write_header r 200 else r) in
      r1\<lparr>rec_body := rec_body r1 @ b, rec_writer := write_body (rec_writer r1) b\<rparr>)"

definition is_mutating :: "string \<Rightarrow> bool" where
  "is_mutating m \<longleftrightarrow> m \<in> {''POST'', ''PATCH'', ''PUT'', ''DELETE''}"

abbreviation max_body_bytes :: nat where "max_body_bytes \<equiv> 262144"

definition hash_request_body :: "(string \<Rightarrow> string) \<Rightarrow> http_request \<Rightarrow> http_request \<times> string" where
  \<comment> \<open>the parameter is \<open>hex(sha256(_))\<close>; the request is returned with its restored body\<close>
  "hash_request_body sha256_hex r =
     (case req_body r of
        None \<Rightarrow> (r, [])
      | Some orig \<Rightarrow>
          (let head = take max_body_bytes orig; tail = drop max_body_bytes orig in
           (r\<lparr>req_body := Some (head @ tail)\<rparr>, sha256_hex head)))"

definition idempotency_cache_key ::
  "(string \<Rightarrow> string) \<Rightarrow> http_request \<Rightarrow> string \<Rightarrow> http_request \<times> string" where
  "idempotency_cache_key sha256_hex r idemKey =
     (let nul = [CHR 0x00]; (r', h) = hash_request_body sha256_hex r in
      (r', hget (req_header r) HeaderPrincipalID @ nul @ req_method r @ nul @ req_path r @ nul @
           idemKey @ nul @ h))"

definition replay_idempotent :: "resp_writer \<Rightarrow> idem_entry \<Rightarrow> resp_writer" where
  "replay_idempotent w e =
     (let h1 = foldl (\<lambda>h (k, vs). foldl (\<lambda>h v. hadd h k v) h vs) (w_header w) (ie_headers e);
          w1 = w\<lparr>w_header := hset h1 ''X-Idempotent-Replayed'' ''true''\<rparr>
      in write_body (write_header w1 (ie_status e)) (ie_body e))"

section \<open>The handler\<close>

definition request_key :: "(string \<Rightarrow> string) \<Rightarrow> http_request \<Rightarrow> string option" where
  \<comment> \<open>\<open>None\<close>: the request passes straight to the next handler\<close>
  "request_key sha256_hex r =
     (if \<not> is_mutating (req_method r) then None
      else (let idemKey = hget (req_header r) ''Idempotency-Key'' in
            if idemKey = [] then None else Some (snd (idempotency_cache_key sha256_hex r idemKey))))"

definition captured_entry :: "recorder \<Rightarrow> time \<Rightarrow> duration \<Rightarrow> idem_entry" where
  \<comment> \<open>the entry the leader builds when the next handler has returned\<close>
  "captured_entry r now ttl =
     (let ct = hget (w_header (rec_writer r)) ''Content-Type'' in
      \<lparr>ie_status = rec_status r, ie_body = rec_body r,
       ie_headers = (if ct \<noteq> [] then hset [] ''Content-Type'' ct else []),
       ie_expires = now + ttl\<rparr>)"

definition response_cacheable :: "recorder \<Rightarrow> bool" where
  "response_cacheable r \<longleftrightarrow> rec_status r < 500 \<and> length (rec_body r) \<le> max_body_bytes"

datatype pc =
    Arrived
  | Leading nat \<comment> \<open>in the next handler, owning a flight\<close>
  | Waiting nat \<comment> \<open>blocked on the flight's \<open>done\<close> channel\<close>
  | Direct \<comment> \<open>in the next handler, without a reservation\<close>
  | Replied resp_writer \<comment> \<open>returned after a replay\<close>
  | Finished recorder \<comment> \<open>returned as leader\<close>
  | Panicked
  | Passed \<comment> \<open>returned after a direct call\<close>

record idem_sys =
  sys_store :: idem_store
  sys_pc :: "nat \<Rightarrow> pc"

definition flight_entry :: "idem_flight \<Rightarrow> idem_entry" where
  "flight_entry f = \<lparr>ie_status = fl_status f, ie_body = fl_body f, ie_headers = fl_headers f,
     ie_expires = 0\<rparr>"

definition admit :: "idem_store \<Rightarrow> string option \<Rightarrow> time \<Rightarrow> idem_store \<times> pc" where
  \<comment> \<open>the handler up to the outcome of \<open>reserve\<close>\<close>
  "admit s k now =
     (case k of
        None \<Rightarrow> (s, Direct)
      | Some key \<Rightarrow>
          (case reserve s key now of
             (s', Cached e) \<Rightarrow> (s', Replied (replay_idempotent writer_new e))
           | (s', Follower fl) \<Rightarrow> (s', Waiting fl)
           | (s', Leader fl) \<Rightarrow> (s', Leading fl)))"

definition wake :: "idem_store \<Rightarrow> nat \<Rightarrow> pc" where
  \<comment> \<open>a follower whose channel is closed\<close>
  "wake s fl =
     (if fl_has_result (flights s fl)
      then Replied (replay_idempotent writer_new (flight_entry (flights s fl)))
      else Direct)"

inductive idem_step :: "(nat \<Rightarrow> string option) \<Rightarrow> idem_sys \<Rightarrow> idem_sys \<Rightarrow> bool"
  for key_of :: "nat \<Rightarrow> string option" where
  step_admit:
    "sys_pc x r = Arrived \<Longrightarrow> admit (sys_store x) (key_of r) now = (s', p) \<Longrightarrow>
     idem_step key_of x \<lparr>sys_store = s', sys_pc = (sys_pc x)(r := p)\<rparr>"
| step_return:
    "sys_pc x r = Leading fl \<Longrightarrow> key_of r = Some key \<Longrightarrow>
     s' = finish_leader (sys_store x) key fl (captured_entry resp now (idem_ttl (sys_store x)))
            (response_cacheable resp) \<Longrightarrow>
     idem_step key_of x \<lparr>sys_store = s', sys_pc = (sys_pc x)(r := Finished resp)\<rparr>"
| step_panic:
    "sys_pc x r = Leading fl \<Longrightarrow> key_of r = Some key \<Longrightarrow>
     idem_step key_of x
       \<lparr>sys_store = abort_leader (sys_store x) key fl, sys_pc = (sys_pc x)(r := Panicked)\<rparr>"
| step_wake:
    "sys_pc x r = Waiting fl \<Longrightarrow> fl_done (flights (sys_store x) fl) \<Longrightarrow>
     idem_step key_of x (x\<lparr>sys_pc := (sys_pc x)(r := wake (sys_store x) fl)\<rparr>)"
| step_direct:
    "sys_pc x r = Direct \<Longrightarrow> p \<in> {Passed, Panicked} \<Longrightarrow>
     idem_step key_of x (x\<lparr>sys_pc := (sys_pc x)(r := p)\<rparr>)"
| step_gc:
    "idem_step key_of x (x\<lparr>sys_store := gc_tick (sys_store x) now\<rparr>)"

definition idem_start :: "duration \<Rightarrow> int \<Rightarrow> idem_sys" where
  "idem_start ttl n = \<lparr>sys_store = idem_new_cap ttl n, sys_pc = (\<lambda>_. Arrived)\<rparr>"

inductive idem_reach :: "(nat \<Rightarrow> string option) \<Rightarrow> duration \<Rightarrow> int \<Rightarrow> idem_sys \<Rightarrow> bool"
  for key_of ttl n where
  reach_start: "idem_reach key_of ttl n (idem_start ttl n)"
| reach_step: "idem_reach key_of ttl n x \<Longrightarrow> idem_step key_of x y \<Longrightarrow> idem_reach key_of ttl n y"

section \<open>The store agrees with its index and is bounded\<close>

text \<open>
  The store has the shape of the LRU cache (a key map and a list over the same elements), so the
  facts about the two views of the cache are used through this projection.
\<close>

definition as_cache :: "idem_store \<Rightarrow> (string, idem_entry) cache" where
  "as_cache s =
     \<lparr>items = elems s, order = fifo s,
      heap = (\<lambda>e. \<lparr>ekey = it_key (iheap s e), evalue = it_entry (iheap s e),
                   expiresAt = ie_expires (it_entry (iheap s e))\<rparr>),
      nextEl = next_el s, maxSize = max_entries s, cttl = idem_ttl s, gen = 0\<rparr>"

lemma as_cache_simps [simp]:
  "items (as_cache s) = elems s" "order (as_cache s) = fifo s" "nextEl (as_cache s) = next_el s"
  "maxSize (as_cache s) = max_entries s"
  "heap (as_cache s) e = \<lparr>ekey = it_key (iheap s e), evalue = it_entry (iheap s e),
     expiresAt = ie_expires (it_entry (iheap s e))\<rparr>"
  by (simp_all add: as_cache_def)

definition idem_ok :: "idem_store \<Rightarrow> bool" where
  "idem_ok s \<longleftrightarrow> lru_links (as_cache s) \<and> int (length (elems s)) \<le> max_entries s \<and> 0 < max_entries s"

definition idem_items :: "idem_store \<Rightarrow> idem_item set" where
  "idem_items s = iheap s ` set (fifo s)"

lemma remove_elem_frame [simp]:
  "inflight (remove_elem s e) = inflight s" "flights (remove_elem s e) = flights s"
  "next_fl (remove_elem s e) = next_fl s" "max_entries (remove_elem s e) = max_entries s"
  "idem_ttl (remove_elem s e) = idem_ttl s" "iheap (remove_elem s e) = iheap s"
  "next_el (remove_elem s e) = next_el s" "fifo (remove_elem s e) = remove1 e (fifo s)"
  by (simp_all add: remove_elem_def)

lemma remove_elem_links:
  assumes "lru_links (as_cache s)" "e \<in> set (fifo s)"
  shows "lru_links (as_cache (remove_elem s e))"
proof -
  have "as_cache (remove_elem s e) = drop_el (as_cache s) (it_key (iheap s e)) e"
    by (simp add: as_cache_def remove_elem_def drop_el_def)
  moreover have "map_of (items (as_cache s)) (it_key (iheap s e)) = Some e"
    using assms links_map_of [of "as_cache s" "it_key (iheap s e)" e] by simp
  ultimately show ?thesis
    using assms(1) by (simp add: links_drop_el)
qed

lemma links_length_elems: "lru_links (as_cache s) \<Longrightarrow> length (elems s) = length (fifo s)"
  using links_length [of "as_cache s"] by simp

lemma remove_elem_ok:
  assumes "idem_ok s" "e \<in> set (fifo s)"
  shows "idem_ok (remove_elem s e)"
  using assms remove_elem_links [of s e] links_length_elems [of s]
    links_length_elems [of "remove_elem s e"] length_remove1 [of e "fifo s"]
  by (auto simp: idem_ok_def split: if_splits)

lemma remove_elem_items: "idem_items (remove_elem s e) \<subseteq> idem_items s"
  by (auto simp: idem_items_def dest: in_set_remove1)
    (meson image_eqI notin_set_remove1)

lemma evict_ok:
  assumes "idem_ok s"
  shows "idem_ok (evict s) \<and> int (length (elems (evict s))) < max_entries s \<and>
    idem_items (evict s) \<subseteq> idem_items s \<and> set (fifo (evict s)) \<subseteq> set (fifo s) \<and>
    iheap (evict s) = iheap s \<and> next_el (evict s) = next_el s \<and> max_entries (evict s) = max_entries s \<and>
    idem_ttl (evict s) = idem_ttl s \<and> inflight (evict s) = inflight s \<and> flights (evict s) = flights s \<and>
    next_fl (evict s) = next_fl s \<and> (map_of (elems s) k = None \<longrightarrow> map_of (elems (evict s)) k = None)"
  using assms
proof (induction s rule: evict.induct)
  case (1 s)
  show ?case
  proof (cases "int (length (elems s)) \<ge> max_entries s")
    case False
    with "1.prems" show ?thesis
      by (simp add: evict.simps [of s])
  next
    case True
    have len: "length (elems s) = length (fifo s)"
      using "1.prems" by (simp add: idem_ok_def links_length_elems)
    with True "1.prems" obtain front rest where f: "fifo s = front # rest"
      by (cases "fifo s") (auto simp: idem_ok_def)
    let ?s = "remove_elem s front"
    have ok: "idem_ok ?s"
      using "1.prems" f by (intro remove_elem_ok) simp_all
    have rest: "evict s = evict ?s"
      using True f by (simp add: evict.simps [of s])
    have none: "map_of (elems s) k = None \<longrightarrow> map_of (elems ?s) k = None"
      by (simp add: remove_elem_def delete_conv)
    show ?thesis
      unfolding rest using "1.IH" [OF True f ok] remove_elem_items [of s front] none f by auto
  qed
qed

lemma links_reorder:
  "lru_links c \<Longrightarrow> set xs = set (order c) \<Longrightarrow> distinct xs \<Longrightarrow> lru_links (c\<lparr>order := xs\<rparr>)"
  by (simp add: lru_links_def)

definition push_item :: "idem_store \<Rightarrow> string \<Rightarrow> idem_entry \<Rightarrow> idem_store" where
  \<comment> \<open>the insertion at the back, once there is room\<close>
  "push_item s key entry =
     s\<lparr>iheap := (iheap s)(next_el s := \<lparr>it_key = key, it_entry = entry\<rparr>), next_el := Suc (next_el s),
       fifo := fifo s @ [next_el s], elems := AList.update key (next_el s) (elems s)\<rparr>"

lemma push_item_ok:
  assumes "idem_ok s" "int (length (elems s)) < max_entries s" "map_of (elems s) key = None"
  shows "idem_ok (push_item s key entry)"
    and "idem_items (push_item s key entry) \<subseteq> insert \<lparr>it_key = key, it_entry = entry\<rparr> (idem_items s)"
proof -
  let ?ins = "insert_el (as_cache s) key entry (ie_expires entry)"
  have fresh: "next_el s \<notin> set (fifo s)"
    using assms(1) by (auto simp: idem_ok_def lru_links_def)
  have "lru_links ?ins"
    using assms by (intro links_insert_el) (simp_all add: idem_ok_def)
  moreover have "distinct (fifo s @ [next_el s])"
    using assms(1) fresh by (simp add: idem_ok_def lru_links_def)
  ultimately have "lru_links (?ins\<lparr>order := fifo s @ [next_el s]\<rparr>)"
    by (intro links_reorder) simp_all
  moreover have "as_cache (push_item s key entry) = ?ins\<lparr>order := fifo s @ [next_el s]\<rparr>"
    by (auto simp: as_cache_def insert_el_def push_item_def)
  ultimately have links: "lru_links (as_cache (push_item s key entry))"
    by simp
  have "length (elems (push_item s key entry)) = Suc (length (elems s))"
    using links_length_elems [OF links] assms(1) links_length_elems [of s]
    by (simp add: push_item_def idem_ok_def)
  then show "idem_ok (push_item s key entry)"
    using links assms(1,2) by (simp add: idem_ok_def push_item_def)
  show "idem_items (push_item s key entry) \<subseteq> insert \<lparr>it_key = key, it_entry = entry\<rparr> (idem_items s)"
    using fresh by (auto simp: idem_items_def push_item_def)
qed

lemma refresh_item_ok:
  fixes entry :: idem_entry
  assumes "idem_ok s" "map_of (elems s) key = Some e"
  defines "s' \<equiv> s\<lparr>iheap := (iheap s)(e := (iheap s e)\<lparr>it_entry := entry\<rparr>), fifo := remove1 e (fifo s) @ [e]\<rparr>"
  shows "idem_ok s'" "idem_items s' \<subseteq> insert \<lparr>it_key = key, it_entry = entry\<rparr> (idem_items s)"
proof -
  have e: "e \<in> set (fifo s)" "it_key (iheap s e) = key"
    using assms(1,2) links_map_of [of "as_cache s" key e] by (simp_all add: idem_ok_def)
  have "distinct (remove1 e (fifo s) @ [e])" "set (remove1 e (fifo s) @ [e]) = set (fifo s)"
    using assms(1) e(1) by (auto simp: idem_ok_def lru_links_def)
  then show "idem_ok s'"
    using assms(1) by (auto simp: idem_ok_def lru_links_def s'_def)
  have "(iheap s e)\<lparr>it_entry := entry\<rparr> = \<lparr>it_key = key, it_entry = entry\<rparr>"
    using e(2) by (cases "iheap s e") simp
  then show "idem_items s' \<subseteq> insert \<lparr>it_key = key, it_entry = entry\<rparr> (idem_items s)"
    by (auto simp: idem_items_def s'_def dest: notin_set_remove1)
qed

lemma put_locked_push:
  "map_of (elems s) key = None \<Longrightarrow> idem_put_locked s key entry = push_item (evict s) key entry"
  by (simp add: idem_put_locked_def push_item_def Let_def)

lemma idem_put_locked_ok:
  assumes "idem_ok s"
  shows "idem_ok (idem_put_locked s key entry)"
    and "idem_items (idem_put_locked s key entry) \<subseteq> insert \<lparr>it_key = key, it_entry = entry\<rparr> (idem_items s)"
proof -
  note ev = evict_ok [OF assms, of key]
  have "idem_ok (idem_put_locked s key entry) \<and>
    idem_items (idem_put_locked s key entry) \<subseteq> insert \<lparr>it_key = key, it_entry = entry\<rparr> (idem_items s)"
  proof (cases "map_of (elems s) key")
    case None
    then show ?thesis
      using ev push_item_ok [of "evict s" key entry] by (auto simp: put_locked_push)
  next
    case (Some e)
    then show ?thesis
      using refresh_item_ok [OF assms Some, of entry] by (simp add: idem_put_locked_def)
  qed
  then show "idem_ok (idem_put_locked s key entry)"
    and "idem_items (idem_put_locked s key entry) \<subseteq> insert \<lparr>it_key = key, it_entry = entry\<rparr> (idem_items s)"
    by simp_all
qed

lemma idem_put_locked_frame:
  assumes "idem_ok s"
  shows "inflight (idem_put_locked s key entry) = inflight s" "flights (idem_put_locked s key entry) = flights s"
    "next_fl (idem_put_locked s key entry) = next_fl s" "max_entries (idem_put_locked s key entry) = max_entries s"
    "idem_ttl (idem_put_locked s key entry) = idem_ttl s"
  using evict_ok [OF assms]
  by (auto simp: idem_put_locked_def Let_def split: option.splits)

lemma gc_scan_ok:
  assumes "idem_ok s" "set es \<subseteq> set (fifo s)" "distinct es"
  shows "idem_ok (gc_scan now es s) \<and> idem_items (gc_scan now es s) \<subseteq> idem_items s \<and>
    inflight (gc_scan now es s) = inflight s \<and> flights (gc_scan now es s) = flights s \<and>
    next_fl (gc_scan now es s) = next_fl s \<and> max_entries (gc_scan now es s) = max_entries s \<and>
    idem_ttl (gc_scan now es s) = idem_ttl s"
  using assms
proof (induction now es s rule: gc_scan.induct)
  case (2 now e es s)
  let ?s = "if ie_expires (it_entry (iheap s e)) < now then remove_elem s e else s"
  have "x \<in> set es \<Longrightarrow> x \<in> set (remove1 e (fifo s))" for x
    using "2.prems" by (cases "x = e") auto
  then have "idem_ok ?s" "set es \<subseteq> set (fifo ?s)"
    using "2.prems" by (auto intro: remove_elem_ok)
  from "2.IH" [OF this] show ?case
    using "2.prems"(3) remove_elem_items [of s e] by (auto split: if_splits)
qed simp

lemma gc_tick_ok:
  assumes "idem_ok s"
  shows "idem_ok (gc_tick s now)" "idem_items (gc_tick s now) \<subseteq> idem_items s"
    "inflight (gc_tick s now) = inflight s" "flights (gc_tick s now) = flights s"
    "next_fl (gc_tick s now) = next_fl s" "max_entries (gc_tick s now) = max_entries s"
    "idem_ttl (gc_tick s now) = idem_ttl s"
  using gc_scan_ok [OF assms, of "fifo s" now] assms
  by (simp_all add: gc_tick_def idem_ok_def lru_links_def)

section \<open>Single flight\<close>

definition produced :: "(nat \<Rightarrow> string option) \<Rightarrow> (nat \<Rightarrow> pc) \<Rightarrow> string \<Rightarrow> idem_entry \<Rightarrow> bool" where
  \<comment> \<open>some request with this fingerprint received the response from the next handler\<close>
  "produced key_of pcs k e \<longleftrightarrow>
     (\<exists>r resp. pcs r = Finished resp \<and> key_of r = Some k \<and>
        ie_status e = rec_status resp \<and> ie_body e = rec_body resp)"

definition inflight_inv :: "(nat \<Rightarrow> string option) \<Rightarrow> idem_sys \<Rightarrow> bool" where
  "inflight_inv key_of x \<longleftrightarrow>
     (\<forall>k fl. map_of (inflight (sys_store x)) k = Some fl \<longrightarrow>
        fl < next_fl (sys_store x) \<and> \<not> fl_done (flights (sys_store x) fl) \<and>
        \<not> fl_has_result (flights (sys_store x) fl) \<and>
        (\<exists>r. sys_pc x r = Leading fl \<and> key_of r = Some k))"

definition leader_inv :: "(nat \<Rightarrow> string option) \<Rightarrow> idem_sys \<Rightarrow> bool" where
  "leader_inv key_of x \<longleftrightarrow>
     (\<forall>r fl. sys_pc x r = Leading fl \<longrightarrow>
        (\<exists>k. key_of r = Some k \<and> map_of (inflight (sys_store x)) k = Some fl) \<and>
        (\<forall>r'. sys_pc x r' = Leading fl \<longrightarrow> r' = r))"

definition follow_ok ::
  "(nat \<Rightarrow> string option) \<Rightarrow> (nat \<Rightarrow> pc) \<Rightarrow> idem_store \<Rightarrow> string \<Rightarrow> nat \<Rightarrow> bool" where
  \<comment> \<open>the flight is open under the key, or it is closed with a response some leader received\<close>
  "follow_ok key_of pcs s k fl \<longleftrightarrow>
     fl < next_fl s \<and>
     (if fl_done (flights s fl)
      then fl_has_result (flights s fl) \<longrightarrow> produced key_of pcs k (flight_entry (flights s fl))
      else map_of (inflight s) k = Some fl)"

definition follower_inv :: "(nat \<Rightarrow> string option) \<Rightarrow> idem_sys \<Rightarrow> bool" where
  "follower_inv key_of x \<longleftrightarrow>
     (\<forall>r fl. sys_pc x r = Waiting fl \<longrightarrow>
        (\<exists>k. key_of r = Some k \<and> follow_ok key_of (sys_pc x) (sys_store x) k fl))"

definition replay_inv :: "(nat \<Rightarrow> string option) \<Rightarrow> idem_sys \<Rightarrow> bool" where
  "replay_inv key_of x \<longleftrightarrow>
     (\<forall>it \<in> idem_items (sys_store x). produced key_of (sys_pc x) (it_key it) (it_entry it)) \<and>
     (\<forall>r w. sys_pc x r = Replied w \<longrightarrow>
        (\<exists>k e. key_of r = Some k \<and> produced key_of (sys_pc x) k e \<and> w = replay_idempotent writer_new e))"

definition idem_inv :: "(nat \<Rightarrow> string option) \<Rightarrow> idem_sys \<Rightarrow> bool" where
  "idem_inv key_of x \<longleftrightarrow>
     idem_ok (sys_store x) \<and> inflight_inv key_of x \<and> leader_inv key_of x \<and> follower_inv key_of x \<and>
     replay_inv key_of x"

lemmas idem_inv_defs = idem_inv_def inflight_inv_def leader_inv_def follower_inv_def replay_inv_def

lemma produced_mono:
  "produced key_of pcs k e \<Longrightarrow> (\<And>resp. pcs r \<noteq> Finished resp) \<Longrightarrow> produced key_of (pcs(r := p)) k e"
  unfolding produced_def by (metis fun_upd_other)

lemma follow_ok_mono:
  "follow_ok key_of pcs s k fl \<Longrightarrow> (\<And>k e. produced key_of pcs k e \<Longrightarrow> produced key_of pcs' k e) \<Longrightarrow>
     follow_ok key_of pcs' s k fl"
  by (auto simp: follow_ok_def split: if_splits)

lemma follow_ok_cong:
  "inflight s = inflight s' \<Longrightarrow> flights s = flights s' \<Longrightarrow> next_fl s = next_fl s' \<Longrightarrow>
     follow_ok key_of pcs s k fl = follow_ok key_of pcs s' k fl"
  by (simp add: follow_ok_def)

lemma idem_inv_start: "idem_inv key_of (idem_start ttl n)"
  by (simp add: idem_inv_defs idem_start_def idem_new_cap_def idem_ok_def lru_links_def as_cache_def
      idem_items_def)

lemma idem_ok_flights:
  "idem_ok (s\<lparr>flights := f\<rparr>) = idem_ok s" "idem_ok (s\<lparr>inflight := m\<rparr>) = idem_ok s"
  "idem_ok (s\<lparr>next_fl := j\<rparr>) = idem_ok s"
  "idem_items (s\<lparr>flights := f\<rparr>) = idem_items s" "idem_items (s\<lparr>inflight := m\<rparr>) = idem_items s"
  "idem_items (s\<lparr>next_fl := j\<rparr>) = idem_items s"
  by (simp_all add: idem_ok_def lru_links_def as_cache_def idem_items_def)

lemma idem_inv_store:
  \<comment> \<open>a change of the stored entries that only drops some\<close>
  assumes "idem_inv key_of x" "idem_ok s" "idem_items s \<subseteq> idem_items (sys_store x)"
    "inflight s = inflight (sys_store x)" "flights s = flights (sys_store x)" "next_fl s = next_fl (sys_store x)"
  shows "idem_inv key_of (x\<lparr>sys_store := s\<rparr>)"
  using assms follow_ok_cong [of s "sys_store x"] by (auto simp: idem_inv_defs)

lemma idem_inv_gc: "idem_inv key_of x \<Longrightarrow> idem_inv key_of (x\<lparr>sys_store := gc_tick (sys_store x) now\<rparr>)"
  by (rule idem_inv_store) (auto simp: idem_inv_def gc_tick_ok dest: gc_tick_ok(2))

lemma idem_inv_pc:
  \<comment> \<open>a request that is neither leading nor finished moves on without touching the store\<close>
  assumes "idem_inv key_of x" "sys_pc x r \<in> {Arrived, Direct} \<union> range Waiting"
    and "p \<in> {Direct, Passed, Panicked} \<or> (\<exists>k e. p = Replied (replay_idempotent writer_new e) \<and>
           key_of r = Some k \<and> produced key_of (sys_pc x) k e) \<or>
         (\<exists>k fl. p = Waiting fl \<and> key_of r = Some k \<and> map_of (inflight (sys_store x)) k = Some fl)"
  shows "idem_inv key_of (x\<lparr>sys_pc := (sys_pc x)(r := p)\<rparr>)"
proof -
  let ?x = "x\<lparr>sys_pc := (sys_pc x)(r := p)\<rparr>"
  have mono: "produced key_of (sys_pc x) k e \<Longrightarrow> produced key_of ((sys_pc x)(r := p)) k e" for k e
    using assms(2) by (intro produced_mono) auto
  have notlead: "sys_pc x r \<noteq> Leading fl" "p \<noteq> Leading fl" for fl
    using assms(2,3) by auto
  have "inflight_inv key_of ?x"
    using assms(1) notlead unfolding idem_inv_def inflight_inv_def by simp metis
  moreover have "leader_inv key_of ?x"
    using assms(1) notlead unfolding idem_inv_def leader_inv_def by simp
  moreover have "follower_inv key_of ?x"
    unfolding follower_inv_def
  proof (intro allI impI)
    fix r' fl
    assume w: "sys_pc ?x r' = Waiting fl"
    have "\<exists>k. key_of r' = Some k \<and> follow_ok key_of (sys_pc x) (sys_store x) k fl"
    proof (cases "r' = r")
      case True
      then obtain k where "key_of r = Some k" "map_of (inflight (sys_store x)) k = Some fl"
        using w assms(3) by auto
      with True assms(1) show ?thesis
        by (auto simp: idem_inv_def inflight_inv_def follow_ok_def)
    next
      case False
      with w assms(1) show ?thesis
        by (simp add: idem_inv_def follower_inv_def)
    qed
    then show "\<exists>k. key_of r' = Some k \<and> follow_ok key_of (sys_pc ?x) (sys_store ?x) k fl"
      using mono by (auto intro: follow_ok_mono)
  qed
  moreover have "replay_inv key_of ?x"
    unfolding replay_inv_def
  proof (intro conjI allI impI ballI)
    fix r' w
    assume w: "sys_pc ?x r' = Replied w"
    have "\<exists>k e. key_of r' = Some k \<and> produced key_of (sys_pc x) k e \<and> w = replay_idempotent writer_new e"
      using w assms(1,3) by (cases "r' = r") (auto simp: idem_inv_def replay_inv_def)
    then show "\<exists>k e. key_of r' = Some k \<and> produced key_of (sys_pc ?x) k e \<and> w = replay_idempotent writer_new e"
      using mono by auto
  qed (use assms(1) mono in \<open>auto simp: idem_inv_def replay_inv_def\<close>)
  ultimately show ?thesis
    using assms(1) by (simp add: idem_inv_def)
qed

lemma leader_flight:
  "idem_inv key_of x \<Longrightarrow> sys_pc x r = Leading fl \<Longrightarrow>
     \<exists>k. key_of r = Some k \<and> map_of (inflight (sys_store x)) k = Some fl"
  unfolding idem_inv_def leader_inv_def by blast

lemma leader_unique:
  "idem_inv key_of x \<Longrightarrow> sys_pc x r = Leading fl \<Longrightarrow> sys_pc x r' = Leading fl \<Longrightarrow> r' = r"
  unfolding idem_inv_def leader_inv_def by blast

lemma inflight_flight:
  assumes "idem_inv key_of x" "map_of (inflight (sys_store x)) k = Some fl"
  shows "fl < next_fl (sys_store x)" "\<not> fl_done (flights (sys_store x) fl)"
    "\<not> fl_has_result (flights (sys_store x) fl)" "\<exists>r. sys_pc x r = Leading fl \<and> key_of r = Some k"
  using assms unfolding idem_inv_def inflight_inv_def by blast+

lemma idem_inv_lead:
  assumes "idem_inv key_of x" "sys_pc x r = Arrived" "key_of r = Some key"
    "map_of (inflight (sys_store x)) key = None" "reserve_flight (sys_store x) key = (s', Leader fl)"
  shows "idem_inv key_of \<lparr>sys_store = s', sys_pc = (sys_pc x)(r := Leading fl)\<rparr>"
proof -
  let ?s = "sys_store x"
  let ?pcs = "(sys_pc x)(r := Leading fl)"
  let ?x = "\<lparr>sys_store = s', sys_pc = ?pcs\<rparr>"
  have s': "fl = next_fl ?s" "next_fl s' = Suc fl" "inflight s' = AList.update key fl (inflight ?s)"
    "flights s' = (flights ?s)(fl := \<lparr>fl_done = False, fl_has_result = False, fl_status = 0,
       fl_body = [], fl_headers = []\<rparr>)"
    "idem_ok s' = idem_ok ?s" "idem_items s' = idem_items ?s"
    using assms(4,5) by (auto simp: reserve_flight_def idem_ok_flights Let_def)
  have old: "map_of (inflight ?s) k = Some fl' \<Longrightarrow> fl' < fl" for k fl'
    using inflight_flight(1) [OF assms(1)] s'(1) by simp
  have notlead: "sys_pc x r' \<noteq> Leading fl" for r'
    using leader_flight [OF assms(1), of r' fl] old by blast
  have mono: "produced key_of (sys_pc x) k e \<Longrightarrow> produced key_of ?pcs k e" for k e
    using assms(2) by (intro produced_mono) auto
  have "inflight_inv key_of ?x"
    unfolding inflight_inv_def
  proof (intro allI impI)
    fix k fl'
    assume m: "map_of (inflight (sys_store ?x)) k = Some fl'"
    show "fl' < next_fl (sys_store ?x) \<and> \<not> fl_done (flights (sys_store ?x) fl') \<and>
      \<not> fl_has_result (flights (sys_store ?x) fl') \<and> (\<exists>r. sys_pc ?x r = Leading fl' \<and> key_of r = Some k)"
    proof (cases "k = key")
      case True
      with m s' assms(3) show ?thesis by (auto simp: update_conv)
    next
      case False
      then have k: "map_of (inflight ?s) k = Some fl'"
        using m s'(3) by (simp add: update_conv)
      then obtain r' where "sys_pc x r' = Leading fl'" "key_of r' = Some k"
        using inflight_flight(4) [OF assms(1)] by blast
      moreover from this have "r' \<noteq> r"
        using assms(2) by auto
      ultimately show ?thesis
        using inflight_flight(1-3) [OF assms(1) k] old [OF k] s'
        by (auto intro!: exI [of _ r'])
    qed
  qed
  moreover have "leader_inv key_of ?x"
    unfolding leader_inv_def
  proof (intro allI impI conjI)
    fix r' fl'
    assume lead: "sys_pc ?x r' = Leading fl'"
    show "\<exists>k. key_of r' = Some k \<and> map_of (inflight (sys_store ?x)) k = Some fl'"
    proof (cases "r' = r")
      case True
      with lead assms(3) show ?thesis by (simp add: s'(3) update_conv)
    next
      case False
      with lead obtain k where k: "key_of r' = Some k" "map_of (inflight ?s) k = Some fl'"
        using leader_flight [OF assms(1), of r' fl'] by auto
      then have "k \<noteq> key"
        using assms(4) by auto
      with k show ?thesis by (simp add: s'(3) update_conv)
    qed
    fix r''
    assume "sys_pc ?x r'' = Leading fl'"
    with lead show "r'' = r'"
      using leader_unique [OF assms(1), of r' fl' r''] notlead [of r'] notlead [of r'']
      by (auto split: if_splits)
  qed
  moreover have "follower_inv key_of ?x"
    unfolding follower_inv_def
  proof (intro allI impI)
    fix r' fl'
    assume "sys_pc ?x r' = Waiting fl'"
    then have "sys_pc x r' = Waiting fl'"
      by (cases "r' = r") auto
    then obtain k where k: "key_of r' = Some k" "follow_ok key_of (sys_pc x) ?s k fl'"
      using assms(1) by (auto simp: idem_inv_def follower_inv_def)
    then have "follow_ok key_of (sys_pc x) s' k fl'"
      using s' assms(4) by (auto simp: follow_ok_def update_conv split: if_splits)
    with k show "\<exists>k. key_of r' = Some k \<and> follow_ok key_of (sys_pc ?x) (sys_store ?x) k fl'"
      using mono by (auto intro: follow_ok_mono)
  qed
  moreover have "replay_inv key_of ?x"
    using assms(1) mono s'(6) unfolding idem_inv_def replay_inv_def
    by simp blast
  ultimately show ?thesis
    using assms(1) s'(5) by (simp add: idem_inv_def)
qed

lemma idem_inv_close:
  assumes "idem_inv key_of x" "sys_pc x r = Leading fl" "key_of r = Some key"
    and p: "p = Panicked \<or> (\<exists>resp. p = Finished resp)"
    and s': "idem_ok s'" "next_fl s' = next_fl (sys_store x)"
      "inflight s' = AList.delete key (inflight (sys_store x))" "flights s' = (flights (sys_store x))(fl := f)"
    and f: "fl_done f" "fl_has_result f \<Longrightarrow> produced key_of ((sys_pc x)(r := p)) key (flight_entry f)"
    and its: "\<And>it. it \<in> idem_items s' \<Longrightarrow> it \<in> idem_items (sys_store x) \<or>
       produced key_of ((sys_pc x)(r := p)) (it_key it) (it_entry it)"
  shows "idem_inv key_of \<lparr>sys_store = s', sys_pc = (sys_pc x)(r := p)\<rparr>"
proof -
  let ?s = "sys_store x"
  let ?x = "\<lparr>sys_store = s', sys_pc = (sys_pc x)(r := p)\<rparr>"
  have mono: "produced key_of (sys_pc x) k e \<Longrightarrow> produced key_of ((sys_pc x)(r := p)) k e" for k e
    using assms(2) by (intro produced_mono) auto
  have only: "map_of (inflight ?s) k = Some fl \<Longrightarrow> k = key" for k
    using inflight_flight(4) [OF assms(1)] leader_unique [OF assms(1,2)] assms(3) by fastforce
  have key: "map_of (inflight ?s) key = Some fl"
    using leader_flight [OF assms(1,2)] assms(3) by simp
  have "inflight_inv key_of ?x"
    unfolding inflight_inv_def
  proof (intro allI impI)
    fix k fl'
    assume "map_of (inflight (sys_store ?x)) k = Some fl'"
    then have k: "map_of (inflight ?s) k = Some fl'" "fl' \<noteq> fl"
      using s'(3) only by (auto simp: delete_conv split: if_splits)
    then obtain r' where "sys_pc x r' = Leading fl'" "key_of r' = Some k"
      using inflight_flight(4) [OF assms(1)] by blast
    moreover from this have "r' \<noteq> r"
      using k(2) assms(2) by auto
    ultimately show "fl' < next_fl (sys_store ?x) \<and> \<not> fl_done (flights (sys_store ?x) fl') \<and>
      \<not> fl_has_result (flights (sys_store ?x) fl') \<and> (\<exists>r. sys_pc ?x r = Leading fl' \<and> key_of r = Some k)"
      using inflight_flight(1-3) [OF assms(1) k(1)] k(2) s'(2,4) by (auto intro!: exI [of _ r'])
  qed
  moreover have "leader_inv key_of ?x"
    unfolding leader_inv_def
  proof (intro allI impI conjI)
    fix r' fl'
    assume "sys_pc ?x r' = Leading fl'"
    then have lead: "sys_pc x r' = Leading fl'" "r' \<noteq> r"
      using p by (auto split: if_splits)
    then obtain k where k: "key_of r' = Some k" "map_of (inflight ?s) k = Some fl'"
      using leader_flight [OF assms(1)] by blast
    then have "k \<noteq> key"
      using key lead leader_unique [OF assms(1,2)] by auto
    with k show "\<exists>k. key_of r' = Some k \<and> map_of (inflight (sys_store ?x)) k = Some fl'"
      using s'(3) by (simp add: delete_conv)
    fix r''
    assume "sys_pc ?x r'' = Leading fl'"
    with lead show "r'' = r'"
      using leader_unique [OF assms(1), of r' fl' r''] p by (auto split: if_splits)
  qed
  moreover have "follower_inv key_of ?x"
    unfolding follower_inv_def
  proof (intro allI impI)
    fix r' fl'
    assume "sys_pc ?x r' = Waiting fl'"
    then have "sys_pc x r' = Waiting fl'"
      using p by (cases "r' = r") auto
    then obtain k where k: "key_of r' = Some k" "follow_ok key_of (sys_pc x) ?s k fl'"
      using assms(1) by (auto simp: idem_inv_def follower_inv_def)
    have "\<not> fl_done (flights ?s fl)"
      using assms(1) key by (auto simp: idem_inv_def inflight_inv_def)
    then have "follow_ok key_of ((sys_pc x)(r := p)) s' k fl'"
    proof (cases "fl' = fl")
      case True
      then have "fl < next_fl ?s" "k = key"
        using k(2) only \<open>\<not> fl_done (flights ?s fl)\<close> by (simp_all add: follow_ok_def)
      then show ?thesis
        using True f s'(2,4) by (simp add: follow_ok_def)
    next
      case False
      then have "map_of (inflight ?s) k = Some fl' \<Longrightarrow> k \<noteq> key"
        using key by auto
      then show ?thesis
        using False k(2) mono s'(2-4) by (simp add: follow_ok_def delete_conv split: if_splits)
    qed
    with k(1) show "\<exists>k. key_of r' = Some k \<and> follow_ok key_of (sys_pc ?x) (sys_store ?x) k fl'"
      by simp
  qed
  moreover have "replay_inv key_of ?x"
    unfolding replay_inv_def
  proof (intro conjI ballI allI impI)
    fix it
    assume "it \<in> idem_items (sys_store ?x)"
    with its [of it] show "produced key_of (sys_pc ?x) (it_key it) (it_entry it)"
      using assms(1) mono by (auto simp: idem_inv_def replay_inv_def)
  next
    fix r' w
    assume "sys_pc ?x r' = Replied w"
    then have "sys_pc x r' = Replied w"
      using p by (cases "r' = r") auto
    then show "\<exists>k e. key_of r' = Some k \<and> produced key_of (sys_pc ?x) k e \<and> w = replay_idempotent writer_new e"
      using assms(1) mono unfolding idem_inv_def replay_inv_def by simp blast
  qed
  ultimately show ?thesis
    using s'(1) by (simp add: idem_inv_def)
qed

lemma lookup_item:
  assumes "idem_ok s" "map_of (elems s) key = Some e"
  shows "e \<in> set (fifo s)" "iheap s e \<in> idem_items s" "it_key (iheap s e) = key"
  using assms links_map_of [of "as_cache s" key e] by (auto simp: idem_ok_def idem_items_def)

lemma idem_inv_reserve_flight:
  assumes "idem_inv key_of x" "sys_pc x r = Arrived" "key_of r = Some key"
    "reserve_flight (sys_store x) key = (s', Leader fl) \<and> p = Leading fl \<or>
     reserve_flight (sys_store x) key = (s', Follower fl) \<and> p = Waiting fl"
  shows "idem_inv key_of \<lparr>sys_store = s', sys_pc = (sys_pc x)(r := p)\<rparr>"
proof (cases "map_of (inflight (sys_store x)) key")
  case None
  then show ?thesis
    using assms idem_inv_lead [OF assms(1-3) None, of s' fl]
    by (auto simp: reserve_flight_def Let_def)
next
  case (Some fl')
  then have p: "s' = sys_store x" "p = Waiting fl'"
    using assms(4) by (auto simp: reserve_flight_def)
  have "idem_inv key_of (x\<lparr>sys_pc := (sys_pc x)(r := p)\<rparr>)"
    using assms(1-3) p Some by (intro idem_inv_pc) auto
  then show ?thesis
    using p(1) by (cases x) simp
qed

lemma idem_inv_admit:
  assumes "idem_inv key_of x" "sys_pc x r = Arrived" "admit (sys_store x) (key_of r) now = (s', p)"
  shows "idem_inv key_of \<lparr>sys_store = s', sys_pc = (sys_pc x)(r := p)\<rparr>"
proof (cases "key_of r")
  case None
  then have "s' = sys_store x" "p = Direct"
    using assms(3) by (auto simp: admit_def)
  then show ?thesis
    using idem_inv_pc [OF assms(1), of r Direct] assms(2) by (cases x) simp
next
  case (Some key)
  let ?s = "sys_store x"
  have ok: "idem_ok ?s"
    using assms(1) by (simp add: idem_inv_def)
  show ?thesis
  proof (cases "map_of (elems ?s) key")
    case None
    then show ?thesis
      using assms(3) Some idem_inv_reserve_flight [OF assms(1,2) Some, of s']
      by (auto simp: admit_def reserve_def split: prod.splits reservation.splits)
        (auto simp: reserve_flight_def Let_def split: option.splits)
  next
    case (Some e)
    note item = lookup_item [OF ok Some]
    show ?thesis
    proof (cases "ie_expires (it_entry (iheap ?s e)) < now")
      case False
      then have p: "s' = ?s" "p = Replied (replay_idempotent writer_new (it_entry (iheap ?s e)))"
        using assms(3) Some \<open>key_of r = Some key\<close> by (auto simp: admit_def reserve_def)
      have "produced key_of (sys_pc x) key (it_entry (iheap ?s e))"
        using assms(1) item by (auto simp: idem_inv_def replay_inv_def)
      then show ?thesis
        using idem_inv_pc [OF assms(1), of r p] assms(2) p \<open>key_of r = Some key\<close>
        by (cases x) auto
    next
      case True
      let ?x = "x\<lparr>sys_store := remove_elem ?s e\<rparr>"
      have "idem_inv key_of ?x"
        using ok item(1) remove_elem_items [of ?s e]
        by (intro idem_inv_store [OF assms(1)] remove_elem_ok) auto
      from idem_inv_reserve_flight [OF this, of r key s'] show ?thesis
        using assms(2,3) Some True \<open>key_of r = Some key\<close>
        by (auto simp: admit_def reserve_def split: prod.splits reservation.splits)
          (auto simp: reserve_flight_def Let_def split: option.splits)
    qed
  qed
qed

lemma finish_leader_store:
  fixes fl :: nat
  assumes "idem_ok s"
  defines "f \<equiv> \<lambda>e. (flights s fl)\<lparr>fl_status := ie_status e, fl_body := ie_body e, fl_headers := ie_headers e,
    fl_has_result := True, fl_done := True\<rparr>"
  shows "idem_ok (finish_leader s key fl e c)" "next_fl (finish_leader s key fl e c) = next_fl s"
    "inflight (finish_leader s key fl e c) = AList.delete key (inflight s)"
    "flights (finish_leader s key fl e c) = (flights s)(fl := f e)"
    "idem_items (finish_leader s key fl e c) \<subseteq> insert \<lparr>it_key = key, it_entry = e\<rparr> (idem_items s)"
    "max_entries (finish_leader s key fl e c) = max_entries s"
proof -
  let ?s = "s\<lparr>flights := (flights s)(fl := (flights s fl)
                 \<lparr>fl_status := ie_status e, fl_body := ie_body e,
                  fl_headers := ie_headers e, fl_has_result := True\<rparr>)\<rparr>"
  have ok: "idem_ok ?s" and its: "idem_items ?s = idem_items s"
    using assms(1) by (simp_all add: idem_ok_flights)
  note put = idem_put_locked_ok [OF ok, of key e] idem_put_locked_frame [OF ok, of key e]
  show "idem_ok (finish_leader s key fl e c)" "next_fl (finish_leader s key fl e c) = next_fl s"
    "inflight (finish_leader s key fl e c) = AList.delete key (inflight s)"
    "flights (finish_leader s key fl e c) = (flights s)(fl := f e)"
    "max_entries (finish_leader s key fl e c) = max_entries s"
    using put ok by (simp_all add: finish_leader_def Let_def idem_ok_flights f_def)
  show "idem_items (finish_leader s key fl e c) \<subseteq> insert \<lparr>it_key = key, it_entry = e\<rparr> (idem_items s)"
    using put(2) its by (auto simp: finish_leader_def Let_def idem_ok_flights)
qed

lemma idem_inv_step:
  assumes "idem_step key_of x y" "idem_inv key_of x"
  shows "idem_inv key_of y"
  using assms
proof (induction rule: idem_step.induct)
  case (step_admit x r now s' p)
  then show ?case by (simp add: idem_inv_admit)
next
  case (step_return x r fl key s' resp now)
  let ?e = "captured_entry resp now (idem_ttl (sys_store x))"
  have ok: "idem_ok (sys_store x)"
    using step_return by (simp add: idem_inv_def)
  have prod: "ie_status e = ie_status ?e \<Longrightarrow> ie_body e = ie_body ?e \<Longrightarrow>
      produced key_of ((sys_pc x)(r := Finished resp)) key e" for e
    using step_return(2) by (auto simp: produced_def captured_entry_def Let_def intro!: exI [of _ r])
  show ?case
    unfolding step_return(3)
    using finish_leader_store [OF ok, of key fl ?e "response_cacheable resp"] step_return(2) prod
    by (intro idem_inv_close [OF step_return(4,1,2)]) (auto simp: flight_entry_def)
next
  case (step_panic x r fl key)
  have "map_of (inflight (sys_store x)) key = Some fl"
    using leader_flight [OF step_panic(3,1)] step_panic(2) by simp
  moreover from this have "\<not> fl_has_result (flights (sys_store x) fl)"
    using inflight_flight [OF step_panic(3)] by simp
  ultimately show ?case
    using step_panic(3)
    by (intro idem_inv_close [OF step_panic(3,1,2), where f = "(flights (sys_store x) fl)\<lparr>fl_done := True\<rparr>"])
      (auto simp: abort_leader_def idem_ok_flights idem_inv_def)
next
  case (step_wake x r fl)
  then obtain k where "key_of r = Some k" "follow_ok key_of (sys_pc x) (sys_store x) k fl"
    by (auto simp: idem_inv_def follower_inv_def)
  then show ?case
    using step_wake by (intro idem_inv_pc) (auto simp: wake_def follow_ok_def)
next
  case (step_direct x r p)
  then show ?case by (intro idem_inv_pc) auto
next
  case (step_gc x now)
  then show ?case by (simp add: idem_inv_gc)
qed

lemma idem_reach_inv: "idem_reach key_of ttl n x \<Longrightarrow> idem_inv key_of x"
  by (induction rule: idem_reach.induct) (auto simp: idem_inv_start idem_inv_step)

section \<open>Properties\<close>

text \<open>
  C18: single flight. In every reachable state at most one request per fingerprint is executing as
  leader, and a request blocked on a flight either may proceed (the flight is closed) or waits for a
  leader with its own fingerprint that is still executing, so that no follower waits for ever.
\<close>

theorem single_flight:
  assumes "idem_reach key_of ttl n x"
  shows "(\<forall>r r' fl fl'. sys_pc x r = Leading fl \<and> sys_pc x r' = Leading fl' \<and> key_of r = key_of r' \<longrightarrow>
            r = r') \<and>
         (\<forall>r fl. sys_pc x r = Waiting fl \<longrightarrow>
            fl_done (flights (sys_store x) fl) \<or> (\<exists>r'. sys_pc x r' = Leading fl \<and> key_of r' = key_of r))"
proof (intro conjI allI impI)
  note inv = idem_reach_inv [OF assms]
  fix r r' fl fl'
  assume a: "sys_pc x r = Leading fl \<and> sys_pc x r' = Leading fl' \<and> key_of r = key_of r'"
  then have "fl = fl'"
    using leader_flight [OF inv, of r fl] leader_flight [OF inv, of r' fl'] by auto
  with a show "r = r'"
    using leader_unique [OF inv, of r' fl r] by simp
next
  note inv = idem_reach_inv [OF assms]
  fix r fl
  assume "sys_pc x r = Waiting fl"
  then obtain k where k: "key_of r = Some k" "follow_ok key_of (sys_pc x) (sys_store x) k fl"
    using inv by (auto simp: idem_inv_def follower_inv_def)
  then show "fl_done (flights (sys_store x) fl) \<or> (\<exists>r'. sys_pc x r' = Leading fl \<and> key_of r' = key_of r)"
    using inflight_flight(4) [OF inv, of k fl] by (auto simp: follow_ok_def split: if_splits)
qed

definition demo_sys :: idem_sys where
  \<comment> \<open>two requests with one key: the first leads, the second waits\<close>
  "demo_sys =
     (let s0 = idem_new_cap hour 10; (s1, p1) = admit s0 (Some ''k'') 1; (s2, p2) = admit s1 (Some ''k'') 2
      in \<lparr>sys_store = s2, sys_pc = ((\<lambda>_. Arrived)(1 := p1))(2 := p2)\<rparr>)"

lemma demo_reach: "idem_reach (\<lambda>_. Some ''k'') hour 10 demo_sys"
proof -
  let ?k = "\<lambda>_ :: nat. Some ''k''"
  obtain s1 p1 where a1: "admit (idem_new_cap hour 10) (Some ''k'') 1 = (s1, p1)"
    by (cases "admit (idem_new_cap hour 10) (Some ''k'') 1") auto
  obtain s2 p2 where a2: "admit s1 (Some ''k'') 2 = (s2, p2)"
    by (cases "admit s1 (Some ''k'') 2") auto
  let ?x1 = "\<lparr>sys_store = s1, sys_pc = (\<lambda>_. Arrived)(1 := p1)\<rparr>"
  have "idem_reach ?k hour 10 ?x1"
    using reach_step [OF reach_start, of ?k hour 10 ?x1] step_admit [of "idem_start hour 10" 1 ?k 1 s1 p1] a1
    by (simp add: idem_start_def)
  then have "idem_reach ?k hour 10 \<lparr>sys_store = s2, sys_pc = (sys_pc ?x1)(2 := p2)\<rparr>"
    using reach_step [of ?k hour 10 ?x1] step_admit [of ?x1 2 ?k 2 s2 p2] a2 by simp
  then show ?thesis
    using a1 a2 by (simp add: demo_sys_def)
qed

lemma demo_pcs: "sys_pc demo_sys 1 = Leading 0" "sys_pc demo_sys 2 = Waiting 0"
  by (simp_all add: demo_sys_def admit_def reserve_def reserve_flight_def idem_new_cap_def Let_def)

theorem single_flight_witness:
  "fl_done (flights (sys_store demo_sys) 0) \<or> (\<exists>r'. sys_pc demo_sys r' = Leading 0)"
  using single_flight [OF demo_reach] demo_pcs by blast

text \<open>
  C19: replays are authentic. A response that the middleware serves without calling the next
  handler, from the store or from a flight, has the status and the body that the next handler gave
  to a request with the same fingerprint.
\<close>

theorem replay_authentic:
  assumes "idem_reach key_of ttl n x" "sys_pc x r = Replied w"
  shows "\<exists>r' resp. sys_pc x r' = Finished resp \<and> key_of r' = key_of r \<and> key_of r \<noteq> None \<and>
           w_body w = rec_body resp \<and> (200 \<le> rec_status resp \<longrightarrow> client_status w = rec_status resp)"
proof -
  obtain k e where k: "key_of r = Some k" "produced key_of (sys_pc x) k e" "w = replay_idempotent writer_new e"
    using idem_reach_inv [OF assms(1)] assms(2) unfolding idem_inv_def replay_inv_def by blast
  have "w_body w = ie_body e" "200 \<le> ie_status e \<longrightarrow> client_status w = ie_status e"
    by (auto simp: k(3) replay_idempotent_def write_body_def write_header_def client_status_def
        writer_new_def Let_def)
  then show ?thesis
    using k(1,2) by (fastforce simp: produced_def)
qed

definition demo_resp :: recorder where
  "demo_resp = rec_write (rec_write_header (recorder_new writer_new) 201) ''op-1''"

definition demo_replied :: idem_sys where
  "demo_replied =
     (let s = finish_leader (sys_store demo_sys) ''k'' 0 (captured_entry demo_resp 3 hour) True;
          x = \<lparr>sys_store = s, sys_pc = (sys_pc demo_sys)(1 := Finished demo_resp)\<rparr>
      in x\<lparr>sys_pc := (sys_pc x)(2 := wake s 0)\<rparr>)"

lemma demo_replied_reach: "idem_reach (\<lambda>_. Some ''k'') hour 10 demo_replied"
proof -
  let ?s = "finish_leader (sys_store demo_sys) ''k'' 0 (captured_entry demo_resp 3 hour) True"
  let ?x = "\<lparr>sys_store = ?s, sys_pc = (sys_pc demo_sys)(1 := Finished demo_resp)\<rparr>"
  have ttl: "idem_ttl (sys_store demo_sys) = hour"
    by (simp add: demo_sys_def admit_def reserve_def reserve_flight_def idem_new_cap_def Let_def)
  have "response_cacheable demo_resp"
    by (simp add: response_cacheable_def demo_resp_def recorder_new_def rec_write_def rec_write_header_def Let_def)
  then have "idem_reach (\<lambda>_. Some ''k'') hour 10 ?x"
    using reach_step [OF demo_reach step_return [OF demo_pcs(1), of _ "''k''" ?s demo_resp 3]] ttl by simp
  moreover have "fl_done (flights ?s 0)"
    by (simp add: finish_leader_def Let_def)
  ultimately show ?thesis
    using step_wake [of ?x 2 0 "\<lambda>_. Some ''k''"] demo_pcs(2)
    by (auto simp: demo_replied_def Let_def intro: reach_step)
qed

theorem replay_authentic_witness:
  "\<exists>w r' resp. sys_pc demo_replied 2 = Replied w \<and> sys_pc demo_replied r' = Finished resp \<and>
     w_body w = rec_body resp"
proof -
  have "\<exists>w. sys_pc demo_replied 2 = Replied w"
    by (simp add: demo_replied_def demo_sys_def finish_leader_def wake_def idem_put_locked_def admit_def reserve_def
        reserve_flight_def idem_new_cap_def evict.simps Let_def)
  then show ?thesis
    using replay_authentic [OF demo_replied_reach] by blast
qed

lemma idem_step_max: "idem_step key_of x y \<Longrightarrow> idem_inv key_of x \<Longrightarrow>
    max_entries (sys_store y) = max_entries (sys_store x)"
proof (induction rule: idem_step.induct)
  case (step_admit x r now s' p)
  then show ?case
    by (auto simp: admit_def reserve_def reserve_flight_def Let_def
        split: option.splits if_splits prod.splits reservation.splits)
qed (auto simp: finish_leader_store(6) idem_inv_def abort_leader_def gc_tick_ok)

lemma idem_reach_max:
  "idem_reach key_of ttl n x \<Longrightarrow> max_entries (sys_store x) = (if n \<le> 0 then 10000 else n)"
  by (induction rule: idem_reach.induct)
    (simp_all add: idem_start_def idem_new_cap_def idem_step_max idem_reach_inv)

text \<open>
  The store never holds more entries than its capacity, its index agrees with its list, and the
  eviction loop of every insertion ends with room for the new entry.
\<close>

theorem idem_store_bounded:
  assumes "idem_reach key_of ttl n x"
  shows "int (idem_len (sys_store x)) \<le> (if n \<le> 0 then 10000 else n) \<and>
    length (fifo (sys_store x)) = idem_len (sys_store x) \<and>
    int (idem_len (evict (sys_store x))) < (if n \<le> 0 then 10000 else n)"
proof -
  have "idem_ok (sys_store x)"
    using idem_reach_inv [OF assms] by (simp add: idem_inv_def)
  then show ?thesis
    using idem_reach_max [OF assms] evict_ok [of "sys_store x"] links_length_elems [of "sys_store x"]
    by (simp add: idem_len_def idem_ok_def)
qed

theorem idem_store_bounded_witness: "int (idem_len (sys_store demo_sys)) \<le> 10"
  using idem_store_bounded [OF demo_reach] by simp

lemma put_locked_lookup:
  "\<exists>e. map_of (elems (idem_put_locked s key entry)) key = Some e \<and>
     it_entry (iheap (idem_put_locked s key entry) e) = entry"
  by (auto simp: idem_put_locked_def Let_def update_conv split: option.splits)

text \<open>
  A retry replays the stored response. When a leader's response has a status below 500 and a body
  within the limit, a later request with the same fingerprint gets exactly that response from the
  store until the entry expires; a response that is not cacheable leaves no entry, so the retry leads.
\<close>

theorem retry_replays:
  assumes "now \<le> t + ttl" "map_of (elems s) key = None"
  shows "snd (reserve (finish_leader s key fl (captured_entry resp t ttl) (response_cacheable resp)) key now) =
     (if rec_status resp < 500 \<and> length (rec_body resp) \<le> max_body_bytes
      then Cached (captured_entry resp t ttl) else Leader (next_fl s))"
proof (cases "response_cacheable resp")
  case True
  let ?e = "captured_entry resp t ttl"
  let ?s1 = "s\<lparr>flights := (flights s)(fl := (flights s fl)
                 \<lparr>fl_status := ie_status ?e, fl_body := ie_body ?e,
                  fl_headers := ie_headers ?e, fl_has_result := True\<rparr>)\<rparr>"
  let ?s = "finish_leader s key fl ?e True"
  obtain e where "map_of (elems ?s) key = Some e" "it_entry (iheap ?s e) = ?e"
    using put_locked_lookup [of ?s1 key ?e] by (auto simp: finish_leader_def Let_def)
  moreover have "\<not> ie_expires ?e < now"
    using assms(1) by (simp add: captured_entry_def Let_def)
  ultimately show ?thesis
    using True by (simp add: reserve_def response_cacheable_def Let_def)
next
  case False
  then show ?thesis
    using assms(2)
    by (auto simp: response_cacheable_def finish_leader_def reserve_def reserve_flight_def Let_def delete_conv)
qed

theorem retry_replays_witness:
  "snd (reserve (finish_leader (sys_store demo_sys) ''k'' 0 (captured_entry demo_resp 3 hour)
     (response_cacheable demo_resp)) ''k'' 4) = Cached (captured_entry demo_resp 3 hour)"
proof -
  have "map_of (elems (sys_store demo_sys)) ''k'' = None"
    by (simp add: demo_sys_def admit_def reserve_def reserve_flight_def idem_new_cap_def Let_def)
  from retry_replays [OF _ this, of 4 3 hour 0 demo_resp] show ?thesis
    by (simp add: demo_resp_def recorder_new_def rec_write_def rec_write_header_def Let_def)
qed

text \<open>
  The fingerprint separates callers, methods, paths, keys and bodies: two requests share it only
  if they agree on the principal, the method, the path, the key and the digest of the first 256 KiB of
  the body. Paths may contain any byte; header values, methods and digests do not contain NUL.
\<close>

theorem fingerprint_separates:
  assumes "snd (idempotency_cache_key h r k) = snd (idempotency_cache_key h r' k')"
    and "\<forall>x \<in> {hget (req_header r) HeaderPrincipalID, req_method r, k, snd (hash_request_body h r),
                hget (req_header r') HeaderPrincipalID, req_method r', k', snd (hash_request_body h r')}.
           CHR 0x00 \<notin> set x"
  shows "hget (req_header r) HeaderPrincipalID = hget (req_header r') HeaderPrincipalID \<and>
    req_method r = req_method r' \<and> req_path r = req_path r' \<and> k = k' \<and>
    snd (hash_request_body h r) = snd (hash_request_body h r')"
  using assms
    five_parts_unique [of "CHR 0x00" "hget (req_header r) HeaderPrincipalID" "req_method r" k
      "snd (hash_request_body h r)" "hget (req_header r') HeaderPrincipalID" "req_method r'" k'
      "snd (hash_request_body h r')" "req_path r" "req_path r'"]
  by (simp add: idempotency_cache_key_def split: prod.splits)

definition demo_request :: "string \<Rightarrow> http_request" where
  "demo_request host = \<lparr>req_method = ''POST'', req_path = ''/v1/x'', req_query = [],
     req_header = [(HeaderPrincipalID, [''u''])], req_body = None, req_host = host, req_remote = [],
     req_peer_certs = None, req_ctx = ctx_background\<rparr>"

lemma demo_request_simps:
  "hget (req_header (demo_request x)) HeaderPrincipalID = ''u''" "req_method (demo_request x) = ''POST''"
  "snd (hash_request_body h (demo_request x)) = []" "req_path (demo_request x) = ''/v1/x''"
proof -
  have "canonical_key HeaderPrincipalID = HeaderPrincipalID"
    using header_names_canonical by (simp add: header_names_def)
  then show "hget (req_header (demo_request x)) HeaderPrincipalID = ''u''"
    by (simp add: hget_def demo_request_def)
qed (simp_all add: demo_request_def hash_request_body_def)

theorem fingerprint_separates_witness:
  "snd (idempotency_cache_key (\<lambda>_. ''00'') (demo_request ''a'') ''k'') =
     snd (idempotency_cache_key (\<lambda>_. ''00'') (demo_request ''b'') ''k'') \<and>
   req_path (demo_request ''a'') = req_path (demo_request ''b'')"
proof -
  have eq: "snd (idempotency_cache_key (\<lambda>_. ''00'') (demo_request ''a'') ''k'') =
     snd (idempotency_cache_key (\<lambda>_. ''00'') (demo_request ''b'') ''k'')"
    by (simp add: idempotency_cache_key_def demo_request_def hash_request_body_def)
  with fingerprint_separates [OF eq] show ?thesis
    by (simp add: demo_request_simps)
qed

end
