(* ===== verification/Authz_Config.thy ===== *)
theory Authz_Config
  imports Edge_Context
begin

text \<open>
  What the authorization middleware is configured with: the permission catalog
  (\<^verbatim>\<open>internal/middleware/permission_catalog.go\<close>, \<^verbatim>\<open>permission_catalog_embed.go\<close>), the override file
  (\<^verbatim>\<open>authz_overrides.go\<close>) and the public allowlist (\<^verbatim>\<open>authz_public_allowlist.go\<close>). Both files are loaded
  at start and reloaded on a signal; the JSON and YAML decoders and the file system are parameters.
\<close>

section \<open>Files that are loaded and reloaded\<close>

datatype config_error =
    EmptyInput | DecodeFailed | ZeroEntries | EmptyFqn nat | DuplicateFqn string | UnsupportedVersion int
  | UnknownDecision string string | EmptyPath | OpenFailed string | ReadFailed | NoStoredPath

record 'm file_config =
  \<comment> \<open>the published map, swapped atomically, and the path it was loaded from\<close>
  fc_current :: 'm
  fc_path :: "string option"

type_synonym file_system = "string \<Rightarrow> string option option"
  \<comment> \<open>\<open>None\<close>: the file cannot be opened; \<open>Some None\<close>: reading it fails\<close>

definition load_bytes ::
  "(string \<Rightarrow> config_error + 'm) \<Rightarrow> 'm file_config \<Rightarrow> string \<Rightarrow> 'm file_config \<times> config_error option" where
  "load_bytes parse c buf =
     (case parse buf of Inl e \<Rightarrow> (c, Some e) | Inr m \<Rightarrow> (c\<lparr>fc_current := m\<rparr>, None))"

definition load_reader ::
  "(string \<Rightarrow> config_error + 'm) \<Rightarrow> 'm file_config \<Rightarrow> string option \<Rightarrow> 'm file_config \<times> config_error option" where
  "load_reader parse c r =
     (case r of None \<Rightarrow> (c, Some ReadFailed) | Some content \<Rightarrow> load_bytes parse c (take (8 * 2 ^ 20) content))"

definition load_file ::
  "(string \<Rightarrow> config_error + 'm) \<Rightarrow> file_system \<Rightarrow> 'm file_config \<Rightarrow> string \<Rightarrow>
   'm file_config \<times> config_error option" where
  "load_file parse fs c path =
     (if path = [] then (c, Some EmptyPath)
      else case fs path of
        None \<Rightarrow> (c, Some (OpenFailed path))
      | Some r \<Rightarrow>
          (case load_reader parse c r of
             (c', Some e) \<Rightarrow> (c', Some e)
           | (c', None) \<Rightarrow> (c'\<lparr>fc_path := Some path\<rparr>, None)))"

definition reload ::
  "(string \<Rightarrow> config_error + 'm) \<Rightarrow> file_system \<Rightarrow> 'm file_config \<Rightarrow> 'm file_config \<times> config_error option" where
  "reload parse fs c =
     (case fc_path c of
        None \<Rightarrow> (c, Some NoStoredPath)
      | Some p \<Rightarrow> if p = [] then (c, Some NoStoredPath) else load_file parse fs c p)"

section \<open>Permission catalog\<close>

record scope_extractor =
  object_type :: string
  from_request_field :: string
  object_type_from_request_field :: string

record catalog_entry =
  ce_fqn :: string
  ce_permission :: string
  ce_required_relation :: string
  ce_scope :: scope_extractor
  ce_required_acr_min :: string
  ce_domain :: string
  ce_resource_type :: string
  ce_action :: string
  ce_requires_mfa_fresh :: bool
  ce_risk_level :: string
  ce_description :: string
  ce_emitted_build_sha :: string
  ce_hide_existence :: bool

type_synonym catalog = "(string \<times> catalog_entry) list file_config"

definition catalog_new :: catalog where
  "catalog_new = \<lparr>fc_current = [], fc_path = None\<rparr>"

fun index_catalog ::
  "catalog_entry list \<Rightarrow> nat \<Rightarrow> (string \<times> catalog_entry) list \<Rightarrow>
   config_error + (string \<times> catalog_entry) list" where
  \<comment> \<open>the loop that builds the map, with the index of the entry\<close>
  "index_catalog [] i next = Inr next"
| "index_catalog (e # es) i next =
     (if ce_fqn e = [] then Inl (EmptyFqn i)
      else if map_of next (ce_fqn e) \<noteq> None then Inl (DuplicateFqn (ce_fqn e))
      else index_catalog es (Suc i) (AList.update (ce_fqn e) e next))"

record catalog_decoder =
  \<comment> \<open>\<open>json.Unmarshal\<close> into the object shape and into the bare array\<close>
  cd_object :: "string \<Rightarrow> catalog_entry list option"
  cd_array :: "string \<Rightarrow> catalog_entry list option"

definition decode_catalog :: "catalog_decoder \<Rightarrow> string \<Rightarrow> catalog_entry list option" where
  "decode_catalog d buf =
     (case cd_object d buf of
        Some (e # es) \<Rightarrow> Some (e # es)
      | _ \<Rightarrow> cd_array d buf)"

definition parse_catalog ::
  "catalog_decoder \<Rightarrow> string \<Rightarrow> config_error + (string \<times> catalog_entry) list" where
  "parse_catalog d buf =
     (if buf = [] then Inl EmptyInput
      else case decode_catalog d buf of
        None \<Rightarrow> Inl DecodeFailed
      | Some es \<Rightarrow> if es = [] then Inl ZeroEntries else index_catalog es 0 [])"

definition catalog_lookup :: "catalog \<Rightarrow> string \<Rightarrow> catalog_entry option" where
  "catalog_lookup c fqn = map_of (fc_current c) fqn"

definition catalog_size :: "catalog \<Rightarrow> nat" where
  "catalog_size c = length (fc_current c)"

definition load_embedded_catalog ::
  "catalog_decoder \<Rightarrow> file_system \<Rightarrow> string \<Rightarrow> string \<Rightarrow> config_error + catalog" where
  \<comment> \<open>the third argument is the embedded asset, the fourth the configured path\<close>
  "load_embedded_catalog d fs embedded fsPath =
     (case (if fsPath \<noteq> [] then load_file (parse_catalog d) fs catalog_new fsPath
            else load_bytes (parse_catalog d) catalog_new embedded) of
        (c, None) \<Rightarrow> Inr c
      | (_, Some e) \<Rightarrow> Inl e)"

definition is_exempt :: "catalog_entry \<Rightarrow> bool" where
  "is_exempt e \<longleftrightarrow> ce_permission e = ''<exempt>''"

definition is_concrete_resource_scope :: "catalog_entry \<Rightarrow> bool" where
  "is_concrete_resource_scope e =
     (if trim_space (object_type_from_request_field (ce_scope e)) \<noteq> [] then False
      else trim_space (from_request_field (ce_scope e)) \<notin> {[], ''*'', ''subject'', ''resource''})"

definition is_read_get_fqn :: "string \<Rightarrow> bool" where
  "is_read_get_fqn fqn = has_suffix fqn ''/Get''"

definition hides_existence_on_deny :: "catalog_entry \<Rightarrow> string \<Rightarrow> bool" where
  "hides_existence_on_deny e fqn =
     (if ce_hide_existence e then True
      else is_read_get_fqn fqn \<and> ce_required_relation e = ''v_get'' \<and> is_concrete_resource_scope e)"

section \<open>Overrides\<close>

datatype override_decision = OverrideNone | OverrideAllow | OverrideDeny

record override_row =
  ov_fqn :: string
  ov_decision :: string
  ov_reason :: string

type_synonym override_map = "(string \<times> override_decision \<times> string) list"
type_synonym overrides = "override_map file_config"

definition overrides_new :: overrides where
  "overrides_new = \<lparr>fc_current = [], fc_path = None\<rparr>"

definition parse_override_decision :: "string \<Rightarrow> override_decision option" where
  "parse_override_decision s =
     (let d = to_lower (trim_space s) in
      if d = ''allow'' \<or> d = ''permit'' then Some OverrideAllow
      else if d = ''deny'' \<or> d = ''forbid'' then Some OverrideDeny
      else None)"

fun index_overrides :: "override_row list \<Rightarrow> nat \<Rightarrow> override_map \<Rightarrow> config_error + override_map" where
  "index_overrides [] i next = Inr next"
| "index_overrides (e # es) i next =
     (let fqn = trim_space (ov_fqn e) in
      if fqn = [] then Inl (EmptyFqn i)
      else if map_of next fqn \<noteq> None then Inl (DuplicateFqn fqn)
      else case parse_override_decision (ov_decision e) of
        None \<Rightarrow> Inl (UnknownDecision fqn (ov_decision e))
      | Some dec \<Rightarrow> index_overrides es (Suc i) (AList.update fqn (dec, ov_reason e) next))"

definition parse_overrides ::
  "(string \<Rightarrow> (int \<times> override_row list) option) \<Rightarrow> string \<Rightarrow> config_error + override_map" where
  \<comment> \<open>the parameter is the YAML decoder: version and rows\<close>
  "parse_overrides yaml buf =
     (if buf = [] then Inr []
      else case yaml buf of
        None \<Rightarrow> Inl DecodeFailed
      | Some (version, rows) \<Rightarrow>
          if version \<noteq> 0 \<and> version \<noteq> 1 then Inl (UnsupportedVersion version)
          else index_overrides rows 0 [])"

definition override_lookup :: "overrides \<Rightarrow> string \<Rightarrow> override_decision option" where
  "override_lookup c fqn = map_option fst (map_of (fc_current c) fqn)"

definition override_reason :: "overrides \<Rightarrow> string \<Rightarrow> string" where
  "override_reason c fqn = (case map_of (fc_current c) fqn of None \<Rightarrow> [] | Some e \<Rightarrow> snd e)"

definition override_size :: "overrides \<Rightarrow> nat" where
  "override_size c = length (fc_current c)"

section \<open>Public allowlist\<close>

definition default_public_allowlist :: "string list" where
  "default_public_allowlist =
     [''grpc.health.v1.Health/Check'', ''grpc.health.v1.Health/Watch'',
      ''grpc.reflection.v1.ServerReflection/ServerReflectionInfo'',
      ''grpc.reflection.v1alpha.ServerReflection/ServerReflectionInfo'',
      ''kacho.cloud.iam.v1.BackChannelLogoutService/PushLogout'',
      ''kacho.cloud.iam.v1.AuthService/Login'', ''kacho.cloud.iam.v1.AuthService/Logout'',
      ''kacho.cloud.iam.v1.AuthService/Recovery'', ''kacho.cloud.iam.v1.AuthService/RecoveryFinalise'',
      ''kacho.cloud.iam.v1.AuthService/Register'']"

section \<open>The contract of a reloadable table\<close>

text \<open>
  A parser of a table promises that the map it builds has exactly the rows of the document, each key
  once. What a reader then sees across loads and reloads follows for every such parser.
\<close>

locale reloadable_table =
  fixes parse :: "string \<Rightarrow> config_error + (string \<times> 'd) list"
    and rows :: "string \<Rightarrow> (string \<times> 'd) list"
  assumes parse_rows: "parse buf = Inr m \<Longrightarrow> map_of m k = Some d \<longleftrightarrow> (k, d) \<in> set (rows buf)"
begin

lemma rows_unique: "parse buf = Inr m \<Longrightarrow> (k, d) \<in> set (rows buf) \<Longrightarrow> (k, d') \<in> set (rows buf) \<Longrightarrow> d' = d"
  by (metis option.inject parse_rows)

lemma load_file_cases:
  assumes "load_file parse fs c path = (c', e)"
  shows "(e \<noteq> None \<longrightarrow> c' = c) \<and>
    (e = None \<longrightarrow> path \<noteq> [] \<and> fc_path c' = Some path \<and>
       (\<exists>content. fs path = Some (Some content) \<and>
          (\<forall>k d. map_of (fc_current c') k = Some d \<longleftrightarrow> (k, d) \<in> set (rows (take (8 * 2 ^ 20) content)))))"
  using assms
  by (auto simp: load_file_def load_reader_def load_bytes_def parse_rows
      split: if_splits option.splits sum.splits prod.splits)

lemma reload_cases:
  assumes "reload parse fs c = (c', e)"
  shows "(e \<noteq> None \<longrightarrow> c' = c) \<and>
    (e = None \<longrightarrow> (\<exists>path content. fc_path c = Some path \<and> fc_path c' = Some path \<and> fs path = Some (Some content) \<and>
       (\<forall>k d. map_of (fc_current c') k = Some d \<longleftrightarrow> (k, d) \<in> set (rows (take (8 * 2 ^ 20) content)))))"
  using assms load_file_cases [of fs c _ c' e]
  by (auto simp: reload_def split: option.splits if_splits)

end

lemma index_catalog_rows:
  assumes "index_catalog es i next = Inr m"
  shows "map_of m k = Some d \<longleftrightarrow> map_of next k = Some d \<or> (k, d) \<in> set (map (\<lambda>e. (ce_fqn e, e)) es)"
    "\<forall>e \<in> set es. ce_fqn e \<noteq> [] \<and> map_of next (ce_fqn e) = None"
  using assms
proof (induction es arbitrary: i "next")
  case (Cons e es)
  {
    case 1
    then show ?case
      using Cons.IH(1) [of "Suc i" "AList.update (ce_fqn e) e next"]
      by (auto simp: update_conv split: if_splits)
  next
    case 2
    then show ?case
      using Cons.IH(2) [of "Suc i" "AList.update (ce_fqn e) e next"]
      by (auto simp: update_conv split: if_splits)
  }
qed simp_all

definition catalog_rows :: "catalog_decoder \<Rightarrow> string \<Rightarrow> (string \<times> catalog_entry) list" where
  "catalog_rows d buf = (case decode_catalog d buf of None \<Rightarrow> [] | Some es \<Rightarrow> map (\<lambda>e. (ce_fqn e, e)) es)"

interpretation cat: reloadable_table "parse_catalog d" "catalog_rows d" for d
  by unfold_locales
    (auto simp: parse_catalog_def catalog_rows_def index_catalog_rows split: if_splits option.splits)

definition override_of_row :: "override_row \<Rightarrow> (string \<times> override_decision \<times> string) option" where
  "override_of_row e =
     map_option (\<lambda>dec. (trim_space (ov_fqn e), dec, ov_reason e)) (parse_override_decision (ov_decision e))"

definition override_rows ::
  "(string \<Rightarrow> (int \<times> override_row list) option) \<Rightarrow> string \<Rightarrow> (string \<times> override_decision \<times> string) list" where
  "override_rows yaml buf =
     (if buf = [] then []
      else case yaml buf of None \<Rightarrow> [] | Some (_, rows) \<Rightarrow> List.map_filter override_of_row rows)"

lemma index_overrides_Cons:
  assumes "index_overrides (e # es) i next = Inr m"
  obtains dec where "parse_override_decision (ov_decision e) = Some dec"
    "map_of next (trim_space (ov_fqn e)) = None"
    "index_overrides es (Suc i) (AList.update (trim_space (ov_fqn e)) (dec, ov_reason e) next) = Inr m"
proof -
  have "map_of next (trim_space (ov_fqn e)) = None"
    using assms by (cases "map_of next (trim_space (ov_fqn e))") (simp_all add: Let_def split: if_splits)
  then show thesis
    using assms that by (cases "parse_override_decision (ov_decision e)") (simp_all add: Let_def split: if_splits)
qed

lemma index_overrides_rows:
  assumes "index_overrides es i next = Inr m"
  shows "map_of m k = Some d \<longleftrightarrow> map_of next k = Some d \<or> (k, d) \<in> set (List.map_filter override_of_row es)"
    "\<forall>e \<in> set es. map_of next (trim_space (ov_fqn e)) = None"
  using assms
proof (induction es arbitrary: i "next")
  case (Cons e es)
  let ?fqn = "trim_space (ov_fqn e)"
  {
    case 1
    then obtain dec where dec: "parse_override_decision (ov_decision e) = Some dec" "map_of next ?fqn = None"
      "index_overrides es (Suc i) (AList.update ?fqn (dec, ov_reason e) next) = Inr m"
      by (rule index_overrides_Cons)
    then show ?case
      using Cons.IH(1) [OF dec(3)]
      by (auto simp: update_conv override_of_row_def map_filter_simps)
  next
    case 2
    then obtain dec where dec: "parse_override_decision (ov_decision e) = Some dec" "map_of next ?fqn = None"
      "index_overrides es (Suc i) (AList.update ?fqn (dec, ov_reason e) next) = Inr m"
      by (rule index_overrides_Cons)
    then show ?case
      using Cons.IH(2) [OF dec(3)]
      by (auto simp: update_conv simp del: split_paired_All split_paired_Ex not_None_eq split: if_splits)
  }
qed (simp_all add: map_filter_simps)

interpretation ovr: reloadable_table "parse_overrides yaml" "override_rows yaml" for yaml
  by unfold_locales
    (auto simp: parse_overrides_def override_rows_def index_overrides_rows split: if_splits option.splits prod.splits)

section \<open>Properties\<close>

text \<open>
  C33: a reload is all or nothing. When re-reading the permission catalog or the override file fails,
  for whatever reason (open, read, decode, version, an empty or duplicate method name, an unknown
  decision), the tables in force and the paths they are reloaded from stay as they were; when it
  succeeds, a lookup sees exactly the rows of the first 8 MiB of the file, and no method has two.
\<close>

theorem reload_all_or_nothing:
  assumes "reload (parse_catalog d) fs c = (c', e)" "reload (parse_overrides yaml) fs ov = (ov', e')"
  shows "(e \<noteq> None \<longrightarrow> c' = c) \<and> (e' \<noteq> None \<longrightarrow> ov' = ov) \<and>
    (e = None \<longrightarrow> (\<exists>path content. fc_path c = Some path \<and> fc_path c' = Some path \<and> fs path = Some (Some content) \<and>
       (\<forall>fqn x. catalog_lookup c' fqn = Some x \<longleftrightarrow> (fqn, x) \<in> set (catalog_rows d (take (8 * 2 ^ 20) content))))) \<and>
    (e' = None \<longrightarrow> (\<exists>path content. fc_path ov = Some path \<and> fc_path ov' = Some path \<and> fs path = Some (Some content) \<and>
       (\<forall>fqn x. override_lookup ov' fqn = Some x \<longleftrightarrow>
          (\<exists>r. (fqn, x, r) \<in> set (override_rows yaml (take (8 * 2 ^ 20) content))))))"
proof -
  note c = cat.reload_cases [OF assms(1)] and o = ovr.reload_cases [OF assms(2)]
  have "e = None \<longrightarrow> (\<exists>path content. fc_path c = Some path \<and> fc_path c' = Some path \<and> fs path = Some (Some content) \<and>
       (\<forall>fqn x. catalog_lookup c' fqn = Some x \<longleftrightarrow> (fqn, x) \<in> set (catalog_rows d (take (8 * 2 ^ 20) content))))"
    using c unfolding catalog_lookup_def by blast
  moreover have "e' = None \<longrightarrow> (\<exists>path content. fc_path ov = Some path \<and> fc_path ov' = Some path \<and> fs path = Some (Some content) \<and>
       (\<forall>fqn x. override_lookup ov' fqn = Some x \<longleftrightarrow>
          (\<exists>r. (fqn, x, r) \<in> set (override_rows yaml (take (8 * 2 ^ 20) content)))))"
    using o unfolding override_lookup_def by (fastforce simp: map_option_eq_Some)
  ultimately show ?thesis
    using c o by blast
qed

definition demo_catalog_entry :: "string \<Rightarrow> string \<Rightarrow> string \<Rightarrow> scope_extractor \<Rightarrow> catalog_entry" where
  "demo_catalog_entry fqn perm rel scope = \<lparr>ce_fqn = fqn, ce_permission = perm, ce_required_relation = rel, ce_scope = scope,
     ce_required_acr_min = [], ce_domain = [], ce_resource_type = [], ce_action = [], ce_requires_mfa_fresh = False,
     ce_risk_level = [], ce_description = [], ce_emitted_build_sha = [], ce_hide_existence = False\<rparr>"

definition demo_scope :: scope_extractor where
  "demo_scope = \<lparr>object_type = ''project'', from_request_field = ''*'', object_type_from_request_field = []\<rparr>"

definition demo_decoder :: catalog_decoder where
  "demo_decoder = \<lparr>cd_object = (\<lambda>_. None),
     cd_array = (\<lambda>buf. if buf = ''A'' then Some [demo_catalog_entry ''s/M'' ''p.r.v'' ''viewer'' demo_scope] else None)\<rparr>"

theorem reload_all_or_nothing_witness:
  "\<exists>c'. reload (parse_catalog demo_decoder) (\<lambda>p. if p = ''f'' then Some (Some ''A'') else None) (catalog_new\<lparr>fc_path := Some ''f''\<rparr>) = (c', None) \<and>
     catalog_lookup c' ''s/M'' = Some (demo_catalog_entry ''s/M'' ''p.r.v'' ''viewer'' demo_scope) \<and>
     fst (reload (parse_overrides (\<lambda>_. None)) (\<lambda>p. None) (overrides_new\<lparr>fc_path := Some ''o''\<rparr>)) = overrides_new\<lparr>fc_path := Some ''o''\<rparr>"
proof -
  let ?fs = "\<lambda>p. if p = ''f'' then Some (Some ''A'') else None"
  obtain c' e where c: "reload (parse_catalog demo_decoder) ?fs (catalog_new\<lparr>fc_path := Some ''f''\<rparr>) = (c', e)"
    by fastforce
  obtain ov' e' where o: "reload (parse_overrides (\<lambda>_. None)) ?fs (overrides_new\<lparr>fc_path := Some ''o''\<rparr>) = (ov', e')"
    by fastforce
  have "e = None" "e' \<noteq> None"
    using c o by (auto simp: reload_def load_file_def load_reader_def load_bytes_def parse_catalog_def decode_catalog_def
        demo_decoder_def demo_catalog_entry_def)
  then have "(''s/M'', x) \<in> set (catalog_rows demo_decoder ''A'') \<Longrightarrow> catalog_lookup c' ''s/M'' = Some x" for x
    using reload_all_or_nothing [OF c o] by (auto simp: catalog_new_def split: if_splits)
  moreover have "(''s/M'', demo_catalog_entry ''s/M'' ''p.r.v'' ''viewer'' demo_scope) \<in> set (catalog_rows demo_decoder ''A'')"
    by (simp add: catalog_rows_def decode_catalog_def demo_decoder_def demo_catalog_entry_def)
  ultimately show ?thesis
    using c \<open>e = None\<close> by (auto simp: reload_def load_file_def overrides_new_def)
qed

end
