(* ===== verification/Jwt.thy ===== *)
theory Jwt
  imports Edge_Context
begin

text \<open>
  Access-token verification: JSON web keys (\<^verbatim>\<open>internal/middleware/jwk.go\<close>), the cache of the key set and
  the verifier (\<^verbatim>\<open>internal/middleware/jwt_verifier.go\<close>). The JWT library, the JSON decoder, SHA-256 and the
  HTTP round trip are parameters; base64url, the RSA exponent in a 64-bit \<open>int\<close> and the P-256 curve
  test are computed.
\<close>

section \<open>JSON web keys\<close>

record jwk =
  jkty :: string
  jkid :: string
  jalg :: string
  juse :: string
  jn :: string
  je :: string
  jcrv :: string
  jx :: string
  jy :: string

datatype jwt_error =
    EmptyToken | BadStructure | BadHeader | ErrUnsupportedAlg | ErrAlgMismatch | ErrInvalidJWK
  | ErrKeyNotFound | ErrJWKSFetchFailed | ErrJWKSUnreachable | VerifyFailed | JwtInvalid
  | IssMismatch | BadAudience | AudMismatch

definition allowed_jwt_algs :: "string list" where
  "allowed_jwt_algs = [''RS256'', ''ES256'', ''EdDSA'']"

definition allowed_dpop_algs :: "string list" where
  "allowed_dpop_algs = [''ES256'', ''EdDSA'']"

definition find_by_kid :: "jwk list option \<Rightarrow> string \<Rightarrow> jwt_error + jwk" where
  "find_by_kid s kid =
     (case s of
        None \<Rightarrow> Inl ErrKeyNotFound
      | Some keys \<Rightarrow>
          if keys = [] then Inl ErrKeyNotFound
          else if kid = [] then (if length keys = 1 then Inr (hd keys) else Inl ErrKeyNotFound)
          else (case find (\<lambda>k. jkid k = kid) keys of Some k \<Rightarrow> Inr k | None \<Rightarrow> Inl ErrKeyNotFound))"

datatype public_key = RsaKey nat int | EcKey nat nat | EdKey "nat list"

definition rsa_exponent :: "nat list \<Rightarrow> 64 word" where
  \<comment> \<open>the loop \<open>eInt = eInt << 8 | int(b)\<close> on a 64-bit int\<close>
  "rsa_exponent bs = foldl (\<lambda>acc b. or (push_bit 8 acc) (word_of_nat b)) 0 bs"

definition rsa_from_jwk :: "jwk \<Rightarrow> jwt_error + public_key" where
  "rsa_from_jwk k =
     (if jn k = [] \<or> je k = [] then Inl ErrInvalidJWK
      else case b64url_decode (jn k) of
        None \<Rightarrow> Inl ErrInvalidJWK
      | Some nBytes \<Rightarrow>
          (case b64url_decode (je k) of
             None \<Rightarrow> Inl ErrInvalidJWK
           | Some eBytes \<Rightarrow>
               (let eInt = sint (rsa_exponent eBytes) in
                if eInt \<le> 0 then Inl ErrInvalidJWK else Inr (RsaKey (nat_of_bytes nBytes) eInt))))"

definition p256_p :: nat where
  "p256_p = 0xffffffff00000001000000000000000000000000ffffffffffffffffffffffff"

definition p256_b :: nat where
  "p256_b = 0x5ac635d8aa3a93e7b3ebbd55769886bc651d06b0cc53b0f63bce3c3e27d2604b"

definition p256_on_curve :: "nat \<Rightarrow> nat \<Rightarrow> bool" where
  \<comment> \<open>\<open>elliptic.P256().IsOnCurve\<close>: reduced coordinates with \<open>y\<^sup>2 = x\<^sup>3 - 3 x + b\<close>\<close>
  "p256_on_curve x y \<longleftrightarrow>
     x < p256_p \<and> y < p256_p \<and>
     int y * int y mod int p256_p = (int x * int x * int x - 3 * int x + int p256_b) mod int p256_p"

definition ecdsa_from_jwk :: "jwk \<Rightarrow> jwt_error + public_key" where
  "ecdsa_from_jwk k =
     (if jcrv k \<noteq> ''P-256'' then Inl ErrUnsupportedAlg
      else if jx k = [] \<or> jy k = [] then Inl ErrInvalidJWK
      else case b64url_decode (jx k) of
        None \<Rightarrow> Inl ErrInvalidJWK
      | Some xBytes \<Rightarrow>
          (case b64url_decode (jy k) of
             None \<Rightarrow> Inl ErrInvalidJWK
           | Some yBytes \<Rightarrow>
               (let x = nat_of_bytes xBytes; y = nat_of_bytes yBytes in
                if \<not> p256_on_curve x y then Inl ErrInvalidJWK else Inr (EcKey x y))))"

definition ed25519_from_jwk :: "jwk \<Rightarrow> jwt_error + public_key" where
  "ed25519_from_jwk k =
     (if jcrv k \<noteq> ''Ed25519'' then Inl ErrUnsupportedAlg
      else if jx k = [] then Inl ErrInvalidJWK
      else case b64url_decode (jx k) of
        None \<Rightarrow> Inl ErrInvalidJWK
      | Some xBytes \<Rightarrow> if length xBytes \<noteq> 32 then Inl ErrInvalidJWK else Inr (EdKey xBytes))"

definition public_key_of :: "jwk \<Rightarrow> jwt_error + public_key" where
  "public_key_of k =
     (if jkty k = ''RSA'' then rsa_from_jwk k
      else if jkty k = ''EC'' then ecdsa_from_jwk k
      else if jkty k = ''OKP'' then ed25519_from_jwk k
      else Inl ErrUnsupportedAlg)"

definition alg_for_jwt :: "jwk \<Rightarrow> string" where
  "alg_for_jwt k =
     (if jalg k \<noteq> [] then jalg k
      else if jkty k = ''RSA'' then ''RS256''
      else if jkty k = ''EC'' then (if jcrv k = ''P-256'' then ''ES256'' else [])
      else if jkty k = ''OKP'' then (if jcrv k = ''Ed25519'' then ''EdDSA'' else [])
      else [])"

definition quoted :: "(string \<Rightarrow> string) \<Rightarrow> string \<Rightarrow> string" where
  \<comment> \<open>the verb \<open>%q\<close>; the parameter escapes the contents\<close>
  "quoted esc s = [CHR 0x22] @ esc s @ [CHR 0x22]"

definition thumbprint_input :: "(string \<Rightarrow> string) \<Rightarrow> jwk \<Rightarrow> jwt_error + string" where
  "thumbprint_input esc k =
     (let q = [CHR 0x22]; mem = (\<lambda>name v. q @ name @ q @ '':'' @ quoted esc v) in
      if jkty k = ''RSA'' then
        (if jn k = [] \<or> je k = [] then Inl ErrInvalidJWK
         else Inr (''{'' @ mem ''e'' (je k) @ '','' @ q @ ''kty'' @ q @ '':'' @ q @ ''RSA'' @ q @ '','' @
                   mem ''n'' (jn k) @ ''}''))
      else if jkty k = ''EC'' then
        (if jcrv k = [] \<or> jx k = [] \<or> jy k = [] then Inl ErrInvalidJWK
         else Inr (''{'' @ mem ''crv'' (jcrv k) @ '','' @ q @ ''kty'' @ q @ '':'' @ q @ ''EC'' @ q @ '','' @
                   mem ''x'' (jx k) @ '','' @ mem ''y'' (jy k) @ ''}''))
      else if jkty k = ''OKP'' then
        (if jcrv k = [] \<or> jx k = [] then Inl ErrInvalidJWK
         else Inr (''{'' @ mem ''crv'' (jcrv k) @ '','' @ q @ ''kty'' @ q @ '':'' @ q @ ''OKP'' @ q @ '','' @
                   mem ''x'' (jx k) @ ''}''))
      else Inl ErrUnsupportedAlg)"

definition thumbprint :: "(string \<Rightarrow> string) \<Rightarrow> (string \<Rightarrow> string) \<Rightarrow> jwk \<Rightarrow> jwt_error + string" where
  \<comment> \<open>the second parameter is the base64url encoding of the SHA-256 digest\<close>
  "thumbprint esc sha256_b64 k =
     (case thumbprint_input esc k of Inl e \<Rightarrow> Inl e | Inr c \<Rightarrow> Inr (sha256_b64 c))"

definition parse_jwk_header :: "(string \<Rightarrow> jwk option) \<Rightarrow> string \<Rightarrow> jwt_error + jwk" where
  "parse_jwk_header unmarshal raw =
     (if raw = [] then Inl ErrInvalidJWK
      else case unmarshal raw of
        None \<Rightarrow> Inl ErrInvalidJWK
      | Some k \<Rightarrow> if jkty k = [] then Inl ErrInvalidJWK else Inr k)"

section \<open>Key-set cache\<close>

record jwks_cache =
  jset :: "jwk list option"
  fetched_at :: time
  jwks_ttl :: duration

definition jwks_new :: "duration \<Rightarrow> jwks_cache" where
  "jwks_new ttl = \<lparr>jset = None, fetched_at = 0, jwks_ttl = ttl\<rparr>"

datatype http_answer = TransportError | HttpAnswer int string

definition jwks_fetch :: "(string \<Rightarrow> jwk list option) \<Rightarrow> http_answer \<Rightarrow> jwt_error + jwk list" where
  \<comment> \<open>the parameter decodes a JSON key set; a request that cannot be built is a transport error here\<close>
  "jwks_fetch decode answer =
     (case answer of
        TransportError \<Rightarrow> Inl ErrJWKSUnreachable
      | HttpAnswer status body \<Rightarrow>
          if status \<noteq> 200 then Inl ErrJWKSFetchFailed
          else (case decode (take (2 ^ 20) body) of
                  None \<Rightarrow> Inl ErrJWKSFetchFailed
                | Some keys \<Rightarrow> if keys = [] then Inl ErrJWKSFetchFailed else Inr keys))"

definition jwks_refresh ::
  "jwks_cache \<Rightarrow> (jwt_error + jwk list) \<Rightarrow> time \<Rightarrow> time \<Rightarrow> jwks_cache \<times> jwt_error option" where
  \<comment> \<open>\<open>now\<close> is the reading of the double check, \<open>now'\<close> that of the publication; the answer of the
     endpoint is used only if it is asked\<close>
  "jwks_refresh c fetched now now' =
     (if jset c \<noteq> None \<and> now - fetched_at c < jwks_ttl c then (c, None)
      else (case fetched of
              Inl e \<Rightarrow> (c, Some e)
            | Inr keys \<Rightarrow> (c\<lparr>jset := Some keys, fetched_at := now'\<rparr>, None)))"

definition jwks_resolve ::
  "(jwks_cache \<Rightarrow> jwks_cache) \<Rightarrow> jwks_cache \<Rightarrow> string \<Rightarrow> (jwt_error + jwk list) \<Rightarrow>
   time \<Rightarrow> time \<Rightarrow> time \<Rightarrow> jwks_cache \<times> (jwt_error + jwk)" where
  \<comment> \<open>\<open>others\<close> is what other goroutines publish before this one holds the fetch lock\<close>
  "jwks_resolve others c kid fetched t1 t2 t3 =
     (let stale = (jset c = None \<or> t1 - fetched_at c > jwks_ttl c);
          hit = (if stale then Inl ErrKeyNotFound else find_by_kid (jset c) kid) in
      case hit of
        Inr k \<Rightarrow> (c, Inr k)
      | Inl _ \<Rightarrow>
          (case jwks_refresh (others c) fetched t2 t3 of
             (c', Some e) \<Rightarrow> (c', Inl e)
           | (c', None) \<Rightarrow>
               (c', if jset c' = None then Inl ErrJWKSFetchFailed else find_by_kid (jset c') kid)))"

section \<open>Claims\<close>

definition extract_audience :: "claims \<Rightarrow> jwt_error + string list" where
  "extract_audience cl =
     (case map_of cl ''aud'' of
        None \<Rightarrow> Inr []
      | Some (JStr s) \<Rightarrow> Inr [s]
      | Some (JArr es) \<Rightarrow>
          (case those (map (\<lambda>e. case e of JStr s \<Rightarrow> Some s | _ \<Rightarrow> None) es) of
             Some ss \<Rightarrow> Inr ss
           | None \<Rightarrow> Inl BadAudience)
      | Some _ \<Rightarrow> Inl BadAudience)"

definition audience_contains :: "string list \<Rightarrow> string \<Rightarrow> bool" where
  "audience_contains auds want \<longleftrightarrow> want \<in> set auds"

definition numeric_time :: "json option \<Rightarrow> time option" where
  \<comment> \<open>\<open>None\<close> is the zero \<open>time.Time\<close>\<close>
  "numeric_time v = (case v of Some (JNum n) \<Rightarrow> Some (n * second) | _ \<Rightarrow> None)"

definition string_slice :: "json option \<Rightarrow> string list" where
  "string_slice v =
     (case v of
        Some (JArr es) \<Rightarrow> List.map_filter (\<lambda>e. case e of JStr s \<Rightarrow> Some s | _ \<Rightarrow> None) es
      | Some (JStr s) \<Rightarrow> [s]
      | _ \<Rightarrow> [])"

record confirmation =
  cnf_jkt :: string
  cnf_x5t :: string
  has_jkt :: bool
  has_x5t :: bool
  is_bearer :: bool

record verified_token =
  vt_raw :: string
  vt_kid :: string
  vt_alg :: string
  vt_subject :: string
  vt_issuer :: string
  vt_audience :: "string list"
  vt_issued_at :: "time option"
  vt_expires_at :: "time option"
  vt_not_before :: "time option"
  vt_jti :: string
  vt_acr :: string
  vt_amr :: "string list"
  vt_auth_time :: "time option"
  vt_cnf :: confirmation
  vt_scope :: string
  vt_ext :: "claims option"
  vt_claims :: claims

definition confirmation_of :: "claims \<Rightarrow> confirmation" where
  "confirmation_of cl =
     (let (jkt, x5t) = (case map_of cl ''cnf'' of
            Some (JObj m) \<Rightarrow> (str_claim m ''jkt'', str_claim m ''x5t#S256'')
          | _ \<Rightarrow> ([], []))
      in \<lparr>cnf_jkt = jkt, cnf_x5t = x5t, has_jkt = (jkt \<noteq> []), has_x5t = (x5t \<noteq> []),
          is_bearer = (jkt = [] \<and> x5t = [])\<rparr>)"

section \<open>Verifier\<close>

record jwt_verifier =
  expected_issuer :: string
  expected_audience :: string
  clock_skew :: duration
  allow_missing_audience :: bool

record jwt_header =
  hdr_alg :: string
  hdr_kid :: string
  hdr_typ :: string

definition split_jwt :: "string \<Rightarrow> jwt_error + nat list" where
  "split_jwt token =
     (case split_byte (CHR ''.'') token of
        [a, b, c] \<Rightarrow>
          (case b64url_decode a of
             None \<Rightarrow> Inl BadStructure
           | Some header \<Rightarrow>
               if b64url_decode b = None then Inl BadStructure
               else if b64url_decode c = None then Inl BadStructure
               else Inr header)
      | _ \<Rightarrow> Inl BadStructure)"

definition token_of_claims :: "string \<Rightarrow> jwt_header \<Rightarrow> string list \<Rightarrow> claims \<Rightarrow> verified_token" where
  "token_of_claims token hdr auds cl =
     \<lparr>vt_raw = token, vt_kid = hdr_kid hdr, vt_alg = hdr_alg hdr, vt_subject = str_claim cl ''sub'',
      vt_issuer = str_claim cl ''iss'', vt_audience = auds,
      vt_issued_at = numeric_time (map_of cl ''iat''), vt_expires_at = numeric_time (map_of cl ''exp''),
      vt_not_before = numeric_time (map_of cl ''nbf''), vt_jti = str_claim cl ''jti'',
      vt_acr = str_claim cl ''acr'', vt_amr = string_slice (map_of cl ''amr''),
      vt_auth_time = numeric_time (map_of cl ''auth_time''), vt_cnf = confirmation_of cl,
      vt_scope = str_claim cl ''scope'',
      vt_ext = (case map_of cl ''ext_claims'' of Some (JObj m) \<Rightarrow> Some m | _ \<Rightarrow> None),
      vt_claims = cl\<rparr>"

record jwt_env =
  \<comment> \<open>the code the verifier calls: the JSON decoder of the header, and the JWT library's parser, which
     checks the signature with a key under one algorithm, the times within a leeway, and returns the
     claims and the validity flag\<close>
  env_header :: "nat list \<Rightarrow> jwt_header option"
  env_parse :: "string \<Rightarrow> duration \<Rightarrow> public_key \<Rightarrow> string \<Rightarrow> (claims \<times> bool) option"

definition verify_with_key :: "jwt_env \<Rightarrow> jwt_verifier \<Rightarrow> string \<Rightarrow> jwt_header \<Rightarrow> jwk \<Rightarrow>
    jwt_error + verified_token" where
  \<comment> \<open>\<open>Verify\<close> once the key has been resolved\<close>
  "verify_with_key env v token hdr k =
     (if alg_for_jwt k \<noteq> [] \<and> alg_for_jwt k \<noteq> hdr_alg hdr then Inl ErrAlgMismatch
      else case public_key_of k of
        Inl e \<Rightarrow> Inl e
      | Inr pk \<Rightarrow>
          (case env_parse env (hdr_alg hdr) (clock_skew v) pk token of
             None \<Rightarrow> Inl VerifyFailed
           | Some (cl, valid) \<Rightarrow>
               if \<not> valid then Inl JwtInvalid
               else if str_claim cl ''iss'' \<noteq> expected_issuer v then Inl IssMismatch
               else (case extract_audience cl of
                       Inl e \<Rightarrow> Inl e
                     | Inr auds \<Rightarrow>
                         if expected_audience v \<noteq> [] \<and> \<not> audience_contains auds (expected_audience v) \<and>
                            \<not> allow_missing_audience v
                         then Inl AudMismatch
                         else Inr (token_of_claims token hdr auds cl))))"

definition jwt_verify ::
  "jwt_env \<Rightarrow> jwt_verifier \<Rightarrow> (string \<Rightarrow> jwks_cache \<times> (jwt_error + jwk)) \<Rightarrow> jwks_cache \<Rightarrow> string \<Rightarrow>
   jwks_cache \<times> (jwt_error + verified_token)" where
  \<comment> \<open>the third parameter is \<open>Resolve\<close> on the cache, with its clock readings and the endpoint's answer\<close>
  "jwt_verify env v lookup c token =
     (if token = [] then (c, Inl EmptyToken)
      else case split_jwt token of
        Inl e \<Rightarrow> (c, Inl e)
      | Inr header \<Rightarrow>
          (case env_header env header of
             None \<Rightarrow> (c, Inl BadHeader)
           | Some hdr \<Rightarrow>
               if hdr_alg hdr \<notin> set allowed_jwt_algs then (c, Inl ErrUnsupportedAlg)
               else if equal_fold (hdr_typ hdr) ''dpop+jwt'' then (c, Inl ErrUnsupportedAlg)
               else (case lookup (hdr_kid hdr) of
                       (c', Inl e) \<Rightarrow> (c', Inl e)
                     | (c', Inr k) \<Rightarrow> (c', verify_with_key env v token hdr k))))"

definition jwt_verifier_new ::
  "string \<Rightarrow> duration \<Rightarrow> string \<Rightarrow> string \<Rightarrow> duration \<Rightarrow> bool \<Rightarrow> string + jwt_verifier \<times> jwks_cache" where
  "jwt_verifier_new url jttl issuer aud skew allowMissing =
     (if url = [] then Inl ''jwt verifier: JWKSURL is required''
      else if issuer = [] then Inl ''jwt verifier: ExpectedIssuer is required''
      else Inr (\<lparr>expected_issuer = issuer, expected_audience = aud,
                 clock_skew = (if skew \<le> 0 then 30 * second else skew),
                 allow_missing_audience = allowMissing\<rparr>,
                jwks_new (if jttl \<le> 0 then 5 * minute else jttl)))"

section \<open>The contract of a token verifier\<close>

text \<open>
  \<open>TokenVerifier\<close> is the interface through which the interceptors see the verifier. The client may
  rely on the token it gets being the one it presented and authentic in the sense of the provider.
\<close>

locale token_verifier =
  fixes verify :: "'s \<Rightarrow> string \<Rightarrow> 's \<times> (jwt_error + verified_token)"
    and authentic :: "string \<Rightarrow> verified_token \<Rightarrow> bool"
  assumes verify_authentic: "verify s tok = (s', Inr t) \<Longrightarrow> authentic tok t"
    and verify_raw: "verify s tok = (s', Inr t) \<Longrightarrow> vt_raw t = tok"
    and verify_empty: "\<exists>e. snd (verify s []) = Inl e"
begin

lemma verified_nonempty: "verify s tok = (s', Inr t) \<Longrightarrow> tok \<noteq> []"
  using verify_empty [of s] by auto

lemma same_token: "verify s tok = (s', Inr t) \<Longrightarrow> verify r tok' = (r', Inr t) \<Longrightarrow> tok' = tok"
  by (metis verify_raw)

end

definition jwt_authentic :: "jwt_env \<Rightarrow> jwt_verifier \<Rightarrow> string \<Rightarrow> verified_token \<Rightarrow> bool" where
  \<comment> \<open>signed under an allowed algorithm by a well-formed key made for that algorithm, with the
     expected issuer and audience\<close>
  "jwt_authentic env v tok t \<longleftrightarrow>
     vt_raw t = tok \<and> vt_alg t \<in> set allowed_jwt_algs \<and> vt_issuer t = expected_issuer v \<and>
     (expected_audience v \<noteq> [] \<and> \<not> allow_missing_audience v \<longrightarrow> expected_audience v \<in> set (vt_audience t)) \<and>
     (\<exists>k pk. (alg_for_jwt k = [] \<or> alg_for_jwt k = vt_alg t) \<and> public_key_of k = Inr pk \<and>
        env_parse env (vt_alg t) (clock_skew v) pk tok = Some (vt_claims t, True))"

lemma verify_with_key_authentic:
  assumes "verify_with_key env v token hdr k = Inr t" "hdr_alg hdr \<in> set allowed_jwt_algs"
  shows "jwt_authentic env v token t" "vt_kid t = hdr_kid hdr"
    "\<exists>pk. (alg_for_jwt k = [] \<or> alg_for_jwt k = vt_alg t) \<and> public_key_of k = Inr pk \<and>
        env_parse env (vt_alg t) (clock_skew v) pk token = Some (vt_claims t, True)"
  using assms
  by (auto simp: verify_with_key_def jwt_authentic_def token_of_claims_def audience_contains_def
      split: if_splits sum.splits option.splits prod.splits)

lemma jwt_verify_Inr:
  assumes "jwt_verify env v lookup c token = (c', Inr t)"
  obtains header hdr k where "token \<noteq> []" "split_jwt token = Inr header" "env_header env header = Some hdr"
    "hdr_alg hdr \<in> set allowed_jwt_algs" "\<not> equal_fold (hdr_typ hdr) ''dpop+jwt''"
    "lookup (hdr_kid hdr) = (c', Inr k)" "verify_with_key env v token hdr k = Inr t"
  using assms by (auto simp: jwt_verify_def split: if_splits sum.splits option.splits prod.splits)

interpretation jv: token_verifier "\<lambda>c. jwt_verify env v (lookup c) c" "jwt_authentic env v" for env v lookup
proof
  fix s tok s' t
  assume "jwt_verify env v (lookup s) s tok = (s', Inr t)"
  then show "jwt_authentic env v tok t"
    by (rule jwt_verify_Inr) (simp add: verify_with_key_authentic)
  then show "vt_raw t = tok"
    by (simp add: jwt_authentic_def)
next
  show "\<exists>e. snd (jwt_verify env v (lookup s) s []) = Inl e" for s
    by (simp add: jwt_verify_def)
qed

section \<open>Keys in the cache\<close>

lemma find_by_kid_Inr:
  "find_by_kid s kid = Inr k \<longleftrightarrow>
     (\<exists>keys. s = Some keys \<and>
        (if kid = [] then keys = [k] else find (\<lambda>k. jkid k = kid) keys = Some k))"
proof (cases s)
  case (Some keys)
  have "length keys = 1 \<longleftrightarrow> (\<exists>x. keys = [x])"
    by (cases keys) auto
  with Some show ?thesis
    by (cases keys) (auto simp: find_by_kid_def split: option.splits if_splits)
qed (simp add: find_by_kid_def)

lemma jwks_resolve_Inr:
  assumes "jwks_resolve others c kid fetched t1 t2 t3 = (c', Inr k)"
  shows "find_by_kid (jset c') kid = Inr k \<and>
    (c' = c \<and> t1 - fetched_at c \<le> jwks_ttl c \<or>
     c' = others c \<and> t2 - fetched_at c' < jwks_ttl c' \<or>
     (\<exists>keys. fetched = Inr keys \<and> jset c' = Some keys \<and> fetched_at c' = t3))"
  using assms
  by (auto simp: jwks_resolve_def jwks_refresh_def Let_def
      split: sum.splits if_splits prod.splits option.splits)

section \<open>Properties\<close>

text \<open>
  C8: a token the verifier accepts was parsed by the JWT library under the algorithm of its header,
  which is RS256, ES256 or EdDSA, with the public key that the key set holds under the token's key
  identifier (the only key when there is none), a key whose own algorithm, if determined, is that one;
  its type is not that of a DPoP proof, the issuer is the expected one, and so is the audience unless
  the verifier is configured without one. The keys are not older than the cache's TTL.
\<close>

theorem verified_token_authentic:
  assumes "jwt_verify env v (\<lambda>kid. jwks_resolve others c kid fetched t1 t2 t3) c tok = (c', Inr t)"
  shows "jwt_authentic env v tok t \<and>
    (\<exists>k pk. find_by_kid (jset c') (vt_kid t) = Inr k \<and>
       (alg_for_jwt k = [] \<or> alg_for_jwt k = vt_alg t) \<and> public_key_of k = Inr pk \<and>
       env_parse env (vt_alg t) (clock_skew v) pk tok = Some (vt_claims t, True)) \<and>
    (c' = c \<and> t1 - fetched_at c \<le> jwks_ttl c \<or>
     c' = others c \<and> t2 - fetched_at c' < jwks_ttl c' \<or>
     (\<exists>keys. fetched = Inr keys \<and> jset c' = Some keys \<and> fetched_at c' = t3))"
proof (rule jwt_verify_Inr [OF assms])
  fix header hdr k
  assume k: "hdr_alg hdr \<in> set allowed_jwt_algs" "verify_with_key env v tok hdr k = Inr t"
    "jwks_resolve others c (hdr_kid hdr) fetched t1 t2 t3 = (c', Inr k)"
  show ?thesis
    using verify_with_key_authentic [OF k(2,1)] jwks_resolve_Inr [OF k(3)] by metis
qed

definition demo_env :: jwt_env where
  "demo_env = \<lparr>env_header = (\<lambda>_. Some \<lparr>hdr_alg = ''EdDSA'', hdr_kid = ''k1'', hdr_typ = ''at+jwt''\<rparr>),
     env_parse = (\<lambda>alg skew pk tok. Some ([(''iss'', JStr ''https://hydra''), (''sub'', JStr ''u1'')], True))\<rparr>"

definition demo_verifier :: jwt_verifier where
  "demo_verifier = \<lparr>expected_issuer = ''https://hydra'', expected_audience = [], clock_skew = 30 * second,
     allow_missing_audience = False\<rparr>"

definition demo_jwks :: jwks_cache where
  "demo_jwks = \<lparr>jset = Some [\<lparr>jkty = ''OKP'', jkid = ''k1'', jalg = [], juse = ''sig'', jn = [], je = [],
     jcrv = ''Ed25519'', jx = ''AAAAAAAAAAAAAAAAAAAAAAAAAAAAAAAAAAAAAAAAAAA'', jy = []\<rparr>],
     fetched_at = 0, jwks_ttl = 5 * minute\<rparr>"

lemma demo_verify:
  "case snd (jwt_verify demo_env demo_verifier
       (\<lambda>kid. jwks_resolve (\<lambda>c. c) demo_jwks kid (Inl ErrJWKSUnreachable) second second second) demo_jwks
       ''e30.e30.AA'')
   of Inl e \<Rightarrow> False | Inr t \<Rightarrow> vt_subject t = ''u1''"
  by code_simp

theorem verified_token_authentic_witness:
  "\<exists>t. vt_subject t = ''u1'' \<and> jwt_authentic demo_env demo_verifier ''e30.e30.AA'' t"
proof -
  obtain c t where v: "jwt_verify demo_env demo_verifier
      (\<lambda>kid. jwks_resolve (\<lambda>c. c) demo_jwks kid (Inl ErrJWKSUnreachable) second second second) demo_jwks
      ''e30.e30.AA'' = (c, Inr t)" and "vt_subject t = ''u1''"
    using demo_verify by (auto split: sum.splits simp: prod_eq_iff)
  with verified_token_authentic [OF v] show ?thesis by blast
qed

lemma word_byte_bits: "b < 256 \<Longrightarrow> bit (word_of_nat b :: 64 word) n \<Longrightarrow> n < 8"
proof -
  assume "b < 256" "bit (word_of_nat b :: 64 word) n"
  then have "bit b n" "take_bit 8 b = b"
    by (simp_all add: bit_of_nat_iff take_bit_nat_eq_self_iff)
  then show "n < 8"
    by (metis bit_take_bit_iff)
qed

lemma or_push_bit_byte:
  assumes "b < 256"
  shows "or (push_bit 8 (acc :: 64 word)) (word_of_nat b) = acc * 256 + word_of_nat b"
proof -
  have "and (push_bit 8 acc) (word_of_nat b) = 0"
    using word_byte_bits [OF assms] by (fastforce simp: bit_eq_iff bit_and_iff bit_push_bit_iff)
  then show ?thesis
    by (simp add: disjunctive_add_eq_or [symmetric] push_bit_eq_mult mult.commute)
qed

lemma rsa_exponent_value:
  "(\<And>b. b \<in> set bs \<Longrightarrow> b < 256) \<Longrightarrow> rsa_exponent bs = word_of_nat (nat_of_bytes bs)"
proof (induction bs rule: rev_induct)
  case (snoc b bs)
  then show ?case
    by (simp add: rsa_exponent_def nat_of_bytes_def or_push_bit_byte)
qed (simp add: rsa_exponent_def nat_of_bytes_def)

text \<open>
  C38: the RSA exponent. The loop on a 64-bit \<open>int\<close> computes the big-endian value of the bytes modulo
  \<open>2^64\<close>: the value is exact below \<open>2^63\<close>, and leading bytes of a longer encoding are lost.
\<close>

theorem rsa_exponent_bounds:
  assumes "\<forall>b \<in> set bs. b < 256"
  shows "unat (rsa_exponent bs) = nat_of_bytes bs mod 2 ^ 64 \<and>
    (nat_of_bytes bs < 2 ^ 63 \<longrightarrow> sint (rsa_exponent bs) = int (nat_of_bytes bs))"
proof
  have e: "rsa_exponent bs = word_of_nat (nat_of_bytes bs)"
    using assms by (intro rsa_exponent_value) simp
  show "unat (rsa_exponent bs) = nat_of_bytes bs mod 2 ^ 64"
    by (simp add: e unat_of_nat)
  show "nat_of_bytes bs < 2 ^ 63 \<longrightarrow> sint (rsa_exponent bs) = int (nat_of_bytes bs)"
    by (auto simp: e signed_of_nat signed_take_bit_int_eq_self_iff)
qed

theorem rsa_exponent_bounds_witness:
  "sint (rsa_exponent [1, 0, 1]) = 65537 \<and> unat (rsa_exponent [5, 0, 0, 0, 0, 0, 1, 0, 1]) = 65537"
  using rsa_exponent_bounds [of "[1, 0, 1]"] rsa_exponent_bounds [of "[5, 0, 0, 0, 0, 0, 1, 0, 1]"]
  by (simp add: nat_of_bytes_def)

text \<open>
  While the cached key set is fresh, a key identifier that it does not hold is refused without
  asking the endpoint: the answer of the endpoint plays no role, so that a key published after the
  last fetch is unknown until the set expires.
\<close>

theorem unknown_kid_not_refetched:
  assumes "jset c = Some keys" "t1 \<le> t2" "t2 - fetched_at c < jwks_ttl c" "find_by_kid (jset c) kid = Inl e"
  shows "jwks_resolve (\<lambda>c. c) c kid fetched t1 t2 t3 = (c, Inl e)"
  using assms by (simp add: jwks_resolve_def jwks_refresh_def)

theorem unknown_kid_not_refetched_witness:
  "jwks_resolve (\<lambda>c. c) demo_jwks ''k2'' (Inr [\<lparr>jkty = ''OKP'', jkid = ''k2'', jalg = [], juse = [], jn = [], je = [],
     jcrv = [], jx = [], jy = []\<rparr>]) second second second = (demo_jwks, Inl ErrKeyNotFound)"
  using unknown_kid_not_refetched [of demo_jwks _ second second "''k2''" ErrKeyNotFound]
  by (simp add: demo_jwks_def find_by_kid_def)

end
