(* ===== verification/Gateway_Caches.thy ===== *)
theory Gateway_Caches
  imports Lru_Cache
begin

text \<open>
  The caches built on the LRU primitive: the subject cache
  (\<^verbatim>\<open>internal/cache/subject_cache.go\<close>), the DPoP replay cache
  (\<^verbatim>\<open>dpop_replay_cache.go\<close>), the authorization decision cache and its key
  (\<^verbatim>\<open>authz_cache.go\<close>), the token introspection cache (\<^verbatim>\<open>introspection_cache.go\<close>) and the Kratos
  session cache (\<^verbatim>\<open>kratos_session.go\<close>), all under \<^verbatim>\<open>internal/\<close>. A call to a remote service is a
  parameter. Introspection releases the lock while it waits for the remote answer, so it is two
  atomic steps with arbitrary other operations between them.
\<close>

section \<open>Subject cache\<close>

record subject =
  subject_type :: string
  subject_id :: string
  subject_display :: string

type_synonym subject_cache = "(string, subject) cache"

definition subject_cache_new :: "int \<Rightarrow> duration \<Rightarrow> subject_cache" where
  "subject_cache_new n ttl =
     lru_new (if n \<le> 0 then 10000 else n) (if ttl \<le> 0 then 30 * second else ttl)"

definition subject_cache_get :: "subject_cache \<Rightarrow> string \<Rightarrow> time \<Rightarrow> subject_cache \<times> subject option" where
  "subject_cache_get c k now = lru_get c k now"

definition subject_cache_set :: "subject_cache \<Rightarrow> string \<Rightarrow> subject \<Rightarrow> time \<Rightarrow> subject_cache" where
  "subject_cache_set c k v now = lru_put c k v now"

definition subject_cache_invalidate :: "subject_cache \<Rightarrow> string \<Rightarrow> subject_cache" where
  "subject_cache_invalidate c k = invalidate_key c k"

definition subject_cache_invalidate_all :: "subject_cache \<Rightarrow> subject_cache" where
  "subject_cache_invalidate_all c = invalidate c"

definition subject_cache_len :: "subject_cache \<Rightarrow> time \<Rightarrow> nat" where
  "subject_cache_len c now = lru_len c now"

section \<open>DPoP replay cache\<close>

datatype replay_error = EmptyJti | ErrDPoPReplay

type_synonym replay_cache = "(string, unit) cache"

definition replay_new :: "int \<Rightarrow> duration \<Rightarrow> replay_cache" where
  "replay_new maxEntries ttl =
     lru_new (if maxEntries \<le> 0 then 100000 else maxEntries) (if ttl \<le> 0 then 120 * second else ttl)"

definition replay_add ::
  "replay_cache \<Rightarrow> string \<Rightarrow> time \<Rightarrow> time \<Rightarrow> replay_cache \<times> replay_error option" where
  "replay_add c jti now now' =
     (if jti = [] then (c, Some EmptyJti)
      else (let (c', added) = add_if_absent c jti () now now' in
            if \<not> added then (c', Some ErrDPoPReplay) else (c', None)))"

definition replay_len :: "replay_cache \<Rightarrow> time \<Rightarrow> nat" where
  "replay_len c now = lru_len c now"

definition replay_purge :: "replay_cache \<Rightarrow> replay_cache" where
  "replay_purge c = invalidate c"

section \<open>Authorization decision cache\<close>

record decision_entry =
  de_allowed :: bool
  de_reasons :: "string list"

type_synonym decision_cache = "(string, decision_entry) cache"

definition decision_cache_new :: "int \<Rightarrow> duration \<Rightarrow> decision_cache" where
  "decision_cache_new n ttl = lru_new n ttl"

definition decision_get ::
  "decision_cache \<Rightarrow> string \<Rightarrow> time \<Rightarrow> decision_cache \<times> decision_entry option" where
  "decision_get c k now = lru_get c k now"

definition decision_put :: "decision_cache \<Rightarrow> string \<Rightarrow> decision_entry \<Rightarrow> time \<Rightarrow> decision_cache" where
  "decision_put c k v now = lru_put c k v now"

definition decision_generation :: "decision_cache \<Rightarrow> 64 word" where
  "decision_generation c = generation c"

definition decision_put_if_gen ::
  "decision_cache \<Rightarrow> string \<Rightarrow> decision_entry \<Rightarrow> 64 word \<Rightarrow> time \<Rightarrow> decision_cache" where
  "decision_put_if_gen c k v g now = put_if_gen c k v g now"

definition decision_invalidate :: "decision_cache \<Rightarrow> decision_cache" where
  "decision_invalidate c = invalidate c"

definition decision_invalidate_subject :: "decision_cache \<Rightarrow> string \<Rightarrow> decision_cache \<times> nat" where
  "decision_invalidate_subject c subj =
     (if subj = [] then (c, 0)
      else invalidate_where c (\<lambda>key. has_prefix key (subj @ ''|'')))"

definition decision_size :: "decision_cache \<Rightarrow> time \<Rightarrow> nat" where
  "decision_size c now = lru_len c now"

text \<open>
  The Conditions context is a map from reserved keys to strings, integers or string lists, plus the
  forwarded claims, whose names start with \<open>kacho_\<close> and so never clash with a reserved key.
\<close>

datatype ctx_value = CStr string | CInt int | CStrs "string list"

record context_map =
  ctx_vals :: "(string \<times> ctx_value) list"
  ctx_forward :: claims

fun sprint :: "ctx_value \<Rightarrow> string" where
  "sprint (CStr s) = s"
| "sprint (CInt i) = int_str i"
| "sprint (CStrs xs) = ''['' @ join_with '' '' xs @ '']''"

definition cache_key_fields :: "string list" where
  \<comment> \<open>the list of \<open>buildCacheKey\<close> after \<open>sort.Strings\<close>\<close>
  "cache_key_fields =
     [''acr_value'', ''amr_claims'', ''client_ip'', ''device_attestation'', ''device_id'',
      ''mfa_at'', ''passkey_aaguid'']"

definition cache_key_parts ::
  "string \<Rightarrow> string \<Rightarrow> string \<Rightarrow> string \<Rightarrow> context_map option \<Rightarrow> string list" where
  "cache_key_parts subj action rtype rid ctx =
     [subj, action, rtype, rid] @
     (case ctx of
        None \<Rightarrow> []
      | Some m \<Rightarrow>
          List.map_filter
            (\<lambda>k. map_option (\<lambda>v. k @ ''='' @ sprint v) (map_of (ctx_vals m) k)) cache_key_fields)"

definition build_cache_key ::
  "(string \<Rightarrow> string) \<Rightarrow> string \<Rightarrow> string \<Rightarrow> string \<Rightarrow> string \<Rightarrow> context_map option \<Rightarrow> string" where
  \<comment> \<open>the parameter is \<open>hex(sha256(_))\<close>\<close>
  "build_cache_key sha256_hex subj action rtype rid ctx =
     subj @ ''|'' @ sha256_hex (join_with ''|'' (cache_key_parts subj action rtype rid ctx))"

section \<open>Token introspection cache\<close>

record introspection_result =
  ir_active :: bool
  ir_subject :: string
  ir_scope :: string
  ir_expiry :: int
  ir_client_id :: string
  ir_token_use :: string

definition ir_zero :: introspection_result where
  "ir_zero = \<lparr>ir_active = False, ir_subject = [], ir_scope = [], ir_expiry = 0,
     ir_client_id = [], ir_token_use = []\<rparr>"

datatype introspect_error =
    UrlRequired | JtiRequired | RawTokenRequired | ErrTokenInactive
  | FetchFailed string | BadStatus int string | DecodeFailed string

record introspection_cache =
  ic_url :: string
  ic_ttl :: duration
  ic_basic_user :: string
  ic_basic_pass :: string
  ic_cache :: "(string, introspection_result) cache"

definition introspection_new ::
  "string \<Rightarrow> int \<Rightarrow> duration \<Rightarrow> string \<Rightarrow> string \<Rightarrow> introspect_error + introspection_cache" where
  "introspection_new url maxEntries ttl user pass =
     (if url = [] then Inl UrlRequired
      else (let n = (if maxEntries \<le> 0 then 10000 else maxEntries);
                t = (if ttl \<le> 0 then 5 * second else ttl)
            in Inr \<lparr>ic_url = url, ic_ttl = t, ic_basic_user = user, ic_basic_pass = pass,
                    ic_cache = lru_new n t\<rparr>))"

record http_post =
  post_url :: string
  post_form :: "(string \<times> string) list"
  post_header :: header
  post_basic_auth :: "(string \<times> string) option"

definition fetch_hydra ::
  "(http_post \<Rightarrow> string + int \<times> string) \<Rightarrow> (string \<Rightarrow> string + introspection_result) \<Rightarrow>
   introspection_cache \<Rightarrow> string \<Rightarrow> introspect_error + introspection_result" where
  \<comment> \<open>parameters: the HTTP round trip (an error of building or sending the request, or the status
     and the body) and the JSON decoder\<close>
  "fetch_hydra http decode c rawToken =
     (let req = \<lparr>post_url = ic_url c, post_form = [(''token'', rawToken)],
                 post_header = hset (hset [] ''Content-Type'' ''application/x-www-form-urlencoded'')
                                 ''Accept'' ''application/json'',
                 post_basic_auth =
                   (if ic_basic_user c \<noteq> [] then Some (ic_basic_user c, ic_basic_pass c) else None)\<rparr>
      in case http req of
           Inl e \<Rightarrow> Inl (FetchFailed e)
         | Inr (status, body) \<Rightarrow>
             if status \<noteq> 200 then Inl (BadStatus status (take 1024 body))
             else (case decode (take (2 ^ 20) body) of
                     Inl e \<Rightarrow> Inl (DecodeFailed e)
                   | Inr r \<Rightarrow> Inr r))"

datatype lookup_outcome =
    Answered introspection_result "introspect_error option"
  | Missed

definition introspect_lookup ::
  "introspection_cache \<Rightarrow> string \<Rightarrow> string \<Rightarrow> time \<Rightarrow> introspection_cache \<times> lookup_outcome" where
  \<comment> \<open>the part of \<open>Introspect\<close> before the remote call\<close>
  "introspect_lookup c jti rawToken now =
     (if jti = [] then (c, Answered ir_zero (Some JtiRequired))
      else if rawToken = [] then (c, Answered ir_zero (Some RawTokenRequired))
      else (let (l, hit) = lru_get (ic_cache c) jti now; c1 = c\<lparr>ic_cache := l\<rparr> in
            case hit of
              Some r \<Rightarrow> (c1, Answered r (if ir_active r then None else Some ErrTokenInactive))
            | None \<Rightarrow> (c1, Missed)))"

definition introspect_finish ::
  "introspection_cache \<Rightarrow> string \<Rightarrow> 64 word \<Rightarrow> introspect_error + introspection_result \<Rightarrow>
   time \<Rightarrow> time \<Rightarrow> introspection_cache \<times> introspection_result \<times> introspect_error option" where
  \<comment> \<open>the part after the remote call; \<open>now\<close> is read for the exp clamp, \<open>now'\<close> by the store\<close>
  "introspect_finish c jti g fetched now now' =
     (case fetched of
        Inl e \<Rightarrow> (c, ir_zero, Some e)
      | Inr res \<Rightarrow>
          (let untilExp = ir_expiry res * second - now in
           if ir_expiry res > 0 \<and> untilExp \<le> 0 then
             (c, res\<lparr>ir_active := False\<rparr>, Some ErrTokenInactive)
           else
             (let ttl = (if ir_expiry res > 0 \<and> untilExp < ic_ttl c then untilExp else ic_ttl c);
                  c1 = c\<lparr>ic_cache := put_if_gen_with_ttl (ic_cache c) jti res ttl g now'\<rparr>
              in (c1, res, if ir_active res then None else Some ErrTokenInactive))))"

definition introspect_invalidate :: "introspection_cache \<Rightarrow> string \<Rightarrow> introspection_cache" where
  "introspect_invalidate c jti =
     c\<lparr>ic_cache := fst (invalidate_where (ic_cache c) (\<lambda>k. k = jti))\<rparr>"

definition introspect_len :: "introspection_cache \<Rightarrow> time \<Rightarrow> nat" where
  "introspect_len c now = lru_len (ic_cache c) now"

definition introspect ::
  "(introspection_cache \<Rightarrow> introspection_cache) \<Rightarrow> (introspection_cache \<Rightarrow> introspection_cache) \<Rightarrow>
   (string \<Rightarrow> introspect_error + introspection_result) \<Rightarrow> introspection_cache \<Rightarrow> string \<Rightarrow> string \<Rightarrow>
   time \<Rightarrow> time \<Rightarrow> time \<Rightarrow> introspection_cache \<times> introspection_result \<times> introspect_error option" where
  \<comment> \<open>the whole of \<open>Introspect\<close>; \<open>before\<close> and \<open>during\<close> are what other goroutines do to the cache
     between the lookup and the reading of the generation, and during the remote call\<close>
  "introspect before during fetch c jti rawToken t1 t2 t3 =
     (case introspect_lookup c jti rawToken t1 of
        (c1, Answered r e) \<Rightarrow> (c1, r, e)
      | (c1, Missed) \<Rightarrow>
          (let c2 = before c1; g = generation (ic_cache c2) in
           introspect_finish (during c2) jti g (fetch rawToken) t2 t3))"

section \<open>Kratos session cache\<close>

record whoami =
  who_identity :: string
  who_email :: string
  who_display :: string
  who_active :: bool

definition whoami_zero :: whoami where
  "whoami_zero = \<lparr>who_identity = [], who_email = [], who_display = [], who_active = False\<rparr>"

record kratos_session =
  ks_active :: bool
  ks_id :: string
  ks_email :: string
  ks_first :: string
  ks_last :: string

record kratos_entry =
  ke_res :: whoami
  ke_active :: bool

record kratos_client =
  kc_base_url :: string
  kc_cache :: "(string, kratos_entry) cache"
  kc_positive_ttl :: duration
  kc_negative_ttl :: duration

definition kratos_new :: "string \<Rightarrow> kratos_client" where
  "kratos_new baseURL =
     \<lparr>kc_base_url = trim_right_byte (CHR ''/'') baseURL, kc_cache = lru_new 4096 (30 * second),
      kc_positive_ttl = 30 * second, kc_negative_ttl = 5 * second\<rparr>"

definition kratos_fetch ::
  "(string \<Rightarrow> string \<Rightarrow> (int \<times> string) option) \<Rightarrow> (string \<Rightarrow> kratos_session option) \<Rightarrow>
   kratos_client \<Rightarrow> string \<Rightarrow> whoami" where
  \<comment> \<open>parameters: GET with a Cookie header (None on a transport error) and the JSON decoder\<close>
  "kratos_fetch http decode c cookieHeader =
     (case http (kc_base_url c @ ''/sessions/whoami'') cookieHeader of
        None \<Rightarrow> whoami_zero
      | Some (status, body) \<Rightarrow>
          if status \<noteq> 200 then whoami_zero
          else (case decode (take (2 ^ 20) body) of
                  None \<Rightarrow> whoami_zero
                | Some s \<Rightarrow>
                    (let first = trim_space (ks_first s); last = trim_space (ks_last s);
                         dn = (if first \<noteq> [] \<or> last \<noteq> [] then trim_space (first @ '' '' @ last)
                               else ks_email s)
                     in \<lparr>who_identity = ks_id s, who_email = ks_email s, who_display = dn,
                         who_active = ks_active s\<rparr>)))"

definition kratos_whoami ::
  "(kratos_client \<Rightarrow> string \<Rightarrow> whoami) \<Rightarrow> kratos_client \<Rightarrow> string \<Rightarrow> time \<Rightarrow> time \<Rightarrow>
   kratos_client \<times> whoami" where
  "kratos_whoami fetch c cookieHeader now now' =
     (if cookieHeader = [] \<or> kc_base_url c = [] then (c, whoami_zero)
      else (let (l, hit) = lru_get (kc_cache c) cookieHeader now; c1 = c\<lparr>kc_cache := l\<rparr> in
            case hit of
              Some e \<Rightarrow> (c1, if ke_active e then ke_res e else whoami_zero)
            | None \<Rightarrow>
                (let res = fetch c1 cookieHeader in
                 if who_active res then
                   (c1\<lparr>kc_cache := put_with_ttl (kc_cache c1) cookieHeader
                        \<lparr>ke_res = res, ke_active = True\<rparr> (kc_positive_ttl c1) now'\<rparr>, res)
                 else
                   (c1\<lparr>kc_cache := put_with_ttl (kc_cache c1) cookieHeader
                        \<lparr>ke_res = whoami_zero, ke_active = False\<rparr> (kc_negative_ttl c1) now'\<rparr>, res))))"

section \<open>Subject revocation in the decision cache\<close>

lemma cache_key_prefix: "has_prefix (build_cache_key h subj a rt rid ctx) (subj @ ''|'')"
  by (auto simp: build_cache_key_def has_prefix_iff)

lemma subject_prefix_unique:
  assumes "CHR ''|'' \<notin> set s" "CHR ''|'' \<notin> set s'" "has_prefix (s' @ ''|'' @ x) (s @ ''|'')"
  shows "s' = s"
proof -
  obtain t where "s' @ CHR ''|'' # x = s @ CHR ''|'' # t"
    using assms(3) by (auto simp: has_prefix_iff)
  then have "split_byte (CHR ''|'') (s' @ CHR ''|'' # x) = split_byte (CHR ''|'') (s @ CHR ''|'' # t)"
    by simp
  then show ?thesis
    using assms(1,2) by (simp add: split_byte_append)
qed

lemma decision_invalidate_subject_view:
  assumes "lru_inv c" "subj \<noteq> []"
  shows "lru_view (fst (decision_invalidate_subject c subj)) k now =
    (if has_prefix k (subj @ ''|'') then None else lru_view c k now)"
  using assms by (simp add: decision_invalidate_subject_def view_invalidate_where)

text \<open>
  Revoking a subject removes every decision cached for it, whatever the action, the resource
  and the context, moves the generation, so that a check in flight cannot put a stale decision
  back, and keeps the decisions of every other subject. Subjects do not contain the separator.
\<close>

theorem invalidate_subject_exact:
  assumes "lru_inv c" "subj \<noteq> []" "CHR ''|'' \<notin> set subj" "CHR ''|'' \<notin> set subj'"
  shows "snd (decision_get (fst (decision_invalidate_subject c subj))
           (build_cache_key h subj' act rtype rid ctx) now) =
         (if subj' = subj then None
          else snd (decision_get c (build_cache_key h subj' act rtype rid ctx) now)) \<and>
         decision_generation (fst (decision_invalidate_subject c subj)) = decision_generation c + 1"
proof -
  have "has_prefix (build_cache_key h subj' act rtype rid ctx) (subj @ ''|'') \<longleftrightarrow> subj' = subj"
    using assms subject_prefix_unique [of subj subj'] cache_key_prefix [of h subj]
    by (auto simp: build_cache_key_def)
  then show ?thesis
    using assms decision_invalidate_subject_view [of c subj]
    by (simp add: decision_get_def lru_get_view decision_generation_def generation_def)
      (simp add: decision_invalidate_subject_def lru.epoch_purge)
qed

theorem invalidate_subject_exact_witness:
  "\<exists>c :: decision_cache. snd (decision_get c (build_cache_key (\<lambda>_. ''00'') ''user:a'' ''get'' ''vpc'' ''x'' None) 2) \<noteq> None \<and>
     snd (decision_get (fst (decision_invalidate_subject c ''user:a''))
       (build_cache_key (\<lambda>_. ''00'') ''user:a'' ''get'' ''vpc'' ''x'' None) 2) = None"
proof (intro exI conjI)
  let ?k = "build_cache_key (\<lambda>_. ''00'') ''user:a'' ''get'' ''vpc'' ''x'' None"
  let ?c = "put_locked (lru_new 10 5) ?k \<lparr>de_allowed = True, de_reasons = []\<rparr> 5 1 :: decision_cache"
  show "snd (decision_get ?c ?k 2) \<noteq> None"
    by (simp add: decision_get_def lru.fetch_after_store lru_new_inv)
  show "snd (decision_get (fst (decision_invalidate_subject ?c ''user:a'')) ?k 2) = None"
    using invalidate_subject_exact [of ?c "''user:a''" "''user:a''" "\<lambda>_. ''00''" "''get''" "''vpc''" "''x''" None 2]
    by (simp add: lru_invs)
qed

section \<open>Decision cache keys\<close>

lemma cache_key_parts_nonempty: "cache_key_parts s a t r ctx \<noteq> []"
  by (simp add: cache_key_parts_def)

lemma join_parts_inj:
  assumes "join_with [c] ps = join_with [c] qs" "ps \<noteq> []" "qs \<noteq> []"
    and "\<And>p. p \<in> set ps \<Longrightarrow> c \<notin> set p" "\<And>q. q \<in> set qs \<Longrightarrow> c \<notin> set q"
  shows "ps = qs"
  by (metis assms split_join_byte)

text \<open>
  Two requests share a decision-cache key only if they are for the same subject, action,
  resource and Conditions context fields, or they exhibit a collision of the hash; this needs that
  no part contains the separator.
\<close>

theorem cache_key_separates:
  assumes "build_cache_key h s a t r ctx = build_cache_key h s' a' t' r' ctx'"
    and "\<forall>p \<in> set (cache_key_parts s a t r ctx) \<union> set (cache_key_parts s' a' t' r' ctx'). CHR ''|'' \<notin> set p"
  shows "(s, a, t, r) = (s', a', t', r') \<and> cache_key_parts s a t r ctx = cache_key_parts s' a' t' r' ctx' \<or>
    (\<exists>x y. x \<noteq> y \<and> h x = h y)"
proof (cases "\<exists>x y. x \<noteq> y \<and> h x = h y")
  case False
  let ?j = "join_with ''|'' (cache_key_parts s a t r ctx)"
  let ?j' = "join_with ''|'' (cache_key_parts s' a' t' r' ctx')"
  have "s = s'"
    using assms(2) subject_prefix_unique [of s s' "h ?j'"] cache_key_prefix [of h s a t r ctx]
    unfolding assms(1) by (simp add: build_cache_key_def cache_key_parts_def)
  then have "h ?j = h ?j'"
    using assms(1) by (simp add: build_cache_key_def)
  then have "?j = ?j'"
    using False by blast
  then have "cache_key_parts s a t r ctx = cache_key_parts s' a' t' r' ctx'"
    using assms(2) by (intro join_parts_inj) (auto simp: cache_key_parts_nonempty)
  then show ?thesis
    by (simp add: cache_key_parts_def)
qed simp

theorem cache_key_separates_witness:
  "cache_key_parts ''user:a'' ''get'' ''vpc'' ''x'' (Some \<lparr>ctx_vals = [(''acr_value'', CStr ''2'')], ctx_forward = []\<rparr>) =
   cache_key_parts ''user:a'' ''get'' ''vpc'' ''x''
     (Some \<lparr>ctx_vals = [(''request_path'', CStr ''/p''), (''acr_value'', CStr ''2'')], ctx_forward = []\<rparr>)"
  using cache_key_separates [of "\<lambda>x. x" "''user:a''" "''get''" "''vpc''" "''x''"
      "Some \<lparr>ctx_vals = [(''acr_value'', CStr ''2'')], ctx_forward = []\<rparr>"
      "''user:a''" "''get''" "''vpc''" "''x''"
      "Some \<lparr>ctx_vals = [(''request_path'', CStr ''/p''), (''acr_value'', CStr ''2'')], ctx_forward = []\<rparr>"]
  by (simp add: build_cache_key_def cache_key_parts_def cache_key_fields_def)

section \<open>Replay detection\<close>

lemma spec_remove_idem: "spec_remove k (spec_remove k es) = spec_remove k es"
  by (simp add: spec_remove_def)

lemma spec_put_remove: "spec_put cap k v t (spec_remove k es) = spec_put cap k v t es"
  by (simp add: spec_put_def spec_remove_idem)

lemma add_if_absent_refines:
  assumes "lru_inv c"
  shows "entries (fst (add_if_absent c k v now now')) =
      (if spec_view k now (entries c) \<noteq> None then entries c
       else spec_put (nat (maxSize c)) k v (now' + cttl c) (entries c))"
    and "snd (add_if_absent c k v now now') \<longleftrightarrow> spec_view k now (entries c) = None"
  using assms
  by (auto simp: add_if_absent_def spec_view_def entries_find inv_links expired_def Let_def
      put_locked_refines inv_drop_el entries_drop_el spec_put_remove split: option.splits)

lemma add_if_absent_frame:
  "maxSize (fst (add_if_absent c k v now now')) = maxSize c"
  "cttl (fst (add_if_absent c k v now now')) = cttl c"
  by (auto simp: add_if_absent_def Let_def split: option.splits)

definition replay_run :: "replay_cache \<Rightarrow> (string \<times> time \<times> time) list \<Rightarrow> replay_cache" where
  "replay_run c adds = foldl (\<lambda>c (j, t, t'). fst (replay_add c j t t')) c adds"

lemma replay_add_fst:
  "fst (replay_add c j t t') = (if j = [] then c else fst (add_if_absent c j () t t'))"
  by (simp add: replay_add_def split: prod.splits)

definition remembers :: "string \<Rightarrow> time \<Rightarrow> nat \<Rightarrow> (string, unit) cache_entry list \<Rightarrow> bool" where
  \<comment> \<open>the identifier is among the first \<open>n + 1\<close> entries, live until \<open>x\<close>\<close>
  "remembers jti x n es \<longleftrightarrow>
     (\<exists>a e b. es = a @ e # b \<and> ekey e = jti \<and> expiresAt e = x \<and> length a \<le> n \<and>
        jti \<notin> ekey ` set a)"

lemma spec_find_append: "k \<notin> ekey ` set a \<Longrightarrow> spec_find k (a @ es) = spec_find k es"
  by (induction a) (auto simp: spec_find_def)

lemma remembers_view: "remembers jti x n es \<Longrightarrow> now \<le> x \<Longrightarrow> spec_view jti now es = Some ()"
  by (auto simp: remembers_def spec_view_def spec_find_append spec_find_Cons)

lemma remembers_put_other:
  assumes "remembers jti x n es" "k \<noteq> jti" "Suc n < cap"
  shows "remembers jti x (Suc n) (spec_put cap k v t es)"
proof -
  obtain a e b where es: "es = a @ e # b" "ekey e = jti" "expiresAt e = x" "length a \<le> n"
      "jti \<notin> ekey ` set a"
    using assms(1) by (auto simp: remembers_def)
  let ?a = "\<lparr>ekey = k, evalue = v, expiresAt = t\<rparr> # filter (\<lambda>e. ekey e \<noteq> k) a"
  have len: "length ?a \<le> Suc n"
    using es(4) le_trans [OF length_filter_le es(4)] by simp
  have "length ?a < cap"
    using len assms(3) by linarith
  then obtain m where m: "cap = length ?a + Suc m"
    using less_imp_Suc_add [of "length ?a" cap] by (metis add_Suc_right)
  have "spec_put cap k v t es = take cap (?a @ e # filter (\<lambda>e. ekey e \<noteq> k) b)"
    using es(1,2) assms(2) by (simp add: spec_put_def spec_remove_def)
  also have "\<dots> = ?a @ e # take m (filter (\<lambda>e. ekey e \<noteq> k) b)"
    unfolding m take_append by simp
  finally have "spec_put cap k v t es = ?a @ e # take m (filter (\<lambda>e. ekey e \<noteq> k) b)" .
  moreover have "jti \<notin> ekey ` set ?a"
    using es(5) assms(2) by auto
  ultimately show ?thesis
    unfolding remembers_def using len es(2,3) by blast
qed

lemma remembers_mono: "remembers jti x n es \<Longrightarrow> n \<le> m \<Longrightarrow> remembers jti x m es"
  unfolding remembers_def by fastforce

lemma remembers_add:
  assumes "lru_inv c" "remembers jti x n (entries c)" "int (Suc n) < maxSize c" "t \<le> x"
  shows "remembers jti x (Suc n) (entries (fst (replay_add c j t t')))"
proof -
  have "remembers jti x (Suc n) (entries c)"
    using assms(2) by (rule remembers_mono) simp
  moreover have "Suc n < nat (maxSize c)"
    using assms(3) by simp
  ultimately show ?thesis
    using assms remembers_view [OF assms(2,4)] remembers_put_other [OF assms(2), of j "nat (maxSize c)"]
    by (cases "j = jti") (auto simp: replay_add_fst add_if_absent_refines)
qed

lemma remembers_run:
  assumes "lru_inv c" "remembers jti x n (entries c)" "int (n + length adds) < maxSize c"
    and "\<forall>(j, t, t') \<in> set adds. t \<le> x"
  shows "remembers jti x (n + length adds) (entries (replay_run c adds))"
  using assms
proof (induction adds arbitrary: c n)
  case (Cons add adds)
  obtain j t t' where add: "add = (j, t, t')" by (cases add) auto
  let ?c = "fst (replay_add c j t t')"
  have "lru_inv ?c" "maxSize ?c = maxSize c"
    using Cons.prems(1) by (simp_all add: replay_add_fst add_if_absent_inv add_if_absent_frame)
  moreover have "remembers jti x (Suc n) (entries ?c)"
    using Cons.prems by (intro remembers_add) (auto simp: add)
  ultimately show ?case
    using Cons.IH [of ?c "Suc n"] Cons.prems by (simp add: replay_run_def add)
qed (simp add: replay_run_def)

lemma replay_run_inv: "lru_inv c \<Longrightarrow> lru_inv (replay_run c adds)"
  by (induction adds arbitrary: c)
    (auto simp: replay_run_def replay_add_fst add_if_absent_inv)

lemma replay_add_won:
  assumes "lru_inv c" "replay_add c jti t1 t2 = (c1, None)"
  shows "remembers jti (t2 + cttl c) 0 (entries c1)" "lru_inv c1" "maxSize c1 = maxSize c"
proof -
  have jti: "jti \<noteq> []" "c1 = fst (add_if_absent c jti () t1 t2)" "snd (add_if_absent c jti () t1 t2)"
    using assms(2) by (auto simp: replay_add_def split: if_splits prod.splits)
  then show "lru_inv c1" "maxSize c1 = maxSize c"
    using assms(1) by (simp_all add: add_if_absent_inv add_if_absent_frame)
  obtain m where "nat (maxSize c) = Suc m"
    using assms(1) by (cases "nat (maxSize c)") (auto simp: lru_inv_def)
  then show "remembers jti (t2 + cttl c) 0 (entries c1)"
    using jti assms(1) by (force simp: add_if_absent_refines remembers_def spec_put_def)
qed

lemma replay_again:
  assumes "lru_inv c" "replay_add c jti t1 t2 = (c1, None)"
    and "int (length adds) < maxSize c" "\<forall>(j, t, t') \<in> set adds. t \<le> t2 + cttl c"
    and "now \<le> t2 + cttl c"
  shows "snd (replay_add (replay_run c1 adds) jti now now') = Some ErrDPoPReplay"
proof -
  let ?c = "replay_run c1 adds"
  note won = replay_add_won [OF assms(1,2)]
  have "remembers jti (t2 + cttl c) (0 + length adds) (entries ?c)"
    using won assms(3,4) by (intro remembers_run) simp_all
  then have "spec_view jti now (entries ?c) = Some ()"
    using assms(5) by (rule remembers_view)
  then have "\<not> snd (add_if_absent ?c jti () now now')"
    using won(2) by (simp add: add_if_absent_refines replay_run_inv)
  moreover have "jti \<noteq> []"
    using assms(2) by (auto simp: replay_add_def)
  ultimately show ?thesis
    by (cases "add_if_absent ?c jti () now now'") (simp add: replay_add_def)
qed

text \<open>
  Replay detection. Once a proof identifier has been accepted, a second submission of it within
  the TTL is refused, whatever other identifiers were submitted in between, as long as there were
  fewer of them than the capacity of the cache.
\<close>

theorem replay_refused:
  assumes "lru_inv c" "replay_add c jti t1 t2 = (c1, None)"
    and "int (length adds) < maxSize c" "\<forall>(j, t, t') \<in> set adds. t \<le> t2 + cttl c"
    and "now \<le> t2 + cttl c"
  shows "snd (replay_add (replay_run c1 adds) jti now now') = Some ErrDPoPReplay"
  using assms by (rule replay_again)

theorem replay_refused_witness:
  "snd (replay_add (replay_run (fst (replay_add (replay_new 3 10) ''j1'' 0 0))
     [(''j2'', 1, 1), (''j3'', 2, 2)]) ''j1'' 9 9) = Some ErrDPoPReplay"
proof -
  have c: "maxSize (replay_new 3 10) = 3" "cttl (replay_new 3 10) = 10" "lru_inv (replay_new 3 10)"
    by (simp_all add: replay_new_def lru_new_inv) (simp_all add: lru_new_def)
  have "replay_add (replay_new 3 10) ''j1'' 0 0 = (fst (replay_add (replay_new 3 10) ''j1'' 0 0), None)"
    by (simp add: replay_add_def add_if_absent_def replay_new_def lru_new_def)
  then show ?thesis
    using c by (intro replay_refused [where c = "replay_new 3 10" and ?t1.0 = 0 and ?t2.0 = 0]) simp_all
qed

section \<open>Introspection results in flight\<close>

definition introspect_others ::
  "(string, introspection_result) lru_op list \<Rightarrow> introspection_cache \<Rightarrow> introspection_cache" where
  \<comment> \<open>what other goroutines do to the shared cache between the lookup and the store\<close>
  "introspect_others ops c = c\<lparr>ic_cache := lru_run (ic_cache c) ops\<rparr>"

lemma introspect_invalidate_step:
  "introspect_invalidate c jti = introspect_others [LDropWhere (\<lambda>k. k = jti)] c"
  by (simp add: introspect_invalidate_def introspect_others_def lru_run_def)

lemma introspect_lookup_missed:
  assumes "introspect_lookup c jti raw now = (c1, Missed)" "lru_inv (ic_cache c)"
  shows "lru_inv (ic_cache c1)"
  using assms lru_get_inv [of "ic_cache c" jti now]
  by (auto simp: introspect_lookup_def Let_def split: if_splits prod.splits option.splits)

text \<open>
  A revocation is not undone by an introspection in flight. When the cache is invalidated for
  any token (by \<open>Invalidate\<close>, which drops the matching keys) while \<open>Introspect\<close> waits for the
  authorization server, its answer is not stored: the cache is what the other operations left.
\<close>

theorem introspection_does_not_undo_revocation:
  assumes "lru_inv (ic_cache c)" "introspect_lookup c jti raw t1 = (c1, Missed)"
    and "LDropWhere (\<lambda>k. k = revoked) \<in> set ops" "length ops < 2 ^ 64"
  shows "fst (introspect (introspect_others ops0) (introspect_others ops) fetch c jti raw t1 t2 t3) =
    introspect_others ops (introspect_others ops0 c1)"
proof -
  let ?c = "introspect_others ops0 c1"
  have "lru_inv (ic_cache ?c)"
    using introspect_lookup_missed [OF assms(2,1)] by (simp add: introspect_others_def lru_run_inv)
  then have "gen (lru_run (ic_cache ?c) ops) \<noteq> gen (ic_cache ?c)"
    using stale_snapshot [OF _ assms(3)] assms(4) by simp
  then show ?thesis
    using assms(2)
    by (auto simp: introspect_def introspect_finish_def introspect_others_def put_if_gen_with_ttl_def
        generation_def Let_def split: sum.splits)
qed

theorem introspection_does_not_undo_revocation_witness:
  "let c = \<lparr>ic_url = ''u'', ic_ttl = 5, ic_basic_user = [], ic_basic_pass = [],
            ic_cache = lru_new 10 5\<rparr>;
       ops = [LDropWhere (\<lambda>k. k = ''j1'')]
   in fst (introspect (introspect_others []) (introspect_others ops)
        (\<lambda>_. Inr (ir_zero\<lparr>ir_active := True\<rparr>)) c ''j1'' ''tok'' 1 2 3) =
      introspect_others ops (introspect_others [] c)"
proof -
  let ?c = "\<lparr>ic_url = ''u'', ic_ttl = 5, ic_basic_user = [], ic_basic_pass = [],
     ic_cache = lru_new 10 5\<rparr> :: introspection_cache"
  have "introspect_lookup ?c ''j1'' ''tok'' 1 = (?c, Missed)"
    by (simp add: introspect_lookup_def lru_get_def lru_new_def)
  from introspection_does_not_undo_revocation [OF _ this, of "''j1''" "[LDropWhere (\<lambda>k. k = ''j1'')]"
      "[]" "\<lambda>_. Inr (ir_zero\<lparr>ir_active := True\<rparr>)" 2 3]
  show ?thesis
    by (simp add: lru_new_inv)
qed

text \<open>
  An introspection answer is cached at most until the expiry of the token. If the answer
  carries \<open>exp\<close> and arrives before it, then a lookup later than the expiry (shifted by the delay
  between the two clock readings of the store) finds nothing; an answer that arrives at or after
  its expiry is reported inactive and changes nothing in the cache.
\<close>

theorem introspection_expiry_respected:
  assumes "lru_inv (ic_cache c)" "0 < ic_ttl c" "generation (ic_cache c) = g" "0 < ir_expiry res"
    and "introspect_finish c jti g (Inr res) now now' = (c', r, e)"
  shows "(now < ir_expiry res * second \<longrightarrow>
            (\<forall>t > ir_expiry res * second + (now' - now). lru_view (ic_cache c') jti t = None)) \<and>
         (ir_expiry res * second \<le> now \<longrightarrow> c' = c \<and> \<not> ir_active r \<and> e = Some ErrTokenInactive)"
proof (intro conjI impI allI)
  fix t
  assume before: "now < ir_expiry res * second" and t: "ir_expiry res * second + (now' - now) < t"
  let ?d = "ir_expiry res * second - now"
  let ?ttl = "if ?d < ic_ttl c then ?d else ic_ttl c"
  have "0 < ?ttl" "?ttl \<le> ?d"
    using before assms(2) by auto
  moreover from this have "ic_cache c' = put_locked (ic_cache c) jti res ?ttl now'"
    using assms(3-5) before
    by (auto simp: introspect_finish_def put_if_gen_with_ttl_def generation_def Let_def)
  ultimately show "lru_view (ic_cache c') jti t = None"
    using t assms(1) by (simp add: view_put_same)
next
  assume "ir_expiry res * second \<le> now"
  then show "c' = c" "\<not> ir_active r" "e = Some ErrTokenInactive"
    using assms(4,5) by (auto simp: introspect_finish_def Let_def)
qed

theorem introspection_expiry_respected_witness:
  "let c = \<lparr>ic_url = ''u'', ic_ttl = 100 * second, ic_basic_user = [], ic_basic_pass = [],
            ic_cache = lru_new 10 5\<rparr>;
       res = ir_zero\<lparr>ir_active := True, ir_expiry := 7\<rparr>
   in lru_view (ic_cache (fst (introspect_finish c ''j1'' 0 (Inr res) (2 * second) (2 * second)))) ''j1''
        (8 * second) = None"
proof -
  let ?c = "\<lparr>ic_url = ''u'', ic_ttl = 100 * second, ic_basic_user = [], ic_basic_pass = [],
     ic_cache = lru_new 10 5\<rparr> :: introspection_cache"
  let ?res = "ir_zero\<lparr>ir_active := True, ir_expiry := 7\<rparr>"
  obtain c' r e where fin: "introspect_finish ?c ''j1'' 0 (Inr ?res) (2 * second) (2 * second) = (c', r, e)"
    by (cases "introspect_finish ?c ''j1'' 0 (Inr ?res) (2 * second) (2 * second)") auto
  have "lru_view (ic_cache c') ''j1'' (8 * second) = None"
    using introspection_expiry_respected [OF _ _ _ _ fin]
    by (simp add: lru_new_inv generation_def) (simp add: lru_new_def)
  then show ?thesis
    using fin by (simp add: Let_def)
qed

end
