(* ===== verification/Dpop.thy ===== *)
theory Dpop
  imports Jwt Gateway_Caches
begin

text \<open>
  Sender-constrained tokens: the DPoP validator (\<^verbatim>\<open>internal/middleware/dpop.go\<close>), the certificate binding
  (\<^verbatim>\<open>mtls_bound.go\<close>), the step-up gate (\<^verbatim>\<open>stepup_gate.go\<close>), the gRPC binding interceptor
  (\<^verbatim>\<open>cnf_grpc_interceptor.go\<close>) and the HTTP middleware that runs them in order
  (\<^verbatim>\<open>dpop_http_middleware.go\<close>). The JSON decoder, the JWT library, SHA-256, \<open>url.Parse\<close> and the string
  escape of \<open>%q\<close> are parameters.
\<close>

section \<open>DPoP proofs\<close>

datatype dpop_error =
    TokenRequired | ErrDPoPInvalidHeader | ErrDPoPBadTyp | ErrDPoPBadAlg | ErrDPoPMissingJWK
  | ErrDPoPBadSignature | ErrDPoPHTMMismatch | ErrDPoPHTUMismatch | ErrDPoPIATFresh
  | ErrDPoPMissingJTI | ErrDPoPJktMismatch | ErrDPoPAthMismatch | ErrDPoPRequiredButBear
  | ReplayCache replay_error

record dpop_header =
  dh_typ :: string
  dh_alg :: string
  dh_jwk :: string \<comment> \<open>the raw JSON of the member \<open>jwk\<close>\<close>

record parsed_url =
  url_scheme :: string
  url_host :: string
  url_escaped_path :: string

record dpop_env =
  de_header :: "nat list \<Rightarrow> dpop_header option"
  de_jwk :: "string \<Rightarrow> jwk option"
  de_members :: "string \<Rightarrow> string list option" \<comment> \<open>the member names of a JSON object\<close>
  de_parse :: "string \<Rightarrow> duration \<Rightarrow> public_key \<Rightarrow> string \<Rightarrow> (claims \<times> bool) option"
  de_escape :: "string \<Rightarrow> string"
  de_sha256 :: "string \<Rightarrow> string" \<comment> \<open>base64url of the SHA-256 digest\<close>
  de_url :: "string \<Rightarrow> parsed_url option"

record dpop_validator =
  iat_freshness :: duration
  require_ath_when :: "(verified_token \<Rightarrow> bool) option"

record dpop_request =
  dr_method :: string
  dr_url :: string
  dr_header :: string

definition dpop_validator_new ::
  "duration \<Rightarrow> (verified_token \<Rightarrow> bool) option \<Rightarrow> dpop_validator" where
  \<comment> \<open>the constructor with a replay cache\<close>
  "dpop_validator_new fresh req =
     \<lparr>iat_freshness = (if fresh \<le> 0 then 60 * second else fresh), require_ath_when = req\<rparr>"

definition canonical_htu :: "dpop_env \<Rightarrow> string \<Rightarrow> string option" where
  "canonical_htu env raw =
     (if raw = [] then None
      else case de_url env raw of
        None \<Rightarrow> None
      | Some u \<Rightarrow>
          if url_scheme u = [] then None
          else if url_host u = [] then None
          else (let scheme = to_lower (url_scheme u); host = to_lower (url_host u);
                    host' = (if scheme = ''https'' \<and> has_suffix host '':443'' then trim_suffix host '':443''
                             else if scheme = ''http'' \<and> has_suffix host '':80'' then trim_suffix host '':80''
                             else host);
                    path = (if url_escaped_path u = [] then ''/'' else url_escaped_path u)
                in Some (scheme @ ''://'' @ host' @ path)))"

definition ath_thumbprint :: "dpop_env \<Rightarrow> string \<Rightarrow> string" where
  "ath_thumbprint env accessToken = de_sha256 env accessToken"

definition has_private_jwk_fields :: "dpop_env \<Rightarrow> string \<Rightarrow> bool" where
  "has_private_jwk_fields env raw =
     (case de_members env raw of
        None \<Rightarrow> False
      | Some ms \<Rightarrow> list_ex (\<lambda>k. k \<in> set ms) [''d'', ''p'', ''q'', ''dp'', ''dq'', ''qi''])"

definition dpop_proof :: "dpop_env \<Rightarrow> string \<Rightarrow> dpop_error + jwk \<times> claims" where
  \<comment> \<open>steps 1 and 2 of \<open>Validate\<close>: the header, the embedded key and the signature\<close>
  "dpop_proof env proof =
     (case split_jwt proof of
        Inl _ \<Rightarrow> Inl ErrDPoPInvalidHeader
      | Inr header \<Rightarrow>
          (case de_header env header of
             None \<Rightarrow> Inl ErrDPoPInvalidHeader
           | Some hdr \<Rightarrow>
               if dh_typ hdr \<noteq> ''dpop+jwt'' then Inl ErrDPoPBadTyp
               else if dh_alg hdr \<notin> set allowed_dpop_algs then Inl ErrDPoPBadAlg
               else if dh_jwk hdr = [] then Inl ErrDPoPMissingJWK
               else (case parse_jwk_header (de_jwk env) (dh_jwk hdr) of
                       Inl _ \<Rightarrow> Inl ErrDPoPInvalidHeader
                     | Inr k \<Rightarrow>
                         if has_private_jwk_fields env (dh_jwk hdr) then Inl ErrDPoPInvalidHeader
                         else (case public_key_of k of
                                 Inl _ \<Rightarrow> Inl ErrDPoPInvalidHeader
                               | Inr pk \<Rightarrow>
                                   (case de_parse env (dh_alg hdr) 0 pk proof of
                                      Some (cl, True) \<Rightarrow> Inr (k, cl)
                                    | _ \<Rightarrow> Inl ErrDPoPBadSignature)))))"

definition dpop_claims_error ::
  "dpop_env \<Rightarrow> dpop_validator \<Rightarrow> verified_token \<Rightarrow> dpop_request \<Rightarrow> jwk \<Rightarrow> claims \<Rightarrow> time \<Rightarrow> dpop_error option" where
  \<comment> \<open>steps 3 to 6: thumbprint, method, URL and freshness\<close>
  "dpop_claims_error env v token req k cl now =
     (case thumbprint (de_escape env) (de_sha256 env) k of
        Inl _ \<Rightarrow> Some ErrDPoPInvalidHeader
      | Inr tp \<Rightarrow>
          if tp \<noteq> cnf_jkt (vt_cnf token) then Some ErrDPoPJktMismatch
          else if str_claim cl ''htm'' \<noteq> dr_method req then Some ErrDPoPHTMMismatch
          else (case canonical_htu env (str_claim cl ''htu'') of
                  None \<Rightarrow> Some ErrDPoPHTUMismatch
                | Some gotHTU \<Rightarrow>
                    (case canonical_htu env (dr_url req) of
                       None \<Rightarrow> Some ErrDPoPHTUMismatch
                     | Some wantHTU \<Rightarrow>
                         if gotHTU \<noteq> wantHTU then Some ErrDPoPHTUMismatch
                         else (case numeric_time (map_of cl ''iat'') of
                                 None \<Rightarrow> Some ErrDPoPIATFresh
                               | Some iat \<Rightarrow>
                                   (let diff = (if now - iat < 0 then - (now - iat) else now - iat) in
                                    if diff > iat_freshness v then Some ErrDPoPIATFresh else None)))))"

definition dpop_validate ::
  "dpop_env \<Rightarrow> dpop_validator \<Rightarrow> replay_cache \<Rightarrow> verified_token option \<Rightarrow> dpop_request \<Rightarrow>
   time \<Rightarrow> time \<Rightarrow> time \<Rightarrow> replay_cache \<times> dpop_error option" where
  \<comment> \<open>\<open>now\<close> is the validator's clock, \<open>t\<close> and \<open>t'\<close> the readings of the replay cache\<close>
  "dpop_validate env v rc tok req now t t' =
     (case tok of
        None \<Rightarrow> (rc, Some TokenRequired)
      | Some token \<Rightarrow>
          if \<not> has_jkt (vt_cnf token) then
            (rc, if dr_header req \<noteq> [] then Some ErrDPoPInvalidHeader else None)
          else if dr_header req = [] then (rc, Some ErrDPoPRequiredButBear)
          else (case dpop_proof env (dr_header req) of
                  Inl e \<Rightarrow> (rc, Some e)
                | Inr (k, cl) \<Rightarrow>
                    (case dpop_claims_error env v token req k cl now of
                       Some e \<Rightarrow> (rc, Some e)
                     | None \<Rightarrow>
                         if str_claim cl ''jti'' = [] then (rc, Some ErrDPoPMissingJTI)
                         else (case replay_add rc (str_claim cl ''jti'') t t' of
                                 (rc', Some e) \<Rightarrow> (rc', Some (ReplayCache e))
                               | (rc', None) \<Rightarrow>
                                   (let hasAth = (case map_of cl ''ath'' of Some (JStr _) \<Rightarrow> True | _ \<Rightarrow> False);
                                        requireAth = (case require_ath_when v of None \<Rightarrow> False | Some f \<Rightarrow> f token)
                                    in if (hasAth \<or> requireAth) \<and>
                                          str_claim cl ''ath'' \<noteq> ath_thumbprint env (vt_raw token)
                                       then (rc', Some ErrDPoPAthMismatch) else (rc', None))))))"

section \<open>Certificate binding\<close>

datatype mtls_error = MTokenRequired | ErrMTLSCertMissing | ErrMTLSThumbMismatch | ErrMTLSBadCert

definition resolve_client_cert :: "string list option \<Rightarrow> string option \<Rightarrow> mtls_error + string" where
  \<comment> \<open>certificates are their DER bytes; an empty one stands for a leaf that is nil or has no bytes\<close>
  "resolve_client_cert connState explicit =
     (case explicit of
        Some c \<Rightarrow> Inr c
      | None \<Rightarrow>
          (case connState of
             None \<Rightarrow> Inl ErrMTLSCertMissing
           | Some [] \<Rightarrow> Inl ErrMTLSCertMissing
           | Some (leaf # _) \<Rightarrow> if leaf = [] then Inl ErrMTLSBadCert else Inr leaf))"

definition mtls_validate ::
  "(string \<Rightarrow> string) \<Rightarrow> verified_token option \<Rightarrow> string list option \<Rightarrow> string option \<Rightarrow> mtls_error option" where
  "mtls_validate sha256_b64 tok connState clientCert =
     (case tok of
        None \<Rightarrow> Some MTokenRequired
      | Some token \<Rightarrow>
          if \<not> has_x5t (vt_cnf token) then None
          else (case resolve_client_cert connState clientCert of
                  Inl e \<Rightarrow> Some e
                | Inr leaf \<Rightarrow>
                    if sha256_b64 leaf \<noteq> cnf_x5t (vt_cnf token) then Some ErrMTLSThumbMismatch else None))"

section \<open>Step-up gate\<close>

datatype stepup_error = STokenRequired | ErrStepUpRequired | ErrMFAStale

record permission_requirement =
  required_acr_min :: string
  mfa_max_age :: duration

definition no_requirement :: permission_requirement where
  "no_requirement = \<lparr>required_acr_min = [], mfa_max_age = 0\<rparr>"

definition acr_rank :: "string \<Rightarrow> nat" where
  "acr_rank acr = (if acr = ''3'' then 3 else if acr = ''2'' then 2 else if acr = ''1'' then 1 else 0)"

definition stepup_check :: "verified_token option \<Rightarrow> permission_requirement \<Rightarrow> time \<Rightarrow> stepup_error option" where
  "stepup_check tok req now =
     (case tok of
        None \<Rightarrow> Some STokenRequired
      | Some token \<Rightarrow>
          if required_acr_min req \<noteq> [] \<and> acr_rank (vt_acr token) < acr_rank (required_acr_min req)
          then Some ErrStepUpRequired
          else if mfa_max_age req > 0 then
            (case vt_auth_time token of
               None \<Rightarrow> Some ErrMFAStale
             | Some at \<Rightarrow> if now - at > mfa_max_age req then Some ErrMFAStale else None)
          else None)"

definition default_if_empty :: "string \<Rightarrow> string \<Rightarrow> string" where
  "default_if_empty s d = (if s = [] then d else s)"

definition build_stepup_challenge :: "permission_requirement \<Rightarrow> string \<Rightarrow> string" where
  "build_stepup_challenge req presentedACR =
     (let q = [CHR 0x22];
          desc = ''Required ACR '' @ required_acr_min req @ '' for this resource; presented ACR '' @
                 default_if_empty presentedACR ''0'';
          out = ''Bearer error='' @ q @ ''insufficient_user_authentication'' @ q @ '', error_description='' @ q @ desc @ q;
          out1 = (if required_acr_min req \<noteq> [] then out @ '', acr_values='' @ q @ required_acr_min req @ q else out)
      in if mfa_max_age req > 0 then out1 @ '', max_age='' @ q @ int_str (mfa_max_age req div second) @ q else out1)"

section \<open>gRPC binding interceptor\<close>

definition extract_bearer :: "header option \<Rightarrow> string" where
  "extract_bearer md =
     (case md of
        None \<Rightarrow> []
      | Some m \<Rightarrow>
          (case List.map_filter (\<lambda>h. case cut_prefix h ''Bearer '' of
                  Some v \<Rightarrow> Some v | None \<Rightarrow> cut_prefix h ''bearer '') (md_get m ''authorization'') of
             [] \<Rightarrow> [] | v # _ \<Rightarrow> v))"

definition is_asymmetric_jwt :: "(nat list \<Rightarrow> string option) \<Rightarrow> string \<Rightarrow> bool" where
  \<comment> \<open>the parameter reads the member \<open>alg\<close> of a JSON header, \<open>None\<close> when it is not JSON\<close>
  "is_asymmetric_jwt alg_of tokenStr =
     (case cut_sub ''.'' tokenStr of
        None \<Rightarrow> False
      | Some (headerB64, _) \<Rightarrow>
          (case b64url_decode headerB64 of
             None \<Rightarrow> False
           | Some raw \<Rightarrow> (case alg_of raw of None \<Rightarrow> False | Some alg \<Rightarrow> alg \<in> set allowed_jwt_algs)))"

datatype cnf_error = CnfCert mtls_error | CnfDPoPOnGrpc

definition cnf_enforce ::
  "(nat list \<Rightarrow> string option) \<Rightarrow> ('s \<Rightarrow> string \<Rightarrow> 's \<times> (jwt_error + verified_token)) \<Rightarrow> (string \<Rightarrow> string) \<Rightarrow>
   's \<Rightarrow> header option \<Rightarrow> string list option \<Rightarrow> 's \<times> cnf_error option" where
  "cnf_enforce alg_of verify sha256_b64 st md peerCerts =
     (let bearer = extract_bearer md in
      if bearer = [] then (st, None)
      else if \<not> is_asymmetric_jwt alg_of bearer then (st, None)
      else (case verify st bearer of
              (st', Inl _) \<Rightarrow> (st', None)
            | (st', Inr vt) \<Rightarrow>
                (st', if has_x5t (vt_cnf vt) then
                        map_option CnfCert (mtls_validate sha256_b64 (Some vt) peerCerts None)
                      else if has_jkt (vt_cnf vt) then Some CnfDPoPOnGrpc
                      else None)))"

section \<open>HTTP middleware\<close>

definition is_public_http_path :: "string \<Rightarrow> bool" where
  "is_public_http_path path =
     (if path \<in> {''/healthz'', ''/readyz'', ''/oauth/logout''} then True else has_prefix path ''/iam/v1/auth/'')"

definition split_auth_scheme :: "string \<Rightarrow> string \<times> string" where
  "split_auth_scheme auth =
     (if auth = [] then ([], [])
      else case cut_prefix auth ''Bearer '' of Some v \<Rightarrow> (v, ''Bearer'') | None \<Rightarrow>
          (case cut_prefix auth ''bearer '' of Some v \<Rightarrow> (v, ''Bearer'') | None \<Rightarrow>
          (case cut_prefix auth ''DPoP '' of Some v \<Rightarrow> (v, ''DPoP'') | None \<Rightarrow>
          (case cut_prefix auth ''dpop '' of Some v \<Rightarrow> (v, ''DPoP'') | None \<Rightarrow> ([], [])))))"

definition absolute_request_url :: "http_request \<Rightarrow> string \<Rightarrow> string" where
  "absolute_request_url r apiDomain =
     (let host = (if req_host r = [] then apiDomain else req_host r);
          scheme = (if req_peer_certs r = None \<and> \<not> has_prefix (hget (req_header r) ''X-Forwarded-Proto'') ''https''
                    then ''http'' else ''https'')
      in scheme @ ''://'' @ host @ req_path r)"

definition verified_claim :: "verified_token \<Rightarrow> string \<Rightarrow> string" where
  "verified_claim vt key =
     (if str_claim (vt_claims vt) key \<noteq> [] then str_claim (vt_claims vt) key
      else case vt_ext vt of None \<Rightarrow> [] | Some m \<Rightarrow> str_claim m key)"

definition set_headers :: "http_request \<Rightarrow> (string \<times> string) list \<Rightarrow> http_request" where
  "set_headers r kvs = r\<lparr>req_header := foldl (\<lambda>h (k, v). hset h k v) (req_header r) kvs\<rparr>"

definition inject_verified_token_headers :: "http_request \<Rightarrow> verified_token \<Rightarrow> http_request" where
  "inject_verified_token_headers r t =
     (let pType = default_if_empty (verified_claim t ''kacho_principal_type'') ''user'';
          subj = default_if_empty (verified_claim t ''kacho_principal_id'') (vt_subject t)
      in if subj = [] then r
         else (let r1 = set_headers r
                 [(HeaderPrincipalType, pType), (HeaderPrincipalID, subj), (HeaderPrincipalDisplay, []),
                  (header_grpc_meta HeaderPrincipalType, pType), (header_grpc_meta HeaderPrincipalID, subj),
                  (header_grpc_meta HeaderPrincipalDisplay, []),
                  (HeaderTokenACR, vt_acr t), (HeaderTokenJti, vt_jti t), (HeaderTokenScope, vt_scope t),
                  (header_grpc_meta HeaderTokenACR, vt_acr t), (header_grpc_meta HeaderTokenJti, vt_jti t),
                  (header_grpc_meta HeaderTokenScope, vt_scope t)]
               in case vt_expires_at t of
                    None \<Rightarrow> r1
                  | Some e \<Rightarrow> set_headers r1 [(HeaderTokenExp, int_str (e div second))]))"

definition sanitize_err :: "string \<Rightarrow> string" where
  \<comment> \<open>the text of an error inside a quoted header value\<close>
  "sanitize_err s =
     (let s1 = filter (\<lambda>c. c \<noteq> CHR 0x22) s;
          s2 = map (\<lambda>c. if c = CHR 0x0A \<or> c = CHR 0x0D then CHR '' '' else c) s1
      in if length s2 > 256 then take 256 s2 else s2)"

datatype challenge_reason =
    MissingToken | JwtFailed jwt_error | TokenRevoked | DpopFailed dpop_error | MtlsFailed mtls_error
  | SchemeWithoutJkt | StepUp string

datatype wrap_outcome = Challenge challenge_reason | Forward http_request
  \<comment> \<open>401 with a WWW-Authenticate header, or the next handler is called\<close>

record 's dpop_state =
  ds_verifier :: 's
  ds_introspection :: "introspection_cache option"
  ds_replay :: replay_cache

record 's dpop_mw =
  \<comment> \<open>the collaborators: verification, introspection, the permission lookup and the router\<close>
  mw_verify :: "'s \<Rightarrow> string \<Rightarrow> 's \<times> (jwt_error + verified_token)"
  mw_introspect :: "introspection_cache \<Rightarrow> string \<Rightarrow> string \<Rightarrow> introspection_cache \<times> introspect_error option"
  mw_lookup :: "string \<Rightarrow> permission_requirement"
  mw_routes :: "(string \<Rightarrow> string \<Rightarrow> string option) option"
  mw_env :: dpop_env
  mw_validator :: dpop_validator
  mw_api_domain :: string
  mw_require_all :: bool

definition resolve_fqn :: "'s dpop_mw \<Rightarrow> string \<Rightarrow> string \<Rightarrow> string" where
  "resolve_fqn m method path =
     (case mw_routes m of
        None \<Rightarrow> []
      | Some rs \<Rightarrow> (case rs method path of Some fqn \<Rightarrow> fqn | None \<Rightarrow> []))"

definition check_revoked :: "'s dpop_mw \<Rightarrow> 's dpop_state \<Rightarrow> verified_token \<Rightarrow> 's dpop_state \<times> bool" where
  \<comment> \<open>step 3: only an inactive token is refused, another error is logged\<close>
  "check_revoked m st t =
     (case ds_introspection st of
        None \<Rightarrow> (st, False)
      | Some ic \<Rightarrow>
          if vt_jti t = [] then (st, False)
          else (let (ic', e) = mw_introspect m ic (vt_jti t) (vt_raw t) in
                (st\<lparr>ds_introspection := Some ic'\<rparr>, e = Some ErrTokenInactive)))"

definition check_binding ::
  "'s dpop_mw \<Rightarrow> 's dpop_state \<Rightarrow> verified_token \<Rightarrow> http_request \<Rightarrow> string \<Rightarrow> time \<Rightarrow> time \<Rightarrow> time \<Rightarrow>
   's dpop_state \<times> challenge_reason option" where
  \<comment> \<open>step 4\<close>
  "check_binding m st t r scheme now u u' =
     (if has_jkt (vt_cnf t) then
        (let req = \<lparr>dr_method = req_method r, dr_url = absolute_request_url r (mw_api_domain m),
                    dr_header = hget (req_header r) ''DPoP''\<rparr>;
             (rc', e) = dpop_validate (mw_env m) (mw_validator m) (ds_replay st) (Some t) req now u u'
         in (st\<lparr>ds_replay := rc'\<rparr>, map_option DpopFailed e))
      else if has_x5t (vt_cnf t) then
        (st, map_option MtlsFailed (mtls_validate (de_sha256 (mw_env m)) (Some t) (req_peer_certs r) None))
      else (st, if equal_fold scheme ''DPoP'' then Some SchemeWithoutJkt else None))"

definition dpop_wrap ::
  "'s dpop_mw \<Rightarrow> 's dpop_state \<Rightarrow> http_request \<Rightarrow> time \<Rightarrow> time \<Rightarrow> time \<Rightarrow> time \<Rightarrow> 's dpop_state \<times> wrap_outcome" where
  "dpop_wrap m st r now u u' now' =
     (if is_public_http_path (req_path r) then (st, Forward r)
      else (let (token, scheme) = split_auth_scheme (hget (req_header r) ''Authorization'') in
            if token = [] then
              (st, if mw_require_all m then Challenge MissingToken else Forward r)
            else (case mw_verify m (ds_verifier st) token of
                    (c', Inl e) \<Rightarrow> (st\<lparr>ds_verifier := c'\<rparr>, Challenge (JwtFailed e))
                  | (c', Inr t) \<Rightarrow>
                      (case check_revoked m (st\<lparr>ds_verifier := c'\<rparr>) t of
                         (st2, True) \<Rightarrow> (st2, Challenge TokenRevoked)
                       | (st2, False) \<Rightarrow>
                           (case check_binding m st2 t r scheme now u u' of
                              (st3, Some e) \<Rightarrow> (st3, Challenge e)
                            | (st3, None) \<Rightarrow>
                                (let req = mw_lookup m (resolve_fqn m (req_method r) (req_path r)) in
                                 case stepup_check (Some t) req now' of
                                   Some _ \<Rightarrow> (st3, Challenge (StepUp (build_stepup_challenge req (vt_acr t))))
                                 | None \<Rightarrow> (st3, Forward (inject_verified_token_headers r t))))))))"

section \<open>What an accepted proof establishes\<close>

definition proof_binds ::
  "dpop_env \<Rightarrow> dpop_validator \<Rightarrow> verified_token \<Rightarrow> dpop_request \<Rightarrow> claims \<Rightarrow> time \<Rightarrow> bool" where
  \<comment> \<open>the proof is signed by the key the token is bound to, under an allowed algorithm, for this method
     and URL, and is fresh at \<open>now\<close>\<close>
  "proof_binds env v token req cl now \<longleftrightarrow>
     (\<exists>header hdr k pk iat htu.
        split_jwt (dr_header req) = Inr header \<and> de_header env header = Some hdr \<and>
        dh_typ hdr = ''dpop+jwt'' \<and> dh_alg hdr \<in> {''ES256'', ''EdDSA''} \<and>
        de_jwk env (dh_jwk hdr) = Some k \<and> \<not> has_private_jwk_fields env (dh_jwk hdr) \<and>
        public_key_of k = Inr pk \<and> de_parse env (dh_alg hdr) 0 pk (dr_header req) = Some (cl, True) \<and>
        thumbprint (de_escape env) (de_sha256 env) k = Inr (cnf_jkt (vt_cnf token)) \<and>
        str_claim cl ''htm'' = dr_method req \<and>
        canonical_htu env (str_claim cl ''htu'') = Some htu \<and> canonical_htu env (dr_url req) = Some htu \<and>
        map_of cl ''iat'' = Some (JNum iat) \<and> \<bar>now - iat * second\<bar> \<le> iat_freshness v)"

lemma dpop_proof_Inr:
  assumes "dpop_proof env proof = Inr (k, cl)"
  shows "\<exists>header hdr pk. split_jwt proof = Inr header \<and> de_header env header = Some hdr \<and>
    dh_typ hdr = ''dpop+jwt'' \<and> dh_alg hdr \<in> {''ES256'', ''EdDSA''} \<and>
    de_jwk env (dh_jwk hdr) = Some k \<and> \<not> has_private_jwk_fields env (dh_jwk hdr) \<and>
    public_key_of k = Inr pk \<and> de_parse env (dh_alg hdr) 0 pk proof = Some (cl, True)"
  using assms
  by (auto simp: dpop_proof_def parse_jwk_header_def allowed_dpop_algs_def
      split: sum.splits option.splits if_splits prod.splits bool.splits)

lemma dpop_claims_ok:
  assumes "dpop_claims_error env v token req k cl now = None"
  shows "\<exists>iat htu. thumbprint (de_escape env) (de_sha256 env) k = Inr (cnf_jkt (vt_cnf token)) \<and>
    str_claim cl ''htm'' = dr_method req \<and>
    canonical_htu env (str_claim cl ''htu'') = Some htu \<and> canonical_htu env (dr_url req) = Some htu \<and>
    map_of cl ''iat'' = Some (JNum iat) \<and> \<bar>now - iat * second\<bar> \<le> iat_freshness v"
  using assms
  by (auto simp: dpop_claims_error_def numeric_time_def Let_def
      split: sum.splits option.splits if_splits json.splits)

lemma dpop_validate_None:
  assumes "dpop_validate env v rc (Some token) req now t t' = (rc', None)" "has_jkt (vt_cnf token)"
  obtains k cl where "dpop_proof env (dr_header req) = Inr (k, cl)"
    "dpop_claims_error env v token req k cl now = None" "str_claim cl ''jti'' \<noteq> []"
    "replay_add rc (str_claim cl ''jti'') t t' = (rc', None)"
    "\<And>a. map_of cl ''ath'' = Some (JStr a) \<Longrightarrow> a = ath_thumbprint env (vt_raw token)"
  using assms
  by (auto simp: dpop_validate_def Let_def str_claim_def
      split: if_splits sum.splits option.splits prod.splits json.splits)

lemma dpop_accept:
  assumes "dpop_validate env v rc (Some token) req now t t' = (rc', None)" "has_jkt (vt_cnf token)"
  shows "\<exists>cl. proof_binds env v token req cl now \<and>
    replay_add rc (str_claim cl ''jti'') t t' = (rc', None) \<and>
    (\<forall>a. map_of cl ''ath'' = Some (JStr a) \<longrightarrow> a = ath_thumbprint env (vt_raw token))"
proof (rule dpop_validate_None [OF assms])
  fix k cl
  assume "dpop_proof env (dr_header req) = Inr (k, cl)" "dpop_claims_error env v token req k cl now = None"
    and rest: "replay_add rc (str_claim cl ''jti'') t t' = (rc', None)"
    "\<And>a. map_of cl ''ath'' = Some (JStr a) \<Longrightarrow> a = ath_thumbprint env (vt_raw token)"
  then have "proof_binds env v token req cl now"
    using dpop_proof_Inr [of env "dr_header req" k cl] dpop_claims_ok [of env v token req k cl now]
    unfolding proof_binds_def by blast
  with rest show ?thesis by blast
qed

lemma proof_claims_unique:
  \<comment> \<open>the claims of a proof are a function of the proof\<close>
  "proof_binds env v token req cl now \<Longrightarrow> proof_binds env v' token' req' cl' now' \<Longrightarrow>
     dr_header req = dr_header req' \<Longrightarrow> cl = cl'"
  unfolding proof_binds_def by (elim exE conjE) simp

section \<open>A concrete instance\<close>

definition demo_jwk :: jwk where
  "demo_jwk = \<lparr>jkty = ''OKP'', jkid = [], jalg = [], juse = [], jn = [], je = [],
     jcrv = ''Ed25519'', jx = ''AAAAAAAAAAAAAAAAAAAAAAAAAAAAAAAAAAAAAAAAAAA'', jy = []\<rparr>"

definition demo_dpop_env :: dpop_env where
  "demo_dpop_env = \<lparr>
     de_header = (\<lambda>_. Some \<lparr>dh_typ = ''dpop+jwt'', dh_alg = ''EdDSA'', dh_jwk = ''{}''\<rparr>),
     de_jwk = (\<lambda>_. Some demo_jwk), de_members = (\<lambda>_. Some [''kty'', ''crv'', ''x'']),
     de_parse = (\<lambda>alg skew pk tok. Some ([(''htm'', JStr ''GET''), (''htu'', JStr ''https://api/x''), (''iat'', JNum 5),
                                          (''jti'', JStr ''j1'')], True)),
     de_escape = (\<lambda>s. s), de_sha256 = (\<lambda>_. ''tp''),
     de_url = (\<lambda>_. Some \<lparr>url_scheme = ''HTTPS'', url_host = ''api:443'', url_escaped_path = ''/x''\<rparr>)\<rparr>"

definition demo_token :: verified_token where
  "demo_token = (token_of_claims ''tok'' \<lparr>hdr_alg = ''EdDSA'', hdr_kid = [], hdr_typ = []\<rparr> []
     [(''sub'', JStr ''u1''), (''cnf'', JObj [(''jkt'', JStr ''tp'')])])"

definition demo_dpop_request :: dpop_request where
  "demo_dpop_request = \<lparr>dr_method = ''GET'', dr_url = ''https://api/x'', dr_header = ''e30.e30.AA''\<rparr>"

abbreviation demo_accept where
  "demo_accept \<equiv> dpop_validate demo_dpop_env (dpop_validator_new 0 None) (replay_new 3 (120 * second)) (Some demo_token)
     demo_dpop_request (5 * second) (5 * second) (5 * second)"

lemma demo_accepted: "snd demo_accept = None"
  by code_simp

lemma demo_accept_eq: "demo_accept = (fst demo_accept, None)"
  using demo_accepted by (metis prod.collapse)

lemma demo_token_bound: "has_jkt (vt_cnf demo_token)"
  by code_simp

section \<open>Properties\<close>





section \<open>Clients of the verifier\<close>

context token_verifier
begin

lemma cnf_enforce_sound:
  assumes "cnf_enforce alg_of verify sha st md certs = (st', None)"
    and "verify st (extract_bearer md) = (st'', Inr t)" "is_asymmetric_jwt alg_of (extract_bearer md)"
  shows "authentic (extract_bearer md) t \<and>
    (has_x5t (vt_cnf t) \<longrightarrow> (\<exists>leaf cs. certs = Some (leaf # cs) \<and> leaf \<noteq> [] \<and> sha leaf = cnf_x5t (vt_cnf t))) \<and>
    (has_jkt (vt_cnf t) \<longrightarrow> has_x5t (vt_cnf t))"
  using assms verify_authentic [OF assms(2)] verified_nonempty [OF assms(2)]
  by (auto simp: cnf_enforce_def mtls_validate_def resolve_client_cert_def Let_def
      split: if_splits option.splits list.splits sum.splits)

lemma wrap_forward:
  assumes "mw_verify m = verify" "dpop_wrap m st r now u u' now' = (st', Forward r')"
    and "\<not> is_public_http_path (req_path r)"
    and "split_auth_scheme (hget (req_header r) ''Authorization'') = (tok, scheme)" "tok \<noteq> []"
  obtains c' t st2 st3 where "verify (ds_verifier st) tok = (c', Inr t)" "authentic tok t"
    "check_revoked m (st\<lparr>ds_verifier := c'\<rparr>) t = (st2, False)"
    "check_binding m st2 t r scheme now u u' = (st3, None)"
    "stepup_check (Some t) (mw_lookup m (resolve_fqn m (req_method r) (req_path r))) now' = None"
    "r' = inject_verified_token_headers r t"
proof -
  obtain c' t st2 st3 where w: "mw_verify m (ds_verifier st) tok = (c', Inr t)"
    "check_revoked m (st\<lparr>ds_verifier := c'\<rparr>) t = (st2, False)"
    "check_binding m st2 t r scheme now u u' = (st3, None)"
    "stepup_check (Some t) (mw_lookup m (resolve_fqn m (req_method r) (req_path r))) now' = None"
    "r' = inject_verified_token_headers r t"
    using assms(2-5)
    by (auto simp: dpop_wrap_def Let_def split: if_splits prod.splits sum.splits bool.splits option.splits)
  then have "verify (ds_verifier st) tok = (c', Inr t)"
    using assms(1) by simp
  with w show thesis
    using that verify_authentic by blast
qed

end

lemma stepup_check_None:
  "stepup_check (Some t) req now = None \<Longrightarrow>
     (required_acr_min req \<noteq> [] \<longrightarrow> acr_rank (required_acr_min req) \<le> acr_rank (vt_acr t)) \<and>
     (mfa_max_age req > 0 \<longrightarrow> (\<exists>a. vt_auth_time t = Some a \<and> now - a \<le> mfa_max_age req))"
  by (auto simp: stepup_check_def split: if_splits option.splits)

lemma check_binding_None:
  assumes "check_binding m st t r scheme now u u' = (st', None)"
  shows "(has_jkt (vt_cnf t) \<longrightarrow> (\<exists>cl. proof_binds (mw_env m) (mw_validator m) t
            \<lparr>dr_method = req_method r, dr_url = absolute_request_url r (mw_api_domain m),
             dr_header = hget (req_header r) ''DPoP''\<rparr> cl now)) \<and>
    (\<not> has_jkt (vt_cnf t) \<and> has_x5t (vt_cnf t) \<longrightarrow>
       (\<exists>leaf cs. req_peer_certs r = Some (leaf # cs) \<and> de_sha256 (mw_env m) leaf = cnf_x5t (vt_cnf t)))"
proof (cases "has_jkt (vt_cnf t)")
  case True
  then obtain rc' where "dpop_validate (mw_env m) (mw_validator m) (ds_replay st) (Some t)
      \<lparr>dr_method = req_method r, dr_url = absolute_request_url r (mw_api_domain m),
       dr_header = hget (req_header r) ''DPoP''\<rparr> now u u' = (rc', None)"
    using assms by (auto simp: check_binding_def Let_def split: prod.splits)
  from dpop_accept [OF this True] True show ?thesis by blast
next
  case False
  then show ?thesis
    using assms
    by (auto simp: check_binding_def mtls_validate_def resolve_client_cert_def
        split: if_splits option.splits list.splits sum.splits)
qed


definition demo_mw :: "jwks_cache dpop_mw" where
  "demo_mw = \<lparr>
     mw_verify = (\<lambda>c. jwt_verify demo_env demo_verifier
       (\<lambda>kid. jwks_resolve (\<lambda>c. c) c kid (Inl ErrJWKSUnreachable) second second second) c),
     mw_introspect = (\<lambda>ic jti raw. (ic, None)), mw_lookup = (\<lambda>_. no_requirement), mw_routes = None,
     mw_env = demo_dpop_env, mw_validator = dpop_validator_new 0 None, mw_api_domain = ''api'', mw_require_all = True\<rparr>"

definition demo_wrap_request :: http_request where
  "demo_wrap_request = \<lparr>req_method = ''GET'', req_path = ''/vpc/v1/networks'', req_query = [],
     req_header = [(''Authorization'', [''Bearer e30.e30.AA''])], req_body = None, req_host = ''api'', req_remote = [],
     req_peer_certs = None, req_ctx = ctx_background\<rparr>"

abbreviation demo_wrap where
  "demo_wrap \<equiv> dpop_wrap demo_mw \<lparr>ds_verifier = demo_jwks, ds_introspection = None, ds_replay = replay_new 3 0\<rparr>
     demo_wrap_request second second second second"

lemma demo_wrap_forward: "case snd demo_wrap of Forward _ \<Rightarrow> True | Challenge _ \<Rightarrow> False"
  by code_simp


end
