(* ===== verification/Authz_Extract.thy ===== *)
theory Authz_Extract
  imports Authz_Config Dpop
begin

text \<open>
  What an authorization check is asked about: the subject (\<^verbatim>\<open>internal/middleware/subject_extractor.go\<close>),
  the resource (\<^verbatim>\<open>resource_extractor.go\<close>), the Conditions context (\<^verbatim>\<open>context_extractor.go\<close>) and the
  helpers of \<^verbatim>\<open>authz_util.go\<close>. Protobuf reflection, the JSON decoder, the IP parser and the RFC 3339
  parser are parameters.
\<close>

section \<open>Subjects\<close>

datatype subject_kind =
  SubjectKindUnknown | SubjectKindUser | SubjectKindServiceAccount | SubjectKindWorkload | SubjectKindExternal

record resolved_subject =
  rs_fga :: string
  rs_kind :: subject_kind
  rs_id :: string
  rs_source :: string

definition classify_principal :: "string \<Rightarrow> subject_kind \<times> string" where
  "classify_principal t0 =
     (let t = to_lower t0 in
      if t \<in> {''user'', ''usr''} then (SubjectKindUser, ''user'')
      else if t \<in> {''service_account'', ''service-account'', ''serviceaccount'', ''sva''}
      then (SubjectKindServiceAccount, ''service_account'')
      else if t \<in> {''workload'', ''wid''} then (SubjectKindWorkload, ''workload'')
      else (SubjectKindUnknown, []))"

definition resolved :: "string \<Rightarrow> subject_kind \<Rightarrow> string \<Rightarrow> string \<Rightarrow> resolved_subject" where
  "resolved prefix k i source =
     \<lparr>rs_fga = prefix @ '':'' @ i, rs_kind = k, rs_id = i, rs_source = source\<rparr>"

definition unified_subject :: "claims \<Rightarrow> resolved_subject option" where
  \<comment> \<open>rule 1: \<open>kacho_principal_type\<close> with \<open>kacho_principal_id\<close>\<close>
  "unified_subject ext =
     (let pType = trim_space (str_claim ext ''kacho_principal_type'');
          pID = trim_space (str_claim ext ''kacho_principal_id'')
      in if pType \<noteq> [] \<and> pID \<noteq> [] then
           (let (k, prefix) = classify_principal pType in
            if k \<noteq> SubjectKindUnknown then Some (resolved prefix k pID ''ext_claims.kacho_principal_*'') else None)
         else None)"

definition subject_extract :: "bool \<Rightarrow> verified_token option \<Rightarrow> resolved_subject option" where
  \<comment> \<open>the first argument is \<open>allowExternalFallback\<close>\<close>
  "subject_extract fallback tok =
     (case tok of
        None \<Rightarrow> None
      | Some t \<Rightarrow>
          (let ext = (case vt_ext t of None \<Rightarrow> [] | Some m \<Rightarrow> m) in
           case unified_subject ext of
             Some s \<Rightarrow> Some s
           | None \<Rightarrow>
               if str_claim ext ''kacho_user_id'' \<noteq> [] then
                 Some (resolved ''user'' SubjectKindUser (str_claim ext ''kacho_user_id'') ''ext_claims.kacho_user_id'')
               else if str_claim ext ''kacho_sa_id'' \<noteq> [] then
                 Some (resolved ''service_account'' SubjectKindServiceAccount (str_claim ext ''kacho_sa_id'') ''ext_claims.kacho_sa_id'')
               else if str_claim ext ''kacho_workload_id'' \<noteq> [] then
                 Some (resolved ''workload'' SubjectKindWorkload (str_claim ext ''kacho_workload_id'') ''ext_claims.kacho_workload_id'')
               else if fallback \<and> vt_subject t \<noteq> [] then
                 Some (resolved ''external'' SubjectKindExternal (vt_subject t) ''jwt.sub'')
               else None))"

section \<open>Helpers\<close>

definition normalize_fqn :: "string \<Rightarrow> string" where
  "normalize_fqn full = trim_prefix full ''/''"

definition grpc_meta_forwarded_for :: "header option \<Rightarrow> string" where
  "grpc_meta_forwarded_for md =
     (case md of
        None \<Rightarrow> []
      | Some m \<Rightarrow>
          (case md_get m ''grpcgateway-x-forwarded-for'' of
             v # _ \<Rightarrow> v
           | [] \<Rightarrow>
               (case md_get m ''x-forwarded-for'' of
                  v # _ \<Rightarrow> v
                | [] \<Rightarrow> (case md_get m ''grpcgateway-x-real-ip'' of v # _ \<Rightarrow> v | [] \<Rightarrow> []))))"

definition md_override :: "header \<Rightarrow> string \<Rightarrow> string \<Rightarrow> string" where
  \<comment> \<open>\<open>if v := md.Get(k); len(v) > 0 { x = v[0] }\<close>\<close>
  "md_override m k x = (case md_get m k of [] \<Rightarrow> x | v # _ \<Rightarrow> v)"

definition token_of_identity :: "string \<Rightarrow> string \<Rightarrow> string \<Rightarrow> string \<Rightarrow> string \<Rightarrow> verified_token" where
  "token_of_identity sub pType acr jti scope =
     \<lparr>vt_raw = [], vt_kid = [], vt_alg = [], vt_subject = sub, vt_issuer = [], vt_audience = [],
      vt_issued_at = None, vt_expires_at = None, vt_not_before = None, vt_jti = jti, vt_acr = acr, vt_amr = [],
      vt_auth_time = None,
      vt_cnf = \<lparr>cnf_jkt = [], cnf_x5t = [], has_jkt = False, has_x5t = False, is_bearer = False\<rparr>,
      vt_scope = scope,
      vt_ext = Some [(''kacho_principal_type'', JStr (default_if_empty pType ''user'')),
                     (''kacho_principal_id'', JStr sub)],
      vt_claims = []\<rparr>"

definition verified_token_from_ctx_or_http ::
  "header option \<Rightarrow> http_request option \<Rightarrow> verified_token option" where
  \<comment> \<open>the first argument is the incoming metadata of the context\<close>
  "verified_token_from_ctx_or_http md r =
     (let rd = (\<lambda>h. case r of None \<Rightarrow> [] | Some q \<Rightarrow> hget (req_header q) h);
          acr = rd HeaderTokenACR; jti = rd HeaderTokenJti; scope = rd HeaderTokenScope;
          pType = rd HeaderPrincipalType; sub = rd HeaderPrincipalID;
          (acr', jti', scope', sub', pType') =
            (if sub = [] \<or> acr = [] then
               (case md of
                  None \<Rightarrow> (acr, jti, scope, sub, pType)
                | Some m \<Rightarrow>
                    (md_override m MetaTokenACR acr, md_override m MetaTokenJti jti, md_override m MetaTokenScope scope,
                     md_override m MetaPrincipalID sub, md_override m MetaPrincipalType pType))
             else (acr, jti, scope, sub, pType))
      in if sub' = [] then None else Some (token_of_identity sub' pType' acr' jti' scope'))"

definition grpc_method_for_path :: "string \<Rightarrow> string" where
  "grpc_method_for_path path =
     (if length (split_byte (CHR ''/'') (trim_prefix path ''/'')) < 2 then path else ''/'' @ path)"

definition resolve_rest_fqn :: "(string \<Rightarrow> string \<Rightarrow> string option) option \<Rightarrow> http_request \<Rightarrow> string" where
  "resolve_rest_fqn router r =
     (case router of
        Some res \<Rightarrow>
          (case res (req_method r) (req_path r) of
             Some fqn \<Rightarrow> fqn
           | None \<Rightarrow> grpc_method_for_path (req_path r))
      | None \<Rightarrow> grpc_method_for_path (req_path r))"

definition trace_from_context :: "string \<Rightarrow> http_request option \<Rightarrow> header option \<Rightarrow> string" where
  \<comment> \<open>the first argument is the request identifier of the context\<close>
  "trace_from_context ctxID r md =
     (let h = (case r of None \<Rightarrow> [] | Some q \<Rightarrow> hget (req_header q) ''X-Request-Id'') in
      if h \<noteq> [] then h
      else (case md of
              None \<Rightarrow> ctxID
            | Some m \<Rightarrow>
                (case md_get m ''x-request-id'' of
                   v # _ \<Rightarrow> v
                 | [] \<Rightarrow> (case md_get m ''grpcgateway-x-request-id'' of v # _ \<Rightarrow> v | [] \<Rightarrow> ctxID))))"

section \<open>Resources\<close>

text \<open>
  A protobuf message as reflection shows it: the declared fields in order, a text or bytes field with
  the text of its value, a message field with the text of its \<open>id\<close> and of its populated fields in the
  order of \<open>Range\<close> (\<open>None\<close>: unset), or another kind.
\<close>

datatype proto_value = PText string | PMessage "(string option \<times> string list) option" | POther

type_synonym proto_msg = "(string \<times> proto_value) list"

fun snake_to_camel_loop :: "bool \<Rightarrow> string \<Rightarrow> string" where
  "snake_to_camel_loop up [] = []"
| "snake_to_camel_loop up (c # cs) =
     (if c = CHR ''_'' then snake_to_camel_loop True cs
      else (let n = of_char c :: nat in
            if up \<and> 97 \<le> n \<and> n \<le> 122 then upper_char c # snake_to_camel_loop False cs
            else c # snake_to_camel_loop False cs))"

definition snake_to_camel :: "string \<Rightarrow> string" where
  "snake_to_camel s = snake_to_camel_loop False s"

definition is_upper :: "char \<Rightarrow> bool" where
  "is_upper c = (let n = of_char c :: nat in 65 \<le> n \<and> n \<le> 90)"

definition to_snake_case :: "string \<Rightarrow> string" where
  "to_snake_case s =
     (case s of
        [] \<Rightarrow> []
      | c # cs \<Rightarrow> lower_char c # concat (map (\<lambda>d. if is_upper d then [CHR ''_'', lower_char d] else [d]) cs))"

definition extract_by_proto_reflect :: "proto_msg \<Rightarrow> string \<Rightarrow> string" where
  "extract_by_proto_reflect msg field =
     (let fd = (case map_of msg field of
                  Some v \<Rightarrow> Some v
                | None \<Rightarrow>
                    (case List.map_filter (\<lambda>alt. if alt = field then None else map_of msg alt)
                            [to_snake_case field, to_lower field] of
                       v # _ \<Rightarrow> Some v
                     | [] \<Rightarrow> None))
      in case fd of
           None \<Rightarrow> ''*''
         | Some (PMessage None) \<Rightarrow> ''*''
         | Some (PMessage (Some (idv, populated))) \<Rightarrow>
             (case idv of
                Some (x # xs) \<Rightarrow> x # xs
              | _ \<Rightarrow> (case find (\<lambda>s. s \<noteq> []) populated of Some s \<Rightarrow> s | None \<Rightarrow> ''*''))
         | Some (PText s) \<Rightarrow> if s = [] then ''*'' else s
         | Some POther \<Rightarrow> ''*'')"

definition extract_from_proto :: "proto_msg option \<Rightarrow> catalog_entry \<Rightarrow> string" where
  \<comment> \<open>\<open>None\<close>: not a protobuf message\<close>
  "extract_from_proto req e =
     (let field = trim_space (from_request_field (ce_scope e)) in
      if field = [] \<or> field = ''*'' then ''*''
      else case req of None \<Rightarrow> ''*'' | Some msg \<Rightarrow> extract_by_proto_reflect msg field)"

definition split_verb_suffix :: "string \<Rightarrow> string \<times> string" where
  "split_verb_suffix seg =
     (case last_index_byte seg (CHR '':'') of
        Some (Suc i) \<Rightarrow> (take (Suc i) seg, drop (Suc (Suc i)) seg)
      | _ \<Rightarrow> (seg, []))"

fun template_loop :: "string \<Rightarrow> string list \<Rightarrow> string list \<Rightarrow> string \<Rightarrow> string option" where
  \<comment> \<open>the loop over the segments; the last argument is \<open>found\<close>\<close>
  "template_loop field (t # ts) (p # ps) found =
     (let (tBase, tVerb) = split_verb_suffix t; (pBase, pVerb) = split_verb_suffix p in
      if tVerb \<noteq> pVerb then None
      else if is_placeholder tBase then
        template_loop field ts ps (if butlast (tl tBase) = field then pBase else found)
      else if tBase \<noteq> pBase then None
      else template_loop field ts ps found)"
| "template_loop field _ _ found = Some found"

definition extract_by_path_template :: "string \<Rightarrow> string \<Rightarrow> string \<Rightarrow> string option" where
  \<comment> \<open>\<open>None\<close> for \<open>ok = false\<close>, which includes an empty value\<close>
  "extract_by_path_template reqPath template field =
     (let tparts = split_byte (CHR ''/'') (trim_byte (CHR ''/'') template);
          pparts = split_byte (CHR ''/'') (trim_byte (CHR ''/'') reqPath)
      in if length tparts \<noteq> length pparts then None
         else (case template_loop field tparts pparts [] of
                 Some (x # xs) \<Rightarrow> Some (x # xs)
               | _ \<Rightarrow> None))"

definition query_get :: "http_request \<Rightarrow> string \<Rightarrow> string" where
  "query_get r k = (case map_of (req_query r) k of Some (v # _) \<Rightarrow> v | _ \<Rightarrow> [])"

definition extract_from_json_body ::
  "(string \<Rightarrow> claims option) \<Rightarrow> http_request \<Rightarrow> string \<Rightarrow> http_request \<times> string" where
  \<comment> \<open>the body is replaced by at most its first MiB\<close>
  "extract_from_json_body decode r field =
     (case req_body r of
        None \<Rightarrow> (r, [])
      | Some body \<Rightarrow>
          (let ct = hget (req_header r) ''Content-Type'' in
           if ct \<noteq> [] \<and> \<not> contains_sub ct ''json'' then (r, [])
           else (let buf = take (2 ^ 20) body; r' = r\<lparr>req_body := Some buf\<rparr> in
                 if buf = [] then (r', [])
                 else (case decode buf of
                         None \<Rightarrow> (r', [])
                       | Some doc \<Rightarrow>
                           (r', if str_claim doc field \<noteq> [] then str_claim doc field
                                else str_claim doc (snake_to_camel field))))))"

definition extract_from_http ::
  "(string \<Rightarrow> claims option) \<Rightarrow> (string \<times> string) list \<Rightarrow> http_request \<Rightarrow> string \<Rightarrow> catalog_entry \<Rightarrow>
   http_request \<times> string" where
  \<comment> \<open>the second argument maps a method name to its path template\<close>
  "extract_from_http decode templates r fqn e =
     (let field = trim_space (from_request_field (ce_scope e)) in
      if field = [] \<or> field = ''*'' then (r, ''*'')
      else case (case map_of templates fqn of
                   Some tmpl \<Rightarrow> if tmpl = [] then None else extract_by_path_template (req_path r) tmpl field
                 | None \<Rightarrow> None) of
        Some i \<Rightarrow> (r, i)
      | None \<Rightarrow>
          (case find (\<lambda>q. q \<noteq> []) [query_get r field, query_get r (snake_to_camel field), query_get r ''scope_id''] of
             Some q \<Rightarrow> (r, q)
           | None \<Rightarrow>
               (let (r', i) = extract_from_json_body decode r field in (r', if i \<noteq> [] then i else ''*''))))"

definition scope_type_from_proto :: "proto_msg option \<Rightarrow> string \<Rightarrow> string" where
  "scope_type_from_proto req field0 =
     (let field = trim_space field0 in
      if field = [] then []
      else case req of
        None \<Rightarrow> []
      | Some msg \<Rightarrow> (let i = extract_by_proto_reflect msg field in if i = ''*'' then [] else i))"

definition scope_type_from_http ::
  "(string \<Rightarrow> claims option) \<Rightarrow> http_request \<Rightarrow> string \<Rightarrow> http_request \<times> string" where
  "scope_type_from_http decode r field0 =
     (let field = trim_space field0 in
      if field = [] then (r, [])
      else case find (\<lambda>q. q \<noteq> []) [query_get r field, query_get r (snake_to_camel field)] of
        Some q \<Rightarrow> (r, q)
      | None \<Rightarrow> extract_from_json_body decode r field)"

section \<open>Conditions context\<close>

record context_extractor =
  cx_trusted_xff :: bool
  cx_trusted_hops :: int
  cx_parse_ip :: "string \<Rightarrow> string option" \<comment> \<open>\<open>net.ParseIP\<close> with the text of the address it denotes\<close>
  cx_rfc3339 :: "string \<Rightarrow> int option" \<comment> \<open>\<open>time.Parse\<close> to seconds since the epoch\<close>

definition context_extractor_new ::
  "bool \<Rightarrow> int option \<Rightarrow> (string \<Rightarrow> string option) \<Rightarrow> (string \<Rightarrow> int option) \<Rightarrow> context_extractor" where
  \<comment> \<open>the option \<open>WithTrustedProxyHops\<close>, one hop without it\<close>
  "context_extractor_new trusted hops parse_ip rfc3339 =
     \<lparr>cx_trusted_xff = trusted,
      cx_trusted_hops = (case hops of None \<Rightarrow> 1 | Some n \<Rightarrow> if n < 0 then 0 else n),
      cx_parse_ip = parse_ip, cx_rfc3339 = rfc3339\<rparr>"

definition client_ip_from_forward_headers :: "context_extractor \<Rightarrow> string \<Rightarrow> string \<Rightarrow> string option" where
  \<comment> \<open>\<open>None\<close> is the empty string\<close>
  "client_ip_from_forward_headers e xRealIP xff =
     (if \<not> cx_trusted_xff e \<or> cx_trusted_hops e \<le> 0 then None
      else (let parts = split_byte (CHR '','') xff;
                idx = int (length parts) - cx_trusted_hops e;
                hop = (if xff \<noteq> [] \<and> 0 \<le> idx \<and> idx < int (length parts)
                       then cx_parse_ip e (trim_space (parts ! nat idx)) else None)
            in case hop of
                 Some ip \<Rightarrow> Some ip
               | None \<Rightarrow>
                   (let v = trim_space xRealIP in if v \<noteq> [] then cx_parse_ip e v else None)))"

definition host_ip :: "context_extractor \<Rightarrow> (string \<Rightarrow> string option) \<Rightarrow> string \<Rightarrow> string option" where
  \<comment> \<open>the second argument is the host part of \<open>net.SplitHostPort\<close>\<close>
  "host_ip e split addr = cx_parse_ip e (case split addr of Some host \<Rightarrow> host | None \<Rightarrow> addr)"

definition resolve_client_ip :: "context_extractor \<Rightarrow> (string \<Rightarrow> string option) \<Rightarrow> http_request \<Rightarrow> string option" where
  "resolve_client_ip e split r =
     (case client_ip_from_forward_headers e (hget (req_header r) ''X-Real-IP'') (hget (req_header r) ''X-Forwarded-For'') of
        Some ip \<Rightarrow> Some ip
      | None \<Rightarrow> host_ip e split (req_remote r))"

definition resolve_ip_from_peer :: "context_extractor \<Rightarrow> (string \<Rightarrow> string option) \<Rightarrow> string \<Rightarrow> string \<Rightarrow> string option" where
  "resolve_ip_from_peer e split peer headerFwd =
     (case client_ip_from_forward_headers e [] headerFwd of
        Some ip \<Rightarrow> Some ip
      | None \<Rightarrow> host_ip e split peer)"

definition coerce_unix_seconds :: "context_extractor \<Rightarrow> json \<Rightarrow> int option" where
  "coerce_unix_seconds e v = (case v of JNum n \<Rightarrow> Some n | JStr s \<Rightarrow> cx_rfc3339 e s | _ \<Rightarrow> None)"

definition subject_kind_string :: "subject_kind \<Rightarrow> string" where
  "subject_kind_string k =
     (case k of SubjectKindUser \<Rightarrow> ''user'' | SubjectKindServiceAccount \<Rightarrow> ''service_account''
      | SubjectKindWorkload \<Rightarrow> ''workload'' | SubjectKindExternal \<Rightarrow> ''external'' | SubjectKindUnknown \<Rightarrow> [])"

definition reserved_claims :: "string list" where
  "reserved_claims =
     [''kacho_mfa_at'', ''kacho_device_compliance'', ''kacho_passkey_aaguid'', ''kacho_device_id'',
      ''kacho_principal_type'', ''kacho_principal_id'', ''kacho_user_id'', ''kacho_sa_id'', ''kacho_workload_id'']"

definition opt_str :: "string \<Rightarrow> string \<Rightarrow> (string \<times> ctx_value) list" where
  "opt_str k v = (if v = [] then [] else [(k, CStr v)])"

definition fill_from_token :: "context_extractor \<Rightarrow> verified_token option \<Rightarrow> (string \<times> ctx_value) list \<times> claims" where
  \<comment> \<open>the entries under reserved names, and the claims forwarded under their own names\<close>
  "fill_from_token e tok =
     (case tok of
        None \<Rightarrow> ([], [])
      | Some t \<Rightarrow>
          (let ext = (case vt_ext t of None \<Rightarrow> [] | Some m \<Rightarrow> m) in
           (opt_str ''acr_value'' (vt_acr t) @
            (if vt_amr t = [] then [] else [(''amr_claims'', CStrs (vt_amr t))]) @
            (case vt_auth_time t of None \<Rightarrow> [] | Some at \<Rightarrow> [(''auth_time'', CInt (at div second))]) @
            opt_str ''jti'' (vt_jti t) @
            (if has_jkt (vt_cnf t) then [(''dpop_jkt'', CStr (cnf_jkt (vt_cnf t)))] else []) @
            (case Option.bind (map_of ext ''kacho_mfa_at'') (coerce_unix_seconds e) of
               None \<Rightarrow> [] | Some ts \<Rightarrow> [(''mfa_at'', CInt ts)]) @
            opt_str ''device_attestation'' (str_claim ext ''kacho_device_compliance'') @
            opt_str ''passkey_aaguid'' (str_claim ext ''kacho_passkey_aaguid'') @
            opt_str ''device_id'' (str_claim ext ''kacho_device_id''),
            filter (\<lambda>(k, _). has_prefix k ''kacho_'' \<and> k \<notin> set reserved_claims) ext)))"

definition build_context ::
  "context_extractor \<Rightarrow> time \<Rightarrow> string option \<Rightarrow> verified_token option \<Rightarrow> resolved_subject \<Rightarrow> context_map" where
  \<comment> \<open>the common part of \<open>BuildHTTP\<close> and \<open>BuildPeerAddr\<close>, from the client address\<close>
  "build_context e now ip tok subj =
     (let (vals, fwd) = fill_from_token e tok in
      \<lparr>ctx_vals = [(''current_time'', CInt (now div second))] @
         (case ip of None \<Rightarrow> [] | Some a \<Rightarrow> opt_str ''client_ip'' a) @ vals @
         (if rs_fga subj = [] then [] else [(''subject_kind'', CStr (subject_kind_string (rs_kind subj)))]),
       ctx_forward = fwd\<rparr>)"

definition build_http ::
  "context_extractor \<Rightarrow> (string \<Rightarrow> string option) \<Rightarrow> time \<Rightarrow> verified_token option \<Rightarrow> http_request option \<Rightarrow>
   resolved_subject \<Rightarrow> context_map" where
  "build_http e split now tok r subj =
     build_context e now (Option.bind r (resolve_client_ip e split)) tok subj"

definition build_peer_addr ::
  "context_extractor \<Rightarrow> (string \<Rightarrow> string option) \<Rightarrow> time \<Rightarrow> verified_token option \<Rightarrow> string \<Rightarrow> string \<Rightarrow>
   resolved_subject \<Rightarrow> context_map" where
  "build_peer_addr e split now tok peer headerFwd subj =
     build_context e now (resolve_ip_from_peer e split peer headerFwd) tok subj"

section \<open>Forwarded addresses\<close>

lemma split_byte_append_full: "split_byte c (a @ c # b) = split_byte c a @ split_byte c b"
proof (induction a)
  case (Cons d a)
  then show ?case
    by (cases "split_byte c a") auto
qed simp

text \<open>
  The client address that the authorization context reports cannot be moved by what a client
  writes into X-Forwarded-For: with the configured number of trusted hops, entries to the left of those
  that the trusted proxies appended have no effect, over REST and over gRPC. Without trust in the
  header, or with no trusted hop, both forwarding headers are ignored and the peer address counts.
\<close>

theorem forged_forwarded_for_ignored:
  assumes "appended \<noteq> []" "cx_trusted_hops e \<le> int (length (split_byte (CHR '','') appended))"
  shows "client_ip_from_forward_headers e xRealIP (forged @ '','' @ appended) =
      client_ip_from_forward_headers e xRealIP appended \<and>
    (\<not> cx_trusted_xff e \<or> cx_trusted_hops e \<le> 0 \<longrightarrow>
       resolve_client_ip e split r = host_ip e split (req_remote r) \<and>
       resolve_ip_from_peer e split peer (forged @ '','' @ appended) = host_ip e split peer)"
proof (cases "\<not> cx_trusted_xff e \<or> cx_trusted_hops e \<le> 0")
  case True
  then show ?thesis
    by (auto simp: client_ip_from_forward_headers_def resolve_client_ip_def resolve_ip_from_peer_def)
next
  case False
  let ?fs = "split_byte (CHR '','') forged" and ?as = "split_byte (CHR '','') appended"
  let ?h = "nat (cx_trusted_hops e)"
  have h: "cx_trusted_hops e = int ?h" "0 < ?h" "?h \<le> length ?as"
    using False assms(2) by auto
  have "length (?fs @ ?as) - ?h = length ?fs + (length ?as - ?h)"
    using h(3) by simp
  then have "(?fs @ ?as) ! (length (?fs @ ?as) - ?h) = ?as ! (length ?as - ?h)"
    by (simp only: nth_append_length_plus)
  moreover have "nat (int (length (?fs @ ?as)) - cx_trusted_hops e) = length (?fs @ ?as) - ?h"
    "nat (int (length ?as) - cx_trusted_hops e) = length ?as - ?h"
    using h by linarith+
  ultimately show ?thesis
    using False assms h(3) by (simp add: client_ip_from_forward_headers_def split_byte_append_full Let_def)
qed

theorem forged_forwarded_for_ignored_witness:
  "client_ip_from_forward_headers (context_extractor_new True None Some (\<lambda>_. None)) [] ''6.6.6.6,10.0.0.7'' = Some ''10.0.0.7''"
proof -
  let ?e = "context_extractor_new True None Some (\<lambda>_. None)"
  have "cx_trusted_hops ?e \<le> int (length (split_byte (CHR '','') ''10.0.0.7''))"
    "client_ip_from_forward_headers ?e [] ''10.0.0.7'' = Some ''10.0.0.7''"
    by code_simp+
  then show ?thesis
    using forged_forwarded_for_ignored [of "''10.0.0.7''" ?e "[]" "''6.6.6.6''"] by simp
qed

section \<open>Path templates\<close>

definition fill_segment :: "(string \<Rightarrow> string) \<Rightarrow> string \<Rightarrow> string" where
  \<comment> \<open>a template segment with its placeholder replaced; a verb after the colon is kept\<close>
  "fill_segment \<sigma> t =
     (let (b, v) = split_verb_suffix t in
      if is_placeholder b then \<sigma> (butlast (tl b)) @ (if v = [] then [] else CHR '':'' # v) else t)"

definition plain_id :: "string \<Rightarrow> bool" where
  "plain_id s \<longleftrightarrow> s \<noteq> [] \<and> CHR ''/'' \<notin> set s \<and> CHR '':'' \<notin> set s"

lemma last_index_byte_Some:
  "last_index_byte s c = Some i \<Longrightarrow> i < length s \<and> s ! i = c \<and> c \<notin> set (drop (Suc i) s)"
proof (induction s arbitrary: i)
  case (Cons d s)
  then show ?case
    by (cases "last_index_byte s c") (auto simp: last_index_byte_None split: if_splits)
qed simp

lemma split_verb_suffix_join: "v \<noteq> [] \<Longrightarrow> CHR '':'' \<notin> set v \<Longrightarrow> b \<noteq> [] \<Longrightarrow> split_verb_suffix (b @ CHR '':'' # v) = (b, v)"
proof (cases b)
  case (Cons x xs)
  then show ?thesis if "CHR '':'' \<notin> set v"
    using last_index_byte_append [OF that, of b] by (simp add: split_verb_suffix_def)
qed simp

lemma split_verb_suffix_none: "CHR '':'' \<notin> set b \<Longrightarrow> split_verb_suffix b = (b, [])"
  by (simp add: split_verb_suffix_def last_index_byte_None [THEN iffD2])

lemma split_verb_suffix_verb: "split_verb_suffix t = (b, v) \<Longrightarrow> CHR '':'' \<notin> set v \<or> v = []"
  by (auto simp: split_verb_suffix_def dest!: last_index_byte_Some split: option.splits nat.splits)

lemma split_verb_fill:
  assumes "\<And>n. plain_id (\<sigma> n)" "split_verb_suffix t = (b, v)"
  shows "split_verb_suffix (fill_segment \<sigma> t) = (if is_placeholder b then \<sigma> (butlast (tl b)) else b, v)"
proof (cases "is_placeholder b")
  case True
  have id: "\<sigma> (butlast (tl b)) \<noteq> []" "CHR '':'' \<notin> set (\<sigma> (butlast (tl b)))"
    using assms(1) by (auto simp: plain_id_def)
  show ?thesis
  proof (cases "v = []")
    case False
    then have "CHR '':'' \<notin> set v"
      using split_verb_suffix_verb [OF assms(2)] by blast
    then show ?thesis
      using True False id assms(2) by (simp add: fill_segment_def split_verb_suffix_join)
  qed (use True id assms(2) in \<open>simp add: fill_segment_def split_verb_suffix_none\<close>)
qed (use assms(2) in \<open>simp add: fill_segment_def\<close>)

definition names_field :: "string \<Rightarrow> string \<Rightarrow> bool" where
  "names_field field t \<longleftrightarrow> (let b = fst (split_verb_suffix t) in is_placeholder b \<and> butlast (tl b) = field)"

lemma template_loop_fill:
  assumes "\<And>n. plain_id (\<sigma> n)"
  shows "template_loop field ts (map (fill_segment \<sigma>) ts) found =
    Some (if \<exists>t \<in> set ts. names_field field t then \<sigma> field else found)"
proof (induction ts arbitrary: found)
  case (Cons t ts)
  obtain b v where bv: "split_verb_suffix t = (b, v)"
    by fastforce
  show ?case
    using Cons split_verb_fill [OF assms bv] bv by (auto simp: names_field_def)
qed simp

lemma trim_join_slash:
  assumes "ps \<noteq> []" "\<And>p. p \<in> set ps \<Longrightarrow> p \<noteq> [] \<and> CHR ''/'' \<notin> set p"
  shows "trim_byte (CHR ''/'') (CHR ''/'' # join_with ''/'' ps) = join_with ''/'' ps"
proof -
  obtain x xs y ys where ps: "ps = x # xs" "ps = ys @ [y]"
    using assms(1) by (metis neq_Nil_conv rev_exhaust)
  have "x \<in> set ps" "y \<in> set ps"
    using ps(1) by simp (simp add: ps(2))
  then have "x \<noteq> []" "y \<noteq> []" "hd x \<noteq> CHR ''/''" "last y \<noteq> CHR ''/''"
    using assms(2) [of x] assms(2) [of y] hd_in_set [of x] last_in_set [of y] by metis+
  then show ?thesis
    using join_with_ends(1,2) [of x "''/''" xs] join_with_ends(3) [of y "''/''" ys] ps
    by (intro trim_byte_id) auto
qed

definition good_segment :: "string \<Rightarrow> bool" where
  "good_segment t \<longleftrightarrow> t \<noteq> [] \<and> CHR ''/'' \<notin> set t"

lemma fill_segment_good:
  assumes "\<And>n. plain_id (\<sigma> n)" "good_segment t"
  shows "fill_segment \<sigma> t \<noteq> [] \<and> CHR ''/'' \<notin> set (fill_segment \<sigma> t)"
proof -
  obtain b v where bv: "split_verb_suffix t = (b, v)"
    by fastforce
  have "set v \<subseteq> set t"
    using bv by (auto simp: split_verb_suffix_def dest: in_set_dropD split: option.splits nat.splits)
  then show ?thesis
    using assms bv by (auto simp: fill_segment_def good_segment_def plain_id_def)
qed

text \<open>
  The resource that is checked is the resource of the request: on a path that instantiates the
  method's template, including one with a verb after a colon, the extraction returns exactly the
  identifier that stands at the placeholder named by the catalog entry, whatever the other
  placeholders hold.
\<close>

theorem path_scope_roundtrip:
  assumes "ts \<noteq> []" "\<And>t. t \<in> set ts \<Longrightarrow> good_segment t" "\<And>n. plain_id (\<sigma> n)" "\<exists>t \<in> set ts. names_field field t"
  shows "extract_by_path_template (''/'' @ join_with ''/'' (map (fill_segment \<sigma>) ts)) (''/'' @ join_with ''/'' ts) field =
    Some (\<sigma> field)"
proof -
  let ?ps = "map (fill_segment \<sigma>) ts"
  have good: "p \<in> set ts \<Longrightarrow> p \<noteq> [] \<and> CHR ''/'' \<notin> set p" "p \<in> set ?ps \<Longrightarrow> p \<noteq> [] \<and> CHR ''/'' \<notin> set p" for p
    using assms(2) fill_segment_good [OF assms(3)] by (auto simp: good_segment_def)
  have "split_byte (CHR ''/'') (trim_byte (CHR ''/'') (''/'' @ join_with ''/'' ts)) = ts"
    "split_byte (CHR ''/'') (trim_byte (CHR ''/'') (''/'' @ join_with ''/'' ?ps)) = ?ps"
    using trim_join_slash [of ts] trim_join_slash [of ?ps] split_join_byte [of ts "CHR ''/''"]
      split_join_byte [of ?ps "CHR ''/''"] assms(1) good by auto
  moreover have "\<sigma> field \<noteq> []"
    using assms(3) by (auto simp: plain_id_def)
  ultimately show ?thesis
    using template_loop_fill [of \<sigma> field ts "[]"] assms(3,4)
    by (auto simp: extract_by_path_template_def split: list.splits)
qed

theorem path_scope_roundtrip_witness:
  "extract_by_path_template ''/vpc/v1/subnets/e9b1:add-cidr-blocks'' ''/vpc/v1/subnets/{subnet_id}:add-cidr-blocks'' ''subnet_id'' =
     Some ''e9b1''"
proof -
  let ?ts = "[''vpc'', ''v1'', ''subnets'', ''{subnet_id}:add-cidr-blocks'']"
  have path: "''/'' @ join_with ''/'' (map (fill_segment (\<lambda>_. ''e9b1'')) ?ts) = ''/vpc/v1/subnets/e9b1:add-cidr-blocks''"
    "''/'' @ join_with ''/'' ?ts = ''/vpc/v1/subnets/{subnet_id}:add-cidr-blocks''"
    "names_field ''subnet_id'' ''{subnet_id}:add-cidr-blocks''"
    by code_simp+
  have "plain_id ''e9b1''" "t \<in> set ?ts \<Longrightarrow> good_segment t" for t
    by (auto simp: plain_id_def good_segment_def)
  then show ?thesis
    using path_scope_roundtrip [of ?ts "\<lambda>_. ''e9b1''" "''subnet_id''"] path by simp
qed

end
