(* ===== verification/Authz_Response.thy ===== *)
theory Authz_Response
  imports Authz_Config
begin

text \<open>
  How a refusal is shown to the client (\<^verbatim>\<open>internal/middleware/permission_denied_response.go\<close>): gRPC
  statuses with their details, and HTTP responses with a JSON body. The JSON encoder is a parameter.
\<close>

section \<open>Data\<close>

record pd_descriptor =
  pd_subject :: string
  pd_action :: string
  pd_resource_type :: string
  pd_resource_id :: string
  pd_fqn :: string

definition descriptor_of :: "string \<Rightarrow> string \<Rightarrow> pd_descriptor" where
  \<comment> \<open>a descriptor with the method name and the action only\<close>
  "descriptor_of fqn action =
     \<lparr>pd_subject = [], pd_action = action, pd_resource_type = [], pd_resource_id = [], pd_fqn = fqn\<rparr>"

datatype err_detail =
    PreconditionFailure "(string \<times> string \<times> string) list" \<comment> \<open>type, subject, description\<close>
  | ErrorInfo string string "(string \<times> string) list" \<comment> \<open>reason, domain, metadata\<close>

record rpc_status =
  rpc_code :: code
  rpc_message :: string
  rpc_details :: "err_detail list"

section \<open>Reasons\<close>

definition sanitize_reason_token :: "string \<Rightarrow> string" where
  "sanitize_reason_token s0 =
     (let s = trim_space (to_lower s0) in
      if s = [] then ''unspecified''
      else (let ok = (\<lambda>c. let n = of_char c :: nat in 97 \<le> n \<and> n \<le> 122 \<or> 48 \<le> n \<and> n \<le> 57 \<or> c = CHR ''_'');
                out = trim_byte (CHR ''_'') (map (\<lambda>c. if ok c then c else CHR ''_'') s)
            in if out = [] then ''unspecified'' else out))"

definition classify_deny_reason_type :: "string \<Rightarrow> string" where
  "classify_deny_reason_type reason =
     (if reason = [] then ''authz.unspecified''
      else case index_byte reason (CHR '':'') of
        Some (Suc i) \<Rightarrow> ''authz.'' @ sanitize_reason_token (take (Suc i) reason)
      | _ \<Rightarrow> ''authz.'' @ sanitize_reason_token reason)"

definition resource_label :: "pd_descriptor \<Rightarrow> string" where
  "resource_label d =
     (if pd_resource_type d = [] then pd_resource_id d
      else if pd_resource_id d = [] then pd_resource_type d @ '':*''
      else pd_resource_type d @ '':'' @ pd_resource_id d)"

definition should_step_up_challenge :: "string list \<Rightarrow> bool" where
  "should_step_up_challenge reasons =
     list_ex (\<lambda>r. has_prefix (to_lower r) ''mfa_fresh'' \<or> has_prefix (to_lower r) ''non_expired'') reasons"

definition not_found_message :: "pd_descriptor \<Rightarrow> string" where
  "not_found_message d = (if pd_resource_type d \<noteq> [] then pd_resource_type d @ '' not found'' else ''not found'')"

definition invalid_resource_id_message :: "string \<Rightarrow> string" where
  "invalid_resource_id_message i = ''invalid resource id '' @ [CHR 0x27] @ i @ [CHR 0x27]"

definition deny_violations :: "pd_descriptor \<Rightarrow> string list \<Rightarrow> (string \<times> string \<times> string) list" where
  "deny_violations d reasons =
     (if reasons = [] then [(''authz.no_path'', resource_label d, ''no authorization path to the resource'')]
      else map (\<lambda>r. (classify_deny_reason_type r, resource_label d, r)) reasons)"

definition deny_info :: "pd_descriptor \<Rightarrow> string list \<Rightarrow> err_detail" where
  "deny_info d reasons =
     ErrorInfo ''AUTHZ_DENIED'' ''kacho.cloud.iam.v1''
       [(''subject'', pd_subject d), (''action'', pd_action d), (''resource'', resource_label d),
        (''fqn'', pd_fqn d), (''deny_reasons'', join_with ''; '' reasons)]"

definition unauth_info :: "pd_descriptor \<Rightarrow> string list \<Rightarrow> err_detail" where
  "unauth_info d reasons =
     ErrorInfo ''AUTHN_REQUIRED'' ''kacho.cloud.iam.v1''
       [(''fqn'', pd_fqn d), (''deny_reasons'', join_with ''; '' reasons)]"

section \<open>gRPC statuses\<close>

definition build_grpc_deny_status :: "pd_descriptor \<Rightarrow> string list \<Rightarrow> rpc_status" where
  "build_grpc_deny_status d reasons =
     \<lparr>rpc_code = PermissionDenied,
      rpc_message = (if pd_action d \<noteq> [] then ''permission denied: '' @ pd_action d else ''permission denied''),
      rpc_details = [PreconditionFailure (deny_violations d reasons), deny_info d reasons]\<rparr>"

definition build_grpc_not_found_status :: "pd_descriptor \<Rightarrow> rpc_status" where
  "build_grpc_not_found_status d = \<lparr>rpc_code = NotFound, rpc_message = not_found_message d, rpc_details = []\<rparr>"

definition build_grpc_unauth_status :: "pd_descriptor \<Rightarrow> string list \<Rightarrow> rpc_status" where
  "build_grpc_unauth_status d reasons =
     \<lparr>rpc_code = Unauthenticated, rpc_message = ''unauthenticated: credentials required'',
      rpc_details = [unauth_info d reasons]\<rparr>"

definition build_grpc_invalid_arg_status :: "string \<Rightarrow> rpc_status" where
  "build_grpc_invalid_arg_status i =
     \<lparr>rpc_code = InvalidArgument, rpc_message = invalid_resource_id_message i, rpc_details = []\<rparr>"

section \<open>HTTP responses\<close>

definition detail_json :: "err_detail \<Rightarrow> json" where
  "detail_json d =
     (case d of
        PreconditionFailure vs \<Rightarrow>
          JObj [(''@type'', JStr ''type.googleapis.com/google.rpc.PreconditionFailure''),
                (''violations'', JArr (map (\<lambda>(t, s, desc).
                   JObj [(''type'', JStr t), (''subject'', JStr s), (''description'', JStr desc)]) vs))]
      | ErrorInfo r dm md \<Rightarrow>
          JObj [(''@type'', JStr ''type.googleapis.com/google.rpc.ErrorInfo''), (''reason'', JStr r), (''domain'', JStr dm),
                (''metadata'', JObj (map (\<lambda>(k, v). (k, JStr v)) md))])"

definition json_response ::
  "(json \<Rightarrow> string) \<Rightarrow> (string \<times> string) list \<Rightarrow> int \<Rightarrow> (string \<times> json) list \<Rightarrow> resp_writer" where
  \<comment> \<open>headers, a status, and the encoded body\<close>
  "json_response encode hs st body =
     write_body (write_header (writer_new\<lparr>w_header := foldl (\<lambda>h (k, v). hset h k v) [] hs\<rparr>) st) (encode (JObj body))"

definition write_http_not_found :: "(json \<Rightarrow> string) \<Rightarrow> pd_descriptor \<Rightarrow> resp_writer" where
  "write_http_not_found encode d =
     json_response encode [(''Content-Type'', ''application/json'')] 404
       [(''code'', JNum 5), (''message'', JStr (not_found_message d))]"

definition write_http_unauth :: "(json \<Rightarrow> string) \<Rightarrow> pd_descriptor \<Rightarrow> string list \<Rightarrow> resp_writer" where
  "write_http_unauth encode d reasons =
     json_response encode
       [(''WWW-Authenticate'', ''Bearer realm='' @ [CHR 0x22] @ ''kacho'' @ [CHR 0x22]), (''Content-Type'', ''application/json'')] 401
       [(''code'', JNum 16), (''message'', JStr ''unauthenticated: credentials required''),
        (''details'', JArr [detail_json (unauth_info d reasons)])]"

definition write_http_deny :: "(json \<Rightarrow> string) \<Rightarrow> pd_descriptor \<Rightarrow> string list \<Rightarrow> string \<Rightarrow> resp_writer" where
  "write_http_deny encode d reasons acrChallenge =
     json_response encode
       ((if acrChallenge \<noteq> [] then [(''WWW-Authenticate'', acrChallenge)] else []) @ [(''Content-Type'', ''application/json'')]) 403
       [(''code'', JNum 7), (''message'', JStr (''permission denied: '' @ pd_action d)),
        (''details'', JArr [detail_json (PreconditionFailure (deny_violations d reasons)), detail_json (deny_info d reasons)])]"

definition write_http_invalid_arg :: "(json \<Rightarrow> string) \<Rightarrow> string \<Rightarrow> resp_writer" where
  "write_http_invalid_arg encode i =
     json_response encode [(''Content-Type'', ''application/json'')] 400
       [(''code'', JNum 3), (''message'', JStr (invalid_resource_id_message i))]"

definition write_http_unavailable :: resp_writer where
  "write_http_unavailable =
     (let q = [CHR 0x22] in
      write_body (write_header (writer_new\<lparr>w_header := hset [] ''Content-Type'' ''application/json''\<rparr>) 503)
        (''{'' @ q @ ''code'' @ q @ '':14,'' @ q @ ''message'' @ q @ '':'' @ q @ ''authz service unavailable'' @ q @ ''}''))"

lemma json_response_status: "100 \<le> st \<and> st \<le> 199 \<and> st \<noteq> 101 \<or> client_status (json_response encode hs st body) = st"
  by (auto simp: json_response_def write_header_def write_body_def client_status_def writer_new_def Let_def)

lemma response_statuses [simp]:
  "client_status (write_http_not_found encode d) = 404" "client_status (write_http_unauth encode d rs) = 401"
  "client_status (write_http_deny encode d rs c) = 403" "client_status (write_http_invalid_arg encode i) = 400"
  "client_status write_http_unavailable = 503"
proof -
  show "client_status (write_http_not_found encode d) = 404"
    using json_response_status [of 404] by (simp add: write_http_not_found_def)
  show "client_status (write_http_unauth encode d rs) = 401"
    using json_response_status [of 401] by (simp add: write_http_unauth_def)
  show "client_status (write_http_deny encode d rs c) = 403"
    using json_response_status [of 403] by (simp add: write_http_deny_def)
  show "client_status (write_http_invalid_arg encode i) = 400"
    using json_response_status [of 400] by (simp add: write_http_invalid_arg_def)
  show "client_status write_http_unavailable = 503"
    by (simp add: write_http_unavailable_def write_header_def write_body_def client_status_def writer_new_def Let_def)
qed

end
