(* ===== verification/Authz_Check.thy ===== *)
theory Authz_Check
  imports Complex_Main Gateway_Caches
begin

text \<open>
  The two collaborators of the authorization middleware: the client of the IAM AuthorizeService
  (\<^verbatim>\<open>internal/clients/iam_authorize_client.go\<close>, \<^verbatim>\<open>iam_authorize_checker.go\<close>) and the counters of
  \<^verbatim>\<open>internal/middleware/authz_metrics.go\<close>. The remote procedure is a parameter: its answer to the
  n-th attempt. An error is its status code with the message (\<open>Unknown\<close> for an error that is not a
  status).
\<close>

section \<open>Runes\<close>

definition in_range :: "nat \<Rightarrow> nat \<Rightarrow> char \<Rightarrow> bool" where
  "in_range lo hi c \<longleftrightarrow> (let n = of_char c :: nat in lo \<le> n \<and> n \<le> hi)"

definition lead2 :: "char \<Rightarrow> char \<Rightarrow> bool" where
  "lead2 a b \<longleftrightarrow> in_range 0xC2 0xDF a \<and> in_range 0x80 0xBF b"

definition lead3 :: "char \<Rightarrow> char \<Rightarrow> bool" where
  "lead3 a b \<longleftrightarrow>
     in_range 0xE0 0xE0 a \<and> in_range 0xA0 0xBF b \<or> in_range 0xE1 0xEC a \<and> in_range 0x80 0xBF b \<or>
     in_range 0xED 0xED a \<and> in_range 0x80 0x9F b \<or> in_range 0xEE 0xEF a \<and> in_range 0x80 0xBF b"

definition lead4 :: "char \<Rightarrow> char \<Rightarrow> bool" where
  "lead4 a b \<longleftrightarrow>
     in_range 0xF0 0xF0 a \<and> in_range 0x90 0xBF b \<or> in_range 0xF1 0xF3 a \<and> in_range 0x80 0xBF b \<or>
     in_range 0xF4 0xF4 a \<and> in_range 0x80 0x8F b"

definition rune_width :: "string \<Rightarrow> nat option" where
  \<comment> \<open>the width of the UTF-8 sequence at the front, \<open>None\<close> when there is none\<close>
  "rune_width s =
     (if 1 \<le> length s \<and> in_range 0 0x7F (s ! 0) then Some 1
      else if 2 \<le> length s \<and> lead2 (s ! 0) (s ! 1) then Some 2
      else if 3 \<le> length s \<and> lead3 (s ! 0) (s ! 1) \<and> in_range 0x80 0xBF (s ! 2) then Some 3
      else if 4 \<le> length s \<and> lead4 (s ! 0) (s ! 1) \<and> in_range 0x80 0xBF (s ! 2) \<and> in_range 0x80 0xBF (s ! 3) then Some 4
      else None)"

definition rune_error :: string where
  "rune_error = [CHR 0xEF, CHR 0xBF, CHR 0xBD]"

lemma rune_width_bounds: "rune_width s = Some w \<Longrightarrow> 1 \<le> w \<and> w \<le> length s \<and> w \<le> 4"
  by (auto simp: rune_width_def split: if_splits)

function runes :: "string \<Rightarrow> string list" where
  \<comment> \<open>\<open>[]rune(s)\<close>, each rune as the bytes it is encoded with; a bad byte is U+FFFD\<close>
  "runes s =
     (if s = [] then []
      else case rune_width s of
        None \<Rightarrow> rune_error # runes (tl s)
      | Some w \<Rightarrow> take w s # runes (drop w s))"
  by pat_completeness auto
termination
  by (relation "measure length") (auto dest: rune_width_bounds)

declare runes.simps [simp del]

definition truncate_str :: "string \<Rightarrow> int \<Rightarrow> string" where
  "truncate_str s maxLen =
     (if maxLen \<le> 0 \<or> int (length s) \<le> maxLen then s
      else if int (length (runes s)) \<le> maxLen then s
      else concat (take (nat maxLen) (runes s)))"

section \<open>The AuthorizeService client\<close>

type_synonym check_error = "code \<times> string"

record check_input =
  ci_subject :: string
  ci_action :: string
  ci_required_relation :: string
  ci_resource_type :: string
  ci_resource_id :: string
  ci_context :: context_map
  ci_trace :: string

record check_result =
  cr_allowed :: bool
  cr_deny_reasons :: "string list"
  cr_model_id :: string
  cr_checked_at :: "time option" \<comment> \<open>\<open>None\<close>: the zero time\<close>

definition check_result_zero :: check_result where
  "check_result_zero = \<lparr>cr_allowed = False, cr_deny_reasons = [], cr_model_id = [], cr_checked_at = None\<rparr>"

record check_request =
  cq_subject :: string
  cq_resource_type :: string
  cq_resource_id :: string
  cq_action :: string
  cq_required_relation :: string
  cq_trace :: string
  cq_context :: "json option"

record check_response =
  cp_allowed :: bool
  cp_deny_reasons :: "string list"
  cp_model_id :: string
  cp_checked_at :: "time option"

record authorize_client =
  ac_timeout :: duration
  ac_max_retries :: int
  ac_calls :: "64 word" \<comment> \<open>\<open>callsTotal\<close>\<close>

datatype client_error = AddrRequired | LoggerRequired | DialFailed

definition authorize_client_new :: "string \<Rightarrow> bool \<Rightarrow> bool \<Rightarrow> duration \<Rightarrow> int \<Rightarrow> client_error + authorize_client" where
  \<comment> \<open>the flags: a logger is given, the dial succeeds\<close>
  "authorize_client_new addr logger dial timeout maxRetries =
     (if addr = [] then Inl AddrRequired
      else if \<not> logger then Inl LoggerRequired
      else if \<not> dial then Inl DialFailed
      else Inr \<lparr>ac_timeout = (if timeout \<le> 0 then 200 * millisecond else timeout),
                ac_max_retries = (let n = (if maxRetries < 0 then 0 else maxRetries) in if n = 0 then 1 else n),
                ac_calls = 0\<rparr>)"

definition authorize_client_from_conn :: "duration \<Rightarrow> int \<Rightarrow> authorize_client" where
  "authorize_client_from_conn timeout maxRetries =
     \<lparr>ac_timeout = (if timeout \<le> 0 then 200 * millisecond else timeout),
      ac_max_retries = (if maxRetries \<le> 0 then 1 else maxRetries), ac_calls = 0\<rparr>"

definition retryable :: "code \<Rightarrow> bool" where
  "retryable c = (c \<in> {Unavailable, DeadlineExceeded, ResourceExhausted})"

definition terminal_code :: "code \<Rightarrow> bool" where
  \<comment> \<open>the \<open>switch\<close> of the attempt loop\<close>
  "terminal_code c = (c \<in> {PermissionDenied, InvalidArgument, NotFound, Unauthenticated, FailedPrecondition})"

definition coerce_proto_val :: "ctx_value \<Rightarrow> json" where
  "coerce_proto_val v = (case v of CStr s \<Rightarrow> JStr s | CInt i \<Rightarrow> JNum i | CStrs xs \<Rightarrow> JArr (map JStr xs))"

definition build_context_struct :: "(json \<Rightarrow> string option) \<Rightarrow> context_map \<Rightarrow> string + json option" where
  \<comment> \<open>the parameter is the error of \<open>structpb.NewStruct\<close>, if any\<close>
  "build_context_struct new_struct m =
     (let fields = map (\<lambda>(k, v). (k, coerce_proto_val v)) (ctx_vals m) @ ctx_forward m in
      if fields = [] then Inr None
      else case new_struct (JObj fields) of None \<Rightarrow> Inr (Some (JObj fields)) | Some e \<Rightarrow> Inl e)"

definition to_result :: "time \<Rightarrow> check_response option \<Rightarrow> check_result" where
  \<comment> \<open>the clock is read when the answer has no timestamp\<close>
  "to_result now resp =
     (case resp of
        None \<Rightarrow> check_result_zero
      | Some p \<Rightarrow>
          \<lparr>cr_allowed = cp_allowed p, cr_deny_reasons = cp_deny_reasons p, cr_model_id = cp_model_id p,
           cr_checked_at = Some (case cp_checked_at p of None \<Rightarrow> now | Some t \<Rightarrow> t)\<rparr>)"

type_synonym stub = "nat \<Rightarrow> check_request \<Rightarrow> check_error + check_response option"

function check_attempts ::
  "stub \<Rightarrow> time \<Rightarrow> check_request \<Rightarrow> nat \<Rightarrow> authorize_client \<Rightarrow> check_error \<Rightarrow>
   authorize_client \<times> (check_error + check_result)" where
  \<comment> \<open>the loop of \<open>Check\<close> from an attempt on, with \<open>lastErr\<close>\<close>
  "check_attempts stub now req attempt c lastErr =
     (if int attempt \<le> ac_max_retries c then
        (let c' = c\<lparr>ac_calls := ac_calls c + 1\<rparr> in
         case stub attempt req of
           Inr resp \<Rightarrow> (c', Inr (to_result now resp))
         | Inl err \<Rightarrow>
             if terminal_code (fst err) then (c', Inl err)
             else if int attempt < ac_max_retries c \<and> retryable (fst err)
             then check_attempts stub now req (Suc attempt) c' err
             else (c', Inl err))
      else (c, Inl lastErr))"
  by pat_completeness auto
termination
  by (relation "measure (\<lambda>(_, _, _, attempt, c, _). nat (ac_max_retries c + 1) - attempt)") auto

declare check_attempts.simps [simp del]

definition client_check ::
  "(json \<Rightarrow> string option) \<Rightarrow> stub \<Rightarrow> time \<Rightarrow> authorize_client \<Rightarrow> check_input \<Rightarrow>
   authorize_client \<times> (check_error + check_result)" where
  "client_check new_struct stub now c i =
     (if ci_subject i = [] then (c, Inl (Unknown, ''authorize check: empty subject''))
      else if ci_action i = [] then (c, Inl (Unknown, ''authorize check: empty action''))
      else if ci_resource_type i = [] then (c, Inl (Unknown, ''authorize check: empty resource_type''))
      else case build_context_struct new_struct (ci_context i) of
        Inl e \<Rightarrow> (c, Inl (Unknown, ''authorize check: build context: '' @ e))
      | Inr ctx \<Rightarrow>
          check_attempts stub now
            \<lparr>cq_subject = ci_subject i, cq_resource_type = ci_resource_type i,
             cq_resource_id = (if ci_resource_id i = [] then ''*'' else ci_resource_id i), cq_action = ci_action i,
             cq_required_relation = ci_required_relation i, cq_trace = truncate_str (ci_trace i) 64,
             cq_context = ctx\<rparr> 0 c (OK, []))"

definition checker_check ::
  "(json \<Rightarrow> string option) \<Rightarrow> stub \<Rightarrow> time \<Rightarrow> authorize_client \<Rightarrow> check_input \<Rightarrow>
   authorize_client \<times> (check_error + check_result)" where
  \<comment> \<open>\<open>AuthzChecker.Check\<close>: every field of the input and of the result is copied\<close>
  "checker_check new_struct stub now c i =
     (case client_check new_struct stub now c i of
        (c', Inl e) \<Rightarrow> (c', Inl e)
      | (c', Inr res) \<Rightarrow>
          (c', Inr \<lparr>cr_allowed = cr_allowed res, cr_deny_reasons = cr_deny_reasons res, cr_model_id = cr_model_id res,
                    cr_checked_at = cr_checked_at res\<rparr>))"

lemma checker_is_client: "checker_check new_struct stub now c i = client_check new_struct stub now c i"
  by (auto simp: checker_check_def split: prod.splits sum.splits)

section \<open>Metrics\<close>

record authz_metrics =
  am_allowed :: "64 word"
  am_denied :: "64 word"
  am_error :: "64 word"
  am_hit :: "64 word"
  am_miss :: "64 word"
  am_buckets :: "rat list" \<comment> \<open>upper bounds in milliseconds\<close>
  am_counts :: "64 word list" \<comment> \<open>one more than the bounds\<close>
  am_sum :: rat
  am_count :: "64 word"

definition metrics_of :: "rat list \<Rightarrow> authz_metrics" where
  "metrics_of bs =
     \<lparr>am_allowed = 0, am_denied = 0, am_error = 0, am_hit = 0, am_miss = 0, am_buckets = bs,
      am_counts = replicate (length bs + 1) 0, am_sum = 0, am_count = 0\<rparr>"

definition metrics_new :: authz_metrics where
  "metrics_new = metrics_of [1, 5, 10, 20, 50, 100, 200, 500, 1000]"

fun ascending_from :: "rat \<Rightarrow> rat list \<Rightarrow> bool" where
  "ascending_from prev [] = True"
| "ascending_from prev (v # vs) = (if v \<le> prev \<or> v \<le> 0 then False else ascending_from v vs)"

definition ascending_positive :: "rat list \<Rightarrow> bool" where
  "ascending_positive b = (if b = [] then False else ascending_from (-1) b)"

definition metrics_with_buckets :: "rat list \<Rightarrow> authz_metrics" where
  "metrics_with_buckets bs = (if \<not> ascending_positive bs then metrics_new else metrics_of bs)"

definition record_allow :: "authz_metrics \<Rightarrow> authz_metrics" where
  "record_allow m = m\<lparr>am_allowed := am_allowed m + 1\<rparr>"

definition record_deny :: "authz_metrics \<Rightarrow> authz_metrics" where
  "record_deny m = m\<lparr>am_denied := am_denied m + 1\<rparr>"

definition record_error :: "authz_metrics \<Rightarrow> authz_metrics" where
  "record_error m = m\<lparr>am_error := am_error m + 1\<rparr>"

definition record_cache_hit :: "authz_metrics \<Rightarrow> authz_metrics" where
  "record_cache_hit m = m\<lparr>am_hit := am_hit m + 1\<rparr>"

definition record_cache_miss :: "authz_metrics \<Rightarrow> authz_metrics" where
  "record_cache_miss m = m\<lparr>am_miss := am_miss m + 1\<rparr>"

function bisect :: "rat list \<Rightarrow> rat \<Rightarrow> nat \<Rightarrow> nat \<Rightarrow> nat" where
  \<comment> \<open>\<open>sort.SearchFloat64s\<close>: the half-open interval that is still searched\<close>
  "bisect bs x i j =
     (if i < j then
        (let h = (i + j) div 2 in if bs ! h < x then bisect bs x (h + 1) j else bisect bs x i h)
      else i)"
  by pat_completeness auto
termination
  by (relation "measure (\<lambda>(_, _, i, j). j - i)") auto

declare bisect.simps [simp del]

definition search_floats :: "rat list \<Rightarrow> rat \<Rightarrow> nat" where
  "search_floats bs x = bisect bs x 0 (length bs)"

definition observe_latency_ms :: "authz_metrics \<Rightarrow> rat \<Rightarrow> authz_metrics" where
  "observe_latency_ms m ms0 =
     (let ms = (if ms0 < 0 then 0 else ms0); idx = search_floats (am_buckets m) ms;
          i = (if idx < length (am_buckets m) then idx else length (am_buckets m))
      in m\<lparr>am_counts := (am_counts m)[i := am_counts m ! i + 1], am_sum := am_sum m + ms, am_count := am_count m + 1\<rparr>)"

definition cumulative_counts :: "authz_metrics \<Rightarrow> 64 word list" where
  \<comment> \<open>the values of \<open>Snapshot\<close> under the bounds, then the one under \<open>+Inf\<close>\<close>
  "cumulative_counts m =
     map (\<lambda>i. sum_list (take (i + 1) (am_counts m))) [0..<length (am_buckets m)] @ [sum_list (am_counts m)]"

definition cache_hit_ratio :: "authz_metrics \<Rightarrow> rat" where
  "cache_hit_ratio m =
     (let h = sint (am_hit m); t = sint (am_hit m + am_miss m) in
      if t = 0 then 0 else of_int h / of_int t)"

section \<open>The attempt loop\<close>

definition attempt_result :: "time \<Rightarrow> check_error + check_response option \<Rightarrow> check_error + check_result" where
  "attempt_result now a = (case a of Inl e \<Rightarrow> Inl e | Inr resp \<Rightarrow> Inr (to_result now resp))"

definition transient :: "check_error + check_response option \<Rightarrow> bool" where
  "transient a \<longleftrightarrow> (case a of Inl e \<Rightarrow> retryable (fst e) | Inr _ \<Rightarrow> False)"

lemma terminal_not_retryable: "terminal_code c \<Longrightarrow> \<not> retryable c"
  by (auto simp: terminal_code_def retryable_def)

lemma check_attempts_stops:
  assumes "int attempt \<le> ac_max_retries c" "\<not> transient (stub attempt req) \<or> int attempt = ac_max_retries c"
  shows "check_attempts stub now req attempt c e =
    (c\<lparr>ac_calls := ac_calls c + 1\<rparr>, attempt_result now (stub attempt req))"
  using assms
  by (subst check_attempts.simps) (auto simp: attempt_result_def transient_def Let_def split: sum.splits)

lemma check_attempts_continues:
  assumes "int attempt < ac_max_retries c" "transient (stub attempt req)"
  shows "check_attempts stub now req attempt c e =
    check_attempts stub now req (Suc attempt) (c\<lparr>ac_calls := ac_calls c + 1\<rparr>) (projl (stub attempt req))"
  using assms terminal_not_retryable
  by (subst check_attempts.simps) (auto simp: transient_def Let_def split: sum.splits)

lemma check_attempts_spec:
  assumes "int attempt + int d = ac_max_retries c" "check_attempts stub now req attempt c e = (c', r)"
  shows "\<exists>n \<ge> attempt. int n \<le> ac_max_retries c \<and> c' = c\<lparr>ac_calls := ac_calls c + of_nat (n - attempt + 1)\<rparr> \<and>
    (\<forall>k. attempt \<le> k \<and> k < n \<longrightarrow> transient (stub k req)) \<and>
    (transient (stub n req) \<longrightarrow> int n = ac_max_retries c) \<and> r = attempt_result now (stub n req)"
  using assms
proof (induction d arbitrary: attempt c e)
  case 0
  then show ?case
    using check_attempts_stops [of attempt c stub req now e] by (intro exI [of _ attempt]) auto
next
  case (Suc d)
  show ?case
  proof (cases "transient (stub attempt req)")
    case False
    then show ?thesis
      using Suc.prems check_attempts_stops [of attempt c stub req now e] by (intro exI [of _ attempt]) auto
  next
    case True
    let ?c = "c\<lparr>ac_calls := ac_calls c + 1\<rparr>"
    have "check_attempts stub now req (Suc attempt) ?c (projl (stub attempt req)) = (c', r)"
      using Suc.prems check_attempts_continues [of attempt c stub req now e] True by simp
    moreover have "int (Suc attempt) + int d = ac_max_retries ?c"
      using Suc.prems(1) by simp
    ultimately obtain n where n: "Suc attempt \<le> n" "int n \<le> ac_max_retries ?c"
      "c' = ?c\<lparr>ac_calls := ac_calls ?c + of_nat (n - Suc attempt + 1)\<rparr>"
      "\<forall>k. Suc attempt \<le> k \<and> k < n \<longrightarrow> transient (stub k req)"
      "transient (stub n req) \<longrightarrow> int n = ac_max_retries ?c" "r = attempt_result now (stub n req)"
      using Suc.IH [of "Suc attempt" ?c "projl (stub attempt req)"] by blast
    have "n - attempt + 1 = Suc (n - Suc attempt + 1)"
      using n(1) by simp
    then have "c' = c\<lparr>ac_calls := ac_calls c + of_nat (n - attempt + 1)\<rparr>"
      using n(3) by (simp add: add.assoc)
    moreover have "\<forall>k. attempt \<le> k \<and> k < n \<longrightarrow> transient (stub k req)"
      using n(4) True by (metis Suc_leI order_le_imp_less_or_eq)
    ultimately show ?thesis
      using n(1,2,5,6) by (intro exI [of _ n]) auto
  qed
qed

section \<open>Truncation\<close>

lemma rune_width_take:
  assumes "rune_width s = Some w"
  shows "rune_width (take w s @ t) = Some w"
proof -
  have "w \<le> length s"
    using rune_width_bounds [OF assms] by simp
  then have "(take w s @ t) ! i = s ! i" if "i < w" for i
    using that by (simp add: nth_append)
  moreover have "w = 1 \<or> w = 2 \<or> w = 3 \<or> w = 4"
    using assms by (auto simp: rune_width_def split: if_splits)
  ultimately show ?thesis
    using assms by (auto simp: rune_width_def split: if_splits)
qed

definition whole_rune :: "string \<Rightarrow> bool" where
  "whole_rune r \<longleftrightarrow> (\<forall>t. rune_width (r @ t) = Some (length r))"

lemma whole_rune_error: "whole_rune rune_error"
  by (simp add: whole_rune_def rune_error_def rune_width_def in_range_def lead2_def lead3_def)

lemma runes_whole: "r \<in> set (runes s) \<Longrightarrow> whole_rune r"
proof (induction s rule: runes.induct)
  case (1 s)
  show ?case
  proof (cases "rune_width s")
    case None
    then show ?thesis
      using 1 whole_rune_error by (subst (asm) (3) runes.simps) (auto split: if_splits)
  next
    case (Some w)
    then have "whole_rune (take w s)"
      using rune_width_take [OF Some] rune_width_bounds [OF Some] by (simp add: whole_rune_def)
    then show ?thesis
      using 1 Some by (subst (asm) (3) runes.simps) (auto split: if_splits)
  qed
qed

lemma runes_concat: "(\<And>r. r \<in> set rs \<Longrightarrow> whole_rune r) \<Longrightarrow> runes (concat rs) = rs"
proof (induction rs)
  case (Cons r rs)
  have w: "rune_width (r @ concat rs) = Some (length r)"
    using Cons.prems by (simp add: whole_rune_def)
  then have "r @ concat rs \<noteq> []"
    using rune_width_bounds by fastforce
  then show ?case
    using Cons w by (subst runes.simps) simp
qed (simp add: runes.simps)

lemma truncate_runes:
  assumes "0 < n"
  shows "runes (truncate_str s n) = take (nat n) (runes s) \<or> int (length s) \<le> n \<and> truncate_str s n = s"
proof -
  have "runes (concat (take (nat n) (runes s))) = take (nat n) (runes s)"
    using runes_whole by (intro runes_concat) (meson in_set_takeD)
  then show ?thesis
    using assms by (auto simp: truncate_str_def)
qed

lemma runes_length: "length (runes s) \<le> length s"
proof (induction s rule: runes.induct)
  case (1 s)
  show ?case
  proof (cases "s = []")
    case False
    show ?thesis
    proof (cases "rune_width s")
      case None
      then show ?thesis
        using 1 False by (subst runes.simps) (cases s, auto)
    next
      case (Some w)
      then have "length (runes (drop w s)) \<le> length s - w" "1 \<le> w" "w \<le> length s"
        using 1 False rune_width_bounds [OF Some] by auto
      then show ?thesis
        using Some False by (subst runes.simps) simp
    qed
  qed (simp add: runes.simps)
qed

text \<open>
  C30: an authorization check is bounded: the loop ends after at most one more wire call than the
  configured retries, exactly one per attempt made. It retries only after a transient code, never after
  a deny or another terminal code, and its result is the answer of the last attempt, unchanged.
\<close>

theorem check_attempts_bounded:
  assumes "ci_subject i \<noteq> []" "ci_action i \<noteq> []" "ci_resource_type i \<noteq> []" "0 \<le> ac_max_retries c"
    and "build_context_struct new_struct (ci_context i) = Inr ctx"
  shows "\<exists>n req. client_check new_struct stub now c i =
      (c\<lparr>ac_calls := ac_calls c + of_nat (n + 1)\<rparr>, attempt_result now (stub n req)) \<and>
    int n \<le> ac_max_retries c \<and> (\<forall>k < n. transient (stub k req)) \<and>
    (transient (stub n req) \<longrightarrow> int n = ac_max_retries c) \<and>
    cq_subject req = ci_subject i \<and> cq_action req = ci_action i \<and> cq_resource_type req = ci_resource_type i \<and>
    cq_required_relation req = ci_required_relation i \<and> cq_context req = ctx \<and>
    cq_resource_id req = (if ci_resource_id i = [] then ''*'' else ci_resource_id i)"
proof -
  let ?req = "\<lparr>cq_subject = ci_subject i, cq_resource_type = ci_resource_type i,
    cq_resource_id = (if ci_resource_id i = [] then ''*'' else ci_resource_id i), cq_action = ci_action i,
    cq_required_relation = ci_required_relation i, cq_trace = truncate_str (ci_trace i) 64, cq_context = ctx\<rparr>"
  have run: "client_check new_struct stub now c i = check_attempts stub now ?req 0 c (OK, [])"
    using assms by (simp add: client_check_def)
  have retries: "int 0 + int (nat (ac_max_retries c)) = ac_max_retries c"
    using assms(4) by simp
  obtain c' r where cr: "check_attempts stub now ?req 0 c (OK, []) = (c', r)"
    by fastforce
  obtain n where "int n \<le> ac_max_retries c" "c' = c\<lparr>ac_calls := ac_calls c + of_nat (n - 0 + 1)\<rparr>"
    "\<forall>k. 0 \<le> k \<and> k < n \<longrightarrow> transient (stub k ?req)" "transient (stub n ?req) \<longrightarrow> int n = ac_max_retries c"
    "r = attempt_result now (stub n ?req)"
    using check_attempts_spec [OF retries cr] by blast
  then show ?thesis
    using run cr by (intro exI [of _ n] exI [of _ ?req]) simp
qed

definition demo_check_input :: check_input where
  "demo_check_input =
     \<lparr>ci_subject = ''user:usr_1'', ci_action = ''vpc.networks.get'', ci_required_relation = ''v_get'',
      ci_resource_type = ''vpc_network'', ci_resource_id = ''enp1'', ci_context = \<lparr>ctx_vals = [], ctx_forward = []\<rparr>,
      ci_trace = []\<rparr>"

theorem check_attempts_bounded_witness:
  "\<exists>n. client_check (\<lambda>_. None) (\<lambda>_ _. Inl (Unavailable, ''down'')) 0 (authorize_client_from_conn 0 0) demo_check_input =
     ((authorize_client_from_conn 0 0)\<lparr>ac_calls := of_nat (n + 1)\<rparr>, Inl (Unavailable, ''down'')) \<and> n = 1"
proof -
  let ?c = "authorize_client_from_conn 0 0" and ?stub = "\<lambda>_ _. Inl (Unavailable, ''down'')"
  have "transient (?stub n req)" for n :: nat and req :: check_request
    by (simp add: transient_def retryable_def)
  moreover have "build_context_struct (\<lambda>_. None) (ci_context demo_check_input) = Inr None" "0 \<le> ac_max_retries ?c"
    "ac_max_retries ?c = 1" "ac_calls ?c = 0"
    by (simp_all add: build_context_struct_def demo_check_input_def authorize_client_from_conn_def)
  moreover have "attempt_result 0 (?stub n req) = Inl (Unavailable, ''down'')" for n :: nat and req :: check_request
    by (simp add: attempt_result_def)
  ultimately show ?thesis
    using check_attempts_bounded [of demo_check_input ?c "\<lambda>_. None" None ?stub 0]
    by (auto simp: demo_check_input_def)
qed

text \<open>
  The trace identifier sent to IAM holds exactly the first runes of the given one, at most as many
  as the limit, whatever bytes a client put into it.
\<close>

theorem trace_truncated_on_runes:
  assumes "0 < n"
  shows "runes (truncate_str s n) = take (nat n) (runes s)"
proof -
  have "int (length s) \<le> n \<Longrightarrow> take (nat n) (runes s) = runes s"
    using runes_length [of s] by simp
  then show ?thesis
    using truncate_runes [OF assms, of s] by auto
qed

theorem trace_truncated_on_runes_witness:
  "runes (truncate_str [CHR 0xC3, CHR 0xA9, CHR 0xFF, CHR 0x41] 2) = take 2 (runes [CHR 0xC3, CHR 0xA9, CHR 0xFF, CHR 0x41])"
  using trace_truncated_on_runes [of 2 "[CHR 0xC3, CHR 0xA9, CHR 0xFF, CHR 0x41]"] by simp

section \<open>The histogram\<close>

lemma ascending_from_sorted:
  "ascending_from prev bs \<Longrightarrow> sorted_wrt (<) bs \<and> (\<forall>b \<in> set bs. prev < b)"
  by (induction bs arbitrary: prev) (fastforce split: if_splits)+

lemma bisect_step:
  "i < j \<Longrightarrow> bs ! ((i + j) div 2) < x \<Longrightarrow> bisect bs x i j = bisect bs x ((i + j) div 2 + 1) j"
  "i < j \<Longrightarrow> \<not> bs ! ((i + j) div 2) < x \<Longrightarrow> bisect bs x i j = bisect bs x i ((i + j) div 2)"
  "\<not> i < j \<Longrightarrow> bisect bs x i j = i"
  by (subst bisect.simps, simp add: Let_def)+

lemma bisect_spec:
  assumes "sorted_wrt (<) bs" "i \<le> j" "j \<le> length bs" "\<forall>k < i. bs ! k < x" "\<forall>k. j \<le> k \<and> k < length bs \<longrightarrow> x \<le> bs ! k"
  shows "bisect bs x i j \<le> length bs \<and> (\<forall>k < length bs. bs ! k < x \<longleftrightarrow> k < bisect bs x i j)"
  using assms
proof (induction bs x i j rule: bisect.induct)
  case (1 bs x i j)
  let ?h = "(i + j) div 2"
  show ?case
  proof (cases "i < j")
    case True
    have mono: "k \<le> l \<Longrightarrow> l < length bs \<Longrightarrow> bs ! k \<le> bs ! l" for k l
      using "1.prems"(1) by (cases "k = l") (auto simp: sorted_wrt_iff_nth_less less_imp_le)
    have h: "i \<le> ?h" "?h < j" "?h < length bs" "?h + 1 \<le> j" "?h \<le> length bs"
      using True "1.prems"(3) by auto
    show ?thesis
    proof (cases "bs ! ?h < x")
      case less: True
      then have "\<forall>k < ?h + 1. bs ! k < x"
        using mono h(3) by (metis Suc_eq_plus1 less_Suc_eq_le order_le_less_trans)
      then show ?thesis
        unfolding bisect_step(1) [OF True less]
        using "1.IH"(1) [OF True refl less "1.prems"(1) h(4) "1.prems"(3)] "1.prems"(5) by blast
    next
      case False
      then have "\<forall>k. ?h \<le> k \<and> k < length bs \<longrightarrow> x \<le> bs ! k"
        using mono by (meson linorder_not_less order_trans)
      then show ?thesis
        unfolding bisect_step(2) [OF True False]
        using "1.IH"(2) [OF True refl False "1.prems"(1) h(1) h(5)] "1.prems"(4) by blast
    qed
  next
    case False
    then have "j = i"
      using "1.prems"(2) by simp
    then show ?thesis
      unfolding bisect_step(3) [OF False]
      using "1.prems"(3-5) by (metis linorder_not_less)
  qed
qed

lemma search_floats_spec:
  assumes "sorted_wrt (<) bs"
  shows "search_floats bs x \<le> length bs \<and> (\<forall>k < length bs. bs ! k < x \<longleftrightarrow> k < search_floats bs x)"
  using bisect_spec [OF assms, of 0 "length bs" x] by (simp add: search_floats_def)

lemma sum_list_bump:
  fixes cs :: "64 word list"
  shows "j < length cs \<Longrightarrow>
    sum_list (take n (cs[j := cs ! j + 1])) = sum_list (take n cs) + (if j < n then 1 else 0)"
proof (induction cs arbitrary: j n)
  case (Cons c cs)
  then show ?case
    by (cases j; cases n) (auto simp: ac_simps)
qed simp

definition observe_all :: "authz_metrics \<Rightarrow> rat list \<Rightarrow> authz_metrics" where
  "observe_all m samples = foldl observe_latency_ms m samples"

definition metrics_wf :: "authz_metrics \<Rightarrow> bool" where
  "metrics_wf m \<longleftrightarrow> sorted_wrt (<) (am_buckets m) \<and> length (am_counts m) = length (am_buckets m) + 1"

definition within_bound :: "rat \<Rightarrow> rat \<Rightarrow> bool" where
  "within_bound b ms \<longleftrightarrow> (if ms < 0 then 0 else ms) \<le> b"

lemma metrics_new_wf: "metrics_wf (metrics_with_buckets bs)"
proof -
  have "metrics_wf metrics_new"
    by (simp add: metrics_wf_def metrics_new_def metrics_of_def)
  moreover have "metrics_wf (metrics_of bs)" if "ascending_positive bs"
    using that ascending_from_sorted by (auto simp: metrics_wf_def metrics_of_def ascending_positive_def split: if_splits)
  ultimately show ?thesis
    by (simp add: metrics_with_buckets_def)
qed

lemma observe_step:
  assumes "metrics_wf m"
  shows "metrics_wf (observe_latency_ms m ms)" "am_buckets (observe_latency_ms m ms) = am_buckets m"
    "i < length (am_buckets m) \<Longrightarrow>
      cumulative_counts (observe_latency_ms m ms) ! i = cumulative_counts m ! i + (if within_bound (am_buckets m ! i) ms then 1 else 0)"
    "last (cumulative_counts (observe_latency_ms m ms)) = last (cumulative_counts m) + 1"
proof -
  let ?ms = "if ms < 0 then 0 else ms" and ?bs = "am_buckets m"
  let ?j = "search_floats ?bs ?ms"
  have j: "?j \<le> length ?bs" "?j < length (am_counts m)" "\<forall>k < length ?bs. ?bs ! k < ?ms \<longleftrightarrow> k < ?j"
    using assms search_floats_spec [of ?bs ?ms] by (auto simp: metrics_wf_def)
  have counts: "am_counts (observe_latency_ms m ms) = (am_counts m)[?j := am_counts m ! ?j + 1]"
    using j(1) by (cases "?j = length ?bs") (auto simp: observe_latency_ms_def Let_def)
  show bs: "am_buckets (observe_latency_ms m ms) = am_buckets m"
    by (simp add: observe_latency_ms_def Let_def)
  show "metrics_wf (observe_latency_ms m ms)"
    using assms counts bs by (simp add: metrics_wf_def)
  show "cumulative_counts (observe_latency_ms m ms) ! i = cumulative_counts m ! i + (if within_bound (?bs ! i) ms then 1 else 0)"
    if "i < length ?bs"
  proof -
    have "within_bound (?bs ! i) ms \<longleftrightarrow> ?j < i + 1"
      using j(3) that by (auto simp: within_bound_def not_less)
    then show ?thesis
      using that bs sum_list_bump [OF j(2), of "i + 1"] by (simp add: cumulative_counts_def counts nth_append)
  qed
  show "last (cumulative_counts (observe_latency_ms m ms)) = last (cumulative_counts m) + 1"
    using sum_list_bump [OF j(2), of "length (am_counts m)"] j(2) by (simp add: cumulative_counts_def counts)
qed

lemma observe_all_cumulative:
  assumes "metrics_wf m"
  shows "metrics_wf (observe_all m samples) \<and> am_buckets (observe_all m samples) = am_buckets m \<and>
    (\<forall>i < length (am_buckets m). cumulative_counts (observe_all m samples) ! i =
       cumulative_counts m ! i + of_nat (length (filter (within_bound (am_buckets m ! i)) samples))) \<and>
    last (cumulative_counts (observe_all m samples)) = last (cumulative_counts m) + of_nat (length samples)"
  using assms
proof (induction samples arbitrary: m)
  case (Cons x xs)
  have "observe_all m (x # xs) = observe_all (observe_latency_ms m x) xs"
    by (simp add: observe_all_def)
  then show ?case
    using Cons.IH [OF observe_step(1) [OF Cons.prems]] observe_step(2) [OF Cons.prems, of x]
      observe_step(3) [OF Cons.prems, of _ x] observe_step(4) [OF Cons.prems, of x]
    by (auto simp: ac_simps)
qed (simp add: observe_all_def)

lemma cumulative_fresh:
  "i \<le> length (am_buckets (metrics_with_buckets bs)) \<Longrightarrow> cumulative_counts (metrics_with_buckets bs) ! i = 0"
  "last (cumulative_counts (metrics_with_buckets bs)) = 0"
proof -
  have zero: "sum_list (take n (replicate k (0 :: 64 word))) = 0" for n k
    by (simp add: sum_list_eq_0_iff sum_list_replicate)
  have "am_counts (metrics_with_buckets bs) = replicate (length (am_buckets (metrics_with_buckets bs)) + 1) 0"
    by (simp add: metrics_with_buckets_def metrics_new_def metrics_of_def)
  then show "i \<le> length (am_buckets (metrics_with_buckets bs)) \<Longrightarrow> cumulative_counts (metrics_with_buckets bs) ! i = 0"
    "last (cumulative_counts (metrics_with_buckets bs)) = 0"
    using zero [of "length (am_buckets (metrics_with_buckets bs)) + 1"] by (auto simp: cumulative_counts_def nth_append sum_list_replicate)
qed

text \<open>
  The latency histogram that is published counts what it says: whatever bounds were configured
  (invalid ones are replaced by the default), after any samples the count under each bound is the number
  of samples within it, the negative ones counted as zero, and the last count is the number of all
  samples, modulo \<open>2^64\<close>. The binary search finds the first bound that is large enough.
\<close>

theorem latency_histogram_exact:
  assumes "m = metrics_with_buckets bs" "i < length (am_buckets m)"
  shows "cumulative_counts (observe_all m samples) ! i = of_nat (length (filter (within_bound (am_buckets m ! i)) samples)) \<and>
    last (cumulative_counts (observe_all m samples)) = of_nat (length samples)"
proof -
  have "cumulative_counts m ! i = 0" "last (cumulative_counts m) = 0"
    using assms cumulative_fresh by simp_all
  then show ?thesis
    using observe_all_cumulative [of m samples] metrics_new_wf [of bs] assms by simp
qed

theorem latency_histogram_exact_witness:
  "cumulative_counts (observe_all (metrics_with_buckets [1, 5]) [-1, 3, 5, 9]) ! 1 = 3"
proof -
  have "am_buckets (metrics_with_buckets [1, 5]) = [1, 5]"
    by (simp add: metrics_with_buckets_def ascending_positive_def metrics_of_def)
  then show ?thesis
    using latency_histogram_exact [of "metrics_with_buckets [1, 5]" "[1, 5]" 1 "[-1, 3, 5, 9]"] by (simp add: within_bound_def)
qed

end
