(* ===== verification/Allowlist.thy ===== *)
theory Allowlist
  imports Go_Prelude
begin

text \<open>
  The public method allowlist (\<^verbatim>\<open>internal/allowlist/list.go\<close>): the table of routable gRPC methods,
  one definition per domain in the order of the source, the membership test and the test that
  recognises methods of internal services.
\<close>

section \<open>The table\<close>

definition allowed_vpc :: "string list" where
  "allowed_vpc =
     [''/kacho.cloud.vpc.v1.NetworkService/Get'',
      ''/kacho.cloud.vpc.v1.NetworkService/List'',
      ''/kacho.cloud.vpc.v1.NetworkService/Create'',
      ''/kacho.cloud.vpc.v1.NetworkService/Update'',
      ''/kacho.cloud.vpc.v1.NetworkService/Delete'',
      ''/kacho.cloud.vpc.v1.NetworkService/ListSubnets'',
      ''/kacho.cloud.vpc.v1.NetworkService/ListSecurityGroups'',
      ''/kacho.cloud.vpc.v1.NetworkService/ListRouteTables'',
      ''/kacho.cloud.vpc.v1.NetworkService/ListOperations'',
      ''/kacho.cloud.vpc.v1.SubnetService/Get'',
      ''/kacho.cloud.vpc.v1.SubnetService/List'',
      ''/kacho.cloud.vpc.v1.SubnetService/Create'',
      ''/kacho.cloud.vpc.v1.SubnetService/Update'',
      ''/kacho.cloud.vpc.v1.SubnetService/Delete'',
      ''/kacho.cloud.vpc.v1.SubnetService/AddCidrBlocks'',
      ''/kacho.cloud.vpc.v1.SubnetService/RemoveCidrBlocks'',
      ''/kacho.cloud.vpc.v1.SubnetService/ListOperations'',
      ''/kacho.cloud.vpc.v1.SubnetService/ListUsedAddresses'',
      ''/kacho.cloud.vpc.v1.AddressService/Get'',
      ''/kacho.cloud.vpc.v1.AddressService/GetByValue'',
      ''/kacho.cloud.vpc.v1.AddressService/List'',
      ''/kacho.cloud.vpc.v1.AddressService/ListBySubnet'',
      ''/kacho.cloud.vpc.v1.AddressService/Create'',
      ''/kacho.cloud.vpc.v1.AddressService/Update'',
      ''/kacho.cloud.vpc.v1.AddressService/Delete'',
      ''/kacho.cloud.vpc.v1.AddressService/ListOperations'',
      ''/kacho.cloud.vpc.v1.RouteTableService/Get'',
      ''/kacho.cloud.vpc.v1.RouteTableService/List'',
      ''/kacho.cloud.vpc.v1.RouteTableService/Create'',
      ''/kacho.cloud.vpc.v1.RouteTableService/Update'',
      ''/kacho.cloud.vpc.v1.RouteTableService/Delete'',
      ''/kacho.cloud.vpc.v1.RouteTableService/ListOperations'',
      ''/kacho.cloud.vpc.v1.SecurityGroupService/Get'',
      ''/kacho.cloud.vpc.v1.SecurityGroupService/List'',
      ''/kacho.cloud.vpc.v1.SecurityGroupService/Create'',
      ''/kacho.cloud.vpc.v1.SecurityGroupService/Update'',
      ''/kacho.cloud.vpc.v1.SecurityGroupService/UpdateRules'',
      ''/kacho.cloud.vpc.v1.SecurityGroupService/UpdateRule'',
      ''/kacho.cloud.vpc.v1.SecurityGroupService/Delete'',
      ''/kacho.cloud.vpc.v1.SecurityGroupService/ListOperations'',
      ''/kacho.cloud.vpc.v1.GatewayService/Get'',
      ''/kacho.cloud.vpc.v1.GatewayService/List'',
      ''/kacho.cloud.vpc.v1.GatewayService/Create'',
      ''/kacho.cloud.vpc.v1.GatewayService/Update'',
      ''/kacho.cloud.vpc.v1.GatewayService/Delete'',
      ''/kacho.cloud.vpc.v1.GatewayService/ListOperations'']"

definition allowed_compute :: "string list" where
  "allowed_compute =
     [''/kacho.cloud.compute.v1.DiskService/Get'',
      ''/kacho.cloud.compute.v1.DiskService/List'',
      ''/kacho.cloud.compute.v1.DiskService/Create'',
      ''/kacho.cloud.compute.v1.DiskService/Update'',
      ''/kacho.cloud.compute.v1.DiskService/Delete'',
      ''/kacho.cloud.compute.v1.DiskService/ListOperations'',
      ''/kacho.cloud.compute.v1.DiskService/Relocate'',
      ''/kacho.cloud.compute.v1.DiskService/ListSnapshotSchedules'',
      ''/kacho.cloud.compute.v1.DiskService/ListAccessBindings'',
      ''/kacho.cloud.compute.v1.DiskService/SetAccessBindings'',
      ''/kacho.cloud.compute.v1.DiskService/UpdateAccessBindings'',
      ''/kacho.cloud.compute.v1.ImageService/Get'',
      ''/kacho.cloud.compute.v1.ImageService/GetLatestByFamily'',
      ''/kacho.cloud.compute.v1.ImageService/List'',
      ''/kacho.cloud.compute.v1.ImageService/Create'',
      ''/kacho.cloud.compute.v1.ImageService/Update'',
      ''/kacho.cloud.compute.v1.ImageService/Delete'',
      ''/kacho.cloud.compute.v1.ImageService/ListOperations'',
      ''/kacho.cloud.compute.v1.ImageService/ListAccessBindings'',
      ''/kacho.cloud.compute.v1.ImageService/SetAccessBindings'',
      ''/kacho.cloud.compute.v1.ImageService/UpdateAccessBindings'',
      ''/kacho.cloud.compute.v1.SnapshotService/Get'',
      ''/kacho.cloud.compute.v1.SnapshotService/List'',
      ''/kacho.cloud.compute.v1.SnapshotService/Create'',
      ''/kacho.cloud.compute.v1.SnapshotService/Update'',
      ''/kacho.cloud.compute.v1.SnapshotService/Delete'',
      ''/kacho.cloud.compute.v1.SnapshotService/ListOperations'',
      ''/kacho.cloud.compute.v1.SnapshotService/ListAccessBindings'',
      ''/kacho.cloud.compute.v1.SnapshotService/SetAccessBindings'',
      ''/kacho.cloud.compute.v1.SnapshotService/UpdateAccessBindings'',
      ''/kacho.cloud.compute.v1.InstanceService/Get'',
      ''/kacho.cloud.compute.v1.InstanceService/List'',
      ''/kacho.cloud.compute.v1.InstanceService/Create'',
      ''/kacho.cloud.compute.v1.InstanceService/Update'',
      ''/kacho.cloud.compute.v1.InstanceService/Delete'',
      ''/kacho.cloud.compute.v1.InstanceService/UpdateMetadata'',
      ''/kacho.cloud.compute.v1.InstanceService/GetSerialPortOutput'',
      ''/kacho.cloud.compute.v1.InstanceService/Stop'',
      ''/kacho.cloud.compute.v1.InstanceService/Start'',
      ''/kacho.cloud.compute.v1.InstanceService/Restart'',
      ''/kacho.cloud.compute.v1.InstanceService/AttachDisk'',
      ''/kacho.cloud.compute.v1.InstanceService/DetachDisk'',
      ''/kacho.cloud.compute.v1.InstanceService/AttachFilesystem'',
      ''/kacho.cloud.compute.v1.InstanceService/DetachFilesystem'',
      ''/kacho.cloud.compute.v1.InstanceService/AttachNetworkInterface'',
      ''/kacho.cloud.compute.v1.InstanceService/DetachNetworkInterface'',
      ''/kacho.cloud.compute.v1.InstanceService/AddOneToOneNat'',
      ''/kacho.cloud.compute.v1.InstanceService/RemoveOneToOneNat'',
      ''/kacho.cloud.compute.v1.InstanceService/UpdateNetworkInterface'',
      ''/kacho.cloud.compute.v1.InstanceService/ListOperations'',
      ''/kacho.cloud.compute.v1.InstanceService/Relocate'',
      ''/kacho.cloud.compute.v1.InstanceService/SimulateMaintenanceEvent'',
      ''/kacho.cloud.compute.v1.InstanceService/ListAccessBindings'',
      ''/kacho.cloud.compute.v1.InstanceService/SetAccessBindings'',
      ''/kacho.cloud.compute.v1.InstanceService/UpdateAccessBindings'',
      ''/kacho.cloud.compute.v1.DiskTypeService/Get'',
      ''/kacho.cloud.compute.v1.DiskTypeService/List'']"

definition allowed_storage :: "string list" where
  "allowed_storage =
     [''/kacho.cloud.storage.v1.VolumeService/Get'',
      ''/kacho.cloud.storage.v1.VolumeService/List'',
      ''/kacho.cloud.storage.v1.VolumeService/Create'',
      ''/kacho.cloud.storage.v1.VolumeService/Update'',
      ''/kacho.cloud.storage.v1.VolumeService/Delete'',
      ''/kacho.cloud.storage.v1.VolumeService/ListOperations'',
      ''/kacho.cloud.storage.v1.SnapshotService/Get'',
      ''/kacho.cloud.storage.v1.SnapshotService/List'',
      ''/kacho.cloud.storage.v1.SnapshotService/Create'',
      ''/kacho.cloud.storage.v1.SnapshotService/Update'',
      ''/kacho.cloud.storage.v1.SnapshotService/Delete'',
      ''/kacho.cloud.storage.v1.DiskTypeService/Get'',
      ''/kacho.cloud.storage.v1.DiskTypeService/List'']"

definition allowed_geo :: "string list" where
  "allowed_geo =
     [''/kacho.cloud.geo.v1.RegionService/Get'',
      ''/kacho.cloud.geo.v1.RegionService/List'',
      ''/kacho.cloud.geo.v1.ZoneService/Get'',
      ''/kacho.cloud.geo.v1.ZoneService/List'']"

definition allowed_iam :: "string list" where
  "allowed_iam =
     [''/kacho.cloud.iam.v1.AccountService/Get'',
      ''/kacho.cloud.iam.v1.AccountService/List'',
      ''/kacho.cloud.iam.v1.AccountService/Create'',
      ''/kacho.cloud.iam.v1.AccountService/Update'',
      ''/kacho.cloud.iam.v1.AccountService/Delete'',
      ''/kacho.cloud.iam.v1.AccountService/ListOperations'',
      ''/kacho.cloud.iam.v1.AccountService/ListAllOperations'',
      ''/kacho.cloud.iam.v1.ProjectService/Get'',
      ''/kacho.cloud.iam.v1.ProjectService/List'',
      ''/kacho.cloud.iam.v1.ProjectService/Create'',
      ''/kacho.cloud.iam.v1.ProjectService/Update'',
      ''/kacho.cloud.iam.v1.ProjectService/Delete'',
      ''/kacho.cloud.iam.v1.ProjectService/ListOperations'',
      ''/kacho.cloud.iam.v1.UserService/Get'',
      ''/kacho.cloud.iam.v1.UserService/List'',
      ''/kacho.cloud.iam.v1.UserService/Update'',
      ''/kacho.cloud.iam.v1.UserService/Delete'',
      ''/kacho.cloud.iam.v1.UserService/ListOperations'',
      ''/kacho.cloud.iam.v1.ServiceAccountService/Get'',
      ''/kacho.cloud.iam.v1.ServiceAccountService/List'',
      ''/kacho.cloud.iam.v1.ServiceAccountService/Create'',
      ''/kacho.cloud.iam.v1.ServiceAccountService/Update'',
      ''/kacho.cloud.iam.v1.ServiceAccountService/Delete'',
      ''/kacho.cloud.iam.v1.ServiceAccountService/ListOperations'',
      ''/kacho.cloud.iam.v1.GroupService/Get'',
      ''/kacho.cloud.iam.v1.GroupService/List'',
      ''/kacho.cloud.iam.v1.GroupService/Create'',
      ''/kacho.cloud.iam.v1.GroupService/Update'',
      ''/kacho.cloud.iam.v1.GroupService/Delete'',
      ''/kacho.cloud.iam.v1.GroupService/AddMember'',
      ''/kacho.cloud.iam.v1.GroupService/RemoveMember'',
      ''/kacho.cloud.iam.v1.GroupService/ListMembers'',
      ''/kacho.cloud.iam.v1.GroupService/ListOperations'',
      ''/kacho.cloud.iam.v1.RoleService/Get'',
      ''/kacho.cloud.iam.v1.RoleService/List'',
      ''/kacho.cloud.iam.v1.RoleService/Create'',
      ''/kacho.cloud.iam.v1.RoleService/Update'',
      ''/kacho.cloud.iam.v1.RoleService/Delete'',
      ''/kacho.cloud.iam.v1.RoleService/ListOperations'',
      ''/kacho.cloud.iam.v1.AccessBindingService/Get'',
      ''/kacho.cloud.iam.v1.AccessBindingService/Create'',
      ''/kacho.cloud.iam.v1.AccessBindingService/Update'',
      ''/kacho.cloud.iam.v1.AccessBindingService/Delete'',
      ''/kacho.cloud.iam.v1.AccessBindingService/ListByScope'',
      ''/kacho.cloud.iam.v1.AccessBindingService/ListBySubject'',
      ''/kacho.cloud.iam.v1.AccessBindingService/ListByAccount'',
      ''/kacho.cloud.iam.v1.AccessBindingService/ListOperations'',
      ''/kacho.cloud.iam.v1.AccessBindingService/ListSubjectPrivileges'',
      ''/kacho.cloud.iam.v1.AccessBindingService/ListAssignableRoles'',
      ''/kacho.cloud.iam.v1.AccessBindingService/ListByRole'',
      ''/kacho.cloud.iam.v1.AccessBindingService/ExpandAccess'',
      ''/kacho.cloud.iam.v1.PermissionCatalogService/ListPermissionCatalog'']"

definition allowed_loadbalancer :: "string list" where
  "allowed_loadbalancer =
     [''/kacho.cloud.loadbalancer.v1.NetworkLoadBalancerService/Get'',
      ''/kacho.cloud.loadbalancer.v1.NetworkLoadBalancerService/List'',
      ''/kacho.cloud.loadbalancer.v1.NetworkLoadBalancerService/Create'',
      ''/kacho.cloud.loadbalancer.v1.NetworkLoadBalancerService/Update'',
      ''/kacho.cloud.loadbalancer.v1.NetworkLoadBalancerService/Delete'',
      ''/kacho.cloud.loadbalancer.v1.NetworkLoadBalancerService/Start'',
      ''/kacho.cloud.loadbalancer.v1.NetworkLoadBalancerService/Stop'',
      ''/kacho.cloud.loadbalancer.v1.NetworkLoadBalancerService/Move'',
      ''/kacho.cloud.loadbalancer.v1.NetworkLoadBalancerService/AttachTargetGroup'',
      ''/kacho.cloud.loadbalancer.v1.NetworkLoadBalancerService/DetachTargetGroup'',
      ''/kacho.cloud.loadbalancer.v1.NetworkLoadBalancerService/GetTargetStates'',
      ''/kacho.cloud.loadbalancer.v1.NetworkLoadBalancerService/ListOperations'',
      ''/kacho.cloud.loadbalancer.v1.ListenerService/Get'',
      ''/kacho.cloud.loadbalancer.v1.ListenerService/List'',
      ''/kacho.cloud.loadbalancer.v1.ListenerService/Create'',
      ''/kacho.cloud.loadbalancer.v1.ListenerService/Update'',
      ''/kacho.cloud.loadbalancer.v1.ListenerService/Delete'',
      ''/kacho.cloud.loadbalancer.v1.ListenerService/ListOperations'',
      ''/kacho.cloud.loadbalancer.v1.TargetGroupService/Get'',
      ''/kacho.cloud.loadbalancer.v1.TargetGroupService/List'',
      ''/kacho.cloud.loadbalancer.v1.TargetGroupService/Create'',
      ''/kacho.cloud.loadbalancer.v1.TargetGroupService/Update'',
      ''/kacho.cloud.loadbalancer.v1.TargetGroupService/Delete'',
      ''/kacho.cloud.loadbalancer.v1.TargetGroupService/Move'',
      ''/kacho.cloud.loadbalancer.v1.TargetGroupService/AddTargets'',
      ''/kacho.cloud.loadbalancer.v1.TargetGroupService/RemoveTargets'',
      ''/kacho.cloud.loadbalancer.v1.TargetGroupService/ListOperations'']"

definition allowed_registry :: "string list" where
  "allowed_registry =
     [''/kacho.cloud.registry.v1.RegistryService/Get'',
      ''/kacho.cloud.registry.v1.RegistryService/List'',
      ''/kacho.cloud.registry.v1.RegistryService/Create'',
      ''/kacho.cloud.registry.v1.RegistryService/Update'',
      ''/kacho.cloud.registry.v1.RegistryService/Delete'',
      ''/kacho.cloud.registry.v1.RegistryService/ListRepositories'',
      ''/kacho.cloud.registry.v1.RegistryService/ListTags'',
      ''/kacho.cloud.registry.v1.RegistryService/DeleteTag'',
      ''/kacho.cloud.registry.v1.RegistryService/ListOperations'',
      ''/kacho.cloud.registry.v1.RegistryService/GetRepository'',
      ''/kacho.cloud.registry.v1.RegistryService/ListReferrers'',
      ''/kacho.cloud.registry.v1.RegistryService/CreateRepository'',
      ''/kacho.cloud.registry.v1.RegistryService/UpdateRepository'',
      ''/kacho.cloud.registry.v1.RegistryService/DeleteRepository'',
      ''/kacho.cloud.registry.v1.RegistryService/RenameRepository'']"

definition allowed_operation :: "string list" where
  "allowed_operation =
     [''/kacho.cloud.operation.OperationService/Get'',
      ''/kacho.cloud.operation.OperationService/Cancel'']"

definition allowed_methods :: "string list" where
  "allowed_methods =
     allowed_vpc @ allowed_compute @ allowed_storage @ allowed_geo @ allowed_iam @ allowed_loadbalancer @ allowed_registry @ allowed_operation"

section \<open>Tests\<close>

definition is_allowed :: "string \<Rightarrow> bool" where
  "is_allowed methodPath \<longleftrightarrow> methodPath \<in> set allowed_methods"

definition has_internal_suffix :: "string \<Rightarrow> bool" where
  "has_internal_suffix methodPath =
     (if contains_sub methodPath ''InternalService'' then True
      else (let p = trim_prefix methodPath ''/'' in
            case index_byte p (CHR ''/'') of
              None \<Rightarrow> False
            | Some slash \<Rightarrow>
                if slash < 1 then False
                else (let pkgService = take slash p in
                      case last_index_byte pkgService (CHR ''.'') of
                        None \<Rightarrow> False
                      | Some dot \<Rightarrow>
                          (let service = drop (dot + 1) pkgService in
                           has_prefix service ''Internal'' \<and> has_suffix service ''Service''))))"

section \<open>No internal method is in the table\<close>

lemma allowed_vpc_public: "list_all (\<lambda>m. \<not> has_internal_suffix m) allowed_vpc"
  by code_simp

lemma allowed_compute_public: "list_all (\<lambda>m. \<not> has_internal_suffix m) allowed_compute"
  by code_simp

lemma allowed_storage_public: "list_all (\<lambda>m. \<not> has_internal_suffix m) allowed_storage"
  by code_simp

lemma allowed_geo_public: "list_all (\<lambda>m. \<not> has_internal_suffix m) allowed_geo"
  by code_simp

lemma allowed_iam_public: "list_all (\<lambda>m. \<not> has_internal_suffix m) allowed_iam"
  by code_simp

lemma allowed_loadbalancer_public: "list_all (\<lambda>m. \<not> has_internal_suffix m) allowed_loadbalancer"
  by code_simp

lemma allowed_registry_public: "list_all (\<lambda>m. \<not> has_internal_suffix m) allowed_registry"
  by code_simp

lemma allowed_operation_public: "list_all (\<lambda>m. \<not> has_internal_suffix m) allowed_operation"
  by code_simp

lemmas allowed_public =
  allowed_vpc_public
  allowed_compute_public
  allowed_storage_public
  allowed_geo_public
  allowed_iam_public
  allowed_loadbalancer_public
  allowed_registry_public
  allowed_operation_public

lemma allowed_not_internal: "is_allowed m \<Longrightarrow> \<not> has_internal_suffix m"
  using allowed_public by (auto simp: is_allowed_def allowed_methods_def list_all_iff)

end
