(* ===== verification/Authz.thy ===== *)
theory Authz
  imports Authz_Extract Authz_Response Authz_Check Allowlist
begin

text \<open>
  The authorization middleware of \<^verbatim>\<open>internal/middleware/authz.go\<close>: its construction, the phases of
  \<open>decide\<close>, and the unary, streaming and HTTP interceptors with their effect on the decision cache and
  the counters. One request is one run of a definition; what other requests do to the shared cache
  while it waits for IAM is a parameter of the run, as are the clock readings and the answer of the
  checker. The identifier syntax of \<^verbatim>\<open>kacho-corelib\<close> (\<open>corevalidate.ResourceID\<close>) is a parameter.
\<close>

section \<open>Configuration and state\<close>

record authz_config =
  az_enabled :: bool
  az_fail_open :: bool
  az_fallback :: bool \<comment> \<open>\<open>allowExternalFallback\<close> of the subject extractor\<close>
  az_context :: context_extractor
  az_split_host_port :: "string \<Rightarrow> string option"
  az_templates :: "(string \<times> string) list"
  az_decode_json :: "string \<Rightarrow> claims option"
  az_valid_id :: "string \<Rightarrow> bool" \<comment> \<open>\<open>corevalidate.ResourceID\<close> returns nil\<close>
  az_allow :: "string list"
  az_router :: "(string \<Rightarrow> string \<Rightarrow> string option) option"
  az_sha256_hex :: "string \<Rightarrow> string"

record authz_state =
  as_cache :: "decision_cache option" \<comment> \<open>nil when the middleware is disabled\<close>
  as_metrics :: authz_metrics
  as_catalog :: catalog
  as_overrides :: "overrides option"

datatype authz_error =
  CatalogRequired | SubjectsRequired | ContextRequired | ResourcesRequired | CheckerRequired | AuthzLoggerRequired

definition required_deps :: "(bool \<times> authz_error) list \<Rightarrow> authz_error option" where
  \<comment> \<open>the first required field that is nil\<close>
  "required_deps ds = map_option snd (find (\<lambda>(present, _). \<not> present) ds)"

definition new_authz_middleware ::
  "bool \<Rightarrow> bool list \<Rightarrow> int \<Rightarrow> duration \<Rightarrow> authz_metrics option \<Rightarrow> catalog \<Rightarrow> overrides option \<Rightarrow>
   authz_error + authz_state" where
  \<comment> \<open>\<open>Enabled\<close>, which dependencies are given, \<open>CacheMaxEntries\<close>, \<open>CacheTTL\<close>, \<open>Metrics\<close>\<close>
  "new_authz_middleware enabled deps maxEntries ttl metrics cat ovr =
     (if \<not> enabled then Inr \<lparr>as_cache = None, as_metrics = metrics_new, as_catalog = cat, as_overrides = ovr\<rparr>
      else case required_deps (zip deps [CatalogRequired, SubjectsRequired, ContextRequired, ResourcesRequired,
                                         CheckerRequired, AuthzLoggerRequired]) of
        Some e \<Rightarrow> Inl e
      | None \<Rightarrow>
          Inr \<lparr>as_cache = Some (decision_cache_new (if maxEntries \<le> 0 then 10000 else maxEntries)
                                  (if ttl \<le> 0 then 5 * second else ttl)),
               as_metrics = (case metrics of None \<Rightarrow> metrics_new | Some m \<Rightarrow> m),
               as_catalog = cat, as_overrides = ovr\<rparr>)"

definition tick :: "(authz_metrics \<Rightarrow> authz_metrics) \<Rightarrow> authz_state \<Rightarrow> authz_state" where
  "tick f st = st\<lparr>as_metrics := f (as_metrics st)\<rparr>"

section \<open>Flushing and reloading\<close>

definition subject_changing_fqns :: "string list" where
  "subject_changing_fqns =
     [''kacho.cloud.iam.v1.AccessBindingService/Create'', ''kacho.cloud.iam.v1.AccessBindingService/Delete'']"

definition maybe_flush_on_mutation :: "authz_state \<Rightarrow> string \<Rightarrow> int \<Rightarrow> authz_state" where
  "maybe_flush_on_mutation st fqn httpStatus =
     (case as_cache st of
        None \<Rightarrow> st
      | Some c \<Rightarrow>
          if httpStatus < 200 \<or> 300 \<le> httpStatus then st
          else if normalize_fqn fqn \<notin> set subject_changing_fqns then st
          else st\<lparr>as_cache := Some (decision_invalidate c)\<rparr>)"

definition invalidate_cache :: "authz_state \<Rightarrow> authz_state" where
  "invalidate_cache st = st\<lparr>as_cache := map_option decision_invalidate (as_cache st)\<rparr>"

definition authz_reload ::
  "catalog_decoder \<Rightarrow> (string \<Rightarrow> (int \<times> override_row list) option) \<Rightarrow> file_system \<Rightarrow> bool \<Rightarrow> authz_state \<Rightarrow>
   authz_state \<times> config_error list" where
  \<comment> \<open>the flag is \<open>Enabled\<close>; the errors are joined\<close>
  "authz_reload dec yaml fs enabled st =
     (if \<not> enabled then (st, [])
      else
        (let (cat', cerr, creloaded) =
               (if fc_path (as_catalog st) \<noteq> None
                then (let (c, e) = reload (parse_catalog dec) fs (as_catalog st) in (c, e, True))
                else (as_catalog st, None, False));
             (ovr', oerr, oreloaded) =
               (case as_overrides st of
                  None \<Rightarrow> (None, None, False)
                | Some o' \<Rightarrow>
                    if fc_path o' \<noteq> None
                    then (let (c, e) = reload (parse_overrides yaml) fs o' in (Some c, e, True))
                    else (Some o', None, False));
             st' = st\<lparr>as_catalog := cat', as_overrides := ovr'\<rparr>;
             st'' = (if creloaded \<or> oreloaded then invalidate_cache st' else st')
         in (st'', List.map_filter id [cerr, oerr])))"

datatype authz_invalidator = NopInvalidator | CacheInvalidator

definition as_invalidator :: "authz_state option \<Rightarrow> authz_invalidator" where
  \<comment> \<open>\<open>None\<close>: a nil middleware\<close>
  "as_invalidator m =
     (case m of
        None \<Rightarrow> NopInvalidator
      | Some st \<Rightarrow> if as_cache st = None then NopInvalidator else CacheInvalidator)"

definition inv_invalidate_subject :: "authz_invalidator \<Rightarrow> authz_state \<Rightarrow> string \<Rightarrow> authz_state \<times> nat" where
  "inv_invalidate_subject i st subj =
     (case (i, as_cache st) of
        (CacheInvalidator, Some c) \<Rightarrow>
          (let (c', n) = decision_invalidate_subject c subj in (st\<lparr>as_cache := Some c'\<rparr>, n))
      | _ \<Rightarrow> (st, 0))"

definition inv_invalidate :: "authz_invalidator \<Rightarrow> authz_state \<Rightarrow> authz_state" where
  "inv_invalidate i st = (case i of NopInvalidator \<Rightarrow> st | CacheInvalidator \<Rightarrow> invalidate_cache st)"

section \<open>Decisions\<close>

record decision_request =
  dr_fqn :: string
  dr_proto :: "proto_msg option option" \<comment> \<open>\<open>Some None\<close>: not a protobuf message\<close>
  dr_http :: "http_request option"
  dr_peer :: string
  dr_meta :: "header option"
  dr_stream :: bool
  dr_ctx_md :: "header option" \<comment> \<open>the incoming metadata of the context\<close>
  dr_ctx_request_id :: string

datatype decision_outcome =
  OutcomeAllow | OutcomeDeny | OutcomeError | OutcomeUnauthenticated | OutcomeInvalidArgument | OutcomeNotFound

definition zero_scope :: scope_extractor where
  "zero_scope = \<lparr>object_type = [], from_request_field = [], object_type_from_request_field = []\<rparr>"

definition zero_entry :: catalog_entry where
  "zero_entry =
     \<lparr>ce_fqn = [], ce_permission = [], ce_required_relation = [], ce_scope = zero_scope, ce_required_acr_min = [],
      ce_domain = [], ce_resource_type = [], ce_action = [], ce_requires_mfa_fresh = False, ce_risk_level = [],
      ce_description = [], ce_emitted_build_sha = [], ce_hide_existence = False\<rparr>"

record decision =
  dc_outcome :: decision_outcome
  dc_reasons :: "string list"
  dc_descriptor :: pd_descriptor
  dc_check_err :: "check_error option"
  dc_entry :: catalog_entry
  dc_invalid_arg_id :: string

definition decide_as :: "decision_outcome \<Rightarrow> string list \<Rightarrow> pd_descriptor \<Rightarrow> catalog_entry \<Rightarrow> decision" where
  "decide_as out rs d e =
     \<lparr>dc_outcome = out, dc_reasons = rs, dc_descriptor = d, dc_check_err = None, dc_entry = e, dc_invalid_arg_id = []\<rparr>"

definition grpc_status_of :: "decision \<Rightarrow> rpc_status" where
  "grpc_status_of d =
     (case dc_outcome d of
        OutcomeUnauthenticated \<Rightarrow> build_grpc_unauth_status (dc_descriptor d) (dc_reasons d)
      | OutcomeInvalidArgument \<Rightarrow> build_grpc_invalid_arg_status (dc_invalid_arg_id d)
      | OutcomeNotFound \<Rightarrow> build_grpc_not_found_status (dc_descriptor d)
      | _ \<Rightarrow> build_grpc_deny_status (dc_descriptor d) (dc_reasons d))"

definition required_acr_min :: "decision \<Rightarrow> string" where
  "required_acr_min d = (if ce_required_acr_min (dc_entry d) = [] then ''2'' else ce_required_acr_min (dc_entry d))"

definition is_external_request :: "decision_request \<Rightarrow> bool" where
  "is_external_request dr = (case dr_http dr of Some r \<Rightarrow> is_external (Some (req_ctx r)) | None \<Rightarrow> True)"

definition deny_decision :: "string \<Rightarrow> catalog_entry \<Rightarrow> pd_descriptor \<Rightarrow> string list \<Rightarrow> decision" where
  "deny_decision fqn e d reasons =
     (if hides_existence_on_deny e fqn then decide_as OutcomeNotFound [] d e else decide_as OutcomeDeny reasons d e)"

section \<open>The phases\<close>

definition phase_allowlist :: "authz_config \<Rightarrow> decision_request \<Rightarrow> authz_state \<Rightarrow> authz_state \<times> decision option" where
  "phase_allowlist cfg dr st =
     (if dr_fqn dr \<in> set (az_allow cfg)
      then (tick record_allow st, Some (decide_as OutcomeAllow [] (descriptor_of (dr_fqn dr) []) zero_entry))
      else (st, None))"

definition phase_internal_origin_exempt :: "decision_request \<Rightarrow> authz_state \<Rightarrow> authz_state \<times> decision option" where
  "phase_internal_origin_exempt dr st =
     (if has_internal_suffix (''/'' @ dr_fqn dr) \<and> \<not> is_external_request dr then
        (case catalog_lookup (as_catalog st) (dr_fqn dr) of
           Some entry \<Rightarrow>
             if is_exempt entry
             then (tick record_allow st,
                   Some (decide_as OutcomeAllow [] (descriptor_of (dr_fqn dr) (ce_permission entry)) entry))
             else (st, None)
         | None \<Rightarrow> (st, None))
      else (st, None))"

definition phase_override :: "decision_request \<Rightarrow> authz_state \<Rightarrow> authz_state \<times> decision option" where
  "phase_override dr st =
     (case as_overrides st of
        None \<Rightarrow> (st, None)
      | Some o' \<Rightarrow>
          (case override_lookup o' (dr_fqn dr) of
             Some OverrideAllow \<Rightarrow>
               (tick record_allow st, Some (decide_as OutcomeAllow [] (descriptor_of (dr_fqn dr) []) zero_entry))
           | Some OverrideDeny \<Rightarrow>
               (tick record_deny st,
                Some (decide_as OutcomeDeny [''override: explicit deny''] (descriptor_of (dr_fqn dr) []) zero_entry))
           | _ \<Rightarrow> (st, None)))"

definition request_token :: "decision_request \<Rightarrow> verified_token option" where
  "request_token dr = verified_token_from_ctx_or_http (dr_ctx_md dr) (dr_http dr)"

definition unauthenticated_decision :: "decision_request \<Rightarrow> catalog_entry \<Rightarrow> decision" where
  "unauthenticated_decision dr entry =
     decide_as OutcomeUnauthenticated [''subject: unauthenticated request'']
       (descriptor_of (dr_fqn dr) (ce_permission entry)) entry"

definition phase_catalog ::
  "authz_config \<Rightarrow> decision_request \<Rightarrow> authz_state \<Rightarrow> authz_state \<times> (decision + catalog_entry)" where
  "phase_catalog cfg dr st =
     (case catalog_lookup (as_catalog st) (dr_fqn dr) of
        Some entry \<Rightarrow>
          if is_exempt entry then
            (case subject_extract (az_fallback cfg) (request_token dr) of
               None \<Rightarrow> (tick record_deny st, Inl (unauthenticated_decision dr entry))
             | Some _ \<Rightarrow>
                 (tick record_allow st,
                  Inl (decide_as OutcomeAllow [] (descriptor_of (dr_fqn dr) (ce_permission entry)) entry)))
          else (st, Inr entry)
      | None \<Rightarrow>
          (let isAuthed = (subject_extract (az_fallback cfg) (request_token dr) \<noteq> None);
               missReason = (if \<not> isAuthed then ''catalog: no entry for method; unauthenticated''
                             else ''catalog: no entry for method'')
           in (tick record_deny st,
               Inl (decide_as OutcomeDeny [missReason] (descriptor_of (dr_fqn dr) []) zero_entry))))"

definition phase_subject ::
  "authz_config \<Rightarrow> decision_request \<Rightarrow> catalog_entry \<Rightarrow> authz_state \<Rightarrow>
   authz_state \<times> (decision + verified_token option \<times> resolved_subject)" where
  "phase_subject cfg dr entry st =
     (let verified = request_token dr in
      case subject_extract (az_fallback cfg) verified of
        None \<Rightarrow> (tick record_deny st, Inl (unauthenticated_decision dr entry))
      | Some subj \<Rightarrow> (st, Inr (verified, subj)))"

definition descriptor_for :: "decision_request \<Rightarrow> catalog_entry \<Rightarrow> resolved_subject \<Rightarrow> string \<Rightarrow> string \<Rightarrow> pd_descriptor" where
  "descriptor_for dr entry subj rtype rid =
     \<lparr>pd_subject = rs_fga subj, pd_action = ce_permission entry, pd_resource_type = rtype, pd_resource_id = rid,
      pd_fqn = dr_fqn dr\<rparr>"

definition stream_unresolved_reason :: string where
  "stream_unresolved_reason =
     ''streaming RPC with a concrete-resource scope cannot be authorized: scope id unresolvable on the unmaterialised stream path''"

definition extract_resource ::
  "authz_config \<Rightarrow> decision_request \<Rightarrow> catalog_entry \<Rightarrow> decision_request \<times> string" where
  \<comment> \<open>the first \<open>switch\<close> of \<open>phaseResource\<close> after the streaming case; reading a body changes the request\<close>
  "extract_resource cfg dr entry =
     (case dr_http dr of
        Some r \<Rightarrow>
          (let (r', i) = extract_from_http (az_decode_json cfg) (az_templates cfg) r (dr_fqn dr) entry
           in (dr\<lparr>dr_http := Some r'\<rparr>, i))
      | None \<Rightarrow>
          (case dr_proto dr of
             Some p \<Rightarrow> (dr, extract_from_proto p entry)
           | None \<Rightarrow> (dr, ''*'')))"

definition dynamic_type ::
  "authz_config \<Rightarrow> decision_request \<Rightarrow> catalog_entry \<Rightarrow> decision_request \<times> string" where
  \<comment> \<open>the object type named by a request field, empty when there is none\<close>
  "dynamic_type cfg dr entry =
     (let otField = trim_space (object_type_from_request_field (ce_scope entry)) in
      if otField = [] then (dr, [])
      else case dr_http dr of
        Some r \<Rightarrow>
          (let (r', t) = scope_type_from_http (az_decode_json cfg) r otField in (dr\<lparr>dr_http := Some r'\<rparr>, t))
      | None \<Rightarrow> (case dr_proto dr of Some p \<Rightarrow> (dr, scope_type_from_proto p otField) | None \<Rightarrow> (dr, [])))"

definition resource_type_of :: "string \<Rightarrow> string \<Rightarrow> string" where
  \<comment> \<open>the static and the dynamic type\<close>
  "resource_type_of static dyn =
     (let t = (if dyn \<noteq> [] then dyn else static) in if t = [] then ''project'' else t)"

definition is_wildcard :: "string \<Rightarrow> bool" where
  "is_wildcard i \<longleftrightarrow> i = ''*''"

definition stream_scope_unresolved :: "decision_request \<Rightarrow> catalog_entry \<Rightarrow> bool" where
  "stream_scope_unresolved dr entry \<longleftrightarrow>
     dr_http dr = None \<and> dr_proto dr = None \<and> dr_stream dr \<and> is_concrete_resource_scope entry"

definition phase_resource ::
  "authz_config \<Rightarrow> decision_request \<Rightarrow> catalog_entry \<Rightarrow> resolved_subject \<Rightarrow> authz_state \<Rightarrow>
   authz_state \<times> decision_request \<times> (decision + string \<times> string \<times> pd_descriptor)" where
  "phase_resource cfg dr entry subj st =
     (if stream_scope_unresolved dr entry then
        (let d = descriptor_for dr entry subj (resource_type_of (object_type (ce_scope entry)) []) ''*''
         in (tick record_deny st, dr, Inl (decide_as OutcomeDeny [stream_unresolved_reason] d entry)))
      else
        (let (dr1, rid0) = extract_resource cfg dr entry;
             (dr2, dyn) = dynamic_type cfg dr1 entry;
             rtype = resource_type_of (object_type (ce_scope entry)) dyn;
             rid = (if rtype = ''cluster'' \<and> is_wildcard rid0 then ''cluster_kacho_root'' else rid0);
             d = descriptor_for dr entry subj rtype rid
         in if is_concrete_resource_scope entry \<and> \<not> is_wildcard rid \<and> rid \<noteq> [] \<and> \<not> az_valid_id cfg rid
            then (tick record_deny st, dr2,
                  Inl ((decide_as OutcomeInvalidArgument [''resource id is malformed''] d entry)\<lparr>dc_invalid_arg_id := rid\<rparr>))
            else (st, dr2, Inr (rid, rtype, d))))"

record check_env =
  \<comment> \<open>what one run of \<open>decide\<close> meets: clock readings, the checker, and other requests on the cache
    between the generation snapshot and the lookup and while the check is running\<close>
  ev_start :: time
  ev_context_at :: time
  ev_between :: "decision_cache \<Rightarrow> decision_cache"
  ev_get_at :: time
  ev_check :: "check_input \<Rightarrow> check_error + check_result"
  ev_during :: "decision_cache \<Rightarrow> decision_cache"
  ev_put_at :: time
  ev_end :: time

definition build_check_context ::
  "authz_config \<Rightarrow> decision_request \<Rightarrow> time \<Rightarrow> verified_token option \<Rightarrow> resolved_subject \<Rightarrow> context_map" where
  "build_check_context cfg dr now verified subj =
     (case dr_http dr of
        Some r \<Rightarrow> build_http (az_context cfg) (az_split_host_port cfg) now verified (Some r) subj
      | None \<Rightarrow>
          if dr_meta dr \<noteq> None \<or> dr_peer dr \<noteq> []
          then build_peer_addr (az_context cfg) (az_split_host_port cfg) now verified (dr_peer dr)
                 (grpc_meta_forwarded_for (dr_meta dr)) subj
          else build_http (az_context cfg) (az_split_host_port cfg) now verified None subj)"

definition check_input_of ::
  "authz_config \<Rightarrow> decision_request \<Rightarrow> catalog_entry \<Rightarrow> resolved_subject \<Rightarrow> string \<Rightarrow> string \<Rightarrow> context_map \<Rightarrow> check_input" where
  "check_input_of cfg dr entry subj rid rtype ctx =
     \<lparr>ci_subject = rs_fga subj, ci_action = ce_permission entry, ci_required_relation = ce_required_relation entry,
      ci_resource_type = rtype, ci_resource_id = rid, ci_context = ctx,
      ci_trace = trace_from_context (dr_ctx_request_id dr) (dr_http dr) (dr_meta dr)\<rparr>"

definition put_decision :: "check_env \<Rightarrow> string \<Rightarrow> decision_entry \<Rightarrow> 64 word \<Rightarrow> authz_state \<Rightarrow> authz_state" where
  "put_decision ev key v g st =
     st\<lparr>as_cache := map_option (\<lambda>c. decision_put_if_gen c key v g (ev_put_at ev)) (as_cache st)\<rparr>"

definition phase_check ::
  "authz_config \<Rightarrow> check_env \<Rightarrow> decision_request \<Rightarrow> catalog_entry \<Rightarrow> verified_token option \<Rightarrow> resolved_subject \<Rightarrow>
   string \<Rightarrow> string \<Rightarrow> pd_descriptor \<Rightarrow> authz_state \<Rightarrow> decision_cache \<Rightarrow> authz_state \<times> decision" where
  \<comment> \<open>the last argument is the cache, which is not nil when the middleware is enabled\<close>
  "phase_check cfg ev dr entry verified subj rid rtype d st cache =
     (let ctx = build_check_context cfg dr (ev_context_at ev) verified subj;
          key = build_cache_key (az_sha256_hex cfg) (rs_fga subj) (ce_permission entry) rtype rid (Some ctx);
          cacheGen = decision_generation cache;
          (c1, cached) = decision_get (ev_between ev cache) key (ev_get_at ev)
      in case cached of
           Some v \<Rightarrow>
             (let st1 = tick record_cache_hit (st\<lparr>as_cache := Some c1\<rparr>) in
              if de_allowed v then (tick record_allow st1, decide_as OutcomeAllow [] d entry)
              else (tick record_deny st1, deny_decision (dr_fqn dr) entry d (de_reasons v)))
         | None \<Rightarrow>
             (let st1 = tick record_cache_miss (st\<lparr>as_cache := Some (ev_during ev c1)\<rparr>) in
              case ev_check ev (check_input_of cfg dr entry subj rid rtype ctx) of
                Inl (c, msg) \<Rightarrow>
                  if c = PermissionDenied then
                    (put_decision ev key \<lparr>de_allowed = False, de_reasons = [msg]\<rparr> cacheGen (tick record_deny st1),
                     deny_decision (dr_fqn dr) entry d [msg])
                  else
                    (tick record_error st1, (decide_as OutcomeError [] d entry)\<lparr>dc_check_err := Some (c, msg)\<rparr>)
              | Inr result \<Rightarrow>
                  if cr_allowed result then
                    (tick record_allow (put_decision ev key \<lparr>de_allowed = True, de_reasons = []\<rparr> cacheGen st1),
                     decide_as OutcomeAllow [] d entry)
                  else
                    (let reasons = (if cr_deny_reasons result = [] then [''no path''] else cr_deny_reasons result) in
                     (tick record_deny (put_decision ev key \<lparr>de_allowed = False, de_reasons = reasons\<rparr> cacheGen st1),
                      deny_decision (dr_fqn dr) entry d reasons))))"

section \<open>One decision path\<close>

definition observe_decide :: "check_env \<Rightarrow> authz_state \<Rightarrow> authz_state" where
  \<comment> \<open>the deferred observation: whole microseconds, reported in milliseconds\<close>
  "observe_decide ev st =
     tick (\<lambda>m. observe_latency_ms m (of_int ((ev_end ev - ev_start ev) div 1000) / 1000)) st"

definition decide_phases ::
  "authz_config \<Rightarrow> check_env \<Rightarrow> decision_request \<Rightarrow> authz_state \<Rightarrow> authz_state \<times> decision_request \<times> decision" where
  "decide_phases cfg ev dr st =
     (case phase_allowlist cfg dr st of
        (st, Some dec) \<Rightarrow> (st, dr, dec)
      | (st, None) \<Rightarrow>
     (case phase_internal_origin_exempt dr st of
        (st, Some dec) \<Rightarrow> (st, dr, dec)
      | (st, None) \<Rightarrow>
     (case phase_override dr st of
        (st, Some dec) \<Rightarrow> (st, dr, dec)
      | (st, None) \<Rightarrow>
     (case phase_catalog cfg dr st of
        (st, Inl dec) \<Rightarrow> (st, dr, dec)
      | (st, Inr entry) \<Rightarrow>
     (case phase_subject cfg dr entry st of
        (st, Inl dec) \<Rightarrow> (st, dr, dec)
      | (st, Inr (verified, subj)) \<Rightarrow>
     (case phase_resource cfg dr entry subj st of
        (st, dr', Inl dec) \<Rightarrow> (st, dr', dec)
      | (st, dr', Inr (rid, rtype, d)) \<Rightarrow>
          (case as_cache st of
             None \<Rightarrow> (st, dr', decide_as OutcomeError [] d entry) \<comment> \<open>excluded: the cache exists when enabled\<close>
           | Some cache \<Rightarrow>
               (let (st', dec) = phase_check cfg ev dr' entry verified subj rid rtype d st cache
                in (st', dr', dec)))))))))"

definition decide ::
  "authz_config \<Rightarrow> check_env \<Rightarrow> decision_request \<Rightarrow> authz_state \<Rightarrow> authz_state \<times> decision_request \<times> decision" where
  "decide cfg ev dr st =
     (let (st', dr', dec) = decide_phases cfg ev dr st in (observe_decide ev st', dr', dec))"

section \<open>gRPC interceptors\<close>

datatype rpc_result =
    Handled "rpc_status option" \<comment> \<open>the handler ran; \<open>None\<close>: without error\<close>
  | Refused rpc_status

definition authz_unavailable_status :: rpc_status where
  "authz_unavailable_status = \<lparr>rpc_code = Unavailable, rpc_message = ''authz service unavailable'', rpc_details = []\<rparr>"

record grpc_call =
  gc_full_method :: string
  gc_req :: "proto_msg option" \<comment> \<open>\<open>None\<close>: not a protobuf message\<close>
  gc_peer :: string
  gc_md :: "header option"
  gc_request_id :: string

definition unary_request :: "grpc_call \<Rightarrow> decision_request" where
  "unary_request call =
     \<lparr>dr_fqn = normalize_fqn (gc_full_method call), dr_proto = Some (gc_req call), dr_http = None, dr_peer = gc_peer call,
      dr_meta = gc_md call, dr_stream = False, dr_ctx_md = gc_md call, dr_ctx_request_id = gc_request_id call\<rparr>"

definition stream_request :: "grpc_call \<Rightarrow> decision_request" where
  "stream_request call = (unary_request call)\<lparr>dr_proto := None, dr_stream := True\<rparr>"

definition authz_unary ::
  "authz_config \<Rightarrow> check_env \<Rightarrow> grpc_call \<Rightarrow> rpc_status option \<Rightarrow> authz_state \<Rightarrow> authz_state \<times> rpc_result" where
  \<comment> \<open>the fourth argument is what the handler returns if it runs\<close>
  "authz_unary cfg ev call herr st =
     (if \<not> az_enabled cfg then (st, Handled herr)
      else
        (let (st', _, dec) = decide cfg ev (unary_request call) st in
         case dc_outcome dec of
           OutcomeAllow \<Rightarrow>
             (if herr = None then maybe_flush_on_mutation st' (normalize_fqn (gc_full_method call)) 200 else st', Handled herr)
         | OutcomeError \<Rightarrow> if az_fail_open cfg then (st', Handled herr) else (st', Refused authz_unavailable_status)
         | _ \<Rightarrow> (st', Refused (grpc_status_of dec))))"

definition authz_stream ::
  "authz_config \<Rightarrow> check_env \<Rightarrow> grpc_call \<Rightarrow> rpc_status option \<Rightarrow> authz_state \<Rightarrow> authz_state \<times> rpc_result" where
  "authz_stream cfg ev call herr st =
     (if \<not> az_enabled cfg then (st, Handled herr)
      else
        (let (st', _, dec) = decide cfg ev (stream_request call) st in
         case dc_outcome dec of
           OutcomeAllow \<Rightarrow> (st', Handled herr)
         | OutcomeError \<Rightarrow> if az_fail_open cfg then (st', Handled herr) else (st', Refused authz_unavailable_status)
         | _ \<Rightarrow> (st', Refused (grpc_status_of dec))))"

section \<open>HTTP middleware\<close>

datatype write_op = SetHeaderOp string string | WriteHeaderOp int | WriteOp string

record status_writer =
  \<comment> \<open>\<open>responseWriter\<close> of \<^verbatim>\<open>access_log.go\<close>, over the writer of the server\<close>
  sw_inner :: resp_writer
  sw_status :: int
  sw_wrote_header :: bool

definition new_response_writer :: "resp_writer \<Rightarrow> status_writer" where
  "new_response_writer w = \<lparr>sw_inner = w, sw_status = 200, sw_wrote_header = False\<rparr>"

fun raw_op :: "resp_writer \<Rightarrow> write_op \<Rightarrow> resp_writer" where
  "raw_op w (SetHeaderOp k v) = (if w_status w = None then w\<lparr>w_header := hset (w_header w) k v\<rparr> else w)"
| "raw_op w (WriteHeaderOp code) = write_header w code"
| "raw_op w (WriteOp b) = write_body w b"

fun sw_op :: "status_writer \<Rightarrow> write_op \<Rightarrow> status_writer" where
  "sw_op s (SetHeaderOp k v) = s\<lparr>sw_inner := raw_op (sw_inner s) (SetHeaderOp k v)\<rparr>"
| "sw_op s (WriteHeaderOp code) =
     (if sw_wrote_header s then s
      else s\<lparr>sw_wrote_header := True, sw_status := code, sw_inner := write_header (sw_inner s) code\<rparr>)"
| "sw_op s (WriteOp b) =
     (let s1 = (if \<not> sw_wrote_header s then s\<lparr>sw_wrote_header := True\<rparr> else s)
      in s1\<lparr>sw_inner := write_body (sw_inner s1) b\<rparr>)"

definition serve_raw :: "write_op list \<Rightarrow> resp_writer" where
  "serve_raw ops = foldl raw_op writer_new ops"

definition serve_counted :: "write_op list \<Rightarrow> status_writer" where
  "serve_counted ops = foldl sw_op (new_response_writer writer_new) ops"

definition step_up_challenge :: "decision \<Rightarrow> string" where
  "step_up_challenge dec =
     (if should_step_up_challenge (dc_reasons dec)
      then ''Bearer error='' @ [CHR 0x22] @ ''insufficient_user_authentication'' @ [CHR 0x22] @ '', acr_values='' @
           [CHR 0x22] @ required_acr_min dec @ [CHR 0x22]
      else [])"

definition http_decision_request :: "authz_config \<Rightarrow> http_request \<Rightarrow> header option \<Rightarrow> string \<Rightarrow> decision_request" where
  \<comment> \<open>the context of the request: incoming metadata, if any, and the request identifier\<close>
  "http_decision_request cfg r md rid =
     \<lparr>dr_fqn = resolve_rest_fqn (az_router cfg) r, dr_proto = None, dr_http = Some r, dr_peer = [], dr_meta = None,
      dr_stream = False, dr_ctx_md = md, dr_ctx_request_id = rid\<rparr>"

datatype http_result =
    Reached http_request resp_writer \<comment> \<open>the next handler ran on this request and produced this\<close>
  | Answered resp_writer

definition authz_http ::
  "authz_config \<Rightarrow> (json \<Rightarrow> string) \<Rightarrow> check_env \<Rightarrow> header option \<Rightarrow> string \<Rightarrow> (http_request \<Rightarrow> write_op list) \<Rightarrow>
   http_request \<Rightarrow> authz_state \<Rightarrow> authz_state \<times> http_result" where
  "authz_http cfg encode ev md rid next r st =
     (if \<not> az_enabled cfg then (st, Reached r (serve_raw (next r)))
      else if is_public_http_path (req_path r) then (st, Reached r (serve_raw (next r)))
      else
        (let dr = http_decision_request cfg r md rid;
             (st', dr', dec) = decide cfg ev dr st;
             r' = (case dr_http dr' of Some q \<Rightarrow> q | None \<Rightarrow> r)
         in case dc_outcome dec of
              OutcomeAllow \<Rightarrow>
                (let rw = serve_counted (next r') in
                 (maybe_flush_on_mutation st' (dr_fqn dr) (sw_status rw), Reached r' (sw_inner rw)))
            | OutcomeDeny \<Rightarrow> (st', Answered (write_http_deny encode (dc_descriptor dec) (dc_reasons dec) (step_up_challenge dec)))
            | OutcomeUnauthenticated \<Rightarrow> (st', Answered (write_http_unauth encode (dc_descriptor dec) (dc_reasons dec)))
            | OutcomeInvalidArgument \<Rightarrow> (st', Answered (write_http_invalid_arg encode (dc_invalid_arg_id dec)))
            | OutcomeNotFound \<Rightarrow> (st', Answered (write_http_not_found encode (dc_descriptor dec)))
            | OutcomeError \<Rightarrow>
                if az_fail_open cfg then (st', Reached r' (serve_raw (next r'))) else (st', Answered write_http_unavailable)))"

section \<open>What the phases leave alone\<close>

lemma tick_frame [simp]:
  "as_cache (tick f st) = as_cache st" "as_catalog (tick f st) = as_catalog st" "as_overrides (tick f st) = as_overrides st"
  "as_metrics (tick f st) = f (as_metrics st)"
  by (simp_all add: tick_def)

lemma put_decision_frame [simp]:
  "as_catalog (put_decision ev k v g st) = as_catalog st" "as_overrides (put_decision ev k v g st) = as_overrides st"
  "as_metrics (put_decision ev k v g st) = as_metrics st"
  "as_cache (put_decision ev k v g st) = map_option (\<lambda>c. decision_put_if_gen c k v g (ev_put_at ev)) (as_cache st)"
  by (simp_all add: put_decision_def)

lemma observe_decide_frame [simp]:
  "as_cache (observe_decide ev st) = as_cache st" "as_catalog (observe_decide ev st) = as_catalog st"
  "as_overrides (observe_decide ev st) = as_overrides st"
  by (simp_all add: observe_decide_def)

lemma decide_as_sel [simp]:
  "dc_outcome (decide_as out rs d e) = out" "dc_reasons (decide_as out rs d e) = rs"
  "dc_descriptor (decide_as out rs d e) = d" "dc_entry (decide_as out rs d e) = e"
  by (simp_all add: decide_as_def)

definition subject_of :: "authz_config \<Rightarrow> decision_request \<Rightarrow> resolved_subject option" where
  "subject_of cfg dr = subject_extract (az_fallback cfg) (request_token dr)"

definition internal_exempt :: "decision_request \<Rightarrow> authz_state \<Rightarrow> bool" where
  "internal_exempt dr st \<longleftrightarrow>
     has_internal_suffix (''/'' @ dr_fqn dr) \<and> \<not> is_external_request dr \<and>
     (case catalog_lookup (as_catalog st) (dr_fqn dr) of Some e \<Rightarrow> is_exempt e | None \<Rightarrow> False)"

definition override_of :: "decision_request \<Rightarrow> authz_state \<Rightarrow> override_decision option" where
  "override_of dr st =
     (case Option.bind (as_overrides st) (\<lambda>o'. override_lookup o' (dr_fqn dr)) of Some OverrideNone \<Rightarrow> None | x \<Rightarrow> x)"

definition passes_gates :: "authz_config \<Rightarrow> decision_request \<Rightarrow> authz_state \<Rightarrow> bool" where
  \<comment> \<open>no phase before the catalog settles the request\<close>
  "passes_gates cfg dr st \<longleftrightarrow> dr_fqn dr \<notin> set (az_allow cfg) \<and> \<not> internal_exempt dr st \<and> override_of dr st = None"

lemma phase_internal_cases:
  "phase_internal_origin_exempt dr st =
     (if internal_exempt dr st
      then (tick record_allow st,
            Some (decide_as OutcomeAllow []
              (descriptor_of (dr_fqn dr) (ce_permission (the (catalog_lookup (as_catalog st) (dr_fqn dr)))))
              (the (catalog_lookup (as_catalog st) (dr_fqn dr)))))
      else (st, None))"
  by (auto simp: phase_internal_origin_exempt_def internal_exempt_def split: option.splits)

lemma phase_override_cases:
  "phase_override dr st =
     (case override_of dr st of
        Some OverrideAllow \<Rightarrow>
          (tick record_allow st, Some (decide_as OutcomeAllow [] (descriptor_of (dr_fqn dr) []) zero_entry))
      | Some OverrideDeny \<Rightarrow>
          (tick record_deny st,
           Some (decide_as OutcomeDeny [''override: explicit deny''] (descriptor_of (dr_fqn dr) []) zero_entry))
      | _ \<Rightarrow> (st, None))"
  by (cases "as_overrides st") (auto simp: phase_override_def override_of_def split: option.splits override_decision.splits)

lemma override_of_cases: "override_of dr st = None \<or> override_of dr st = Some OverrideAllow \<or> override_of dr st = Some OverrideDeny"
  by (auto simp: override_of_def split: option.splits override_decision.splits)

lemma decide_gated:
  assumes "\<not> passes_gates cfg dr st" "decide_phases cfg ev dr st = (st', dr', dec)"
  shows "dr' = dr" "st' = tick (if dc_outcome dec = OutcomeAllow then record_allow else record_deny) st"
    "dc_outcome dec = OutcomeAllow \<longleftrightarrow>
       dr_fqn dr \<in> set (az_allow cfg) \<or> internal_exempt dr st \<or> override_of dr st = Some OverrideAllow"
    "dc_outcome dec = OutcomeAllow \<or> dc_outcome dec = OutcomeDeny"
  using assms override_of_cases [of dr st]
  by (auto simp: decide_phases_def phase_allowlist_def phase_internal_cases phase_override_cases passes_gates_def
      split: if_splits)

definition after_subject ::
  "authz_config \<Rightarrow> check_env \<Rightarrow> decision_request \<Rightarrow> catalog_entry \<Rightarrow> resolved_subject \<Rightarrow> authz_state \<Rightarrow>
   authz_state \<times> decision_request \<times> decision" where
  \<comment> \<open>the last two phases\<close>
  "after_subject cfg ev dr entry subj st =
     (case phase_resource cfg dr entry subj st of
        (st, dr', Inl dec) \<Rightarrow> (st, dr', dec)
      | (st, dr', Inr (rid, rtype, d)) \<Rightarrow>
          (case as_cache st of
             None \<Rightarrow> (st, dr', decide_as OutcomeError [] d entry)
           | Some cache \<Rightarrow>
               (let (st', dec) = phase_check cfg ev dr' entry (request_token dr) subj rid rtype d st cache
                in (st', dr', dec))))"

lemma decide_ungated:
  assumes "passes_gates cfg dr st"
  shows "decide_phases cfg ev dr st =
    (case (catalog_lookup (as_catalog st) (dr_fqn dr), subject_of cfg dr) of
       (None, _) \<Rightarrow> (case phase_catalog cfg dr st of (st', r) \<Rightarrow> (st', dr, projl r))
     | (Some entry, None) \<Rightarrow> (tick record_deny st, dr, unauthenticated_decision dr entry)
     | (Some entry, Some subj) \<Rightarrow>
         if is_exempt entry
         then (tick record_allow st, dr,
               decide_as OutcomeAllow [] (descriptor_of (dr_fqn dr) (ce_permission entry)) entry)
         else after_subject cfg ev dr entry subj st)"
  using assms
  by (simp add: decide_phases_def phase_allowlist_def phase_internal_cases phase_override_cases passes_gates_def
      phase_catalog_def phase_subject_def subject_of_def after_subject_def Let_def split: option.split)

section \<open>The check phase\<close>

definition key_of_input :: "authz_config \<Rightarrow> check_input \<Rightarrow> string" where
  "key_of_input cfg i =
     build_cache_key (az_sha256_hex cfg) (ci_subject i) (ci_action i) (ci_resource_type i) (ci_resource_id i) (Some (ci_context i))"

definition verdict_entry :: "check_error + check_result \<Rightarrow> decision_entry option" where
  \<comment> \<open>what is stored for an answer: nothing when the check failed\<close>
  "verdict_entry a =
     (case a of
        Inl (c, msg) \<Rightarrow> if c = PermissionDenied then Some \<lparr>de_allowed = False, de_reasons = [msg]\<rparr> else None
      | Inr r \<Rightarrow>
          if cr_allowed r then Some \<lparr>de_allowed = True, de_reasons = []\<rparr>
          else Some \<lparr>de_allowed = False,
                     de_reasons = (if cr_deny_reasons r = [] then [''no path''] else cr_deny_reasons r)\<rparr>)"

definition entry_decision :: "decision_request \<Rightarrow> catalog_entry \<Rightarrow> pd_descriptor \<Rightarrow> decision_entry \<Rightarrow> decision" where
  "entry_decision dr entry d v =
     (if de_allowed v then decide_as OutcomeAllow [] d entry else deny_decision (dr_fqn dr) entry d (de_reasons v))"

definition tally :: "decision_entry \<Rightarrow> authz_metrics \<Rightarrow> authz_metrics" where
  "tally v = (if de_allowed v then record_allow else record_deny)"

lemma tick_put: "tick f (put_decision ev k v g st) = put_decision ev k v g (tick f st)"
  by (simp add: tick_def put_decision_def)

text \<open>The check phase in one equation: a cached entry decides, else the stored form of the answer does.\<close>

lemma phase_check_eq:
  fixes cfg ev dr entry verified subj rid rtype d st cache
  defines "i \<equiv> check_input_of cfg dr entry subj rid rtype (build_check_context cfg dr (ev_context_at ev) verified subj)"
  defines "got \<equiv> decision_get (ev_between ev cache) (key_of_input cfg i) (ev_get_at ev)"
  shows "phase_check cfg ev dr entry verified subj rid rtype d st cache =
    (case snd got of
       Some v \<Rightarrow> (tick (tally v \<circ> record_cache_hit) (st\<lparr>as_cache := Some (fst got)\<rparr>), entry_decision dr entry d v)
     | None \<Rightarrow>
         (let st1 = st\<lparr>as_cache := Some (ev_during ev (fst got))\<rparr> in
          case verdict_entry (ev_check ev i) of
            Some v \<Rightarrow>
              (put_decision ev (key_of_input cfg i) v (decision_generation cache) (tick (tally v \<circ> record_cache_miss) st1),
               entry_decision dr entry d v)
          | None \<Rightarrow>
              (tick (record_error \<circ> record_cache_miss) st1,
               (decide_as OutcomeError [] d entry)\<lparr>dc_check_err := Some (projl (ev_check ev i))\<rparr>)))"
  unfolding i_def got_def
  by (simp add: phase_check_def Let_def key_of_input_def check_input_of_def verdict_entry_def entry_decision_def tally_def
      tick_put split: prod.split option.split sum.split) (auto simp: tick_def put_decision_def)

end
