(* ===== verification/Authz_Safety.thy ===== *)
theory Authz_Safety
  imports Authz
begin

text \<open>
  The authorization middleware over time: the states it can reach while requests, flushes, per-subject
  invalidations and reloads interleave, and what an allow or a refusal then means. The interface to
  IAM is the locale \<open>authorize_checker\<close>, interpreted on the AuthorizeService client.
\<close>

section \<open>Other requests on the decision cache\<close>

type_synonym asker = "nat \<Rightarrow> check_input \<Rightarrow> check_error + check_result"
  \<comment> \<open>the checker's answer to the n-th question asked of it\<close>

datatype peer_op =
    PLookup string time \<comment> \<open>\<open>get\<close>\<close>
  | PStore nat check_input "64 word" time \<comment> \<open>\<open>putIfGen\<close> of the answer, with a generation read earlier\<close>
  | PFlush \<comment> \<open>\<open>Invalidate\<close>\<close>
  | PFlushSubject string \<comment> \<open>\<open>InvalidateSubject\<close>\<close>

fun peer_lru :: "authz_config \<Rightarrow> asker \<Rightarrow> peer_op \<Rightarrow> (string, decision_entry) lru_op list" where
  "peer_lru cfg ask (PLookup k t) = [LGet k t]"
| "peer_lru cfg ask (PStore n i g t) =
     (case verdict_entry (ask n i) of None \<Rightarrow> [] | Some v \<Rightarrow> [LPutGen (key_of_input cfg i) v 0 g t])"
| "peer_lru cfg ask PFlush = [LFlush]"
| "peer_lru cfg ask (PFlushSubject s) = (if s = [] then [] else [LDropWhere (\<lambda>key. has_prefix key (s @ ''|''))])"

definition peers :: "authz_config \<Rightarrow> asker \<Rightarrow> peer_op list \<Rightarrow> decision_cache \<Rightarrow> decision_cache" where
  "peers cfg ask ops c = lru_run c (concat (map (peer_lru cfg ask) ops))"

definition env_of ::
  "authz_config \<Rightarrow> asker \<Rightarrow> nat \<Rightarrow> peer_op list \<Rightarrow> peer_op list \<Rightarrow> (nat \<Rightarrow> time) \<Rightarrow> check_env" where
  \<comment> \<open>a request that asks the n-th question, the operations of others, and the clock\<close>
  "env_of cfg ask n between during clock =
     \<lparr>ev_start = clock 0, ev_context_at = clock 1, ev_between = peers cfg ask between, ev_get_at = clock 2, ev_check = ask n,
      ev_during = peers cfg ask during, ev_put_at = clock 3, ev_end = clock 4\<rparr>"

lemma peers_operations:
  "peers cfg ask [PLookup k t] c = fst (decision_get c k t)"
  "peers cfg ask [PFlush] c = decision_invalidate c"
  "peers cfg ask [PFlushSubject s] c = fst (decision_invalidate_subject c s)"
  "peers cfg ask [PStore n i g t] c =
     (case verdict_entry (ask n i) of None \<Rightarrow> c | Some v \<Rightarrow> decision_put_if_gen c (key_of_input cfg i) v g t)"
  by (simp_all add: peers_def lru_run_def decision_get_def decision_invalidate_def decision_invalidate_subject_def
      decision_put_if_gen_def put_if_gen_def put_if_gen_with_ttl_def split: option.splits)

section \<open>Reachable states\<close>

inductive authz_reachable :: "authz_config \<Rightarrow> asker \<Rightarrow> authz_state \<Rightarrow> bool" for cfg ask where
  fresh: "new_authz_middleware True deps n ttl metrics cat ovr = Inr st \<Longrightarrow> authz_reachable cfg ask st"
| request: "authz_reachable cfg ask st \<Longrightarrow> decide cfg (env_of cfg ask k between during clock) dr st = (st', dr', dec) \<Longrightarrow>
    authz_reachable cfg ask st'"
| mutated: "authz_reachable cfg ask st \<Longrightarrow> authz_reachable cfg ask (maybe_flush_on_mutation st fqn status)"
| flushed: "authz_reachable cfg ask st \<Longrightarrow> authz_reachable cfg ask (invalidate_cache st)"
| subject_flushed: "authz_reachable cfg ask st \<Longrightarrow> authz_reachable cfg ask (fst (inv_invalidate_subject i st s))"
| reloaded: "authz_reachable cfg ask st \<Longrightarrow> authz_reachable cfg ask (fst (authz_reload dec yaml fs True st))"

section \<open>The contract of the checker\<close>

definition asks_for :: "check_input \<Rightarrow> check_request \<Rightarrow> bool" where
  "asks_for i req \<longleftrightarrow>
     cq_subject req = ci_subject i \<and> cq_action req = ci_action i \<and> cq_required_relation req = ci_required_relation i \<and>
     cq_resource_type req = ci_resource_type i \<and>
     cq_resource_id req = (if ci_resource_id i = [] then ''*'' else ci_resource_id i)"

definition granted :: "authz_config \<Rightarrow> (check_request \<Rightarrow> bool) \<Rightarrow> string \<Rightarrow> bool" where
  \<comment> \<open>IAM allowed a request with this cache key\<close>
  "granted cfg iam_allowed key \<longleftrightarrow> (\<exists>i req. key_of_input cfg i = key \<and> asks_for i req \<and> iam_allowed req)"

definition entry_ok :: "authz_config \<Rightarrow> (check_request \<Rightarrow> bool) \<Rightarrow> string \<Rightarrow> decision_entry \<Rightarrow> bool" where
  "entry_ok cfg iam_allowed key v \<longleftrightarrow> (de_allowed v \<longrightarrow> granted cfg iam_allowed key)"

section \<open>What the cached verdicts have in common\<close>

definition authz_holds :: "(string \<Rightarrow> decision_entry \<Rightarrow> bool) \<Rightarrow> authz_state \<Rightarrow> bool" where
  "authz_holds P st \<longleftrightarrow> (case as_cache st of None \<Rightarrow> False | Some c \<Rightarrow> cache_holds P c)"

lemma authz_holds_tick [simp]:
  "authz_holds P (tick f st) = authz_holds P st" "authz_holds P (observe_decide ev st) = authz_holds P st"
  by (simp_all add: authz_holds_def)

definition failed_decision :: "check_error + check_result \<Rightarrow> pd_descriptor \<Rightarrow> catalog_entry \<Rightarrow> decision" where
  "failed_decision a d entry = (decide_as OutcomeError [] d entry)\<lparr>dc_check_err := Some (projl a)\<rparr>"

lemma failed_outcome [simp]: "dc_outcome (failed_decision a d entry) = OutcomeError"
  by (simp add: failed_decision_def)

locale verdict_cache =
  fixes cfg :: authz_config and ask :: asker and P :: "string \<Rightarrow> decision_entry \<Rightarrow> bool"
  assumes verdict_ok: "verdict_entry (ask n i) = Some v \<Longrightarrow> P (key_of_input cfg i) v"
begin

lemma peer_step_ok:
  assumes "cache_holds P c" "op \<in> set (peer_lru cfg ask p)"
  shows "cache_holds P (lru_step c op)"
proof (cases p)
  case (PStore n i g t)
  then obtain v where v: "verdict_entry (ask n i) = Some v" "op = LPutGen (key_of_input cfg i) v 0 g t"
    using assms(2) by (cases "verdict_entry (ask n i)") auto
  show ?thesis
    using holds_put [where P = P, OF assms(1) verdict_ok [OF v(1)]] assms(1)
    by (simp add: v(2) put_if_gen_with_ttl_def)
qed (use assms in \<open>auto intro: holds_get holds_invalidate holds_invalidate_where split: if_splits\<close>)

lemma peers_ok: "cache_holds P c \<Longrightarrow> cache_holds P (peers cfg ask ops c)"
proof (induction ops arbitrary: c)
  case (Cons p ops)
  have "cache_holds P (foldl lru_step c xs)" if "set xs \<subseteq> set (peer_lru cfg ask p)" for xs
    using that Cons.prems
  proof (induction xs arbitrary: c)
    case (Cons x xs)
    then show ?case
      using peer_step_ok [of c x p] by simp
  qed simp
  then have "cache_holds P (foldl lru_step c (peer_lru cfg ask p))"
    by simp
  then show ?case
    using Cons.IH by (simp add: peers_def lru_run_def)
qed (simp add: peers_def lru_run_def)

lemma phase_check_holds:
  assumes "cache_holds P cache"
    and "phase_check cfg (env_of cfg ask k between during clock) dr entry verified subj rid rtype d st cache = (st', dec)"
    and "i = check_input_of cfg dr entry subj rid rtype (build_check_context cfg dr (clock 1) verified subj)"
  shows "authz_holds P st'"
    "(\<exists>v. P (key_of_input cfg i) v \<and> dec = entry_decision dr entry d v) \<or>
     verdict_entry (ask k i) = None \<and> dec = failed_decision (ask k i) d entry"
proof -
  let ?ev = "env_of cfg ask k between during clock"
  have i: "i = check_input_of cfg dr entry subj rid rtype (build_check_context cfg dr (ev_context_at ?ev) verified subj)"
    using assms(3) by (simp add: env_of_def)
  define got where "got = decision_get (ev_between ?ev cache) (key_of_input cfg i) (ev_get_at ?ev)"
  note eq = phase_check_eq [of cfg ?ev dr entry verified subj rid rtype d st cache, folded i, folded got_def]
  have between: "cache_holds P (ev_between ?ev cache)"
    using peers_ok [OF assms(1)] by (simp add: env_of_def)
  have got: "cache_holds P (fst got)"
    using holds_get [OF between] by (simp add: got_def decision_get_def)
  have hit: "P (key_of_input cfg i) v" if "snd got = Some v" for v
    using that unfolding got_def decision_get_def by (rule holds_get_value [OF between])
  have during: "cache_holds P (ev_during ?ev (fst got))"
    using peers_ok [OF got] by (simp add: env_of_def)
  have check: "ev_check ?ev i = ask k i"
    by (simp add: env_of_def)
  show "authz_holds P st'"
    using assms(2) eq got during check holds_put_if_gen [OF during verdict_ok]
    by (auto simp: authz_holds_def decision_put_if_gen_def Let_def split: option.splits)
  show "(\<exists>v. P (key_of_input cfg i) v \<and> dec = entry_decision dr entry d v) \<or> verdict_entry (ask k i) = None \<and> dec = failed_decision (ask k i) d entry"
    using assms(2) eq hit check verdict_ok [of k i] by (auto simp: Let_def failed_decision_def split: option.splits)
qed

lemma after_subject_holds:
  assumes "authz_holds P st"
    and "after_subject cfg (env_of cfg ask k between during clock) dr entry subj st = (st', dr', dec)"
    and "phase_resource cfg dr entry subj st = (st1, dr1, r)"
  shows "authz_holds P st'" "dr' = dr1" "r = Inl x \<Longrightarrow> dec = x"
    "r = Inr (rid, rtype, d) \<Longrightarrow>
       i = check_input_of cfg dr1 entry subj rid rtype (build_check_context cfg dr1 (clock 1) (request_token dr) subj) \<Longrightarrow>
       (\<exists>v. P (key_of_input cfg i) v \<and> dec = entry_decision dr1 entry d v) \<or>
       verdict_entry (ask k i) = None \<and> dec = failed_decision (ask k i) d entry"
proof -
  obtain cache where cache: "as_cache st = Some cache" "cache_holds P cache"
    using assms(1) by (auto simp: authz_holds_def split: option.splits)
  have frame: "as_cache st1 = Some cache"
    using assms(3) cache(1) by (auto simp: phase_resource_def Let_def split: if_splits prod.splits)
  have check: "phase_check cfg (env_of cfg ask k between during clock) dr1 entry (request_token dr) subj rid rtype d st1 cache = (st', dec)"
    if "r = Inr (rid, rtype, d)" for rid rtype d
    using assms(2,3) frame that by (simp add: after_subject_def split: prod.splits)
  show "authz_holds P st'"
  proof (cases r)
    case (Inl x)
    then show ?thesis
      using assms(2,3) frame cache(2) by (auto simp: after_subject_def authz_holds_def)
  next
    case (Inr y)
    obtain rid rtype d where "y = (rid, rtype, d)"
      by (metis surj_pair)
    then show ?thesis
      using phase_check_holds(1) [OF cache(2) check] Inr by blast
  qed
  show "dr' = dr1"
    using assms(2,3) frame by (auto simp: after_subject_def split: sum.splits prod.splits)
  show "r = Inl x \<Longrightarrow> dec = x"
    using assms(2,3) by (auto simp: after_subject_def)
  show "r = Inr (rid, rtype, d) \<Longrightarrow>
       i = check_input_of cfg dr1 entry subj rid rtype (build_check_context cfg dr1 (clock 1) (request_token dr) subj) \<Longrightarrow>
       (\<exists>v. P (key_of_input cfg i) v \<and> dec = entry_decision dr1 entry d v) \<or>
       verdict_entry (ask k i) = None \<and> dec = failed_decision (ask k i) d entry"
    by (rule phase_check_holds(2) [OF cache(2) check])
qed

lemma decide_holds:
  assumes "authz_holds P st" "decide cfg (env_of cfg ask k between during clock) dr st = (st', dr', dec)"
  shows "authz_holds P st'"
proof -
  let ?ev = "env_of cfg ask k between during clock"
  obtain st1 where st1: "decide_phases cfg ?ev dr st = (st1, dr', dec)" "st' = observe_decide ?ev st1"
    using assms(2) by (auto simp: decide_def split: prod.splits)
  have "authz_holds P st1"
  proof (cases "passes_gates cfg dr st")
    case False
    then show ?thesis
      using decide_gated [OF False st1(1)] assms(1) by simp
  next
    case True
    have "authz_holds P st2" if "after_subject cfg ?ev dr entry subj st = (st2, dr2, dec2)" for entry subj st2 dr2 dec2
      using after_subject_holds(1) [OF assms(1) that] by (metis surj_pair)
    then show ?thesis
      using st1(1) assms(1) unfolding decide_ungated [OF True]
      by (auto simp: phase_catalog_def split: option.splits if_splits)
  qed
  then show ?thesis
    using st1(2) by simp
qed

lemma reachable_holds: "authz_reachable cfg ask st \<Longrightarrow> authz_holds P st"
proof (induction rule: authz_reachable.induct)
  case (fresh deps n ttl metrics cat ovr st)
  then show ?case
    using holds_new [where P = P]
    by (auto simp: new_authz_middleware_def authz_holds_def decision_cache_new_def split: option.splits)
next
  case (request st k between during clock dr st' dr' dec)
  then show ?case
    using decide_holds by blast
next
  case (subject_flushed st i s)
  then show ?case
    by (auto simp: inv_invalidate_subject_def authz_holds_def decision_invalidate_subject_def
        intro: holds_invalidate_where split: option.splits prod.splits authz_invalidator.splits if_splits)
      (metis fst_conv holds_invalidate_where)
qed (auto simp: maybe_flush_on_mutation_def invalidate_cache_def authz_reload_def authz_holds_def decision_invalidate_def Let_def
    intro: holds_invalidate split: option.splits prod.splits if_splits)

end

section \<open>The checker's allows\<close>

locale authorize_checker =
  fixes ask :: asker and iam_allowed :: "check_request \<Rightarrow> bool"
  assumes ask_sound: "ask n i = Inr r \<Longrightarrow> cr_allowed r \<Longrightarrow> \<exists>req. asks_for i req \<and> iam_allowed req"
begin

lemma verdict_granted: "verdict_entry (ask n i) = Some v \<Longrightarrow> entry_ok cfg iam_allowed (key_of_input cfg i) v"
  using ask_sound [of n i]
  by (auto simp: verdict_entry_def entry_ok_def granted_def split: sum.splits prod.splits if_splits)

end

sublocale authorize_checker \<subseteq> vc: verdict_cache cfg ask "entry_ok cfg iam_allowed" for cfg
  by unfold_locales (rule verdict_granted)

context authorize_checker begin

lemma after_subject_allow:
  assumes "authz_holds (entry_ok cfg iam_allowed) st" "dc_outcome dec = OutcomeAllow"
    and "after_subject cfg (env_of cfg ask k between during clock) dr entry subj st = (st', dr', dec)"
  shows "\<exists>i. ci_subject i = rs_fga subj \<and> ci_action i = ce_permission entry \<and> granted cfg iam_allowed (key_of_input cfg i)"
proof -
  obtain st1 dr1 r where pr: "phase_resource cfg dr entry subj st = (st1, dr1, r)"
    by (metis surj_pair)
  note holds = vc.after_subject_holds [OF assms(1,3) pr]
  show ?thesis
  proof (cases r)
    case (Inl x)
    then show ?thesis
      using holds(3) pr assms(2) by (auto simp: phase_resource_def Let_def split: if_splits prod.splits)
  next
    case (Inr y)
    obtain rid rtype d where y: "y = (rid, rtype, d)"
      by (metis surj_pair)
    let ?i = "check_input_of cfg dr1 entry subj rid rtype (build_check_context cfg dr1 (clock 1) (request_token dr) subj)"
    have "granted cfg iam_allowed (key_of_input cfg ?i)"
      using holds(4) [OF Inr [unfolded y] refl] assms(2)
      by (auto simp: entry_ok_def entry_decision_def deny_decision_def Let_def split: if_splits)
    then show ?thesis
      by (intro exI [of _ ?i]) (simp add: check_input_of_def)
  qed
qed

lemma decide_allow:
  assumes "authz_holds (entry_ok cfg iam_allowed) st" "decide cfg (env_of cfg ask k between during clock) dr st = (st', dr', dec)"
    and "dc_outcome dec = OutcomeAllow"
  shows "dr_fqn dr \<in> set (az_allow cfg) \<or> internal_exempt dr st \<or> override_of dr st = Some OverrideAllow \<or>
       (\<exists>entry subj. catalog_lookup (as_catalog st) (dr_fqn dr) = Some entry \<and> subject_of cfg dr = Some subj \<and>
          (is_exempt entry \<or>
           (\<exists>i. ci_subject i = rs_fga subj \<and> ci_action i = ce_permission entry \<and> granted cfg iam_allowed (key_of_input cfg i))))"
proof -
  let ?ev = "env_of cfg ask k between during clock"
  obtain st1 where st1: "decide_phases cfg ?ev dr st = (st1, dr', dec)"
    using assms(2) by (auto simp: decide_def split: prod.splits)
  show ?thesis
  proof (cases "passes_gates cfg dr st")
    case False
    then show ?thesis
      using decide_gated(3) [OF False st1] assms(3) by blast
  next
    case True
    show ?thesis
      using st1 after_subject_allow [OF assms(1,3)] assms(3) unfolding decide_ungated [OF True]
      by (auto simp: phase_catalog_def unauthenticated_decision_def split: option.splits if_splits)
  qed
qed

end

section \<open>The AuthorizeService client as the checker\<close>

definition iam_ask ::
  "(json \<Rightarrow> string option) \<Rightarrow> (nat \<Rightarrow> stub) \<Rightarrow> (nat \<Rightarrow> time) \<Rightarrow> (nat \<Rightarrow> authorize_client) \<Rightarrow> asker" where
  "iam_ask new_struct stubs now client n i = snd (checker_check new_struct (stubs n) (now n) (client n) i)"

definition iam_allows :: "(nat \<Rightarrow> stub) \<Rightarrow> check_request \<Rightarrow> bool" where
  \<comment> \<open>some answer of IAM to this request said \<open>allowed\<close>\<close>
  "iam_allows stubs req \<longleftrightarrow> (\<exists>n k p. stubs n k req = Inr (Some p) \<and> cp_allowed p)"

lemma check_attempts_answer:
  "check_attempts stub now req a c e = (c', Inr r) \<Longrightarrow> \<exists>k resp. stub k req = Inr resp \<and> r = to_result now resp"
proof (induction stub now req a c e rule: check_attempts.induct)
  case (1 stub now req a c e)
  show ?case
  proof (cases "stub a req")
    case (Inl err)
    then show ?thesis
      using 1 by (subst (asm) (2) check_attempts.simps) (auto simp: Let_def split: if_splits)
  next
    case (Inr resp)
    then show ?thesis
      using 1(2) by (subst (asm) check_attempts.simps) (auto simp: Let_def split: if_splits)
  qed
qed

interpretation iamz: authorize_checker "iam_ask new_struct stubs now client" "iam_allows stubs" for new_struct stubs now client
proof
  fix n i r
  assume asked: "iam_ask new_struct stubs now client n i = Inr r" "cr_allowed r"
  obtain c' where run: "client_check new_struct (stubs n) (now n) (client n) i = (c', Inr r)"
    using asked(1) by (metis checker_is_client iam_ask_def prod.collapse)
  obtain req e where req: "check_attempts (stubs n) (now n) req 0 (client n) e = (c', Inr r)" "asks_for i req"
    using run by (auto simp: client_check_def asks_for_def split: if_splits sum.splits)
  obtain k resp where "stubs n k req = Inr resp" "r = to_result (now n) resp"
    using check_attempts_answer [OF req(1)] by blast
  then have "iam_allows stubs req"
    using asked(2) by (auto simp: iam_allows_def to_result_def check_result_zero_def split: option.splits)
  then show "\<exists>req. asks_for i req \<and> iam_allows stubs req"
    using req(2) by blast
qed

section \<open>A configuration for concrete runs\<close>

definition demo_cfg :: authz_config where
  "demo_cfg =
     \<lparr>az_enabled = True, az_fail_open = False, az_fallback = False,
      az_context = context_extractor_new False None (\<lambda>_. None) (\<lambda>_. None), az_split_host_port = (\<lambda>_. None),
      az_templates = [], az_decode_json = (\<lambda>_. None), az_valid_id = (\<lambda>_. True), az_allow = [],
      az_router = None, az_sha256_hex = (\<lambda>x. x)\<rparr>"

definition demo_get_scope :: scope_extractor where
  "demo_get_scope = \<lparr>object_type = ''net'', from_request_field = ''nid'', object_type_from_request_field = []\<rparr>"

definition demo_entry :: catalog_entry where
  "demo_entry = demo_catalog_entry ''n/Get'' ''n.get'' ''v_get'' demo_get_scope"

definition demo_state :: authz_state where
  "demo_state =
     \<lparr>as_cache = Some (decision_cache_new 10000 (5 * second)), as_metrics = metrics_new,
      as_catalog = \<lparr>fc_current = [(''n/Get'', demo_entry)], fc_path = None\<rparr>, as_overrides = None\<rparr>"

definition demo_call :: grpc_call where
  "demo_call =
     \<lparr>gc_full_method = ''/n/Get'', gc_req = Some [(''nid'', PText ''e1'')], gc_peer = [],
      gc_md = Some [(''x-kacho-principal-type'', [''user'']), (''x-kacho-principal-id'', [''u''])], gc_request_id = ''r1''\<rparr>"

definition demo_stub :: "bool \<Rightarrow> stub" where
  "demo_stub allowed = (\<lambda>_ _. Inr (Some \<lparr>cp_allowed = allowed, cp_deny_reasons = [], cp_model_id = [], cp_checked_at = None\<rparr>))"

abbreviation demo_ask :: "bool \<Rightarrow> asker" where
  "demo_ask allowed \<equiv> iam_ask (\<lambda>_. None) (\<lambda>_. demo_stub allowed) (\<lambda>_. 0) (\<lambda>_. authorize_client_from_conn 0 0)"

abbreviation demo_run_env :: "bool \<Rightarrow> peer_op list \<Rightarrow> check_env" where
  "demo_run_env allowed during \<equiv> env_of demo_cfg (demo_ask allowed) 0 [] during (\<lambda>_. 0)"

lemma demo_reachable: "authz_reachable demo_cfg ask demo_state"
  by (rule fresh [of "[]" 0 0 None "as_catalog demo_state" None])
    (simp add: new_authz_middleware_def required_deps_def demo_state_def)

lemma decide_decision: "snd (decide cfg ev dr st) = snd (decide_phases cfg ev dr st)"
  by (simp add: decide_def split: prod.splits)

lemma demo_decide:
  "dc_outcome (snd (snd (decide demo_cfg (demo_run_env True []) (unary_request demo_call) demo_state))) = OutcomeAllow"
  "dc_outcome (snd (snd (decide demo_cfg (demo_run_env False []) (unary_request demo_call) demo_state))) = OutcomeNotFound"
  unfolding decide_decision by code_simp+

lemma demo_gates:
  "\<not> internal_exempt (unary_request demo_call) demo_state" "override_of (unary_request demo_call) demo_state = None"
  "dr_fqn (unary_request demo_call) \<notin> set (az_allow demo_cfg)"
  "catalog_lookup (as_catalog demo_state) (dr_fqn (unary_request demo_call)) = Some demo_entry" "\<not> is_exempt demo_entry"
  by code_simp+

section \<open>Properties\<close>

text \<open>
  C1: an allow is always justified. In every state the middleware can reach, under any interleaving of
  requests, flushes, per-subject invalidations and reloads, a request is allowed only if its method is on
  the public allowlist, or is an exempt internal method on the internal listener, or an override allows
  it, or the caller is authenticated and the method is exempt, or IAM answered \<open>allowed\<close> to a check
  with the cache key of a check for this subject and permission.
\<close>

theorem allow_is_justified:
  assumes "authz_reachable cfg (iam_ask new_struct stubs now client) st"
    and "decide cfg (env_of cfg (iam_ask new_struct stubs now client) k between during clock) dr st = (st', dr', dec)"
    and "dc_outcome dec = OutcomeAllow"
  shows "dr_fqn dr \<in> set (az_allow cfg) \<or> internal_exempt dr st \<or> override_of dr st = Some OverrideAllow \<or>
    (\<exists>entry subj. catalog_lookup (as_catalog st) (dr_fqn dr) = Some entry \<and> subject_of cfg dr = Some subj \<and>
       (is_exempt entry \<or>
        (\<exists>i. ci_subject i = rs_fga subj \<and> ci_action i = ce_permission entry \<and>
           granted cfg (iam_allows stubs) (key_of_input cfg i))))"
  by (rule iamz.decide_allow [OF iamz.vc.reachable_holds [OF assms(1)] assms(2,3)])

theorem allow_is_justified_witness:
  "\<exists>i. ci_action i = ''n.get'' \<and> granted demo_cfg (iam_allows (\<lambda>_. demo_stub True)) (key_of_input demo_cfg i)"
proof -
  obtain st' dr' dec where run: "decide demo_cfg (demo_run_env True []) (unary_request demo_call) demo_state = (st', dr', dec)"
    by (metis surj_pair)
  then have "dc_outcome dec = OutcomeAllow"
    using demo_decide(1) by simp
  then show ?thesis
    using allow_is_justified [OF demo_reachable run] demo_gates by (auto simp: demo_entry_def demo_catalog_entry_def)
qed

subsection \<open>Revocation during a check\<close>

lemma peers_length: "length (concat (map (peer_lru cfg ask) ops)) \<le> length ops"
proof (induction ops)
  case (Cons p ops)
  have "length (peer_lru cfg ask p) \<le> 1"
    by (cases p) (auto split: option.splits)
  then show ?case
    using Cons by simp
qed simp

lemma flush_moves_generation:
  assumes "lru_inv c" "p \<in> set ops" "p = PFlush \<or> (\<exists>s. s \<noteq> [] \<and> p = PFlushSubject s)" "length ops < 2 ^ 64"
  shows "gen (peers cfg ask ops c) \<noteq> gen c"
proof -
  obtain op where "op \<in> set (peer_lru cfg ask p)" "bumps_gen op"
    using assms(3) by auto
  then show ?thesis
    using stale_snapshot [of c op "concat (map (peer_lru cfg ask) ops)"] assms peers_length [of cfg ask ops]
    unfolding peers_def by (simp only: set_concat) fastforce
qed

lemma peers_inv: "lru_inv c \<Longrightarrow> lru_inv (peers cfg ask ops c)"
  by (simp add: peers_def lru_run_inv)

lemma peers_snoc: "peers cfg ask (ops @ [p]) c = peers cfg ask [p] (peers cfg ask ops c)"
  by (simp add: peers_def lru_run_def)

lemma peers_get: "peers cfg ask (ops @ PLookup k t # ops') c = peers cfg ask ops' (fst (decision_get (peers cfg ask ops c) k t))"
  by (simp add: peers_def lru_run_def decision_get_def)

text \<open>
  C13: a grant revoked while a check is running is not cached again. When the lookup missed and, between
  the snapshot of the generation and the answer of IAM, another goroutine flushed the cache or the
  subject, the answer is not stored: the cache is exactly as the others left it. If the flush of the
  subject was the last of their operations, no decision of the subject is found afterwards.
\<close>

theorem revocation_survives_check:
  fixes cfg ask k between during clock dr entry verified subj rid rtype d
  defines "ev \<equiv> env_of cfg ask k between during clock"
  defines "key \<equiv> key_of_input cfg (check_input_of cfg dr entry subj rid rtype (build_check_context cfg dr (ev_context_at ev) verified subj))"
  assumes "lru_inv cache" "snd (decision_get (peers cfg ask between cache) key (clock 2)) = None"
    and "p \<in> set between \<union> set during" "p = PFlush \<or> p = PFlushSubject s \<and> s \<noteq> []"
    and "length between + length during < 2 ^ 64 - 1"
    and "phase_check cfg ev dr entry verified subj rid rtype d st cache = (st', dec)"
  shows "as_cache st' = Some (peers cfg ask (between @ PLookup key (clock 2) # during) cache) \<and>
    (during = pre @ [PFlushSubject s] \<and> s \<noteq> [] \<longrightarrow>
       snd (decision_get (the (as_cache st')) (build_cache_key (az_sha256_hex cfg) s act rt i ctx) t) = None)"
proof -
  let ?ops = "between @ PLookup key (clock 2) # during"
  have "gen (peers cfg ask ?ops cache) \<noteq> gen cache"
    using assms(5,6,7) by (intro flush_moves_generation [OF assms(3), of p]) auto
  then have cache': "as_cache st' = Some (peers cfg ask ?ops cache)"
    using assms(4,8) phase_check_eq [of cfg ev dr entry verified subj rid rtype d st cache, folded key_def]
    unfolding peers_get
    by (auto simp: ev_def env_of_def decision_put_if_gen_def put_if_gen_def decision_generation_def generation_def Let_def
        split: option.splits)
  have "snd (decision_get (peers cfg ask ?ops cache) (build_cache_key (az_sha256_hex cfg) s act rt i ctx) t) = None"
    if "during = pre @ [PFlushSubject s]" "s \<noteq> []"
  proof -
    have "?ops = (between @ PLookup key (clock 2) # pre) @ [PFlushSubject s]"
      using that(1) by simp
    then have "peers cfg ask ?ops cache =
        fst (decision_invalidate_subject (peers cfg ask (between @ PLookup key (clock 2) # pre) cache) s)"
      by (simp only: peers_snoc peers_operations(3))
    then show ?thesis
      using decision_invalidate_subject_view [OF peers_inv [OF assms(3)] that(2)] cache_key_prefix
      by (simp add: decision_get_def lru_get_view)
  qed
  then show ?thesis
    using cache' by simp
qed

theorem revocation_survives_check_witness:
  "\<exists>st' dec. phase_check demo_cfg (demo_run_env True [PFlushSubject ''user:u'']) (unary_request demo_call) demo_entry None
      (resolved ''user'' SubjectKindUser ''u'' []) ''e1'' ''net'' (descriptor_of [] []) demo_state (decision_cache_new 2 5) = (st', dec) \<and>
    snd (decision_get (the (as_cache st')) (build_cache_key (az_sha256_hex demo_cfg) ''user:u'' ''n.get'' ''net'' ''e1'' None) 0) = None"
proof -
  have empty: "lru_inv (decision_cache_new 2 5)" "snd (decision_get (peers demo_cfg ask [] (decision_cache_new 2 5)) key 0) = None" for ask key
    by (simp_all add: decision_cache_new_def lru_new_inv peers_def lru_run_def decision_get_def lru_get_def)
      (simp add: lru_new_def)
  obtain st' dec where run: "phase_check demo_cfg (demo_run_env True [PFlushSubject ''user:u'']) (unary_request demo_call) demo_entry
      None (resolved ''user'' SubjectKindUser ''u'' []) ''e1'' ''net'' (descriptor_of [] []) demo_state (decision_cache_new 2 5) = (st', dec)"
    by (metis surj_pair)
  have "[PFlushSubject ''user:u''] = [] @ [PFlushSubject ''user:u''] \<and> ''user:u'' \<noteq> [] \<longrightarrow>
      snd (decision_get (the (as_cache st')) (build_cache_key (az_sha256_hex demo_cfg) ''user:u'' ''n.get'' ''net'' ''e1'' None) 0) = None"
    by (rule revocation_survives_check [where between = "[]" and p = "PFlushSubject ''user:u''", OF empty _ _ _ run, THEN conjunct2]) simp_all
  then show ?thesis
    using run by auto
qed

subsection \<open>Refusals\<close>

abbreviation outcome_of :: "authz_config \<Rightarrow> check_env \<Rightarrow> decision_request \<Rightarrow> authz_state \<Rightarrow> decision_outcome" where
  "outcome_of cfg ev dr st \<equiv> dc_outcome (snd (snd (decide cfg ev dr st)))"

text \<open>
  C4: on each of the three surfaces, with the middleware enabled, the handler runs exactly when the
  decision is an allow, or when the check failed and the operator chose to fail open. Otherwise a failed
  check is answered with one fixed text that says nothing about the failure.
\<close>

theorem handler_needs_allow:
  assumes "az_enabled cfg" "\<not> is_public_http_path (req_path r)"
  shows "(let out = outcome_of cfg ev (unary_request call) st; res = snd (authz_unary cfg ev call herr st) in
       (res = Handled herr \<longleftrightarrow> out = OutcomeAllow \<or> out = OutcomeError \<and> az_fail_open cfg) \<and>
       (out = OutcomeError \<and> \<not> az_fail_open cfg \<longrightarrow> res = Refused authz_unavailable_status)) \<and>
     (let out = outcome_of cfg ev (stream_request call) st; res = snd (authz_stream cfg ev call herr st) in
       (res = Handled herr \<longleftrightarrow> out = OutcomeAllow \<or> out = OutcomeError \<and> az_fail_open cfg) \<and>
       (out = OutcomeError \<and> \<not> az_fail_open cfg \<longrightarrow> res = Refused authz_unavailable_status)) \<and>
     (let out = outcome_of cfg ev (http_decision_request cfg r md rid) st; res = snd (authz_http cfg encode ev md rid next r st) in
       ((\<exists>q w. res = Reached q w) \<longleftrightarrow> out = OutcomeAllow \<or> out = OutcomeError \<and> az_fail_open cfg) \<and>
       (out = OutcomeError \<and> \<not> az_fail_open cfg \<longrightarrow> res = Answered write_http_unavailable))"
  using assms
  by (intro conjI; simp add: authz_unary_def authz_stream_def authz_http_def Let_def split: prod.split decision_outcome.split)

theorem handler_needs_allow_witness:
  "snd (authz_unary demo_cfg (demo_run_env True []) demo_call None demo_state) = Handled None"
proof -
  have "az_enabled demo_cfg" "\<not> is_public_http_path (req_path demo_wrap_request)"
    by code_simp+
  then show ?thesis
    using handler_needs_allow [of demo_cfg demo_wrap_request "demo_run_env True []" demo_call demo_state None] demo_decide(1)
    by (simp add: Let_def)
qed

lemma resource_outcome:
  assumes "phase_resource cfg dr entry subj st = (st1, dr1, r)" "dr_http dr = Some q"
  shows "(\<exists>x. r = Inl x \<and> dc_outcome x = OutcomeInvalidArgument) \<or>
    (\<exists>rid dyn. r = Inr (rid, resource_type_of (object_type (ce_scope entry)) dyn,
       descriptor_for dr entry subj (resource_type_of (object_type (ce_scope entry)) dyn) rid))"
  using assms
  by (auto simp: phase_resource_def stream_scope_unresolved_def Let_def split: if_splits prod.splits) metis+

lemma resource_type_nonempty: "resource_type_of a b \<noteq> []"
  by (simp add: resource_type_of_def)

lemma check_outcome:
  assumes "phase_check cfg ev dr entry verified subj rid rtype d st cache = (st', dec)"
  shows "dc_descriptor dec = d" "dc_outcome dec = OutcomeAllow \<or> dc_outcome dec = OutcomeError \<or>
    dc_outcome dec = (if hides_existence_on_deny entry (dr_fqn dr) then OutcomeNotFound else OutcomeDeny)"
  using assms unfolding phase_check_eq
  by (auto simp: entry_decision_def deny_decision_def Let_def split: option.splits if_splits)

lemma resource_request: "phase_resource cfg dr entry subj st = (st1, dr1, r) \<Longrightarrow> dr_fqn dr1 = dr_fqn dr"
  by (auto simp: phase_resource_def extract_resource_def dynamic_type_def Let_def split: if_splits option.splits prod.splits)

lemma hidden_outcome:
  assumes "after_subject cfg ev dr entry subj st = (st', dr', dec)" "dr_http dr = Some q"
    and "hides_existence_on_deny entry (dr_fqn dr)" "as_cache st \<noteq> None"
  shows "dc_outcome dec \<in> {OutcomeAllow, OutcomeError, OutcomeInvalidArgument} \<or>
    dc_outcome dec = OutcomeNotFound \<and> (\<exists>dyn. pd_resource_type (dc_descriptor dec) = resource_type_of (object_type (ce_scope entry)) dyn)"
proof -
  obtain st1 dr1 r where pr: "phase_resource cfg dr entry subj st = (st1, dr1, r)"
    by (metis surj_pair)
  have fqn: "dr_fqn dr1 = dr_fqn dr"
    using resource_request [OF pr] .
  have cache: "as_cache st1 = as_cache st"
    using pr by (auto simp: phase_resource_def Let_def split: if_splits prod.splits)
  show ?thesis
    using resource_outcome [OF pr assms(2)]
  proof (elim disjE exE conjE)
    fix x
    assume "r = Inl x" "dc_outcome x = OutcomeInvalidArgument"
    then show ?thesis
      using assms(1) pr by (simp add: after_subject_def)
  next
    fix rid dyn
    let ?t = "resource_type_of (object_type (ce_scope entry)) dyn"
    assume r: "r = Inr (rid, ?t, descriptor_for dr entry subj ?t rid)"
    obtain c where c: "as_cache st1 = Some c"
      using assms(4) cache by auto
    have "phase_check cfg ev dr1 entry (request_token dr) subj rid ?t (descriptor_for dr entry subj ?t rid) st1 c = (st', dec)"
      using assms(1) pr r c by (simp add: after_subject_def split: prod.splits)
    from check_outcome [OF this] show ?thesis
      using assms(3) fqn by (auto simp: descriptor_for_def)
  qed
qed


definition demo_rest_cfg :: authz_config where
  "demo_rest_cfg = demo_cfg\<lparr>az_router := Some (\<lambda>_ _. Some ''n/Get''), az_templates := [(''n/Get'', ''/n/{nid}'')]\<rparr>"

definition demo_rest_get :: http_request where
  "demo_rest_get = \<lparr>req_method = ''GET'', req_path = ''/n/e1'', req_query = [],
     req_header = [(''X-Kacho-Principal-Id'', [''u''])], req_body = None, req_host = [], req_remote = [], req_peer_certs = None,
     req_ctx = ctx_background\<rparr>"

abbreviation demo_rest_run where
  "demo_rest_run \<equiv> authz_http demo_rest_cfg (\<lambda>_. []) (env_of demo_rest_cfg (demo_ask False) 0 [] [] (\<lambda>_. 0)) None [] (\<lambda>_. [])
     demo_rest_get demo_state"

lemma demo_rest_answered: "case snd demo_rest_run of Answered w \<Rightarrow> client_status w = 404 | Reached _ _ \<Rightarrow> False"
  by code_simp

lemma demo_rest_hyps:
  "az_enabled demo_rest_cfg" "\<not> is_public_http_path (req_path demo_rest_get)" "as_cache demo_state \<noteq> None"
  "passes_gates demo_rest_cfg (http_decision_request demo_rest_cfg demo_rest_get None []) demo_state"
  "catalog_lookup (as_catalog demo_state) (dr_fqn (http_decision_request demo_rest_cfg demo_rest_get None [])) = Some demo_entry"
  "\<not> is_exempt demo_entry" "hides_existence_on_deny demo_entry (dr_fqn (http_decision_request demo_rest_cfg demo_rest_get None []))"
  "subject_of demo_rest_cfg (http_decision_request demo_rest_cfg demo_rest_get None []) = Some (resolved ''user'' SubjectKindUser ''u'' ''ext_claims.kacho_principal_*'')"
  by code_simp+


text \<open>
  A server stream is gated before its first message is read, so the resource of a concrete scope is
  unknown: such a stream is always refused, without asking IAM and without touching the cache, instead
  of being checked against every resource of the type.
\<close>

theorem stream_concrete_scope_refused:
  assumes "az_enabled cfg" "passes_gates cfg (stream_request call) st"
    and "catalog_lookup (as_catalog st) (dr_fqn (stream_request call)) = Some entry" "\<not> is_exempt entry"
    and "is_concrete_resource_scope entry"
  shows "\<exists>st' status. authz_stream cfg ev call herr st = (st', Refused status) \<and> as_cache st' = as_cache st \<and>
    rpc_code status = (if subject_of cfg (stream_request call) = None then Unauthenticated else PermissionDenied)"
proof -
  have "stream_scope_unresolved (stream_request call) entry"
    using assms(5) by (simp add: stream_scope_unresolved_def stream_request_def unary_request_def)
  then show ?thesis
    using assms(1,3,4) decide_ungated [OF assms(2), of ev]
    by (auto simp: authz_stream_def decide_def after_subject_def phase_resource_def unauthenticated_decision_def grpc_status_of_def
        build_grpc_unauth_status_def build_grpc_deny_status_def Let_def split: option.splits)
qed

theorem stream_concrete_scope_refused_witness:
  "\<exists>st' status. authz_stream demo_cfg (demo_run_env True []) demo_call None demo_state = (st', Refused status) \<and>
     as_cache st' = as_cache demo_state"
proof -
  have "az_enabled demo_cfg" "passes_gates demo_cfg (stream_request demo_call) demo_state"
    "catalog_lookup (as_catalog demo_state) (dr_fqn (stream_request demo_call)) = Some demo_entry" "\<not> is_exempt demo_entry"
    "is_concrete_resource_scope demo_entry"
    by code_simp+
  then show ?thesis
    using stream_concrete_scope_refused [of demo_cfg demo_call demo_state demo_entry "demo_run_env True []" None] by blast
qed

subsection \<open>Accounting\<close>

definition decided :: "authz_metrics \<Rightarrow> 64 word" where
  "decided m = am_allowed m + am_denied m + am_error m"

lemma record_frames [simp]:
  "decided (record_allow m) = decided m + 1" "decided (record_deny m) = decided m + 1" "decided (record_error m) = decided m + 1"
  "decided (record_cache_hit m) = decided m" "decided (record_cache_miss m) = decided m" "decided (observe_latency_ms m x) = decided m"
  "am_count (record_allow m) = am_count m" "am_count (record_deny m) = am_count m" "am_count (record_error m) = am_count m"
  "am_count (record_cache_hit m) = am_count m" "am_count (record_cache_miss m) = am_count m"
  "am_count (observe_latency_ms m x) = am_count m + 1"
  by (simp_all add: decided_def record_allow_def record_deny_def record_error_def record_cache_hit_def record_cache_miss_def
      observe_latency_ms_def Let_def)

lemma tally_frames [simp]: "decided (tally v m) = decided m + 1" "am_count (tally v m) = am_count m"
  by (simp_all add: tally_def)

lemma check_counts:
  assumes "phase_check cfg ev dr entry verified subj rid rtype d st cache = (st', dec)"
  shows "decided (as_metrics st') = decided (as_metrics st) + 1 \<and> am_count (as_metrics st') = am_count (as_metrics st)"
  using assms unfolding phase_check_eq by (auto simp: Let_def split: option.splits)

lemma after_subject_counts:
  assumes "after_subject cfg ev dr entry subj st = (st', dr', dec)" "as_cache st \<noteq> None"
  shows "decided (as_metrics st') = decided (as_metrics st) + 1 \<and> am_count (as_metrics st') = am_count (as_metrics st)"
proof -
  obtain st1 dr1 r where pr: "phase_resource cfg dr entry subj st = (st1, dr1, r)"
    by (metis surj_pair)
  have frame: "as_cache st1 = as_cache st"
    "as_metrics st1 = (case r of Inl _ \<Rightarrow> record_deny (as_metrics st) | Inr _ \<Rightarrow> as_metrics st)"
    using pr by (auto simp: phase_resource_def Let_def split: if_splits prod.splits)
  show ?thesis
  proof (cases r)
    case (Inl x)
    then show ?thesis
      using assms(1) pr frame by (simp add: after_subject_def)
  next
    case (Inr y)
    obtain rid rtype d c where y: "y = (rid, rtype, d)" "as_cache st1 = Some c"
      using frame(1) assms(2) by (metis option.exhaust surj_pair)
    have "phase_check cfg ev dr1 entry (request_token dr) subj rid rtype d st1 c = (st', dec)"
      using assms(1) pr Inr y by (simp add: after_subject_def split: prod.splits)
    from check_counts [OF this] show ?thesis
      using frame(2) Inr by simp
  qed
qed

text \<open>
  Every decision is counted once: whichever phase settles the request, exactly one of the three
  result counters grows by one (modulo \<open>2^64\<close>) and exactly one latency sample is taken.
\<close>

theorem decision_counted_once:
  assumes "as_cache st \<noteq> None" "decide cfg ev dr st = (st', dr', dec)"
  shows "decided (as_metrics st') = decided (as_metrics st) + 1 \<and> am_count (as_metrics st') = am_count (as_metrics st) + 1"
proof -
  obtain st1 where st1: "decide_phases cfg ev dr st = (st1, dr', dec)" "st' = observe_decide ev st1"
    using assms(2) by (auto simp: decide_def split: prod.splits)
  have "decided (as_metrics st1) = decided (as_metrics st) + 1 \<and> am_count (as_metrics st1) = am_count (as_metrics st)"
  proof (cases "passes_gates cfg dr st")
    case False
    then show ?thesis
      using decide_gated [OF False st1(1)] by simp
  next
    case True
    show ?thesis
      using st1(1) after_subject_counts [OF _ assms(1)] unfolding decide_ungated [OF True]
      by (auto simp: phase_catalog_def Let_def split: option.splits if_splits)
  qed
  then show ?thesis
    using st1(2) by (simp add: observe_decide_def)
qed

theorem decision_counted_once_witness:
  "\<exists>st'. fst (decide demo_cfg (demo_run_env True []) (unary_request demo_call) demo_state) = st' \<and> decided (as_metrics st') = 1"
proof -
  obtain st' dr' dec where run: "decide demo_cfg (demo_run_env True []) (unary_request demo_call) demo_state = (st', dr', dec)"
    by (metis surj_pair)
  have "as_cache demo_state \<noteq> None" "decided (as_metrics demo_state) = 0"
    by (simp_all add: demo_state_def decided_def metrics_new_def metrics_of_def)
  then show ?thesis
    using decision_counted_once [OF _ run] run by simp
qed

end
