(* ===== verification/Authz_Monitor.thy ===== *)
theory Authz_Monitor
  imports Authz_Safety
begin

text \<open>
  The reference monitor the authorization middleware implements: the decision as a function of the
  policy in force (catalog and overrides), the request and IAM's answer, with no cache, no metrics and no
  history. The refinement says that the decision cache is transparent: as long as IAM's answer to a
  question depends only on what the cache key holds and does not change, every reachable state of the
  middleware decides exactly as the monitor does, whatever other requests do to the cache meanwhile.
\<close>

section \<open>The monitor\<close>

record policy =
  pl_catalog :: catalog
  pl_overrides :: "overrides option"

definition policy_of :: "authz_state \<Rightarrow> policy" where
  "policy_of st = \<lparr>pl_catalog = as_catalog st, pl_overrides = as_overrides st\<rparr>"

definition target_of ::
  "authz_config \<Rightarrow> decision_request \<Rightarrow> catalog_entry \<Rightarrow> resolved_subject \<Rightarrow>
   decision_request \<times> (decision + string \<times> string \<times> pd_descriptor)" where
  \<comment> \<open>the resource the request is about, or why it is refused before IAM is asked\<close>
  "target_of cfg dr entry subj =
     snd (phase_resource cfg dr entry subj
       \<lparr>as_cache = None, as_metrics = metrics_new, as_catalog = \<lparr>fc_current = [], fc_path = None\<rparr>, as_overrides = None\<rparr>)"

definition monitor_check ::
  "authz_config \<Rightarrow> (check_input \<Rightarrow> check_error + check_result) \<Rightarrow> time \<Rightarrow> decision_request \<Rightarrow> catalog_entry \<Rightarrow>
   resolved_subject \<Rightarrow> decision" where
  "monitor_check cfg iam now dr entry subj =
     (case target_of cfg dr entry subj of
        (_, Inl dec) \<Rightarrow> dec
      | (dr', Inr (rid, rtype, d)) \<Rightarrow>
          (let a = iam (check_input_of cfg dr' entry subj rid rtype (build_check_context cfg dr' now (request_token dr) subj))
           in case verdict_entry a of
                None \<Rightarrow> failed_decision a d entry
              | Some v \<Rightarrow> entry_decision dr' entry d v))"

definition monitor ::
  "authz_config \<Rightarrow> (check_input \<Rightarrow> check_error + check_result) \<Rightarrow> time \<Rightarrow> policy \<Rightarrow> decision_request \<Rightarrow> decision" where
  "monitor cfg iam now pol dr =
     (let fqn = dr_fqn dr;
          row = catalog_lookup (pl_catalog pol) fqn;
          ovr = Option.bind (pl_overrides pol) (\<lambda>o'. override_lookup o' fqn);
          subj = subject_extract (az_fallback cfg) (request_token dr);
          bare = descriptor_of fqn []
      in if fqn \<in> set (az_allow cfg) then decide_as OutcomeAllow [] bare zero_entry
         else if has_internal_suffix (''/'' @ fqn) \<and> \<not> is_external_request dr \<and> row \<noteq> None \<and> is_exempt (the row)
         then decide_as OutcomeAllow [] (descriptor_of fqn (ce_permission (the row))) (the row)
         else if ovr = Some OverrideAllow then decide_as OutcomeAllow [] bare zero_entry
         else if ovr = Some OverrideDeny then decide_as OutcomeDeny [''override: explicit deny''] bare zero_entry
         else (case (row, subj) of
                 (None, None) \<Rightarrow> decide_as OutcomeDeny [''catalog: no entry for method; unauthenticated''] bare zero_entry
               | (None, Some _) \<Rightarrow> decide_as OutcomeDeny [''catalog: no entry for method''] bare zero_entry
               | (Some entry, None) \<Rightarrow> unauthenticated_decision dr entry
               | (Some entry, Some s) \<Rightarrow>
                   if is_exempt entry then decide_as OutcomeAllow [] (descriptor_of fqn (ce_permission entry)) entry
                   else monitor_check cfg iam now dr entry s))"

section \<open>An answer that does not change\<close>

definition key_determines :: "authz_config \<Rightarrow> (check_input \<Rightarrow> check_error + check_result) \<Rightarrow> bool" where
  \<comment> \<open>what IAM answers depends only on what the cache key holds\<close>
  "key_determines cfg iam \<longleftrightarrow>
     (\<forall>i j. key_of_input cfg i = key_of_input cfg j \<longrightarrow> verdict_entry (iam i) = verdict_entry (iam j))"

definition answered_with :: "authz_config \<Rightarrow> (check_input \<Rightarrow> check_error + check_result) \<Rightarrow> string \<Rightarrow> decision_entry \<Rightarrow> bool" where
  "answered_with cfg iam key v \<longleftrightarrow> (\<exists>i. key_of_input cfg i = key \<and> verdict_entry (iam i) = Some v)"

interpretation iam_answers: verdict_cache cfg "\<lambda>_. iam" "answered_with cfg iam" for cfg iam
  by unfold_locales (auto simp: answered_with_def)

lemma target_of_eq: "snd (phase_resource cfg dr entry subj st) = target_of cfg dr entry subj"
  by (auto simp: target_of_def phase_resource_def Let_def split: prod.split)

lemma monitor_gated:
  assumes "\<not> passes_gates cfg dr st" "decide_phases cfg ev dr st = (st', dr', dec)"
  shows "dec = monitor cfg iam now (policy_of st) dr"
  using assms
  by (auto simp: decide_phases_def phase_allowlist_def phase_internal_cases phase_override_cases passes_gates_def
      monitor_def policy_of_def internal_exempt_def override_of_def Let_def
      split: if_splits option.splits override_decision.splits)

lemma after_subject_monitor:
  assumes "key_determines cfg iam" "authz_holds (answered_with cfg iam) st"
    and "after_subject cfg (env_of cfg (\<lambda>_. iam) k between during clock) dr entry subj st = (st', dr', dec)"
  shows "dec = monitor_check cfg iam (clock 1) dr entry subj"
proof -
  obtain st1 dr1 r where pr: "phase_resource cfg dr entry subj st = (st1, dr1, r)"
    by (metis surj_pair)
  then have target: "target_of cfg dr entry subj = (dr1, r)"
    using target_of_eq [of cfg dr entry subj st] by simp
  note holds = iam_answers.after_subject_holds [OF assms(2,3) pr]
  show ?thesis
  proof (cases r)
    case (Inl x)
    then show ?thesis
      using holds(3) target by (simp add: monitor_check_def)
  next
    case (Inr y)
    obtain rid rtype d where y: "y = (rid, rtype, d)"
      by (metis surj_pair)
    define i where "i = check_input_of cfg dr1 entry subj rid rtype (build_check_context cfg dr1 (clock 1) (request_token dr) subj)"
    have monitored: "monitor_check cfg iam (clock 1) dr entry subj =
        (case verdict_entry (iam i) of None \<Rightarrow> failed_decision (iam i) d entry | Some v \<Rightarrow> entry_decision dr1 entry d v)"
      unfolding monitor_check_def target Inr y i_def Let_def by (simp only: prod.case sum.case)
    consider v where "answered_with cfg iam (key_of_input cfg i) v" "dec = entry_decision dr1 entry d v"
      | "verdict_entry (iam i) = None" "dec = failed_decision (iam i) d entry"
      using holds(4) [OF Inr [unfolded y] i_def] by (elim disjE exE conjE) (rule that; assumption)+
    then show ?thesis
    proof cases
      case (1 v)
      then have "verdict_entry (iam i) = Some v"
        using assms(1) by (metis answered_with_def key_determines_def)
      then show ?thesis
        using 1(2) unfolding monitored by simp
    next
      case 2
      then show ?thesis
        unfolding monitored by simp
    qed
  qed
qed

lemma decide_monitor:
  assumes "key_determines cfg iam" "authz_holds (answered_with cfg iam) st"
    and "decide cfg (env_of cfg (\<lambda>_. iam) k between during clock) dr st = (st', dr', dec)"
  shows "dec = monitor cfg iam (clock 1) (policy_of st) dr"
proof -
  let ?ev = "env_of cfg (\<lambda>_. iam) k between during clock"
  obtain st1 where st1: "decide_phases cfg ?ev dr st = (st1, dr', dec)"
    using assms(3) by (auto simp: decide_def split: prod.splits)
  show ?thesis
  proof (cases "passes_gates cfg dr st")
    case False
    then show ?thesis
      using monitor_gated st1 by blast
  next
    case True
    show ?thesis
      using st1 after_subject_monitor [OF assms(1,2), of k between during clock dr _ _ st1 dr' dec] True
      unfolding decide_ungated [OF True]
      by (auto simp: monitor_def policy_of_def passes_gates_def internal_exempt_def override_of_def phase_catalog_def
          subject_of_def Let_def split: option.splits if_splits override_decision.splits)
  qed
qed

section \<open>Property\<close>

definition demo_iam :: "check_input \<Rightarrow> check_error + check_result" where
  \<comment> \<open>allows the user \<open>u\<close> everything and everyone else nothing\<close>
  "demo_iam i =
     Inr \<lparr>cr_allowed = has_prefix (key_of_input demo_cfg i) ''user:u|'', cr_deny_reasons = [], cr_model_id = [], cr_checked_at = None\<rparr>"

lemma demo_key_determines: "key_determines demo_cfg demo_iam"
  by (simp add: key_determines_def demo_iam_def)

text \<open>
  C3: the decision cache is transparent. When the verdict of IAM on a check is determined by what the cache
  key holds (subject, action, resource type and identifier, context digest) and does not change, then in
  every reachable state, with any interleaving of other requests' lookups, stores, flushes and
  per-subject invalidations around the check, the middleware takes exactly the decision (outcome,
  reasons, descriptor and error) that the uncached reference monitor takes under the policy in force.
\<close>

theorem cache_transparent:
  assumes "key_determines cfg iam" "authz_reachable cfg (\<lambda>_. iam) st"
    and "decide cfg (env_of cfg (\<lambda>_. iam) k between during clock) dr st = (st', dr', dec)"
  shows "dec = monitor cfg iam (clock 1) (policy_of st) dr"
  by (rule decide_monitor [OF assms(1) iam_answers.reachable_holds [OF assms(2)] assms(3)])

theorem cache_transparent_witness:
  "snd (snd (decide demo_cfg (env_of demo_cfg (\<lambda>_. demo_iam) 0 [PFlush] [PLookup ''user:u|'' 5, PFlushSubject ''user:u''] (\<lambda>_. 0))
      (unary_request demo_call) demo_state)) =
     monitor demo_cfg demo_iam 0 (policy_of demo_state) (unary_request demo_call) \<and>
   dc_outcome (monitor demo_cfg demo_iam 0 (policy_of demo_state) (unary_request demo_call)) = OutcomeAllow"
proof (rule conjI)
  let ?run = "decide demo_cfg (env_of demo_cfg (\<lambda>_. demo_iam) 0 [PFlush] [PLookup ''user:u|'' 5, PFlushSubject ''user:u''] (\<lambda>_. 0))
      (unary_request demo_call) demo_state"
  have "?run = (fst ?run, fst (snd ?run), snd (snd ?run))"
    by simp
  from cache_transparent [OF demo_key_determines demo_reachable this]
  show "snd (snd ?run) = monitor demo_cfg demo_iam 0 (policy_of demo_state) (unary_request demo_call)" .
qed code_simp

end
