(* ===== verification/Subject_Client.thy ===== *)
theory Subject_Client
  imports Gateway_Caches
begin

text \<open>
  The IAM subject client (\<^verbatim>\<open>internal/clients/iam_subject_client.go\<close>): resolution of an external identity to
  a user or a service account through a cache of successful answers, the lazy creation of the user
  mirror for a Kratos identity, and the system-administrator check. The remote procedures of IAM are
  parameters; every call the client makes is recorded.
\<close>

section \<open>Operations\<close>

datatype lookup_answer =
    UserAnswer string string string \<comment> \<open>id, display name, email\<close>
  | ServiceAccountAnswer string string \<comment> \<open>id, name\<close>
  | UnsetAnswer \<comment> \<open>a response whose oneof is not set\<close>

datatype lookup_error =
    ExternalIdEmpty | ErrSubjectNotFound | LookupFailed code | UnexpectedOneof
  | EmailRequired | UpsertFailed code | StillNotFound

datatype iam_call = LookupCall string | UpsertCall string string string | CheckCall string

definition pick_display_name :: "string \<Rightarrow> string \<Rightarrow> string" where
  "pick_display_name displayName email = (if displayName \<noteq> [] then displayName else email)"

definition subject_of_answer :: "lookup_answer \<Rightarrow> subject option" where
  "subject_of_answer resp =
     (case resp of
        UserAnswer i d e \<Rightarrow>
          Some \<lparr>subject_type = ''user'', subject_id = i, subject_display = pick_display_name d e\<rparr>
      | ServiceAccountAnswer i n \<Rightarrow>
          Some \<lparr>subject_type = ''service_account'', subject_id = i, subject_display = n\<rparr>
      | UnsetAnswer \<Rightarrow> None)"

record lookup_event =
  \<comment> \<open>what one lookup meets: its clock readings, the other goroutines' work on the cache during the
     call, and the answer of \<open>LookupSubject\<close>\<close>
  le_now :: time
  le_during :: "subject_cache \<Rightarrow> subject_cache"
  le_answer :: "code + lookup_answer"
  le_now' :: time

definition lookup_by_external_id ::
  "subject_cache \<Rightarrow> string \<Rightarrow> lookup_event \<Rightarrow> subject_cache \<times> iam_call list \<times> (lookup_error + subject)" where
  "lookup_by_external_id c externalID ev =
     (if externalID = [] then (c, [], Inl ExternalIdEmpty)
      else case subject_cache_get c externalID (le_now ev) of
        (c1, Some cached) \<Rightarrow> (c1, [], Inr cached)
      | (c1, None) \<Rightarrow>
          (let c2 = le_during ev c1; call = [LookupCall externalID] in
           case le_answer ev of
             Inl NotFound \<Rightarrow> (c2, call, Inl ErrSubjectNotFound)
           | Inl e \<Rightarrow> (c2, call, Inl (LookupFailed e))
           | Inr resp \<Rightarrow>
               (case subject_of_answer resp of
                  None \<Rightarrow> (c2, call, Inl UnexpectedOneof)
                | Some subj \<Rightarrow> (subject_cache_set c2 externalID subj (le_now' ev), call, Inr subj))))"

fun upsert_retry ::
  "nat \<Rightarrow> subject_cache \<Rightarrow> string \<Rightarrow> (nat \<Rightarrow> lookup_event) \<Rightarrow> nat \<Rightarrow>
   subject_cache \<times> iam_call list \<times> (lookup_error + subject)" where
  \<comment> \<open>the loop after the upsert; the first argument counts the attempts left\<close>
  "upsert_retry 0 c identityID evs i = (c, [], Inl StillNotFound)"
| "upsert_retry (Suc n) c identityID evs i =
     (case lookup_by_external_id c identityID (evs i) of
        (c1, calls, Inr subj) \<Rightarrow> (c1, calls, Inr subj)
      | (c1, calls, Inl _) \<Rightarrow>
          (let (c2, calls', r) = upsert_retry n c1 identityID evs (Suc i) in (c2, calls @ calls', r)))"

definition upsert_retries :: nat where "upsert_retries = 5"

definition lookup_or_upsert_from_kratos ::
  "subject_cache \<Rightarrow> string \<Rightarrow> string \<Rightarrow> string \<Rightarrow> lookup_event \<Rightarrow> code option \<Rightarrow> (nat \<Rightarrow> lookup_event) \<Rightarrow>
   subject_cache \<times> iam_call list \<times> (lookup_error + subject)" where
  \<comment> \<open>the answer of \<open>UpsertFromIdentity\<close> is \<open>None\<close> on success\<close>
  "lookup_or_upsert_from_kratos c identityID email displayName ev upsert evs =
     (case lookup_by_external_id c identityID ev of
        (c1, calls, Inr subj) \<Rightarrow> (c1, calls, Inr subj)
      | (c1, calls, Inl e) \<Rightarrow>
          if e \<noteq> ErrSubjectNotFound then (c1, calls, Inl e)
          else if email = [] then (c1, calls, Inl EmailRequired)
          else (let calls1 = calls @ [UpsertCall identityID email displayName] in
                case upsert of
                  Some code \<Rightarrow> (c1, calls1, Inl (UpsertFailed code))
                | None \<Rightarrow>
                    (let (c2, calls2, r) = upsert_retry upsert_retries c1 identityID evs 0
                     in (c2, calls1 @ calls2, r))))"

definition is_system_admin :: "string \<Rightarrow> code + bool \<Rightarrow> iam_call list \<times> (code + bool)" where
  \<comment> \<open>the parameter is the answer of \<open>Check\<close> on \<open>kacho_system:root#admin\<close>\<close>
  "is_system_admin subj answer =
     (if subj = [] then ([], Inr False)
      else ([CheckCall subj],
            case answer of
              Inl e \<Rightarrow> if e = Unimplemented \<or> e = PermissionDenied then Inr False else Inl e
            | Inr allowed \<Rightarrow> Inr allowed))"

section \<open>Lemmas\<close>

lemma lookup_calls:
  "lookup_by_external_id c i ev = (c', calls, r) \<Longrightarrow> calls = [] \<or> calls = [LookupCall i]"
  by (auto simp: lookup_by_external_id_def Let_def split: if_splits prod.splits option.splits sum.splits code.splits)

lemma lookup_not_found:
  "lookup_by_external_id c i ev = (c', calls, Inl ErrSubjectNotFound) \<Longrightarrow>
     le_answer ev = Inl NotFound \<and> calls = [LookupCall i]"
  by (auto simp: lookup_by_external_id_def Let_def split: if_splits prod.splits option.splits sum.splits code.splits)

lemma lookup_Inr:
  assumes "lookup_by_external_id c i ev = (c', calls, Inr s)"
  shows "i \<noteq> [] \<and> (snd (subject_cache_get c i (le_now ev)) = Some s \<and> calls = [] \<or>
    (\<exists>resp. le_answer ev = Inr resp \<and> subject_of_answer resp = Some s \<and> calls = [LookupCall i]))"
  using assms
  by (auto simp: lookup_by_external_id_def Let_def split: if_splits prod.splits option.splits sum.splits code.splits)

lemma upsert_retry_calls:
  "upsert_retry n c i evs j = (c', calls, r) \<Longrightarrow> set calls \<subseteq> {LookupCall i} \<and> length calls \<le> n"
proof (induction n c i evs j arbitrary: c' calls r rule: upsert_retry.induct)
  case (2 n c i evs j)
  obtain c1 k r1 where l: "lookup_by_external_id c i (evs j) = (c1, k, r1)"
    by (metis prod_cases3)
  have k: "k = [] \<or> k = [LookupCall i]"
    by (rule lookup_calls [OF l])
  show ?case
  proof (cases r1)
    case (Inl e)
    obtain c2 k2 r2 where u: "upsert_retry n c1 i evs (Suc j) = (c2, k2, r2)"
      by (metis prod_cases3)
    have "set k2 \<subseteq> {LookupCall i} \<and> length k2 \<le> n"
      by (rule "2.IH" [OF l [symmetric] refl Inl u])
    moreover have "calls = k @ k2"
      using "2.prems" l Inl u by simp
    ultimately show ?thesis
      using k by auto
  next
    case (Inr s)
    then show ?thesis
      using "2.prems" l k by auto
  qed
qed simp

lemma lookup_holds:
  assumes "lookup_by_external_id c i ev = (c', calls, r)" "cache_holds P c"
    and "cache_holds P (le_during ev (fst (subject_cache_get c i (le_now ev))))"
    and "\<And>resp s. le_answer ev = Inr resp \<Longrightarrow> subject_of_answer resp = Some s \<Longrightarrow> P i s"
  shows "cache_holds P c' \<and> (\<forall>s. r = Inr s \<longrightarrow> i \<noteq> [] \<and> P i s)"
  using assms holds_get [OF assms(2), of i "le_now ev"] holds_get_value [OF assms(2), of i "le_now ev"]
  by (auto simp: lookup_by_external_id_def Let_def subject_cache_get_def subject_cache_set_def lru_put_def
      holds_put split: if_splits prod.splits option.splits sum.splits code.splits)

definition event_keeps :: "(string \<Rightarrow> subject \<Rightarrow> bool) \<Rightarrow> string \<Rightarrow> lookup_event \<Rightarrow> bool" where
  \<comment> \<open>the other goroutines keep the predicate, and what IAM answers satisfies it\<close>
  "event_keeps P i ev \<longleftrightarrow>
     (\<forall>c. cache_holds P c \<longrightarrow> cache_holds P (le_during ev c)) \<and>
     (\<forall>resp s. le_answer ev = Inr resp \<longrightarrow> subject_of_answer resp = Some s \<longrightarrow> P i s)"

lemma lookup_keeps:
  assumes "lookup_by_external_id c i ev = (c', calls, r)" "cache_holds P c" "event_keeps P i ev"
  shows "cache_holds P c' \<and> (\<forall>s. r = Inr s \<longrightarrow> i \<noteq> [] \<and> P i s)"
  using assms(3) by (intro lookup_holds [OF assms(1,2)])
    (auto simp: event_keeps_def subject_cache_get_def holds_get [OF assms(2)])

lemma upsert_retry_keeps:
  assumes "cache_holds P c" "\<And>m. event_keeps P i (evs m)" "upsert_retry n c i evs j = (c', calls, r)"
  shows "cache_holds P c' \<and> (\<forall>s. r = Inr s \<longrightarrow> i \<noteq> [] \<and> P i s)"
  using assms
proof (induction n c i evs j arbitrary: c' calls r rule: upsert_retry.induct)
  case (2 n c i evs j)
  obtain c1 k r1 where l: "lookup_by_external_id c i (evs j) = (c1, k, r1)"
    by (metis prod_cases3)
  have k: "cache_holds P c1 \<and> (\<forall>s. r1 = Inr s \<longrightarrow> i \<noteq> [] \<and> P i s)"
    using lookup_keeps [OF l "2.prems"(1,2)] .
  show ?case
  proof (cases r1)
    case (Inl e)
    obtain c2 k2 r2 where u: "upsert_retry n c1 i evs (Suc j) = (c2, k2, r2)"
      by (metis prod_cases3)
    have "cache_holds P c2 \<and> (\<forall>s. r2 = Inr s \<longrightarrow> i \<noteq> [] \<and> P i s)"
      using k "2.prems"(2) by (intro "2.IH" [OF l [symmetric] refl Inl _ _ u]) auto
    then show ?thesis
      using "2.prems"(3) l Inl u by simp
  next
    case (Inr s)
    then show ?thesis
      using "2.prems"(3) l k by simp
  qed
qed simp

section \<open>The contract of a subject lookup\<close>

text \<open>
  \<open>SubjectLookuper\<close> is the interface through which the interceptor resolves a subject: what it
  returns for an external identity is what the directory knows under it, whatever it caches.
\<close>

locale subject_lookuper =
  fixes inv :: "'l \<Rightarrow> bool"
    and lookup :: "'l \<Rightarrow> string \<Rightarrow> 'l \<times> (lookup_error + subject)"
    and known :: "string \<Rightarrow> subject \<Rightarrow> bool"
  assumes lookup_inv: "inv l \<Longrightarrow> inv (fst (lookup l i))"
    and lookup_known: "inv l \<Longrightarrow> snd (lookup l i) = Inr s \<Longrightarrow> known i s"
    and lookup_empty: "\<exists>e. snd (lookup l []) = Inl e"
begin

lemma lookup_found: "inv l \<Longrightarrow> lookup l i = (l', Inr s) \<Longrightarrow> inv l' \<and> known i s \<and> i \<noteq> []"
  using lookup_inv [of l i] lookup_known [of l i s] lookup_empty [of l] by auto

end

text \<open>
  IAM's answers change over time: \<open>dirs n\<close> is what it answers at the client's \<open>n\<close>-th call. What the
  client returns is something that IAM answered at some call.
\<close>

type_synonym iam_directory = "nat \<Rightarrow> string \<Rightarrow> code + lookup_answer"

definition directory :: "iam_directory \<Rightarrow> string \<Rightarrow> subject \<Rightarrow> bool" where
  "directory dirs i s \<longleftrightarrow> (\<exists>n resp. dirs n i = Inr resp \<and> subject_of_answer resp = Some s)"

definition iam_event :: "iam_directory \<Rightarrow> (nat \<Rightarrow> time \<times> time) \<Rightarrow> string \<Rightarrow> nat \<Rightarrow> lookup_event" where
  "iam_event dirs clock i n =
     \<lparr>le_now = fst (clock n), le_during = (\<lambda>c. c), le_answer = dirs n i, le_now' = snd (clock n)\<rparr>"

definition iam_lookup ::
  "iam_directory \<Rightarrow> (nat \<Rightarrow> time \<times> time) \<Rightarrow> subject_cache \<Rightarrow> string \<Rightarrow> subject_cache \<times> (lookup_error + subject)" where
  \<comment> \<open>\<open>LookupByExternalID\<close> as the interceptor's port\<close>
  "iam_lookup dirs clock c i =
     (let (c', _, r) = lookup_by_external_id c i (iam_event dirs clock i 0) in (c', r))"

definition iam_kratos_lookup ::
  "iam_directory \<Rightarrow> (nat \<Rightarrow> time \<times> time) \<Rightarrow> code option \<Rightarrow> subject_cache \<Rightarrow> string \<Rightarrow> string \<Rightarrow> string \<Rightarrow>
   subject_cache \<times> (lookup_error + subject)" where
  \<comment> \<open>\<open>LookupOrUpsertFromKratos\<close> as the interceptor's port\<close>
  "iam_kratos_lookup dirs clock upsert c i email name =
     (let (c', _, r) = lookup_or_upsert_from_kratos c i email name (iam_event dirs clock i 0) upsert
            (\<lambda>m. iam_event dirs clock i (Suc m)) in (c', r))"

lemma iam_event_keeps: "event_keeps (directory dirs) i (iam_event dirs clock i n)"
  by (auto simp: event_keeps_def iam_event_def directory_def)

interpretation iam: subject_lookuper "cache_holds (directory dirs)" "iam_lookup dirs clock" "directory dirs"
  for dirs clock
proof
  fix c i
  assume h: "cache_holds (directory dirs) c"
  obtain c' calls r where l: "lookup_by_external_id c i (iam_event dirs clock i 0) = (c', calls, r)"
    by (metis prod_cases3)
  have k: "cache_holds (directory dirs) c' \<and> (\<forall>s. r = Inr s \<longrightarrow> i \<noteq> [] \<and> directory dirs i s)"
    by (rule lookup_keeps [OF l h iam_event_keeps])
  then show "cache_holds (directory dirs) (fst (iam_lookup dirs clock c i))"
    by (simp add: iam_lookup_def l)
  fix s
  assume "snd (iam_lookup dirs clock c i) = Inr s"
  with k show "directory dirs i s"
    by (simp add: iam_lookup_def l)
qed (simp add: iam_lookup_def lookup_by_external_id_def)

locale kratos_lookuper = subject_lookuper inv lookup known for inv lookup known +
  fixes klookup :: "'l \<Rightarrow> string \<Rightarrow> string \<Rightarrow> string \<Rightarrow> 'l \<times> (lookup_error + subject)"
  assumes klookup_inv: "inv l \<Longrightarrow> inv (fst (klookup l i e n))"
    and klookup_known: "inv l \<Longrightarrow> snd (klookup l i e n) = Inr s \<Longrightarrow> known i s"
begin

lemma session_found:
  \<comment> \<open>either lookup gives the Kratos session's subject\<close>
  "inv l \<Longrightarrow> r \<in> {lookup l i, klookup l i e n} \<Longrightarrow> inv (fst r) \<and> (\<forall>s. snd r = Inr s \<longrightarrow> known i s)"
  using lookup_inv [of l i] lookup_known [of l i] klookup_inv [of l i e n] klookup_known [of l i e n]
  by blast

end

lemma upsert_keeps:
  assumes "lookup_or_upsert_from_kratos c i email name ev upsert evs = (c', calls, r)"
    and "cache_holds P c" "event_keeps P i ev" "\<And>m. event_keeps P i (evs m)"
  shows "cache_holds P c' \<and> (\<forall>s. r = Inr s \<longrightarrow> i \<noteq> [] \<and> P i s)"
proof -
  obtain c1 k r1 where l: "lookup_by_external_id c i ev = (c1, k, r1)"
    by (metis prod_cases3)
  have k: "cache_holds P c1" "\<And>s. r1 = Inr s \<Longrightarrow> i \<noteq> [] \<and> P i s"
    using lookup_keeps [OF l assms(2,3)] by auto
  obtain c2 k2 r2 where u: "upsert_retry upsert_retries c1 i evs 0 = (c2, k2, r2)"
    by (metis prod_cases3)
  have r2: "cache_holds P c2 \<and> (\<forall>s. r2 = Inr s \<longrightarrow> i \<noteq> [] \<and> P i s)"
    by (rule upsert_retry_keeps [OF k(1) assms(4) u])
  show ?thesis
    using assms(1) l u k r2
    by (auto simp: lookup_or_upsert_from_kratos_def Let_def split: sum.splits if_splits option.splits)
qed

interpretation kratos: kratos_lookuper "cache_holds (directory dirs)" "iam_lookup dirs clock" "directory dirs"
  "iam_kratos_lookup dirs clock upsert" for dirs clock upsert
proof
  fix c i e n
  assume h: "cache_holds (directory dirs) c"
  obtain c' calls r where l: "lookup_or_upsert_from_kratos c i e n (iam_event dirs clock i 0) upsert
      (\<lambda>m. iam_event dirs clock i (Suc m)) = (c', calls, r)"
    by (metis prod_cases3)
  have k: "cache_holds (directory dirs) c' \<and> (\<forall>s. r = Inr s \<longrightarrow> i \<noteq> [] \<and> directory dirs i s)"
    by (rule upsert_keeps [OF l h]) (rule iam_event_keeps)+
  then show "cache_holds (directory dirs) (fst (iam_kratos_lookup dirs clock upsert c i e n))"
    by (simp add: iam_kratos_lookup_def l)
  fix s
  assume "snd (iam_kratos_lookup dirs clock upsert c i e n) = Inr s"
  with k show "directory dirs i s"
    by (simp add: iam_kratos_lookup_def l)
qed

section \<open>Properties\<close>

text \<open>
  Resolving a Kratos identity asks IAM to create the user at most once, and only after IAM has
  answered NotFound and with a non-empty email address; it makes at most six lookups, all for that
  identity; and nothing is invented: the subject it returns satisfies every predicate that the cached
  entries and IAM's answers for the identity satisfy, and the cache still does, whatever the other
  goroutines do to the cache in the meantime.
\<close>

theorem lazy_upsert_contract:
  assumes "lookup_or_upsert_from_kratos c i email name ev upsert evs = (c', calls, r)"
    and "cache_holds P c" "event_keeps P i ev" "\<And>m. event_keeps P i (evs m)"
  shows "(calls = [] \<or> (\<exists>ls. calls = LookupCall i # ls \<and>
       (ls \<noteq> [] \<longrightarrow> le_answer ev = Inl NotFound \<and> email \<noteq> [] \<and>
          (\<exists>us. ls = UpsertCall i email name # us \<and> set us \<subseteq> {LookupCall i} \<and> length us \<le> 5 \<and>
             (us \<noteq> [] \<longrightarrow> upsert = None))))) \<and>
     (\<forall>s. r = Inr s \<longrightarrow> i \<noteq> [] \<and> P i s) \<and> cache_holds P c'"
proof -
  obtain c1 k r1 where l: "lookup_by_external_id c i ev = (c1, k, r1)"
    by (metis prod_cases3)
  obtain c2 k2 r2 where u: "upsert_retry upsert_retries c1 i evs 0 = (c2, k2, r2)"
    by (metis prod_cases3)
  have k2: "set k2 \<subseteq> {LookupCall i}" "length k2 \<le> 5"
    using upsert_retry_calls [OF u] by (simp_all add: upsert_retries_def)
  have nf: "r1 = Inl ErrSubjectNotFound \<Longrightarrow> le_answer ev = Inl NotFound \<and> k = [LookupCall i]"
    using lookup_not_found l by blast
  have "calls = k \<or> r1 = Inl ErrSubjectNotFound \<and> email \<noteq> [] \<and>
      (calls = k @ [UpsertCall i email name] \<or> upsert = None \<and> calls = k @ UpsertCall i email name # k2)"
    using assms(1) l u
    by (auto simp: lookup_or_upsert_from_kratos_def Let_def split: sum.splits if_splits option.splits)
  then show ?thesis
    using lookup_calls [OF l] nf k2 upsert_keeps [OF assms] by auto
qed

definition demo_event :: "code + lookup_answer \<Rightarrow> lookup_event" where
  "demo_event a = \<lparr>le_now = 0, le_during = (\<lambda>c. c), le_answer = a, le_now' = 1\<rparr>"

definition demo_events :: "nat \<Rightarrow> lookup_event" where
  "demo_events n = demo_event (if n = 0 then Inl NotFound else Inr (UserAnswer ''u1'' [] ''a@b''))"

abbreviation demo_upsert where
  "demo_upsert \<equiv> lookup_or_upsert_from_kratos (subject_cache_new 2 0) ''id'' ''a@b'' ''A''
     (demo_event (Inl NotFound)) None demo_events"

theorem lazy_upsert_contract_witness:
  "\<exists>s. snd demo_upsert =
     ([LookupCall ''id'', UpsertCall ''id'' ''a@b'' ''A'', LookupCall ''id'', LookupCall ''id''], Inr s) \<and>
     subject_id s = ''u1'' \<and> cache_holds (\<lambda>_ s. subject_id s = ''u1'') (fst demo_upsert)"
proof -
  let ?s = "\<lparr>subject_type = ''user'', subject_id = ''u1'', subject_display = ''a@b''\<rparr>"
  let ?calls = "[LookupCall ''id'', UpsertCall ''id'' ''a@b'' ''A'', LookupCall ''id'', LookupCall ''id'']"
  have run: "snd demo_upsert = (?calls, Inr ?s)"
    by code_simp
  then have full: "demo_upsert = (fst demo_upsert, ?calls, Inr ?s)"
    by (metis prod.collapse)
  have "event_keeps (\<lambda>_ s. subject_id s = ''u1'') ''id'' (demo_events m)" for m
    by (auto simp: event_keeps_def demo_events_def demo_event_def subject_of_answer_def)
  moreover have "event_keeps (\<lambda>_ s. subject_id s = ''u1'') ''id'' (demo_event (Inl NotFound))"
    by (simp add: event_keeps_def demo_event_def)
  moreover have "cache_holds (\<lambda>_ s. subject_id s = ''u1'') (subject_cache_new 2 0)"
    by (simp add: subject_cache_new_def holds_new)
  ultimately have "cache_holds (\<lambda>_ s. subject_id s = ''u1'') (fst demo_upsert)"
    using lazy_upsert_contract [OF full, of "\<lambda>_ s. subject_id s = ''u1''"] by blast
  with run show ?thesis
    by (intro exI [of _ ?s]) simp
qed

end
