(* ===== verification/Authn.thy ===== *)
theory Authn
  imports Dpop Subject_Client
begin

text \<open>
  The authentication interceptor (\<^verbatim>\<open>internal/middleware/auth.go\<close>): how a gRPC call or a REST request
  gets its principal. The token verifier, the subject lookup, the Kratos client and the JWT library's
  parser are collaborators, fields of the interceptor.
\<close>

section \<open>Data\<close>

type_synonym auth_mode = string

abbreviation "AuthModeDev \<equiv> ''dev''"
abbreviation "AuthModeProduction \<equiv> ''production''"
abbreviation "AuthModeProductionStrict \<equiv> ''production-strict''"

record certificate =
  cert_uris :: "string list" \<comment> \<open>the URI subject alternative names\<close>

record auth_ctx = grpc_ctx +
  ac_principal :: "subject option"
  ac_peer :: "certificate option list list option"
    \<comment> \<open>the verified chains of a TLS peer; \<open>None\<close>: no peer or no TLS\<close>

record ('v, 'l, 'k) auth_state =
  as_verifier :: 'v
  as_lookup :: 'l
  as_kratos :: 'k

record ('v, 'l, 'k) auth_interceptor =
  ai_mode :: auth_mode
  ai_dev_secret :: string
  ai_lookup :: "'l \<Rightarrow> string \<Rightarrow> 'l \<times> (lookup_error + subject)"
  ai_kratos_lookup :: "('l \<Rightarrow> string \<Rightarrow> string \<Rightarrow> string \<Rightarrow> 'l \<times> (lookup_error + subject)) option"
    \<comment> \<open>the lookup as a \<open>KratosSubjectLookuper\<close>, when it is one\<close>
  ai_whoami :: "('k \<Rightarrow> string \<Rightarrow> 'k \<times> whoami) option"
  ai_verify :: "('v \<Rightarrow> string \<Rightarrow> 'v \<times> (jwt_error + verified_token)) option"
  ai_mtls_principal :: bool
  ai_alg_of :: "nat list \<Rightarrow> string option" \<comment> \<open>the member \<open>alg\<close> of a JSON token header\<close>
  ai_parse :: "(string \<Rightarrow> string option) \<Rightarrow> string \<Rightarrow> (claims \<times> bool) option"
    \<comment> \<open>\<open>jwt.Parse\<close>: the first argument gives the key for an algorithm, or refuses it\<close>

type_synonym grpc_status = "code \<times> string"

definition auth_failed_msg :: string where
  "auth_failed_msg = ''authentication failed''"

definition anonymous :: subject where
  "anonymous = \<lparr>subject_type = ''system'', subject_id = ''anonymous'', subject_display = []\<rparr>"

section \<open>gRPC\<close>

definition is_client_forgeable_identity_header :: "string \<Rightarrow> bool" where
  "is_client_forgeable_identity_header lower \<longleftrightarrow>
     has_prefix lower MetaPrincipalPrefix \<or> has_prefix lower MetaGRPCPrincipalPrefix \<or>
     has_prefix lower ''x-kacho-token-'' \<or> has_prefix lower ''grpc-metadata-x-kacho-token-''"

definition strip_incoming :: "'c auth_ctx_scheme \<Rightarrow> 'c auth_ctx_scheme" where
  \<comment> \<open>the first block of \<open>authorize\<close>\<close>
  "strip_incoming ctx =
     (case incoming_md ctx of
        None \<Rightarrow> ctx
      | Some md \<Rightarrow>
          if list_ex (\<lambda>(k, _). is_client_forgeable_identity_header (to_lower k)) md
          then ctx\<lparr>incoming_md := Some (filter (\<lambda>(k, _). \<not> is_client_forgeable_identity_header (to_lower k)) md)\<rparr>
          else ctx)"

definition md_set_principal :: "header option \<Rightarrow> subject \<Rightarrow> header" where
  "md_set_principal md p =
     md_set (md_set (md_set (case md of None \<Rightarrow> [] | Some m \<Rightarrow> m)
       MetaPrincipalType (subject_type p)) MetaPrincipalID (subject_id p)) MetaPrincipalDisplay (subject_display p)"

definition inject_principal :: "'c auth_ctx_scheme \<Rightarrow> subject \<Rightarrow> 'c auth_ctx_scheme" where
  "inject_principal ctx p =
     ctx\<lparr>ac_principal := Some p, incoming_md := Some (md_set_principal (incoming_md ctx) p),
         outgoing_md := Some (md_set_principal (outgoing_md ctx) p)\<rparr>"

definition inject_anonymous :: "'c auth_ctx_scheme \<Rightarrow> 'c auth_ctx_scheme" where
  "inject_anonymous ctx = inject_principal ctx anonymous"

definition sa_from_spiffe :: "string \<Rightarrow> string option" where
  "sa_from_spiffe uri =
     (case cut_prefix uri ''spiffe://kacho.cloud/ns/'' of
        None \<Rightarrow> None
      | Some rest \<Rightarrow>
          (case cut_sub ''/sa/'' rest of
             None \<Rightarrow> None
           | Some (_, after) \<Rightarrow>
               if after = [] then None else if contains_sub after ''/'' then None else Some after))"

fun verified_leaf :: "certificate option list list \<Rightarrow> certificate option" where
  "verified_leaf [] = None"
| "verified_leaf ((Some c # _) # css) = Some c"
| "verified_leaf (_ # css) = verified_leaf css"

definition principal_from_verified_peer :: "certificate option list list option \<Rightarrow> (string \<times> string) option" where
  "principal_from_verified_peer peer =
     (case peer of
        None \<Rightarrow> None
      | Some css \<Rightarrow>
          (case verified_leaf css of
             None \<Rightarrow> None
           | Some leaf \<Rightarrow>
               (case List.map_filter sa_from_spiffe (cert_uris leaf) of
                  [] \<Rightarrow> None
                | sa # _ \<Rightarrow> Some (''service_account'', sa))))"

definition principal_from_verified_token :: "verified_token \<Rightarrow> subject option" where
  "principal_from_verified_token vt =
     (let pType = verified_claim vt ''kacho_principal_type''; pID = verified_claim vt ''kacho_principal_id'' in
      if pType = [] \<or> pID = [] then None
      else (let d = verified_claim vt ''kacho_principal_display_name'' in
            Some \<lparr>subject_type = pType, subject_id = pID, subject_display = (if d = [] then pID else d)\<rparr>))"

definition hmac_algs :: "string list" where
  \<comment> \<open>the algorithms of type \<open>SigningMethodHMAC\<close>\<close>
  "hmac_algs = [''HS256'', ''HS384'', ''HS512'']"

datatype hmac_error = HmacDisabled | NoSigningKey | HmacParseFailed | HmacInvalid

definition validate_jwt :: "('v, 'l, 'k) auth_interceptor \<Rightarrow> string \<Rightarrow> hmac_error + claims" where
  "validate_jwt a tokenStr =
     (if ai_mode a \<noteq> AuthModeDev then Inl HmacDisabled
      else if ai_dev_secret a = [] then Inl NoSigningKey
      else case ai_parse a (\<lambda>alg. if alg \<in> set hmac_algs then Some (ai_dev_secret a) else None) tokenStr of
        None \<Rightarrow> Inl HmacParseFailed
      | Some (cl, valid) \<Rightarrow> if \<not> valid then Inl HmacInvalid else Inr cl)"

definition service_account_of_claims :: "claims \<Rightarrow> subject option" where
  \<comment> \<open>the typed claims of a service-account token; the identifier falls back to the subject\<close>
  "service_account_of_claims cl =
     (if str_claim cl ''kacho_principal_type'' = ''service_account'' then
        (let saID = (if str_claim cl ''kacho_sa_id'' = [] then str_claim cl ''sub'' else str_claim cl ''kacho_sa_id'')
         in Some \<lparr>subject_type = ''service_account'', subject_id = saID, subject_display = saID\<rparr>)
      else None)"

definition authorize_via_lookup ::
  "('v, 'l, 'k) auth_interceptor \<Rightarrow> ('v, 'l, 'k) auth_state \<Rightarrow> 'c auth_ctx_scheme \<Rightarrow> string \<Rightarrow>
   ('v, 'l, 'k) auth_state \<times> (grpc_status + 'c auth_ctx_scheme)" where
  "authorize_via_lookup a st ctx subjectID =
     (if subjectID = [] then (st, Inl (Unauthenticated, ''token missing subject''))
      else (let (l', r) = ai_lookup a (as_lookup st) subjectID; st' = st\<lparr>as_lookup := l'\<rparr> in
            case r of
              Inl _ \<Rightarrow>
                if ai_mode a = AuthModeProductionStrict \<or> ai_mode a = AuthModeProduction
                then (st', Inl (Unauthenticated, auth_failed_msg))
                else (st', Inr (inject_anonymous ctx))
            | Inr subj \<Rightarrow> (st', Inr (inject_principal ctx subj))))"

definition authorize_hmac ::
  "('v, 'l, 'k) auth_interceptor \<Rightarrow> ('v, 'l, 'k) auth_state \<Rightarrow> 'c auth_ctx_scheme \<Rightarrow> string \<Rightarrow>
   ('v, 'l, 'k) auth_state \<times> (grpc_status + 'c auth_ctx_scheme)" where
  \<comment> \<open>the tail of \<open>authorize\<close>: a token that does not go through the JWKS verifier\<close>
  "authorize_hmac a st ctx bearer =
     (case validate_jwt a bearer of
        Inl _ \<Rightarrow> (st, Inl (Unauthenticated, auth_failed_msg))
      | Inr cl \<Rightarrow>
          if str_claim cl ''sub'' = [] then (st, Inl (Unauthenticated, ''token missing subject''))
          else (case service_account_of_claims cl of
                  Some p \<Rightarrow> (st, Inr (inject_principal ctx p))
                | None \<Rightarrow> authorize_via_lookup a st ctx (str_claim cl ''sub'')))"

definition authorize_jwks ::
  "('v, 'l, 'k) auth_interceptor \<Rightarrow> ('v \<Rightarrow> string \<Rightarrow> 'v \<times> (jwt_error + verified_token)) \<Rightarrow>
   ('v, 'l, 'k) auth_state \<Rightarrow> 'c auth_ctx_scheme \<Rightarrow> string \<Rightarrow>
   ('v, 'l, 'k) auth_state \<times> (grpc_status + 'c auth_ctx_scheme)" where
  \<comment> \<open>the branch of \<open>authorize\<close> for an asymmetric token\<close>
  "authorize_jwks a verify st ctx bearer =
     (case verify (as_verifier st) bearer of
        (c', Inl _) \<Rightarrow> (st\<lparr>as_verifier := c'\<rparr>, Inl (Unauthenticated, auth_failed_msg))
      | (c', Inr vt) \<Rightarrow>
          (let st' = st\<lparr>as_verifier := c'\<rparr> in
           case principal_from_verified_token vt of
             Some p \<Rightarrow> (st', Inr (inject_principal ctx p))
           | None \<Rightarrow> authorize_via_lookup a st' ctx (vt_subject vt)))"

definition peer_principal ::
  "('v, 'l, 'k) auth_interceptor \<Rightarrow> 'c auth_ctx_scheme \<Rightarrow> subject option" where
  \<comment> \<open>the certificate branch of \<open>authorize\<close>\<close>
  "peer_principal a ctx =
     (if ai_mtls_principal a then
        map_option (\<lambda>(t, i). \<lparr>subject_type = t, subject_id = i, subject_display = i\<rparr>)
          (principal_from_verified_peer (ac_peer ctx))
      else None)"

definition authorize ::
  "('v, 'l, 'k) auth_interceptor \<Rightarrow> ('v, 'l, 'k) auth_state \<Rightarrow> 'c auth_ctx_scheme \<Rightarrow>
   ('v, 'l, 'k) auth_state \<times> (grpc_status + 'c auth_ctx_scheme)" where
  "authorize a st ctx0 =
     (let ctx = strip_incoming ctx0 in
      case peer_principal a ctx of
        Some p \<Rightarrow> (st, Inr (inject_principal ctx p))
      | None \<Rightarrow>
          (let bearer = extract_bearer (incoming_md ctx) in
           if bearer = [] then
             (st, if ai_mode a = AuthModeProductionStrict then Inl (Unauthenticated, ''missing Bearer token'')
                  else Inr (inject_anonymous ctx))
           else (case ai_verify a of
                   Some verify \<Rightarrow>
                     if is_asymmetric_jwt (ai_alg_of a) bearer then authorize_jwks a verify st ctx bearer
                     else authorize_hmac a st ctx bearer
                 | None \<Rightarrow> authorize_hmac a st ctx bearer)))"

definition auth_unary ::
  "('v, 'l, 'k) auth_interceptor \<Rightarrow> ('v, 'l, 'k) auth_state \<Rightarrow> 'c auth_ctx_scheme \<Rightarrow>
   ('c auth_ctx_scheme \<Rightarrow> 'r) \<Rightarrow> ('v, 'l, 'k) auth_state \<times> (grpc_status + 'r)" where
  \<comment> \<open>\<open>Unary\<close> and \<open>Stream\<close>: the handler runs in the new context or not at all\<close>
  "auth_unary a st ctx handler =
     (case authorize a st ctx of
        (st', Inl e) \<Rightarrow> (st', Inl e)
      | (st', Inr ctx') \<Rightarrow> (st', Inr (handler ctx')))"

section \<open>REST\<close>

text \<open>
  \<open>Request.Cookie\<close> of the standard library: the \<open>Cookie\<close> headers are cut at semicolons, a part whose
  name is not a token or whose value has a forbidden byte is skipped, and the first cookie of that
  name wins; double quotes around the value are removed.
\<close>

definition trim_ascii_space :: "string \<Rightarrow> string" where
  "trim_ascii_space s =
     (let sp = (\<lambda>c. c \<in> {CHR '' '', CHR 0x09, CHR 0x0A, CHR 0x0D}) in rev (dropWhile sp (rev (dropWhile sp s))))"

definition valid_cookie_value_byte :: "char \<Rightarrow> bool" where
  "valid_cookie_value_byte c = (let b = of_char c :: nat in
     0x20 \<le> b \<and> b < 0x7f \<and> b \<noteq> 0x22 \<and> c \<noteq> CHR '';'' \<and> b \<noteq> 0x5C)"

definition parse_cookie_value :: "string \<Rightarrow> string option" where
  "parse_cookie_value raw =
     (let raw' = (if length raw > 1 \<and> hd raw = CHR 0x22 \<and> last raw = CHR 0x22 then butlast (tl raw) else raw)
      in if list_all valid_cookie_value_byte raw' then Some raw' else None)"

definition cookie_of_part :: "string \<Rightarrow> (string \<times> string) option" where
  "cookie_of_part part0 =
     (let part = trim_ascii_space part0 in
      if part = [] then None
      else (let (name0, val) = (case cut_sub ''='' part of None \<Rightarrow> (part, []) | Some nv \<Rightarrow> nv);
                name = trim_ascii_space name0
            in if name = [] \<or> \<not> list_all is_token_char name then None
               else map_option (Pair name) (parse_cookie_value val)))"

definition request_cookie :: "http_request \<Rightarrow> string \<Rightarrow> string option" where
  "request_cookie r name =
     (case map_of (req_header r) ''Cookie'' of
        None \<Rightarrow> None
      | Some lines \<Rightarrow>
          map_of (concat (map (\<lambda>l. List.map_filter cookie_of_part (split_byte (CHR '';'') l)) lines)) name)"

datatype http_outcome = Served http_request | Wrote resp_writer
  \<comment> \<open>the next handler is called with the request, or a response is written\<close>

definition principal_headers :: "subject \<Rightarrow> (string \<times> string) list" where
  "principal_headers p =
     [(HeaderPrincipalType, subject_type p), (HeaderPrincipalID, subject_id p),
      (HeaderPrincipalDisplay, subject_display p),
      (header_grpc_meta HeaderPrincipalType, subject_type p), (header_grpc_meta HeaderPrincipalID, subject_id p),
      (header_grpc_meta HeaderPrincipalDisplay, subject_display p)]"

definition set_principal_headers :: "http_request \<Rightarrow> subject \<Rightarrow> http_request" where
  "set_principal_headers r p = set_headers r (principal_headers p)"

definition write_http_unauthorized :: "string \<Rightarrow> resp_writer" where
  "write_http_unauthorized desc =
     (let q = [CHR 0x22];
          h = hset (hset [] ''Content-Type'' ''application/json'') ''WWW-Authenticate''
                (''Bearer error='' @ q @ ''invalid_token'' @ q @ '', error_description='' @ q @ desc @ q)
      in write_body (write_header (writer_new\<lparr>w_header := h\<rparr>) 401)
           (''{'' @ q @ ''code'' @ q @ '':16,'' @ q @ ''message'' @ q @ '':'' @ q @ desc @ q @ ''}''))"

definition strip_forgeable_identity_headers :: "http_request \<Rightarrow> http_request" where
  "strip_forgeable_identity_headers r =
     r\<lparr>req_header := foldl (\<lambda>h k. if is_client_forgeable_identity_header (to_lower k) then hdel h k else h)
        (req_header r) (map fst (req_header r))\<rparr>"

definition try_kratos_session ::
  "('v, 'l, 'k) auth_interceptor \<Rightarrow> ('v, 'l, 'k) auth_state \<Rightarrow> http_request \<Rightarrow>
   ('v, 'l, 'k) auth_state \<times> http_request \<times> bool" where
  "try_kratos_session a st r =
     (case ai_whoami a of
        None \<Rightarrow> (st, r, False)
      | Some whoami \<Rightarrow>
          (let cookieHdr = hget (req_header r) ''Cookie'' in
           if \<not> contains_sub cookieHdr ''ory_kratos_session'' then (st, r, False)
           else (let (k', res) = whoami (as_kratos st) cookieHdr; st1 = st\<lparr>as_kratos := k'\<rparr> in
                 if \<not> who_active res \<or> who_identity res = [] then (st1, r, False)
                 else (let (l', s) = (case ai_kratos_lookup a of
                             Some kl \<Rightarrow> kl (as_lookup st1) (who_identity res) (who_email res) (who_display res)
                           | None \<Rightarrow> ai_lookup a (as_lookup st1) (who_identity res));
                           st2 = st1\<lparr>as_lookup := l'\<rparr>
                       in case s of
                            Inl _ \<Rightarrow> (st2, r, False)
                          | Inr subj \<Rightarrow> (st2, set_principal_headers r subj, True)))))"

definition rewrite_cookie_to_bearer :: "http_request \<Rightarrow> http_request" where
  "rewrite_cookie_to_bearer r =
     (if hget (req_header r) ''Authorization'' \<noteq> [] then r
      else case request_cookie r ''kacho_session'' of
        None \<Rightarrow> r
      | Some v \<Rightarrow> if v = [] then r else set_headers r [(''Authorization'', ''Bearer '' @ v)])"

definition try_hydra_jwt ::
  "('v, 'l, 'k) auth_interceptor \<Rightarrow> ('v, 'l, 'k) auth_state \<Rightarrow> http_request \<Rightarrow>
   ('v, 'l, 'k) auth_state \<times> http_outcome option" where
  \<comment> \<open>\<open>None\<close>: the path does not apply\<close>
  "try_hydra_jwt a st r =
     (case ai_verify a of
        None \<Rightarrow> (st, None)
      | Some verify \<Rightarrow>
          (case cut_prefix (hget (req_header r) ''Authorization'') ''Bearer '' of
             None \<Rightarrow> (st, None)
           | Some tok \<Rightarrow>
               if \<not> is_asymmetric_jwt (ai_alg_of a) tok then (st, None)
               else (case verify (as_verifier st) tok of
                       (c', Inl _) \<Rightarrow>
                         (st\<lparr>as_verifier := c'\<rparr>, Some (Wrote (write_http_unauthorized ''token validation failed'')))
                     | (c', Inr vt) \<Rightarrow>
                         (let st1 = st\<lparr>as_verifier := c'\<rparr> in
                          case principal_from_verified_token vt of
                            Some p \<Rightarrow> (st1, Some (Served (set_principal_headers r p)))
                          | None \<Rightarrow>
                              if vt_subject vt = [] then
                                (st1, Some (Wrote (write_http_unauthorized ''token missing subject'')))
                              else (let (l', s) = ai_lookup a (as_lookup st1) (vt_subject vt) in
                                    (st1\<lparr>as_lookup := l'\<rparr>,
                                     Some (Served (case s of Inl _ \<Rightarrow> r | Inr subj \<Rightarrow> set_principal_headers r subj))))))))"

definition try_dev_secret_jwt ::
  "('v, 'l, 'k) auth_interceptor \<Rightarrow> ('v, 'l, 'k) auth_state \<Rightarrow> http_request \<Rightarrow>
   ('v, 'l, 'k) auth_state \<times> http_request \<times> http_outcome option" where
  \<comment> \<open>\<open>None\<close>: the caller serves the request, whose headers may have been set\<close>
  "try_dev_secret_jwt a st r =
     (if hget (req_header r) ''Authorization'' = [] \<or> ai_dev_secret a = [] then (st, r, None)
      else case cut_prefix (hget (req_header r) ''Authorization'') ''Bearer '' of
        None \<Rightarrow> (st, r, None)
      | Some tok \<Rightarrow>
          (case validate_jwt a tok of
             Inl _ \<Rightarrow> (st, r, Some (Wrote (write_http_unauthorized ''token validation failed'')))
           | Inr cl \<Rightarrow>
               if str_claim cl ''sub'' = [] then
                 (st, r, Some (Wrote (write_http_unauthorized ''token missing subject'')))
               else (case service_account_of_claims cl of
                       Some p \<Rightarrow> (st, r, Some (Served (set_principal_headers r p)))
                     | None \<Rightarrow>
                         (let (l', s) = ai_lookup a (as_lookup st) (str_claim cl ''sub'') in
                          (st\<lparr>as_lookup := l'\<rparr>,
                           (case s of Inl _ \<Rightarrow> r | Inr subj \<Rightarrow> set_principal_headers r subj), None)))))"

definition auth_http ::
  "('v, 'l, 'k) auth_interceptor \<Rightarrow> ('v, 'l, 'k) auth_state \<Rightarrow> http_request \<Rightarrow>
   ('v, 'l, 'k) auth_state \<times> http_outcome" where
  "auth_http a st r0 =
     (case try_kratos_session a st (strip_forgeable_identity_headers r0) of
        (st1, r1, injected) \<Rightarrow>
          (let r2 = rewrite_cookie_to_bearer r1 in
           if injected then (st1, Served r2)
           else (case try_hydra_jwt a st1 r2 of
                   (st2, Some out) \<Rightarrow> (st2, out)
                 | (st2, None) \<Rightarrow>
                     (case try_dev_secret_jwt a st2 r2 of
                        (st3, _, Some out) \<Rightarrow> (st3, out)
                      | (st3, r3, None) \<Rightarrow> (st3, Served r3)))))"

section \<open>Where a principal may come from\<close>

inductive credential ::
  "(string \<Rightarrow> verified_token \<Rightarrow> bool) \<Rightarrow> ('v, 'l, 'k) auth_interceptor \<Rightarrow> string \<Rightarrow> subject option \<Rightarrow> string \<Rightarrow> bool"
  for authentic a tok where
  \<comment> \<open>a bearer token that is valid, the principal that it states itself, and its subject\<close>
  verified: "authentic tok vt \<Longrightarrow> credential authentic a tok (principal_from_verified_token vt) (vt_subject vt)"
| development: "ai_mode a = AuthModeDev \<Longrightarrow> ai_dev_secret a \<noteq> [] \<Longrightarrow>
    ai_parse a (\<lambda>alg. if alg \<in> set hmac_algs then Some (ai_dev_secret a) else None) tok = Some (cl, True) \<Longrightarrow>
    str_claim cl ''sub'' \<noteq> [] \<Longrightarrow>
    credential authentic a tok (service_account_of_claims cl) (str_claim cl ''sub'')"

definition token_principal ::
  "(string \<Rightarrow> verified_token \<Rightarrow> bool) \<Rightarrow> (string \<Rightarrow> subject \<Rightarrow> bool) \<Rightarrow> ('v, 'l, 'k) auth_interceptor \<Rightarrow>
   string \<Rightarrow> subject \<Rightarrow> bool" where
  \<comment> \<open>the principal of a valid token: the one it states, else the directory's entry for its subject\<close>
  "token_principal authentic known a tok p \<longleftrightarrow>
     (\<exists>sub. credential authentic a tok (Some p) sub) \<or>
     (\<exists>sub. credential authentic a tok None sub \<and> sub \<noteq> [] \<and> known sub p)"

inductive peer_identity :: "certificate option list list option \<Rightarrow> subject \<Rightarrow> bool" where
  \<comment> \<open>the workload named by a URI of the leaf of a verified chain\<close>
  "verified_leaf css = Some leaf \<Longrightarrow> uri \<in> set (cert_uris leaf) \<Longrightarrow>
   uri = ''spiffe://kacho.cloud/ns/'' @ ns @ ''/sa/'' @ sa \<Longrightarrow> sa \<noteq> [] \<Longrightarrow> CHR ''/'' \<notin> set sa \<Longrightarrow>
   peer_identity (Some css) \<lparr>subject_type = ''service_account'', subject_id = sa, subject_display = sa\<rparr>"

lemma cut_sub_Some: "cut_sub sep s = Some (b, a) \<Longrightarrow> s = b @ sep @ a"
proof (induction sep s arbitrary: b a rule: cut_sub.induct)
  case (2 sep c s)
  then show ?case
    by (auto simp: has_prefix_iff split: if_splits)
qed (simp split: if_splits)

lemma sa_from_spiffe_Some:
  assumes "sa_from_spiffe uri = Some sa"
  shows "\<exists>ns. uri = ''spiffe://kacho.cloud/ns/'' @ ns @ ''/sa/'' @ sa \<and> sa \<noteq> [] \<and> CHR ''/'' \<notin> set sa"
proof -
  from assms obtain rest b where "cut_prefix uri ''spiffe://kacho.cloud/ns/'' = Some rest"
    "cut_sub ''/sa/'' rest = Some (b, sa)" "sa \<noteq> []" "\<not> contains_sub sa ''/''"
    unfolding sa_from_spiffe_def by (auto split: option.splits if_splits)
  then have "uri = ''spiffe://kacho.cloud/ns/'' @ b @ ''/sa/'' @ sa"
    using cut_sub_Some [of "''/sa/''" rest b sa] by (simp only: cut_prefix_Some append_assoc)
  moreover have "CHR ''/'' \<notin> set sa"
    using \<open>\<not> contains_sub sa ''/''\<close> by (auto simp: contains_sub_iff dest!: split_list)
  ultimately show ?thesis
    using \<open>sa \<noteq> []\<close> by blast
qed

lemma map_filter_Cons:
  assumes "List.map_filter f xs = y # ys"
  shows "\<exists>x \<in> set xs. f x = Some y"
proof -
  have "y \<in> set (List.map_filter f xs)"
    using assms by simp
  then show ?thesis
    by (force simp: map_filter_def)
qed

lemma peer_principal_Some:
  assumes "peer_principal a ctx = Some p"
  shows "ai_mtls_principal a \<and> peer_identity (ac_peer ctx) p"
proof -
  from assms obtain css leaf uri sa where
    "ai_mtls_principal a" "ac_peer ctx = Some css" "verified_leaf css = Some leaf"
    "uri \<in> set (cert_uris leaf)" "sa_from_spiffe uri = Some sa"
    "p = \<lparr>subject_type = ''service_account'', subject_id = sa, subject_display = sa\<rparr>"
    unfolding peer_principal_def principal_from_verified_peer_def
    by (auto dest: map_filter_Cons split: if_splits option.splits list.splits)
  then show ?thesis
    using sa_from_spiffe_Some [of uri sa] peer_identity.intros [of css leaf uri] by auto
qed

lemma validate_jwt_Inr:
  "validate_jwt a tok = Inr cl \<longleftrightarrow>
     ai_mode a = AuthModeDev \<and> ai_dev_secret a \<noteq> [] \<and>
     ai_parse a (\<lambda>alg. if alg \<in> set hmac_algs then Some (ai_dev_secret a) else None) tok = Some (cl, True)"
  by (auto simp: validate_jwt_def split: option.splits)

lemma strip_incoming_frame [simp]:
  "ac_peer (strip_incoming ctx) = ac_peer ctx" "outgoing_md (strip_incoming ctx) = outgoing_md ctx"
  by (auto simp: strip_incoming_def split: option.splits)

lemma strip_incoming_md:
  "incoming_md (strip_incoming ctx) =
     map_option (filter (\<lambda>kv. \<not> is_client_forgeable_identity_header (to_lower (fst kv)))) (incoming_md ctx)"
  by (auto simp: strip_incoming_def case_prod_unfold list_ex_iff intro!: filter_True [symmetric] split: option.splits)

lemma identity_keys_distinct:
  "to_lower MetaPrincipalType = MetaPrincipalType" "to_lower MetaPrincipalID = MetaPrincipalID"
  "to_lower MetaPrincipalDisplay = MetaPrincipalDisplay"
  "is_client_forgeable_identity_header MetaPrincipalType" "is_client_forgeable_identity_header MetaPrincipalID"
  "is_client_forgeable_identity_header MetaPrincipalDisplay"
  by code_simp+

lemma md_set_principal_get:
  "md_get (md_set_principal md p) MetaPrincipalType = [subject_type p]"
  "md_get (md_set_principal md p) MetaPrincipalID = [subject_id p]"
  "md_get (md_set_principal md p) MetaPrincipalDisplay = [subject_display p]"
  by (simp_all add: md_set_principal_def md_get_md_set identity_keys_distinct)

lemma md_set_principal_other:
  "k \<notin> {MetaPrincipalType, MetaPrincipalID, MetaPrincipalDisplay} \<Longrightarrow>
     map_of (md_set_principal md p) k = (case md of None \<Rightarrow> None | Some m \<Rightarrow> map_of m k)"
  by (simp add: md_set_principal_def md_set_def identity_keys_distinct update_conv split: option.splits)

definition carries :: "'c auth_ctx_scheme \<Rightarrow> subject \<Rightarrow> bool" where
  \<comment> \<open>the context, the incoming and the outgoing metadata all name this principal\<close>
  "carries ctx p \<longleftrightarrow> ac_principal ctx = Some p \<and>
     (\<exists>m m'. incoming_md ctx = Some m \<and> outgoing_md ctx = Some m' \<and>
        (\<forall>x \<in> {m, m'}. md_get x MetaPrincipalType = [subject_type p] \<and> md_get x MetaPrincipalID = [subject_id p] \<and>
           md_get x MetaPrincipalDisplay = [subject_display p]))"

lemma carries_inject [simp]: "carries (inject_principal ctx p) p"
  by (simp add: carries_def inject_principal_def md_set_principal_get)

section \<open>The interceptor over its ports\<close>

locale auth_ports = token_verifier verify authentic + subject_lookuper inv lookup known
  for verify :: "'v \<Rightarrow> string \<Rightarrow> 'v \<times> (jwt_error + verified_token)" and authentic
    and inv :: "'l \<Rightarrow> bool" and lookup known +
  fixes a :: "('v, 'l, 'k) auth_interceptor"
  assumes verify_port: "ai_verify a \<in> {None, Some verify}"
    and lookup_port: "ai_lookup a = lookup"
begin

lemma via_lookup_outcome:
  assumes "authorize_via_lookup a st ctx sub = (st', Inr ctx')" "inv (as_lookup st)"
  shows "inv (as_lookup st') \<and> sub \<noteq> [] \<and>
    (ctx' = inject_anonymous ctx \<and> ai_mode a \<notin> {AuthModeProduction, AuthModeProductionStrict} \<or>
     (\<exists>p. known sub p \<and> ctx' = inject_principal ctx p))"
  using assms lookup_inv [OF assms(2), of sub] lookup_known [OF assms(2), of sub]
  by (auto simp: authorize_via_lookup_def lookup_port Let_def
      split: if_splits prod.splits sum.splits)

lemma hmac_outcome:
  assumes "authorize_hmac a st ctx tok = (st', Inr ctx')" "inv (as_lookup st)"
  shows "inv (as_lookup st') \<and> ai_mode a = AuthModeDev \<and>
    (ctx' = inject_anonymous ctx \<and> (\<exists>sub. credential authentic a tok None sub) \<or>
     (\<exists>p. token_principal authentic known a tok p \<and> ctx' = inject_principal ctx p))"
proof -
  obtain cl where cl: "validate_jwt a tok = Inr cl" "str_claim cl ''sub'' \<noteq> []"
    using assms(1) by (auto simp: authorize_hmac_def split: sum.splits if_splits)
  then have cred: "credential authentic a tok (service_account_of_claims cl) (str_claim cl ''sub'')"
    by (intro credential.development) (auto simp: validate_jwt_Inr)
  show ?thesis
  proof (cases "service_account_of_claims cl")
    case None
    then have "authorize_via_lookup a st ctx (str_claim cl ''sub'') = (st', Inr ctx')"
      using assms(1) cl by (simp add: authorize_hmac_def)
    from via_lookup_outcome [OF this assms(2)] cl(1) cred None show ?thesis
      by (auto simp: token_principal_def validate_jwt_Inr)
  next
    case (Some p)
    then show ?thesis
      using assms cl cred by (auto simp: authorize_hmac_def token_principal_def validate_jwt_Inr)
  qed
qed

lemma jwks_outcome:
  assumes "authorize_jwks a verify st ctx tok = (st', Inr ctx')" "inv (as_lookup st)"
  shows "inv (as_lookup st') \<and>
    (ctx' = inject_anonymous ctx \<and> (\<exists>sub. credential authentic a tok None sub) \<and>
       ai_mode a \<notin> {AuthModeProduction, AuthModeProductionStrict} \<or>
     (\<exists>p. token_principal authentic known a tok p \<and> ctx' = inject_principal ctx p))"
proof -
  obtain c' vt where v: "verify (as_verifier st) tok = (c', Inr vt)"
    using assms(1) by (auto simp: authorize_jwks_def split: prod.splits sum.splits)
  then have cred: "credential authentic a tok (principal_from_verified_token vt) (vt_subject vt)"
    by (intro credential.verified verify_authentic)
  show ?thesis
  proof (cases "principal_from_verified_token vt")
    case None
    then have "authorize_via_lookup a (st\<lparr>as_verifier := c'\<rparr>) ctx (vt_subject vt) = (st', Inr ctx')"
      using assms(1) v by (simp add: authorize_jwks_def)
    from via_lookup_outcome [OF this] assms(2) cred None show ?thesis
      by (auto simp: token_principal_def)
  next
    case (Some p)
    then show ?thesis
      using assms v cred by (auto simp: authorize_jwks_def token_principal_def)
  qed
qed

lemma authorize_outcome:
  assumes "authorize a st ctx = (st', Inr ctx')" "inv (as_lookup st)"
  defines "tok \<equiv> extract_bearer (incoming_md (strip_incoming ctx))"
  shows "inv (as_lookup st') \<and>
    (\<exists>p. ctx' = inject_principal (strip_incoming ctx) p \<and>
       (ai_mtls_principal a \<and> peer_identity (ac_peer ctx) p \<or>
        tok \<noteq> [] \<and> token_principal authentic known a tok p \<or>
        p = anonymous \<and> tok = [] \<and> ai_mode a \<noteq> AuthModeProductionStrict \<or>
        p = anonymous \<and> (\<exists>sub. credential authentic a tok None sub) \<and>
          ai_mode a \<notin> {AuthModeProduction, AuthModeProductionStrict}))"
proof (cases "peer_principal a (strip_incoming ctx)")
  case (Some p)
  then show ?thesis
    using assms peer_principal_Some [OF Some] by (auto simp: authorize_def)
next
  case None
  show ?thesis
  proof (cases "tok = []")
    case True
    then show ?thesis
      using assms None by (auto simp: authorize_def inject_anonymous_def split: if_splits)
  next
    case tok: False
    show ?thesis
    proof (cases "ai_verify a \<noteq> None \<and> is_asymmetric_jwt (ai_alg_of a) tok")
      case True
      then have "authorize_jwks a verify st (strip_incoming ctx) tok = (st', Inr ctx')"
        using assms None tok verify_port by (auto simp: authorize_def Let_def)
      from jwks_outcome [OF this assms(2)] tok show ?thesis
        by (auto simp: inject_anonymous_def)
    next
      case False
      then have "authorize_hmac a st (strip_incoming ctx) tok = (st', Inr ctx')"
        using assms None tok by (auto simp: authorize_def Let_def split: option.splits)
      from hmac_outcome [OF this assms(2)] tok show ?thesis
        by (auto simp: inject_anonymous_def)
    qed
  qed
qed

end

section \<open>REST headers\<close>

definition identity_headers :: "string list" where
  "identity_headers = header_names @ map header_grpc_meta header_names"

definition token_headers :: "string list" where
  "token_headers = (let ts = [HeaderTokenACR, HeaderTokenJti, HeaderTokenScope, HeaderTokenExp]
     in ts @ map header_grpc_meta ts)"

definition rest_carries :: "http_request \<Rightarrow> subject \<Rightarrow> bool" where
  \<comment> \<open>the principal headers, in both forms, name this principal\<close>
  "rest_carries r p \<longleftrightarrow> (\<forall>(h, v) \<in> set (principal_headers p). hget (req_header r) h = v)"

definition rest_clean :: "http_request \<Rightarrow> bool" where
  \<comment> \<open>no identity header, of the principal or of the token, has a value\<close>
  "rest_clean r \<longleftrightarrow> (\<forall>h \<in> set identity_headers. hget (req_header r) h = [])"

definition rest_token_clean :: "http_request \<Rightarrow> bool" where
  "rest_token_clean r \<longleftrightarrow> (\<forall>h \<in> set token_headers. hget (req_header r) h = [])"

lemma identity_headers_canonical:
  "list_all (\<lambda>h. canonical_key h = h \<and> is_client_forgeable_identity_header (to_lower h)) identity_headers"
  by code_simp

lemma token_headers_facts:
  "set token_headers \<subseteq> set identity_headers" "list_all (\<lambda>h. canonical_key h = h) token_headers"
  "set token_headers \<inter> fst ` set (principal_headers p) = {}"
  by (simp add: token_headers_def identity_headers_def header_names_def, code_simp,
      simp add: token_headers_def principal_headers_def header_grpc_meta_def)

lemma principal_headers_facts:
  "\<forall>(h, v) \<in> set (principal_headers p). canonical_key h = h" "distinct (map fst (principal_headers p))"
proof -
  have "canonical_key HeaderPrincipalType = HeaderPrincipalType \<and> canonical_key HeaderPrincipalID = HeaderPrincipalID \<and>
    canonical_key HeaderPrincipalDisplay = HeaderPrincipalDisplay \<and>
    canonical_key (header_grpc_meta HeaderPrincipalType) = header_grpc_meta HeaderPrincipalType \<and>
    canonical_key (header_grpc_meta HeaderPrincipalID) = header_grpc_meta HeaderPrincipalID \<and>
    canonical_key (header_grpc_meta HeaderPrincipalDisplay) = header_grpc_meta HeaderPrincipalDisplay"
    by code_simp
  then show "\<forall>(h, v) \<in> set (principal_headers p). canonical_key h = h"
    by (simp add: principal_headers_def)
  show "distinct (map fst (principal_headers p))"
    by (simp add: principal_headers_def header_grpc_meta_def)
qed

lemma hget_set_headers:
  assumes "\<forall>(h, v) \<in> set kvs. canonical_key h = h" "canonical_key k = k" "distinct (map fst kvs)"
  shows "hget (req_header (set_headers r kvs)) k =
    (case map_of kvs k of Some v \<Rightarrow> v | None \<Rightarrow> hget (req_header r) k)"
proof -
  have "hget (foldl (\<lambda>h (k, v). hset h k v) hd0 kvs) k = (case map_of kvs k of Some v \<Rightarrow> v | None \<Rightarrow> hget hd0 k)"
    for hd0
    using assms
  proof (induction kvs arbitrary: hd0)
    case (Cons kv kvs)
    then show ?case
      by (cases kv) (auto simp: hget_hset map_of_eq_None_iff split: option.splits intro: rev_image_eqI)
  qed simp
  then show ?thesis
    by (simp add: set_headers_def)
qed

lemma set_principal_carries: "rest_carries (set_principal_headers r p) p"
proof -
  have "hget (req_header (set_headers r (principal_headers p))) h = v" if "(h, v) \<in> set (principal_headers p)" for h v
  proof -
    have "canonical_key h = h" "map_of (principal_headers p) h = Some v"
      using that principal_headers_facts [of p] by (auto simp: map_of_eq_Some_iff)
    then show ?thesis
      using principal_headers_facts [of p] by (simp add: hget_set_headers)
  qed
  then show ?thesis
    by (auto simp: rest_carries_def set_principal_headers_def)
qed

lemma set_principal_token_clean: "rest_token_clean r \<Longrightarrow> rest_token_clean (set_principal_headers r p)"
proof -
  assume clean: "rest_token_clean r"
  have "hget (req_header (set_principal_headers r p)) h = []" if "h \<in> set token_headers" for h
  proof -
    have "canonical_key h = h" "map_of (principal_headers p) h = None"
      using that token_headers_facts(2) token_headers_facts(3) [of p] by (auto simp: list_all_iff map_of_eq_None_iff)
    then show ?thesis
      using clean that principal_headers_facts [of p]
      by (simp add: set_principal_headers_def hget_set_headers rest_token_clean_def)
  qed
  then show ?thesis by (simp add: rest_token_clean_def)
qed

lemma clean_token_clean: "rest_clean r \<Longrightarrow> rest_token_clean r"
  using token_headers_facts(1) by (auto simp: rest_clean_def rest_token_clean_def)

lemma strip_headers_get:
  assumes "\<forall>k \<in> set ks. canonical_key k = k"
  shows "map_of (foldl (\<lambda>h k. if is_client_forgeable_identity_header (to_lower k) then hdel h k else h) h ks) k =
    (if k \<in> set ks \<and> is_client_forgeable_identity_header (to_lower k) then None else map_of h k)"
  using assms
proof (induction ks arbitrary: h)
  case (Cons k' ks)
  then show ?case
    by (auto simp: hdel_def delete_conv)
qed simp

definition canonical_headers :: "http_request \<Rightarrow> bool" where
  \<comment> \<open>what the HTTP server guarantees of the headers it has read\<close>
  "canonical_headers r \<longleftrightarrow> (\<forall>k \<in> fst ` set (req_header r). canonical_key k = k)"

lemma strip_clean:
  assumes "canonical_headers r"
  shows "rest_clean (strip_forgeable_identity_headers r)"
proof -
  have "hget (req_header (strip_forgeable_identity_headers r)) h = []" if "h \<in> set identity_headers" for h
  proof -
    have "canonical_key h = h" "is_client_forgeable_identity_header (to_lower h)"
      using that identity_headers_canonical by (auto simp: list_all_iff)
    moreover have "map_of (req_header r) h = None" if "h \<notin> fst ` set (req_header r)"
      using that by (simp add: map_of_eq_None_iff)
    ultimately show ?thesis
      using assms
      by (auto simp: hget_def strip_forgeable_identity_headers_def strip_headers_get canonical_headers_def)
  qed
  then show ?thesis by (simp add: rest_clean_def)
qed

lemma authorization_not_identity:
  "canonical_key ''Authorization'' = ''Authorization''" "''Authorization'' \<notin> set identity_headers"
  "''Authorization'' \<notin> fst ` set (principal_headers p)"
  by (code_simp, code_simp, simp add: principal_headers_def header_grpc_meta_def)

lemma rewrite_cookie_get:
  "h \<in> set identity_headers \<Longrightarrow> hget (req_header (rewrite_cookie_to_bearer r)) h = hget (req_header r) h"
proof -
  assume h: "h \<in> set identity_headers"
  then have "canonical_key h = h" "h \<noteq> ''Authorization''"
    using identity_headers_canonical authorization_not_identity(2) by (auto simp: list_all_iff)
  then show ?thesis
    by (auto simp: rewrite_cookie_to_bearer_def hget_set_headers authorization_not_identity(1) split: option.splits)
qed

lemma principal_names_identity: "fst ` set (principal_headers p) \<subseteq> set identity_headers"
  by (simp add: principal_headers_def identity_headers_def header_names_def)

lemma rewrite_cookie_keeps [simp]:
  "rest_clean (rewrite_cookie_to_bearer r) = rest_clean r"
  "rest_token_clean (rewrite_cookie_to_bearer r) = rest_token_clean r"
  "rest_carries (rewrite_cookie_to_bearer r) p = rest_carries r p"
proof -
  show "rest_clean (rewrite_cookie_to_bearer r) = rest_clean r"
    by (simp add: rest_clean_def rewrite_cookie_get)
  show "rest_token_clean (rewrite_cookie_to_bearer r) = rest_token_clean r"
    using token_headers_facts(1) by (simp add: rest_token_clean_def rewrite_cookie_get subset_iff)
  have "(h, v) \<in> set (principal_headers p) \<Longrightarrow>
      hget (req_header (rewrite_cookie_to_bearer r)) h = hget (req_header r) h" for h v
    using principal_names_identity [of p] by (intro rewrite_cookie_get) force
  then show "rest_carries (rewrite_cookie_to_bearer r) p = rest_carries r p"
    unfolding rest_carries_def by (intro ball_cong) auto
qed

section \<open>The REST flow over its ports\<close>

definition session_principal ::
  "(string \<Rightarrow> subject \<Rightarrow> bool) \<Rightarrow> ('v, 'l, 'k) auth_interceptor \<Rightarrow> http_request \<Rightarrow> subject \<Rightarrow> bool" where
  \<comment> \<open>the directory's entry for the identity of an active Kratos session of the request's cookie\<close>
  "session_principal known a r p \<longleftrightarrow>
     (\<exists>whoami k res. ai_whoami a = Some whoami \<and> snd (whoami k (hget (req_header r) ''Cookie'')) = res \<and>
        who_active res \<and> who_identity res \<noteq> [] \<and> known (who_identity res) p)"

definition rest_token :: "http_request \<Rightarrow> string option" where
  \<comment> \<open>the bearer token that the REST flow looks at, from the header or else from the cookie\<close>
  "rest_token r = cut_prefix (hget (req_header (rewrite_cookie_to_bearer r)) ''Authorization'') ''Bearer ''"

definition rest_result ::
  "(string \<Rightarrow> verified_token \<Rightarrow> bool) \<Rightarrow> (string \<Rightarrow> subject \<Rightarrow> bool) \<Rightarrow> ('v, 'l, 'k) auth_interceptor \<Rightarrow>
   http_request \<Rightarrow> http_request \<Rightarrow> bool" where
  \<comment> \<open>what is served for a request without forged headers\<close>
  "rest_result authentic known a r r' \<longleftrightarrow> rest_token_clean r' \<and>
     (rest_clean r' \<or>
      (\<exists>p. rest_carries r' p \<and>
         (session_principal known a r p \<or>
          (\<exists>tok. rest_token r = Some tok \<and> token_principal authentic known a tok p))))"

locale rest_ports = auth_ports verify authentic inv lookup known a + kratos_lookuper inv lookup known klookup
  for verify :: "'v \<Rightarrow> string \<Rightarrow> 'v \<times> (jwt_error + verified_token)" and authentic
    and inv :: "'l \<Rightarrow> bool" and lookup known and a :: "('v, 'l, 'k) auth_interceptor" and klookup +
  assumes klookup_port: "ai_kratos_lookup a \<in> {None, Some klookup}"
begin

lemma kratos_outcome:
  assumes "try_kratos_session a st r = (st', r', injected)" "inv (as_lookup st)"
  shows "inv (as_lookup st') \<and>
    (\<not> injected \<and> r' = r \<or> injected \<and> (\<exists>p. session_principal known a r p \<and> r' = set_principal_headers r p))"
proof (cases "ai_whoami a")
  case None
  then show ?thesis using assms by (simp add: try_kratos_session_def)
next
  case (Some whoami)
  let ?cookie = "hget (req_header r) ''Cookie''"
  obtain k' res where w: "whoami (as_kratos st) ?cookie = (k', res)"
    by fastforce
  define l where "l = (case ai_kratos_lookup a of
      Some kl \<Rightarrow> kl (as_lookup st) (who_identity res) (who_email res) (who_display res)
    | None \<Rightarrow> ai_lookup a (as_lookup st) (who_identity res))"
  have "l \<in> {lookup (as_lookup st) (who_identity res),
      klookup (as_lookup st) (who_identity res) (who_email res) (who_display res)}"
    using klookup_port lookup_port by (auto simp: l_def)
  from session_found [OF assms(2) this] have l: "inv (fst l)" "\<And>s. snd l = Inr s \<Longrightarrow> known (who_identity res) s"
    by auto
  show ?thesis
  proof (cases "contains_sub ?cookie ''ory_kratos_session'' \<and> who_active res \<and> who_identity res \<noteq> []")
    case False
    then have "try_kratos_session a st r = (st, r, False) \<or>
        try_kratos_session a st r = (st\<lparr>as_kratos := k'\<rparr>, r, False)"
      using Some w by (simp add: try_kratos_session_def Let_def)
    then show ?thesis
      using assms by auto
  next
    case True
    obtain l' s where ls: "l = (l', s)" by fastforce
    have run: "try_kratos_session a st r = (st\<lparr>as_kratos := k', as_lookup := l'\<rparr>,
        case s of Inl _ \<Rightarrow> (r, False) | Inr subj \<Rightarrow> (set_principal_headers r subj, True))"
      using Some w True ls unfolding l_def
      by (cases s; cases "ai_kratos_lookup a") (simp_all add: try_kratos_session_def Let_def)
    have "session_principal known a r subj" if "s = Inr subj" for subj
      unfolding session_principal_def using Some w True l(2) ls that by (metis snd_conv)
    then show ?thesis
      using run assms(1) l(1) ls by (auto split: sum.splits)
  qed
qed

lemma hydra_outcome:
  assumes "try_hydra_jwt a st r2 = (st', out)" "inv (as_lookup st)"
    and "cut_prefix (hget (req_header r2) ''Authorization'') ''Bearer '' = bearer"
  shows "inv (as_lookup st') \<and>
    (\<forall>r'. out = Some (Served r') \<longrightarrow>
       r' = r2 \<or> (\<exists>tok p. bearer = Some tok \<and> token_principal authentic known a tok p \<and> r' = set_principal_headers r2 p))"
proof (cases "ai_verify a")
  case None
  then show ?thesis using assms by (simp add: try_hydra_jwt_def)
next
  case (Some v)
  then have v: "v = verify" using verify_port by auto
  show ?thesis
  proof (cases bearer)
    case (Some tok)
    obtain c' r where ver: "verify (as_verifier st) tok = (c', r)" by fastforce
    have cred: "r = Inr vt \<Longrightarrow> credential authentic a tok (principal_from_verified_token vt) (vt_subject vt)" for vt
      using ver verify_authentic by (intro credential.verified) simp
    have lk: "inv (fst (lookup (as_lookup st) i))"
      "snd (lookup (as_lookup st) i) = Inr s \<Longrightarrow> known i s" for i s
      using lookup_inv lookup_known assms(2) by auto
    show ?thesis
    proof (cases r)
      case (Inl e)
      then show ?thesis
        using assms \<open>ai_verify a = Some v\<close> v Some ver by (auto simp: try_hydra_jwt_def split: if_splits)
    next
      case (Inr vt)
      from cred [OF Inr] show ?thesis
        using assms \<open>ai_verify a = Some v\<close> v Some ver Inr lk [of "vt_subject vt"]
        by (auto simp: try_hydra_jwt_def token_principal_def lookup_port Let_def
            split: if_splits option.splits prod.splits sum.splits)
    qed
  qed (use assms \<open>ai_verify a = Some v\<close> in \<open>simp add: try_hydra_jwt_def\<close>)
qed

lemma dev_outcome:
  assumes "try_dev_secret_jwt a st r2 = (st', r3, out)" "inv (as_lookup st)"
    and "cut_prefix (hget (req_header r2) ''Authorization'') ''Bearer '' = bearer"
  shows "inv (as_lookup st') \<and>
    (\<forall>r'. (case out of None \<Rightarrow> Served r3 | Some x \<Rightarrow> x) = Served r' \<longrightarrow>
       r' = r2 \<or> (\<exists>tok p. bearer = Some tok \<and> token_principal authentic known a tok p \<and> r' = set_principal_headers r2 p))"
proof -
  have cred: "credential authentic a tok (service_account_of_claims cl) (str_claim cl ''sub'')"
    if "validate_jwt a tok = Inr cl" "str_claim cl ''sub'' \<noteq> []" for tok cl
    using that by (intro credential.development) (auto simp: validate_jwt_Inr)
  have lk: "inv (fst (lookup (as_lookup st) i))" "snd (lookup (as_lookup st) i) = Inr s \<Longrightarrow> known i s" for i s
    using lookup_inv lookup_known assms(2) by auto
  show ?thesis
  proof (cases "hget (req_header r2) ''Authorization'' = [] \<or> ai_dev_secret a = [] \<or> bearer = None")
    case False
    then obtain tok where tok: "bearer = Some tok" by blast
    show ?thesis
    proof (cases "validate_jwt a tok")
      case (Inr cl)
      show ?thesis
      proof (cases "str_claim cl ''sub'' = []")
        case sub: False
        show ?thesis
        proof (cases "service_account_of_claims cl")
          case None
          obtain l' s where ls: "lookup (as_lookup st) (str_claim cl ''sub'') = (l', s)" by fastforce
          then show ?thesis
            using assms False tok Inr sub None cred [OF Inr sub] lk [of "str_claim cl ''sub''"]
            by (auto simp: try_dev_secret_jwt_def token_principal_def lookup_port split: sum.splits)
        next
          case (Some p)
          then show ?thesis
            using assms False tok Inr sub cred [OF Inr sub]
            by (auto simp: try_dev_secret_jwt_def token_principal_def)
        qed
      qed (use assms False tok Inr in \<open>auto simp: try_dev_secret_jwt_def\<close>)
    qed (use assms False tok in \<open>auto simp: try_dev_secret_jwt_def\<close>)
  qed (use assms in \<open>auto simp: try_dev_secret_jwt_def split: option.splits\<close>)
qed

lemma http_outcome:
  assumes "auth_http a st r0 = (st', Served r')" "inv (as_lookup st)" "canonical_headers r0"
  shows "inv (as_lookup st') \<and> rest_result authentic known a (strip_forgeable_identity_headers r0) r'"
proof -
  let ?r = "strip_forgeable_identity_headers r0"
  have clean: "rest_clean ?r" by (rule strip_clean [OF assms(3)])
  note keep = clean clean_token_clean [OF clean] set_principal_token_clean [OF clean_token_clean [OF clean]]
  obtain st1 r1 injected where k: "try_kratos_session a st ?r = (st1, r1, injected)"
    by (metis prod_cases3)
  note k' = kratos_outcome [OF k assms(2)]
  show ?thesis
  proof (cases injected)
    case True
    then obtain p where "session_principal known a ?r p" "r1 = set_principal_headers ?r p"
      using k' by blast
    then show ?thesis
      using assms(1) k k' True keep set_principal_carries [of ?r p]
      by (auto simp: auth_http_def rest_result_def)
  next
    case False
    then have r1: "r1 = ?r" "inv (as_lookup st1)" using k' by auto
    let ?r2 = "rewrite_cookie_to_bearer ?r"
    have tok: "cut_prefix (hget (req_header ?r2) ''Authorization'') ''Bearer '' = rest_token ?r"
      by (simp add: rest_token_def)
    obtain st2 out where h: "try_hydra_jwt a st1 ?r2 = (st2, out)" by fastforce
    note h' = hydra_outcome [OF h r1(2) tok]
    obtain st3 r3 out3 where d: "try_dev_secret_jwt a st2 ?r2 = (st3, r3, out3)" by (metis prod_cases3)
    have d': "inv (as_lookup st2) \<Longrightarrow> inv (as_lookup st3) \<and>
      (\<forall>r'. (case out3 of None \<Rightarrow> Served r3 | Some x \<Rightarrow> x) = Served r' \<longrightarrow> r' = ?r2 \<or>
         (\<exists>tok p. rest_token ?r = Some tok \<and> token_principal authentic known a tok p \<and> r' = set_principal_headers ?r2 p))"
      by (rule dev_outcome [OF d _ tok])
    have "inv (as_lookup st') \<and> (r' = ?r2 \<or>
        (\<exists>tok p. rest_token ?r = Some tok \<and> token_principal authentic known a tok p \<and> r' = set_principal_headers ?r2 p))"
      using assms(1) k False r1 h h' d d' by (auto simp: auth_http_def split: option.splits)
    moreover have "rest_token_clean (set_principal_headers ?r2 p)" for p
      by (intro set_principal_token_clean) (simp add: keep)
    ultimately show ?thesis
      using keep set_principal_carries [of ?r2] by (auto simp: rest_result_def)
  qed
qed

end

section \<open>The interceptor as the gateway builds it\<close>

definition auth_interceptor_new ::
  "auth_mode \<Rightarrow> string \<Rightarrow> ('l \<Rightarrow> string \<Rightarrow> 'l \<times> (lookup_error + subject)) \<Rightarrow>
   ('l \<Rightarrow> string \<Rightarrow> string \<Rightarrow> string \<Rightarrow> 'l \<times> (lookup_error + subject)) option \<Rightarrow> (nat list \<Rightarrow> string option) \<Rightarrow>
   ((string \<Rightarrow> string option) \<Rightarrow> string \<Rightarrow> (claims \<times> bool) option) \<Rightarrow> ('v, 'l, 'k) auth_interceptor" where
  "auth_interceptor_new mode secret lookup klookup alg_of parse =
     \<lparr>ai_mode = mode, ai_dev_secret = secret, ai_lookup = lookup, ai_kratos_lookup = klookup,
      ai_whoami = None, ai_verify = None, ai_mtls_principal = False, ai_alg_of = alg_of, ai_parse = parse\<rparr>"

definition with_kratos ::
  "('v, 'l, 'k) auth_interceptor \<Rightarrow> ('k \<Rightarrow> string \<Rightarrow> 'k \<times> whoami) \<Rightarrow> ('v, 'l, 'k) auth_interceptor" where
  "with_kratos a c = a\<lparr>ai_whoami := Some c\<rparr>"

definition with_verifier ::
  "('v, 'l, 'k) auth_interceptor \<Rightarrow> ('v \<Rightarrow> string \<Rightarrow> 'v \<times> (jwt_error + verified_token)) \<Rightarrow>
   ('v, 'l, 'k) auth_interceptor" where
  "with_verifier a v = a\<lparr>ai_verify := Some v\<rparr>"

definition with_mtls_principal :: "('v, 'l, 'k) auth_interceptor \<Rightarrow> bool \<Rightarrow> ('v, 'l, 'k) auth_interceptor" where
  "with_mtls_principal a enable = a\<lparr>ai_mtls_principal := enable\<rparr>"

record 'k auth_setup =
  \<comment> \<open>the configuration and the environment of the interceptor: the JWT library, the verifier (\<open>None\<close>:
     it could not be built) with its key lookup, IAM's answers, the clock readings of the subject client\<close>
  su_mode :: auth_mode
  su_dev_secret :: string
  su_kratos_url :: string
  su_hybrid :: bool
  su_whoami :: "'k \<Rightarrow> string \<Rightarrow> 'k \<times> whoami"
  su_env :: jwt_env
  su_verifier :: "jwt_verifier option"
  su_keys :: "jwks_cache \<Rightarrow> string \<Rightarrow> jwks_cache \<times> (jwt_error + jwk)"
  su_alg_of :: "nat list \<Rightarrow> string option"
  su_parse :: "(string \<Rightarrow> string option) \<Rightarrow> string \<Rightarrow> (claims \<times> bool) option"
  su_iam :: iam_directory
  su_clock :: "nat \<Rightarrow> time \<times> time"
  su_upsert :: "code option"

definition gateway_auth :: "'k auth_setup \<Rightarrow> (jwks_cache, subject_cache, 'k) auth_interceptor" where
  "gateway_auth su =
     (let a0 = auth_interceptor_new (su_mode su) (su_dev_secret su) (iam_lookup (su_iam su) (su_clock su))
                 (Some (iam_kratos_lookup (su_iam su) (su_clock su) (su_upsert su))) (su_alg_of su) (su_parse su);
          a1 = (if su_kratos_url su \<noteq> ''disabled'' then with_kratos a0 (su_whoami su) else a0);
          a2 = (case su_verifier su of
                  None \<Rightarrow> a1
                | Some v \<Rightarrow> with_verifier a1 (\<lambda>c. jwt_verify (su_env su) v (su_keys su c) c))
      in if su_hybrid su then with_mtls_principal a2 True else a2)"

definition su_authentic :: "'k auth_setup \<Rightarrow> string \<Rightarrow> verified_token \<Rightarrow> bool" where
  \<comment> \<open>a token that the configured verifier vouches for; none without a verifier\<close>
  "su_authentic su tok t \<longleftrightarrow> (\<exists>v. su_verifier su = Some v \<and> jwt_authentic (su_env su) v tok t)"

definition su_verify :: "'k auth_setup \<Rightarrow> jwks_cache \<Rightarrow> string \<Rightarrow> jwks_cache \<times> (jwt_error + verified_token)" where
  "su_verify su c tok =
     (case su_verifier su of
        None \<Rightarrow> (c, Inl EmptyToken)
      | Some v \<Rightarrow> jwt_verify (su_env su) v (su_keys su c) c tok)"

lemma gateway_auth_fields:
  "ai_mode (gateway_auth su) = su_mode su" "ai_dev_secret (gateway_auth su) = su_dev_secret su"
  "ai_lookup (gateway_auth su) = iam_lookup (su_iam su) (su_clock su)"
  "ai_kratos_lookup (gateway_auth su) = Some (iam_kratos_lookup (su_iam su) (su_clock su) (su_upsert su))"
  "ai_alg_of (gateway_auth su) = su_alg_of su" "ai_parse (gateway_auth su) = su_parse su"
  "ai_mtls_principal (gateway_auth su) = su_hybrid su"
  "ai_verify (gateway_auth su) =
     map_option (\<lambda>v c. jwt_verify (su_env su) v (su_keys su c) c) (su_verifier su)"
  "ai_whoami (gateway_auth su) = (if su_kratos_url su \<noteq> ''disabled'' then Some (su_whoami su) else None)"
  by (simp_all add: gateway_auth_def auth_interceptor_new_def with_kratos_def with_verifier_def
      with_mtls_principal_def Let_def split: option.splits)

interpretation gw: rest_ports "su_verify su" "su_authentic su" "cache_holds (directory (su_iam su))"
  "iam_lookup (su_iam su) (su_clock su)" "directory (su_iam su)" "gateway_auth su"
  "iam_kratos_lookup (su_iam su) (su_clock su) (su_upsert su)" for su :: "'k auth_setup"
proof unfold_locales
  fix s tok s' t
  assume "su_verify su s tok = (s', Inr t)"
  then show "su_authentic su tok t"
    by (auto simp: su_verify_def su_authentic_def split: option.splits dest: jv.verify_authentic)
  then show "vt_raw t = tok"
    by (auto simp: su_authentic_def jwt_authentic_def)
next
  show "\<exists>e. snd (su_verify su s []) = Inl e" for s
    by (simp add: su_verify_def jwt_verify_def split: option.splits)
next
  have "su_verifier su = Some v \<Longrightarrow> (\<lambda>c. jwt_verify (su_env su) v (su_keys su c) c) = su_verify su" for v
    by (intro ext) (simp add: su_verify_def)
  then show "ai_verify (gateway_auth su) \<in> {None, Some (su_verify su)}"
    by (cases "su_verifier su") (auto simp: gateway_auth_fields)
qed (simp_all add: gateway_auth_fields)

lemma authorize_injects:
  "authorize a st ctx = (st', Inr ctx') \<Longrightarrow> \<exists>p. ctx' = inject_principal (strip_incoming ctx) p"
  by (auto simp: authorize_def authorize_jwks_def authorize_hmac_def authorize_via_lookup_def
      inject_anonymous_def Let_def split: option.splits if_splits prod.splits sum.splits)

lemma authorization_kept:
  "extract_bearer (incoming_md (strip_incoming ctx)) = extract_bearer (incoming_md ctx)"
proof (cases "incoming_md ctx")
  case (Some md)
  have "to_lower ''authorization'' = ''authorization''" "\<not> is_client_forgeable_identity_header ''authorization''"
    by code_simp+
  then have "md_get (filter (\<lambda>kv. \<not> is_client_forgeable_identity_header (to_lower (fst kv))) md) ''authorization'' =
      md_get md ''authorization''"
    using map_of_filter_key [of "\<lambda>k. \<not> is_client_forgeable_identity_header (to_lower k)" md "''authorization''"]
    by (simp add: md_get_def)
  then show ?thesis
    by (simp add: strip_incoming_md Some extract_bearer_def)
qed (simp add: strip_incoming_md)

lemma peer_principal_strip [simp]: "peer_principal a (strip_incoming ctx) = peer_principal a ctx"
  by (simp add: peer_principal_def)

section \<open>A concrete setup\<close>

definition demo_setup :: "string \<Rightarrow> kratos_client auth_setup" where
  "demo_setup mode = \<lparr>su_mode = mode, su_dev_secret = [], su_kratos_url = ''disabled'', su_hybrid = True,
     su_whoami = (\<lambda>k c. (k, whoami_zero)), su_env = demo_env, su_verifier = Some demo_verifier,
     su_keys = (\<lambda>c kid. jwks_resolve (\<lambda>c. c) c kid (Inl ErrJWKSUnreachable) second second second),
     su_alg_of = (\<lambda>raw. if raw = [] then Some ''HS256'' else Some ''EdDSA''), su_parse = (\<lambda>key tok. None),
     su_iam = (\<lambda>_ i. if i = ''u1'' then Inr (UserAnswer ''usr1'' [] ''a@b'') else Inl NotFound),
     su_clock = (\<lambda>_. (0, 0)), su_upsert = None\<rparr>"

definition demo_auth_state :: "(jwks_cache, subject_cache, kratos_client) auth_state" where
  "demo_auth_state = \<lparr>as_verifier = demo_jwks, as_lookup = subject_cache_new 2 0, as_kratos = kratos_new ''disabled''\<rparr>"

definition demo_ctx :: "string \<Rightarrow> auth_ctx" where
  "demo_ctx bearer = \<lparr>incoming_md = Some [(''authorization'', [''Bearer '' @ bearer]), (''x-request-id'', [''r1'']),
     (''x-kacho-principal-id'', [''root''])], outgoing_md = None, ac_principal = None, ac_peer = None\<rparr>"

definition demo_rest :: "string \<Rightarrow> http_request" where
  "demo_rest auth = \<lparr>req_method = ''GET'', req_path = ''/vpc/v1/networks'', req_query = [],
     req_header = [(''Authorization'', [auth]), (''X-Kacho-Principal-Id'', [''root''])], req_body = None,
     req_host = ''api'', req_remote = [], req_peer_certs = None, req_ctx = ctx_background\<rparr>"

section \<open>Properties\<close>

text \<open>
  C11: a gRPC call that passes the interceptor, as the gateway builds it, carries one principal in its
  context and in its incoming and outgoing metadata, and that principal is the workload of a verified
  client certificate (when the hybrid listener is enabled), the principal of a valid token, or the
  anonymous principal. A valid token is one the JWKS verifier vouches for, or an HMAC token in
  development mode; its principal is what it states, else what IAM answered for its subject. The
  principal is anonymous only without a bearer token outside strict mode, or for a valid token whose
  subject is not resolved outside both production modes: an invalid token never becomes anonymous.
\<close>

theorem grpc_principal_origin:
  assumes "authorize (gateway_auth su) st ctx = (st', Inr ctx')" "cache_holds (directory (su_iam su)) (as_lookup st)"
    and "tok = extract_bearer (incoming_md ctx)"
  shows "cache_holds (directory (su_iam su)) (as_lookup st') \<and>
    (\<exists>p. carries ctx' p \<and>
       (su_hybrid su \<and> peer_identity (ac_peer ctx) p \<or>
        tok \<noteq> [] \<and> token_principal (su_authentic su) (directory (su_iam su)) (gateway_auth su) tok p \<or>
        p = anonymous \<and> tok = [] \<and> su_mode su \<noteq> AuthModeProductionStrict \<or>
        p = anonymous \<and> (\<exists>sub. credential (su_authentic su) (gateway_auth su) tok None sub) \<and>
          su_mode su \<notin> {AuthModeProduction, AuthModeProductionStrict}))"
  using gw.authorize_outcome [OF assms(1,2)] carries_inject
  unfolding authorization_kept gateway_auth_fields assms(3) by blast

theorem grpc_principal_origin_witness:
  "\<exists>ctx' p. snd (authorize (gateway_auth (demo_setup AuthModeProduction)) demo_auth_state (demo_ctx ''e30.e30.AA'')) = Inr ctx' \<and>
     carries ctx' p \<and> token_principal (su_authentic (demo_setup AuthModeProduction))
       (directory (su_iam (demo_setup AuthModeProduction))) (gateway_auth (demo_setup AuthModeProduction)) ''e30.e30.AA'' p"
proof -
  let ?run = "authorize (gateway_auth (demo_setup AuthModeProduction)) demo_auth_state (demo_ctx ''e30.e30.AA'')"
  have "\<not> isl (snd ?run)"
    by code_simp
  then obtain ctx' where ctx': "snd ?run = Inr ctx'"
    by (cases "snd ?run") auto
  then have run: "?run = (fst ?run, Inr ctx')"
    by (metis prod.collapse)
  have "cache_holds (directory (su_iam (demo_setup AuthModeProduction))) (as_lookup demo_auth_state)"
    by (simp add: demo_auth_state_def subject_cache_new_def holds_new)
  moreover have "extract_bearer (incoming_md (demo_ctx ''e30.e30.AA'')) = ''e30.e30.AA''"
    by code_simp
  moreover have "\<not> peer_identity (ac_peer (demo_ctx ''e30.e30.AA'')) p" for p
    by (simp add: demo_ctx_def peer_identity.simps)
  moreover have "su_mode (demo_setup AuthModeProduction) = AuthModeProduction"
    by (simp add: demo_setup_def)
  ultimately show ?thesis
    using grpc_principal_origin [OF run _ refl] ctx' by force
qed

text \<open>
  Whatever a gRPC client sends as identity metadata, in any letter case, none of it is left in
  the context of the handler: an identity key there is one of the three principal keys, with the
  principal that the interceptor established, and every other key is as the client sent it.
\<close>

theorem grpc_forged_identity_stripped:
  assumes "authorize a st ctx = (st', Inr ctx')"
  shows "\<exists>p m. carries ctx' p \<and> incoming_md ctx' = Some m \<and>
    (\<forall>k. k \<notin> {MetaPrincipalType, MetaPrincipalID, MetaPrincipalDisplay} \<longrightarrow>
       map_of m k = (if is_client_forgeable_identity_header (to_lower k) then None
                     else case incoming_md ctx of None \<Rightarrow> None | Some m0 \<Rightarrow> map_of m0 k))"
proof -
  obtain p where p: "ctx' = inject_principal (strip_incoming ctx) p"
    using authorize_injects [OF assms] by blast
  let ?m = "md_set_principal (incoming_md (strip_incoming ctx)) p"
  have "map_of ?m k = (if is_client_forgeable_identity_header (to_lower k) then None
      else case incoming_md ctx of None \<Rightarrow> None | Some m0 \<Rightarrow> map_of m0 k)"
    if "k \<notin> {MetaPrincipalType, MetaPrincipalID, MetaPrincipalDisplay}" for k
    unfolding md_set_principal_other [OF that] strip_incoming_md
    by (cases "incoming_md ctx")
      (simp_all add: map_of_filter_key [of "\<lambda>k. \<not> is_client_forgeable_identity_header (to_lower k)"])
  moreover have "incoming_md ctx' = Some ?m"
    by (simp add: p inject_principal_def)
  ultimately show ?thesis
    using carries_inject [of "strip_incoming ctx" p] p by blast
qed

theorem grpc_forged_identity_stripped_witness:
  "\<exists>ctx' p m. snd (authorize (gateway_auth (demo_setup AuthModeDev)) demo_auth_state (demo_ctx [])) = Inr ctx' \<and>
     carries ctx' p \<and> incoming_md ctx' = Some m \<and> map_of m ''x-request-id'' = Some [''r1'']"
proof -
  let ?run = "authorize (gateway_auth (demo_setup AuthModeDev)) demo_auth_state (demo_ctx [])"
  have "\<not> isl (snd ?run)" "\<not> is_client_forgeable_identity_header (to_lower ''x-request-id'')"
    by code_simp+
  then obtain ctx' where ctx': "snd ?run = Inr ctx'"
    by (cases "snd ?run") auto
  then have "?run = (fst ?run, Inr ctx')"
    by (metis prod.collapse)
  from grpc_forged_identity_stripped [OF this] ctx' \<open>\<not> is_client_forgeable_identity_header _\<close> show ?thesis
    by (auto simp: demo_ctx_def dest!: spec [of _ "''x-request-id''"])
qed

text \<open>
  Outside development mode a gRPC call whose bearer token is not an asymmetric JWT, or any token
  when the verifier is not wired, is refused as unauthenticated with the one constant message,
  whatever development secret is configured, unless the connection has a verified client
  certificate; nothing of the interceptor's state changes.
\<close>

theorem symmetric_token_refused:
  assumes "ai_mode a \<noteq> AuthModeDev" "extract_bearer (incoming_md ctx) \<noteq> []" "peer_principal a ctx = None"
    and "ai_verify a = None \<or> \<not> is_asymmetric_jwt (ai_alg_of a) (extract_bearer (incoming_md ctx))"
  shows "authorize a st ctx = (st, Inl (Unauthenticated, auth_failed_msg))"
  using assms
  by (auto simp: authorize_def authorization_kept authorize_hmac_def validate_jwt_def Let_def split: option.splits)

theorem symmetric_token_refused_witness:
  "authorize ((gateway_auth (demo_setup AuthModeProduction))\<lparr>ai_dev_secret := ''s3cret''\<rparr>) demo_auth_state (demo_ctx ''.e30.AA'') =
     (demo_auth_state, Inl (Unauthenticated, ''authentication failed''))"
proof -
  have "\<not> is_asymmetric_jwt (su_alg_of (demo_setup AuthModeProduction)) (extract_bearer (incoming_md (demo_ctx ''.e30.AA'')))"
    "extract_bearer (incoming_md (demo_ctx ''.e30.AA'')) \<noteq> []"
    by code_simp+
  moreover have "peer_principal ((gateway_auth (demo_setup AuthModeProduction))\<lparr>ai_dev_secret := ''s3cret''\<rparr>) (demo_ctx ''.e30.AA'') = None"
    by (simp add: peer_principal_def demo_ctx_def principal_from_verified_peer_def)
  moreover have "su_mode (demo_setup AuthModeProduction) \<noteq> AuthModeDev"
    by (simp add: demo_setup_def)
  ultimately show ?thesis
    using symmetric_token_refused [of "(gateway_auth (demo_setup AuthModeProduction))\<lparr>ai_dev_secret := ''s3cret''\<rparr>"
        "demo_ctx ''.e30.AA''" demo_auth_state]
    by (simp add: gateway_auth_fields auth_failed_msg_def)
qed

text \<open>
  C12: a REST request that the authentication middleware passes on, as the gateway builds it, has no
  token header set by the client, and either no principal header at all or, in both header forms, the
  principal of an active Kratos session of its cookie or of the valid bearer token it presents (in the
  header, else in the session cookie). The HTTP server hands over canonical header names.
\<close>

theorem rest_principal_origin:
  assumes "auth_http (gateway_auth su) st r = (st', Served r')" "canonical_headers r"
    and "cache_holds (directory (su_iam su)) (as_lookup st)"
  shows "cache_holds (directory (su_iam su)) (as_lookup st') \<and>
    rest_result (su_authentic su) (directory (su_iam su)) (gateway_auth su) (strip_forgeable_identity_headers r) r'"
  using gw.http_outcome [OF assms(1,3,2)] .

theorem rest_principal_origin_witness:
  "\<exists>r'. snd (auth_http (gateway_auth (demo_setup AuthModeProduction)) demo_auth_state (demo_rest ''Bearer e30.e30.AA'')) = Served r' \<and>
     hget (req_header r') HeaderPrincipalID = ''usr1'' \<and>
     rest_result (su_authentic (demo_setup AuthModeProduction)) (directory (su_iam (demo_setup AuthModeProduction)))
       (gateway_auth (demo_setup AuthModeProduction)) (strip_forgeable_identity_headers (demo_rest ''Bearer e30.e30.AA'')) r'"
proof -
  let ?run = "auth_http (gateway_auth (demo_setup AuthModeProduction)) demo_auth_state (demo_rest ''Bearer e30.e30.AA'')"
  have served: "case snd ?run of Served r' \<Rightarrow> hget (req_header r') HeaderPrincipalID = ''usr1'' | Wrote _ \<Rightarrow> False"
    by code_simp
  then obtain r' where r': "snd ?run = Served r'" "hget (req_header r') HeaderPrincipalID = ''usr1''"
    by (cases "snd ?run") auto
  then have "?run = (fst ?run, Served r')"
    by (metis prod.collapse)
  moreover have "list_all (\<lambda>k. canonical_key k = k) (map fst (req_header (demo_rest ''Bearer e30.e30.AA'')))"
    by code_simp
  then have "canonical_headers (demo_rest ''Bearer e30.e30.AA'')"
    by (simp add: canonical_headers_def list_all_iff)
  moreover have "cache_holds (directory (su_iam (demo_setup AuthModeProduction))) (as_lookup demo_auth_state)"
    by (simp add: demo_auth_state_def subject_cache_new_def holds_new)
  ultimately show ?thesis
    using rest_principal_origin r' by blast
qed

text \<open>
  Unlike a gRPC call, a REST request whose bearer token is symmetric, or is any token while no
  verifier is wired, is not refused when no development secret is configured: it is passed on without
  a principal, in every mode, strict production included.
\<close>

theorem rest_symmetric_token_passed:
  assumes "ai_dev_secret a = []" "ai_whoami a = None" "canonical_headers r"
    and "rest_token (strip_forgeable_identity_headers r) = Some tok"
    and "ai_verify a = None \<or> \<not> is_asymmetric_jwt (ai_alg_of a) tok"
  shows "\<exists>r'. auth_http a st r = (st, Served r') \<and> rest_clean r'"
  using assms strip_clean [OF assms(3)]
  by (cases "ai_verify a")
    (auto simp: auth_http_def try_kratos_session_def try_hydra_jwt_def try_dev_secret_jwt_def rest_token_def Let_def)

theorem rest_symmetric_token_passed_witness:
  "\<exists>r'. auth_http (gateway_auth (demo_setup AuthModeProductionStrict)) demo_auth_state (demo_rest ''Bearer .e30.AA'') =
     (demo_auth_state, Served r') \<and> rest_clean r'"
proof -
  let ?a = "gateway_auth (demo_setup AuthModeProductionStrict)"
  have "rest_token (strip_forgeable_identity_headers (demo_rest ''Bearer .e30.AA'')) = Some ''.e30.AA''"
    "\<not> is_asymmetric_jwt (ai_alg_of ?a) ''.e30.AA''"
    "list_all (\<lambda>k. canonical_key k = k) (map fst (req_header (demo_rest ''Bearer .e30.AA'')))"
    by code_simp+
  moreover have "ai_dev_secret ?a = []" "ai_whoami ?a = None"
    by (simp_all add: gateway_auth_fields demo_setup_def)
  ultimately show ?thesis
    by (intro rest_symmetric_token_passed) (auto simp: canonical_headers_def list_all_iff)
qed

end
