(* ===== verification/Gateway_Chain.thy ===== *)
theory Gateway_Chain
  imports Authn Authz_Safety
begin

text \<open>
  The request path as \<^verbatim>\<open>cmd/api-gateway/main.go\<close> puts it together: request identifiers
  (\<^verbatim>\<open>internal/middleware/request_id.go\<close>), recovery from a panic (\<^verbatim>\<open>recovery.go\<close>), access logs
  (\<^verbatim>\<open>access_log.go\<close>), and the chains of authentication, token binding and authorization on REST and on gRPC.
\<close>

section \<open>Request identifiers\<close>

definition request_id_from_incoming :: "string \<Rightarrow> header option \<Rightarrow> string \<times> header" where
  \<comment> \<open>the first argument is a fresh UUID\<close>
  "request_id_from_incoming uuid md =
     (case md of
        Some m \<Rightarrow>
          (case md_get m ''x-request-id'' of
             (x # xs) # _ \<Rightarrow> (x # xs, m)
           | _ \<Rightarrow> (uuid, md_set m ''x-request-id'' uuid))
      | None \<Rightarrow> (uuid, md_set [] ''x-request-id'' uuid))"

record call_metadata =
  cm_header :: header
  cm_trailer :: header

definition unary_request_id :: "string \<Rightarrow> header option \<Rightarrow> (string \<Rightarrow> header \<Rightarrow> 'r) \<Rightarrow> call_metadata \<times> 'r" where
  \<comment> \<open>the handler gets the identifier of the context and the incoming metadata\<close>
  "unary_request_id uuid md handler =
     (let (i, md') = request_id_from_incoming uuid md in
      (\<lparr>cm_header = [(''x-request-id'', [i])], cm_trailer = [(''x-request-id'', [i])]\<rparr>, handler i md'))"

definition stream_request_id :: "string \<Rightarrow> header option \<Rightarrow> (string \<Rightarrow> header \<Rightarrow> 'r) \<Rightarrow> call_metadata \<times> 'r" where
  "stream_request_id uuid md handler =
     (let (i, md') = request_id_from_incoming uuid md in
      (\<lparr>cm_header = [(''x-request-id'', [i])], cm_trailer = []\<rparr>, handler i md'))"

definition http_request_id :: "string \<Rightarrow> http_request \<Rightarrow> string \<times> http_request \<times> resp_writer" where
  \<comment> \<open>the identifier of the context, the request and the writer the next handler gets\<close>
  "http_request_id uuid r =
     (let h = hget (req_header r) ''X-Request-ID''; i = (if h = [] then uuid else h) in
      (i, r\<lparr>req_header := hset (req_header r) ''X-Request-ID'' i\<rparr>, writer_new\<lparr>w_header := hset [] ''X-Request-ID'' i\<rparr>))"

section \<open>Recovery and access logs\<close>

datatype 'r run = Panicked | Returned 'r

definition unary_recovery :: "(rpc_status option) run \<Rightarrow> rpc_status option" where
  \<comment> \<open>also \<open>StreamRecovery\<close>: the error of the call\<close>
  "unary_recovery h =
     (case h of
        Panicked \<Rightarrow> Some \<lparr>rpc_code = Internal, rpc_message = ''internal server error'', rpc_details = []\<rparr>
      | Returned e \<Rightarrow> e)"

definition http_recovery :: "resp_writer \<Rightarrow> write_op list \<Rightarrow> bool \<Rightarrow> resp_writer" where
  \<comment> \<open>what the handler wrote, and whether it then panicked; \<open>http.Error\<close> on the same writer\<close>
  "http_recovery w ops panicked =
     foldl raw_op w
       (ops @ (if panicked
               then [SetHeaderOp ''Content-Type'' ''text/plain; charset=utf-8'', SetHeaderOp ''X-Content-Type-Options'' ''nosniff'',
                     WriteHeaderOp 500, WriteOp (''internal server error'' @ [CHR 0x0A])]
               else []))"

record access_entry =
  ae_method :: string
  ae_status :: "code + int"
  ae_duration_ms :: int
  ae_request_id :: string

definition unary_access_log :: "string \<Rightarrow> string \<Rightarrow> time \<Rightarrow> time \<Rightarrow> rpc_status option \<Rightarrow> access_entry" where
  \<comment> \<open>also \<open>StreamAccessLog\<close>; an error that is not a status is \<open>Unknown\<close>\<close>
  "unary_access_log full rid start end' err =
     \<lparr>ae_method = full, ae_status = Inl (case err of None \<Rightarrow> OK | Some s \<Rightarrow> rpc_code s),
      ae_duration_ms = (end' - start) div millisecond, ae_request_id = rid\<rparr>"

definition http_access_log :: "string \<Rightarrow> time \<Rightarrow> time \<Rightarrow> http_request \<Rightarrow> status_writer \<Rightarrow> access_entry" where
  "http_access_log rid start end' r rw =
     \<lparr>ae_method = req_method r @ '' '' @ req_path r, ae_status = Inr (sw_status rw),
      ae_duration_ms = (end' - start) div millisecond, ae_request_id = rid\<rparr>"

section \<open>The REST chain\<close>

datatype rest_result =
    AuthRefused resp_writer
  | BindingRefused challenge_reason
  | Authorized http_result

record ('v, 'l, 'k, 's) rest_edge =
  re_auth :: "('v, 'l, 'k) auth_interceptor"
  re_dpop :: "'s dpop_mw option" \<comment> \<open>mounted when DPoP is enabled\<close>
  re_authz :: authz_config
  re_encode :: "json \<Rightarrow> string"

record ('v, 'l, 'k, 's) rest_state =
  rs_auth :: "('v, 'l, 'k) auth_state"
  rs_dpop :: "'s dpop_state"
  rs_authz :: authz_state

record rest_env =
  rv_dpop_clock :: "nat \<Rightarrow> time"
  rv_check :: check_env
  rv_request_id :: string

definition rest_bind ::
  "('v, 'l, 'k, 's) rest_edge \<Rightarrow> rest_env \<Rightarrow> 's dpop_state \<Rightarrow> http_request \<Rightarrow> 's dpop_state \<times> wrap_outcome" where
  "rest_bind e env st r =
     (case re_dpop e of
        None \<Rightarrow> (st, Forward r)
      | Some m \<Rightarrow> (let t = rv_dpop_clock env in dpop_wrap m st r (t 0) (t 1) (t 2) (t 3)))"

definition rest_chain ::
  "('v, 'l, 'k, 's) rest_edge \<Rightarrow> rest_env \<Rightarrow> (http_request \<Rightarrow> write_op list) \<Rightarrow> ('v, 'l, 'k, 's) rest_state \<Rightarrow> http_request \<Rightarrow>
   ('v, 'l, 'k, 's) rest_state \<times> rest_result" where
  \<comment> \<open>authentication, token binding, authorization, then the rest of the chain\<close>
  "rest_chain e env next st r =
     (case auth_http (re_auth e) (rs_auth st) r of
        (a', Wrote w) \<Rightarrow> (st\<lparr>rs_auth := a'\<rparr>, AuthRefused w)
      | (a', Served r1) \<Rightarrow>
          (case rest_bind e env (rs_dpop st) r1 of
             (d', Challenge c) \<Rightarrow> (st\<lparr>rs_auth := a', rs_dpop := d'\<rparr>, BindingRefused c)
           | (d', Forward r2) \<Rightarrow>
               (case authz_http (re_authz e) (re_encode e) (rv_check env) None (rv_request_id env) next r2 (rs_authz st) of
                  (z', res) \<Rightarrow> (\<lparr>rs_auth = a', rs_dpop = d', rs_authz = z'\<rparr>, Authorized res))))"

section \<open>The gRPC chain\<close>

datatype grpc_result =
    GrpcAuthRefused grpc_status
  | GrpcCnfRefused cnf_error
  | GrpcAuthorized rpc_result

definition grpc_stream_chain ::
  "('v, 'l, 'k) auth_interceptor \<Rightarrow> (header option \<Rightarrow> cnf_error option) option \<Rightarrow> authz_config \<Rightarrow> check_env \<Rightarrow>
   rpc_status option \<Rightarrow> ('v, 'l, 'k) auth_state \<Rightarrow> authz_state \<Rightarrow> auth_ctx \<Rightarrow> grpc_call \<Rightarrow>
   ('v, 'l, 'k) auth_state \<times> authz_state \<times> grpc_result" where
  \<comment> \<open>every proxied method is a stream: authentication, the cnf interceptor when mounted, authorization\<close>
  "grpc_stream_chain a cnf cfg ev herr ast zst ctx call =
     (case authorize a ast ctx of
        (ast', Inl e) \<Rightarrow> (ast', zst, GrpcAuthRefused e)
      | (ast', Inr ctx') \<Rightarrow>
          (case (case cnf of None \<Rightarrow> None | Some enforce \<Rightarrow> enforce (incoming_md ctx')) of
             Some e \<Rightarrow> (ast', zst, GrpcCnfRefused e)
           | None \<Rightarrow>
               (case authz_stream cfg ev (call\<lparr>gc_md := incoming_md ctx'\<rparr>) herr zst of
                  (zst', res) \<Rightarrow> (ast', zst', GrpcAuthorized res))))"

section \<open>Requests without credentials\<close>

lemma strip_keeps_missing:
  "map_of (req_header r) k = None \<Longrightarrow> map_of (req_header (strip_forgeable_identity_headers r)) k = None"
proof -
  have "map_of h k = None \<Longrightarrow>
    map_of (foldl (\<lambda>h k. if is_client_forgeable_identity_header (to_lower k) then hdel h k else h) h ks) k = None" for h :: header and ks
    by (induction ks arbitrary: h) (auto simp: hdel_def delete_conv)
  then show "map_of (req_header r) k = None \<Longrightarrow> map_of (req_header (strip_forgeable_identity_headers r)) k = None"
    by (simp add: strip_forgeable_identity_headers_def)
qed

lemma missing_header: "map_of (req_header r) k = None \<Longrightarrow> canonical_key k = k \<Longrightarrow> hget (req_header r) k = []"
  by (simp add: hget_def)

lemma credential_header_names: "canonical_key ''Authorization'' = ''Authorization''" "canonical_key ''Cookie'' = ''Cookie''"
  by code_simp+

lemma auth_http_bare:
  assumes "map_of (req_header r) ''Authorization'' = None" "map_of (req_header r) ''Cookie'' = None"
  shows "auth_http a st r = (st, Served (strip_forgeable_identity_headers r))"
proof -
  let ?r = "strip_forgeable_identity_headers r"
  note missing = strip_keeps_missing [OF assms(1)] strip_keeps_missing [OF assms(2)]
  note h = missing_header [OF missing(1) credential_header_names(1)] missing_header [OF missing(2) credential_header_names(2)]
  have "request_cookie ?r ''kacho_session'' = None"
    using missing(2) by (simp add: request_cookie_def)
  note h = h this
  have "try_kratos_session a st ?r = (st, ?r, False)"
    using h(2) by (simp add: try_kratos_session_def split: option.split)
  moreover have "rewrite_cookie_to_bearer ?r = ?r"
    using h by (simp add: rewrite_cookie_to_bearer_def)
  moreover have "try_hydra_jwt a st ?r = (st, None)" "try_dev_secret_jwt a st ?r = (st, ?r, None)"
    using h by (auto simp: try_hydra_jwt_def try_dev_secret_jwt_def cut_prefix_def has_prefix_def split: option.splits)
  ultimately show ?thesis
    by (simp add: auth_http_def)
qed

lemma clean_has_no_subject:
  assumes "rest_clean r"
  shows "subject_of cfg (http_decision_request cfg r None rid) = None"
proof -
  have "hget (req_header r) HeaderPrincipalID = []"
    using assms by (simp add: rest_clean_def identity_headers_def header_names_def)
  then show ?thesis
    by (simp add: subject_of_def request_token_def http_decision_request_def verified_token_from_ctx_or_http_def
        subject_extract_def Let_def)
qed

lemma strip_frame [simp]:
  "req_path (strip_forgeable_identity_headers r) = req_path r" "req_method (strip_forgeable_identity_headers r) = req_method r"
  by (simp_all add: strip_forgeable_identity_headers_def)

text \<open>
  A REST request without credentials is refused, whatever identity headers it brings. With no
  Authorization and no Cookie header, a catalogued method that no public gate admits is answered with 401
  by the authorization middleware, or refused for the missing token when binding is enforced for all; the
  identity headers that the client wrote have no effect, and the handler is not reached.
\<close>

theorem bare_rest_request_refused:
  assumes "canonical_headers r" "map_of (req_header r) ''Authorization'' = None" "map_of (req_header r) ''Cookie'' = None"
    and "az_enabled (re_authz e)" "\<not> is_public_http_path (req_path r)"
    and "dr = http_decision_request (re_authz e) (strip_forgeable_identity_headers r) None (rv_request_id env)"
    and "passes_gates (re_authz e) dr (rs_authz st)" "catalog_lookup (as_catalog (rs_authz st)) (dr_fqn dr) = Some entry"
    and "rest_chain e env next st r = (st', res)"
  shows "(res = BindingRefused MissingToken) \<or> (\<exists>w. res = Authorized (Answered w) \<and> client_status w = 401)"
proof -
  let ?r = "strip_forgeable_identity_headers r"
  have served: "auth_http (re_auth e) (rs_auth st) r = (rs_auth st, Served ?r)"
    using auth_http_bare [OF assms(2,3)] .
  have "hget (req_header ?r) ''Authorization'' = []"
    by (rule missing_header [OF strip_keeps_missing [OF assms(2)] credential_header_names(1)])
  then have bind: "rest_bind e env (rs_dpop st) ?r = (rs_dpop st, Forward ?r) \<or>
      rest_bind e env (rs_dpop st) ?r = (rs_dpop st, Challenge MissingToken)"
    using assms(5) by (auto simp: rest_bind_def dpop_wrap_def split_auth_scheme_def Let_def split: option.split)
  have "subject_of (re_authz e) dr = None"
    using clean_has_no_subject [OF strip_clean [OF assms(1)]] assms(6) by simp
  then have "snd (snd (decide (re_authz e) (rv_check env) dr (rs_authz st))) = unauthenticated_decision dr entry"
    using decide_ungated [OF assms(7), of "rv_check env"] assms(8) by (simp add: decide_decision)
  then obtain zst dr' where decided: "decide (re_authz e) (rv_check env) dr (rs_authz st) = (zst, dr', unauthenticated_decision dr entry)"
    by (metis prod.collapse)
  have "snd (authz_http (re_authz e) (re_encode e) (rv_check env) None (rv_request_id env) next ?r (rs_authz st)) =
      Answered (write_http_unauth (re_encode e) (dc_descriptor (unauthenticated_decision dr entry))
        (dc_reasons (unauthenticated_decision dr entry)))"
    using assms(4,5) decided by (simp add: authz_http_def unauthenticated_decision_def Let_def flip: assms(6))
  then obtain zst' w where refused: "authz_http (re_authz e) (re_encode e) (rv_check env) None (rv_request_id env) next ?r (rs_authz st) =
      (zst', Answered w)" "client_status w = 401"
    by (metis prod.collapse snd_conv Authz_Response.response_statuses(2))
  show ?thesis
    using bind assms(9) served refused by (auto simp: rest_chain_def split: prod.splits)
qed

definition demo_edge :: "(jwks_cache, subject_cache, kratos_client, unit) rest_edge" where
  "demo_edge = \<lparr>re_auth = gateway_auth (demo_setup AuthModeProduction), re_dpop = None, re_authz = demo_rest_cfg, re_encode = (\<lambda>_. [])\<rparr>"

definition demo_rest_state :: "(jwks_cache, subject_cache, kratos_client, unit) rest_state" where
  "demo_rest_state = \<lparr>rs_auth = demo_auth_state, rs_dpop = \<lparr>ds_verifier = (), ds_introspection = None, ds_replay = replay_new 3 0\<rparr>,
     rs_authz = demo_state\<rparr>"

abbreviation demo_rest_env :: rest_env where
  "demo_rest_env \<equiv> \<lparr>rv_dpop_clock = (\<lambda>_. 0), rv_check = env_of demo_rest_cfg (demo_ask True) 0 [] [] (\<lambda>_. 0), rv_request_id = []\<rparr>"

theorem bare_rest_request_refused_witness:
  "\<exists>st' w. rest_chain demo_edge demo_rest_env (\<lambda>_. []) demo_rest_state demo_rest_get = (st', Authorized (Answered w)) \<and> client_status w = 401"
proof -
  let ?dr = "http_decision_request (re_authz demo_edge) (strip_forgeable_identity_headers demo_rest_get) None (rv_request_id demo_rest_env)"
  obtain st' res where run: "rest_chain demo_edge demo_rest_env (\<lambda>_. []) demo_rest_state demo_rest_get = (st', res)"
    by fastforce
  have "list_all (\<lambda>k. canonical_key k = k) (map fst (req_header demo_rest_get))"
    by code_simp
  then have canonical: "canonical_headers demo_rest_get"
    by (simp add: canonical_headers_def list_all_iff)
  have bare: "map_of (req_header demo_rest_get) ''Authorization'' = None" "map_of (req_header demo_rest_get) ''Cookie'' = None"
    "az_enabled (re_authz demo_edge)" "\<not> is_public_http_path (req_path demo_rest_get)"
    by (simp add: demo_rest_get_def, simp add: demo_rest_get_def, simp add: demo_edge_def demo_rest_cfg_def demo_cfg_def, code_simp)
  have "passes_gates (re_authz demo_edge) ?dr (rs_authz demo_rest_state)"
    "catalog_lookup (as_catalog (rs_authz demo_rest_state)) (dr_fqn ?dr) = Some demo_entry"
    by code_simp+
  then have "res = BindingRefused MissingToken \<or> (\<exists>w. res = Authorized (Answered w) \<and> client_status w = 401)"
    using bare_rest_request_refused [OF canonical bare refl _ _ run] by blast
  moreover have "res \<noteq> BindingRefused x" for x
    using run by (auto simp: rest_chain_def rest_bind_def demo_edge_def split: prod.splits http_outcome.splits)
  ultimately show ?thesis
    using run by blast
qed

section \<open>The anonymous principal on gRPC\<close>

lemma anonymous_token:
  assumes "md_get m MetaPrincipalType = [''system'']" "md_get m MetaPrincipalID = [''anonymous'']"
  shows "\<exists>t. verified_token_from_ctx_or_http (Some m) None = Some t \<and> vt_subject t = ''anonymous'' \<and>
    vt_ext t = Some [(''kacho_principal_type'', JStr ''system''), (''kacho_principal_id'', JStr ''anonymous'')]"
  using assms by (simp add: verified_token_from_ctx_or_http_def md_override_def token_of_identity_def default_if_empty_def Let_def)

lemma anonymous_unified:
  "unified_subject [(''kacho_principal_type'', JStr ''system''), (''kacho_principal_id'', JStr ''anonymous'')] = None"
  by code_simp

lemma anonymous_is_external:
  assumes "md_get m MetaPrincipalType = [''system'']" "md_get m MetaPrincipalID = [''anonymous'']"
  shows "subject_extract True (verified_token_from_ctx_or_http (Some m) None) =
    Some (resolved ''external'' SubjectKindExternal ''anonymous'' ''jwt.sub'')"
  using anonymous_token [OF assms] anonymous_unified by (auto simp: subject_extract_def str_claim_def)

lemma anonymous_exempt_handled:
  assumes "extract_bearer (incoming_md (strip_incoming ctx)) = []" "peer_principal a (strip_incoming ctx) = None"
    and "ai_mode a \<noteq> AuthModeProductionStrict" "az_enabled cfg" "az_fallback cfg"
    and "passes_gates cfg (stream_request (call\<lparr>gc_md := incoming_md (inject_anonymous (strip_incoming ctx))\<rparr>)) zst"
    and "catalog_lookup (as_catalog zst) (normalize_fqn (gc_full_method call)) = Some entry" "is_exempt entry"
    and "\<And>enforce. cnf = Some enforce \<Longrightarrow> enforce (incoming_md (inject_anonymous (strip_incoming ctx))) = None"
  shows "\<exists>zst'. grpc_stream_chain a cnf cfg ev herr ast zst ctx call = (ast, zst', GrpcAuthorized (Handled herr))"
proof -
  let ?ctx = "inject_anonymous (strip_incoming ctx)"
  let ?call = "call\<lparr>gc_md := incoming_md ?ctx\<rparr>"
  let ?m = "md_set_principal (incoming_md (strip_incoming ctx)) anonymous"
  have auth: "authorize a ast ctx = (ast, Inr ?ctx)"
    using assms(1-3) by (simp add: authorize_def Let_def)
  have md: "incoming_md ?ctx = Some ?m"
    by (simp add: inject_anonymous_def inject_principal_def)
  have "subject_of cfg (stream_request ?call) = Some (resolved ''external'' SubjectKindExternal ''anonymous'' ''jwt.sub'')"
    using anonymous_is_external [of ?m] md_set_principal_get [of "incoming_md (strip_incoming ctx)" anonymous] assms(5) md
    by (simp add: subject_of_def request_token_def stream_request_def unary_request_def anonymous_def)
  moreover have "catalog_lookup (as_catalog zst) (dr_fqn (stream_request ?call)) = Some entry"
    using assms(7) by (simp add: stream_request_def unary_request_def)
  ultimately have "dc_outcome (snd (snd (decide cfg ev (stream_request ?call) zst))) = OutcomeAllow"
    using decide_ungated [OF assms(6), of ev] assms(8) by (simp add: decide_decision)
  then have "\<exists>zst'. authz_stream cfg ev ?call herr zst = (zst', Handled herr)"
    using assms(4) by (auto simp: authz_stream_def Let_def split: prod.splits)
  then show ?thesis
    using auth assms(9) by (auto simp: grpc_stream_chain_def split: option.splits)
qed

text \<open>
  C39: over gRPC an anonymous caller counts as authenticated. A call without credentials is given the
  principal \<open>system:anonymous\<close> unless the mode is strict production, and the subject extractor, which the
  gateway builds with the fallback to the token's subject, turns it into the subject
  \<open>external:anonymous\<close>. An exempt method therefore runs for a caller who presented nothing.
\<close>

theorem anonymous_grpc_reaches_exempt:
  assumes "extract_bearer (incoming_md (strip_incoming ctx)) = []" "peer_principal a (strip_incoming ctx) = None"
    and "ai_mode a \<noteq> AuthModeProductionStrict" "az_enabled cfg" "az_fallback cfg"
    and "passes_gates cfg (stream_request (call\<lparr>gc_md := incoming_md (inject_anonymous (strip_incoming ctx))\<rparr>)) zst"
    and "catalog_lookup (as_catalog zst) (normalize_fqn (gc_full_method call)) = Some entry" "is_exempt entry"
  shows "\<exists>zst'. grpc_stream_chain a None cfg ev herr ast zst ctx call = (ast, zst', GrpcAuthorized (Handled herr))"
  by (rule anonymous_exempt_handled [OF assms]) simp

definition demo_exempt_state :: authz_state where
  "demo_exempt_state = demo_state\<lparr>as_catalog := \<lparr>fc_current = [(''n/List'', demo_catalog_entry ''n/List'' ''<exempt>'' [] demo_scope)], fc_path = None\<rparr>\<rparr>"

definition demo_anonymous_ctx :: auth_ctx where
  "demo_anonymous_ctx = \<lparr>incoming_md = Some [], outgoing_md = None, ac_principal = None, ac_peer = None\<rparr>"

theorem anonymous_grpc_reaches_exempt_witness:
  "\<exists>zst'. grpc_stream_chain (gateway_auth (demo_setup AuthModeProduction)) None (demo_cfg\<lparr>az_fallback := True\<rparr>) (demo_run_env True []) None
     demo_auth_state demo_exempt_state demo_anonymous_ctx (demo_call\<lparr>gc_full_method := ''/n/List''\<rparr>) =
     (demo_auth_state, zst', GrpcAuthorized (Handled None))"
proof -
  let ?ctx = "strip_incoming demo_anonymous_ctx" and ?a = "gateway_auth (demo_setup AuthModeProduction)"
  let ?cfg = "demo_cfg\<lparr>az_fallback := True\<rparr>" and ?call = "demo_call\<lparr>gc_full_method := ''/n/List''\<rparr>"
  have "extract_bearer (incoming_md ?ctx) = []" "peer_principal ?a ?ctx = None" "ai_mode ?a \<noteq> AuthModeProductionStrict"
    "az_enabled ?cfg" "az_fallback ?cfg" "passes_gates ?cfg (stream_request (?call\<lparr>gc_md := incoming_md (inject_anonymous ?ctx)\<rparr>)) demo_exempt_state"
    "catalog_lookup (as_catalog demo_exempt_state) (normalize_fqn (gc_full_method ?call)) =
       Some (demo_catalog_entry ''n/List'' ''<exempt>'' [] demo_scope)"
    "is_exempt (demo_catalog_entry ''n/List'' ''<exempt>'' [] demo_scope)"
    by code_simp+
  then show ?thesis
    by (rule anonymous_grpc_reaches_exempt)
qed

end
