(* ===== verification/Control_Plane.thy ===== *)
theory Control_Plane
  imports Authz
begin

text \<open>
  The parts of the gateway that keep it safe around the request path: the subject-change watcher
  (\<^verbatim>\<open>internal/watcher\<close>), the internal cache service and its caller check
  (\<^verbatim>\<open>internal/handler/internal_authz_cache_server.go\<close>, \<^verbatim>\<open>cmd/api-gateway/internal_grpc_security.go\<close>),
  readiness (\<^verbatim>\<open>internal/health\<close>), the derived settings of \<^verbatim>\<open>internal/config\<close>, the transport of the backend
  dials (\<^verbatim>\<open>cmd/api-gateway/mtls_config.go\<close>) and the start-up validation (\<^verbatim>\<open>authz_validation.go\<close>). Remote
  calls, certificates and the file system are parameters.
\<close>

section \<open>Subject-change watcher\<close>

record change_watcher =
  cw_interval :: duration
  cw_poll_timeout :: duration
  cw_cursor :: int
  cw_primed :: bool

definition watcher_new :: "duration \<Rightarrow> change_watcher" where
  "watcher_new interval0 =
     (let interval = (if interval0 \<le> 0 then 2 * second else interval0); t = interval * 4 in
      \<lparr>cw_interval = interval, cw_poll_timeout = (if t < 5 * second then 5 * second else t), cw_cursor = 0, cw_primed = False\<rparr>)"

definition poll_subject_changes :: "(int \<Rightarrow> int \<Rightarrow> string + (int list \<times> int)) \<Rightarrow> int \<Rightarrow> string + int list \<times> int" where
  \<comment> \<open>the adapter over the RPC: \<open>since\<close> and the limit; the ids of the changes and the head\<close>
  "poll_subject_changes rpc since =
     (case rpc since 1000 of
        Inl e \<Rightarrow> Inl (''poll subject changes: '' @ e)
      | Inr (ids, head) \<Rightarrow> Inr (ids, head))"

definition watcher_tick ::
  "string + int list \<times> int \<Rightarrow> change_watcher \<Rightarrow> authz_state \<Rightarrow> change_watcher \<times> authz_state" where
  \<comment> \<open>the first argument is what the poll from the cursor returned; the flush is \<open>InvalidateCache\<close>\<close>
  "watcher_tick polled w st =
     (case polled of
        Inl _ \<Rightarrow> (w, st)
      | Inr (ids, headID) \<Rightarrow>
          if \<not> cw_primed w then (w\<lparr>cw_primed := True, cw_cursor := headID\<rparr>, st)
          else if ids = [] then (w, st)
          else
            (let c = foldl (\<lambda>c i. if i > c then i else c) (cw_cursor w) ids in
             (w\<lparr>cw_cursor := (if headID > c then headID else c)\<rparr>, invalidate_cache st)))"

fun watcher_run ::
  "(int \<Rightarrow> string + int list \<times> int) list \<Rightarrow> change_watcher \<Rightarrow> authz_state \<Rightarrow> change_watcher \<times> authz_state" where
  \<comment> \<open>the ticks of \<open>Run\<close>, each with the poller as it answers then\<close>
  "watcher_run [] w st = (w, st)"
| "watcher_run (p # ps) w st = (case watcher_tick (p (cw_cursor w)) w st of (w', st') \<Rightarrow> watcher_run ps w' st')"

section \<open>Internal cache service\<close>

definition invalidate_subject_rpc :: "authz_invalidator \<Rightarrow> authz_state \<Rightarrow> string \<Rightarrow> authz_state \<times> (code \<times> string) option" where
  \<comment> \<open>\<open>None\<close>: the empty response\<close>
  "invalidate_subject_rpc i st subj =
     (if subj = [] then (st, Some (InvalidArgument, ''subject required''))
      else (case inv_invalidate_subject i st subj of
              (st', dropped) \<Rightarrow>
                if dropped = 0 then (st', Some (NotFound, ''no cache entries for subject'')) else (st', None)))"

datatype 'cert grpc_peer =
    NoPeer \<comment> \<open>no peer, or no authentication information\<close>
  | NotTLS
  | TLSPeer "'cert list list" \<comment> \<open>the verified certificate lists, leaf first\<close>

definition verified_peer_spiffe :: "('cert \<Rightarrow> string) \<Rightarrow> 'cert grpc_peer \<Rightarrow> (code \<times> string) + string" where
  \<comment> \<open>the first argument is \<open>grpcsrv.CertIdentity\<close>\<close>
  "verified_peer_spiffe cert_identity p =
     (case p of
        NoPeer \<Rightarrow> Inl (Unauthenticated, ''no mutually-authenticated peer'')
      | NotTLS \<Rightarrow> Inl (Unauthenticated, ''connection is not TLS'')
      | TLSPeer ((leaf # _) # _) \<Rightarrow>
          (let san = cert_identity leaf in
           if san = [] then Inl (Unauthenticated, ''client certificate carries no kacho.cloud SPIFFE identity'') else Inr san)
      | TLSPeer _ \<Rightarrow> Inl (Unauthenticated, ''no verified client certificate''))"

definition authorize_internal_caller ::
  "('cert \<Rightarrow> string) \<Rightarrow> string list \<Rightarrow> 'cert grpc_peer \<Rightarrow> (code \<times> string) option" where
  "authorize_internal_caller cert_identity allowed p =
     (case verified_peer_spiffe cert_identity p of
        Inl e \<Rightarrow> Some e
      | Inr san \<Rightarrow>
          if san \<notin> set allowed
          then Some (PermissionDenied, ''caller identity '' @ [CHR 0x22] @ san @ [CHR 0x22] @
                                       '' is not authorized for the internal authz-cache listener'')
          else None)"

definition spiffe_unary ::
  "('cert \<Rightarrow> string) \<Rightarrow> string list \<Rightarrow> 'cert grpc_peer \<Rightarrow> ('s \<Rightarrow> 's \<times> (code \<times> string) option) \<Rightarrow> 's \<Rightarrow>
   's \<times> (code \<times> string) option" where
  \<comment> \<open>the interceptor around a handler on some state\<close>
  "spiffe_unary cert_identity allowed p h st =
     (case authorize_internal_caller cert_identity allowed p of
        Some e \<Rightarrow> (st, Some e)
      | None \<Rightarrow> h st)"

section \<open>Configuration\<close>

record edge_mtls =
  em_enable :: bool
  em_server_name :: string

record gateway_config =
  gw_app_env :: string
  gw_listen_addr :: string
  gw_tls_listen_addr :: string
  gw_tls_cert_file :: string
  gw_tls_key_file :: string
  gw_api_domain :: string
  gw_hydra_issuer :: string
  gw_hydra_jwks_url :: string
  gw_hydra_introspection_url :: string
  gw_hydra_admin_url :: string
  gw_oidc_issuer :: string
  gw_oidc_client_id :: string
  gw_oidc_redirect_uri :: string
  gw_iam_authorize_url :: string
  gw_backend_addrs :: "(string \<times> string) list" \<comment> \<open>the value of \<open>BackendAddrs\<close>\<close>
  gw_internal_mtls_enable :: bool
  gw_internal_cert_file :: string
  gw_internal_key_file :: string
  gw_internal_allowed_spiffe :: "string list"
  gw_internal_reflection :: bool
  gw_mtls_cert_file :: string
  gw_mtls_key_file :: string
  gw_mtls_ca_file :: string
  gw_edges :: "(string \<times> edge_mtls) list" \<comment> \<open>the per-edge flags and server names\<close>
  gw_hybrid_mtls_external :: bool

definition tls_enabled :: "gateway_config \<Rightarrow> bool" where
  "tls_enabled c \<longleftrightarrow> gw_tls_listen_addr c \<noteq> [] \<and> gw_tls_cert_file c \<noteq> [] \<and> gw_tls_key_file c \<noteq> []"

definition oidc_disabled :: "gateway_config \<Rightarrow> bool" where
  "oidc_disabled c \<longleftrightarrow> gw_oidc_issuer c = []"

definition oidc_partial :: "gateway_config \<Rightarrow> bool" where
  "oidc_partial c \<longleftrightarrow> gw_oidc_issuer c \<noteq> [] \<and> (gw_oidc_client_id c = [] \<or> gw_oidc_redirect_uri c = [])"

definition resolved_hydra_issuer :: "gateway_config \<Rightarrow> string" where
  "resolved_hydra_issuer c =
     trim_right_byte (CHR ''/'') (if gw_hydra_issuer c = [] then ''https://hydra.'' @ gw_api_domain c else gw_hydra_issuer c)"

definition resolved_hydra_jwks_url :: "gateway_config \<Rightarrow> string" where
  "resolved_hydra_jwks_url c =
     (if gw_hydra_jwks_url c \<noteq> [] then gw_hydra_jwks_url c else resolved_hydra_issuer c @ ''/.well-known/jwks.json'')"

definition resolved_hydra_introspection_url :: "gateway_config \<Rightarrow> string" where
  "resolved_hydra_introspection_url c =
     (if gw_hydra_introspection_url c \<noteq> [] then gw_hydra_introspection_url c
      else resolved_hydra_issuer c @ ''/oauth2/introspect'')"

definition resolved_hydra_admin_url :: "gateway_config \<Rightarrow> string" where
  "resolved_hydra_admin_url c =
     (if gw_hydra_admin_url c \<noteq> [] then gw_hydra_admin_url c else resolved_hydra_issuer c)"

definition expected_audience :: "gateway_config \<Rightarrow> string" where
  "expected_audience c = ''https://'' @ gw_api_domain c"

definition backend_addr :: "gateway_config \<Rightarrow> string \<Rightarrow> string" where
  \<comment> \<open>the field of a key of \<open>BackendAddrs\<close>\<close>
  "backend_addr c k = (case map_of (gw_backend_addrs c) k of Some a \<Rightarrow> a | None \<Rightarrow> [])"

definition backend_keys :: "string list" where
  "backend_keys =
     [''vpc'', ''vpcInternal'', ''compute'', ''computeInternal'', ''iam'', ''iamInternal'', ''loadbalancer'',
      ''loadbalancerInternal'', ''geo'', ''geoInternal'', ''registry'', ''registryInternal'', ''storage'', ''storageInternal'']"

definition resolved_iam_authorize_url :: "gateway_config \<Rightarrow> string" where
  "resolved_iam_authorize_url c = (if gw_iam_authorize_url c \<noteq> [] then gw_iam_authorize_url c else backend_addr c ''iam'')"

definition internal_allowed_spiffe_set :: "gateway_config \<Rightarrow> string list" where
  "internal_allowed_spiffe_set c = remdups (filter (\<lambda>s. s \<noteq> []) (map trim_space (gw_internal_allowed_spiffe c)))"

datatype edge_error = UnknownEdge string | CertMaterialMissing string | ServerNameMissing string string | NoKnownEdge string | TlsCredsFailed string

record tls_client =
  tc_enable :: bool
  tc_cert_file :: string
  tc_key_file :: string
  tc_ca_files :: "string list"
  tc_server_name :: string

definition tls_client_off :: tls_client where
  "tls_client_off = \<lparr>tc_enable = False, tc_cert_file = [], tc_key_file = [], tc_ca_files = [], tc_server_name = []\<rparr>"

definition edge_names :: "string list" where
  "edge_names = [''vpc'', ''compute'', ''iam'', ''nlb'', ''geo'', ''registry'', ''storage'']"

definition edge_mtls_of :: "gateway_config \<Rightarrow> string \<Rightarrow> edge_error + bool \<times> string" where
  "edge_mtls_of c edge =
     (if edge \<in> set edge_names
      then Inr (case map_of (gw_edges c) edge of Some e \<Rightarrow> (em_enable e, em_server_name e) | None \<Rightarrow> (False, []))
      else Inl (UnknownEdge edge))"

definition host_from_addr :: "(string \<Rightarrow> string option) \<Rightarrow> string \<Rightarrow> string" where
  \<comment> \<open>the first argument is the host part of \<open>net.SplitHostPort\<close>\<close>
  "host_from_addr split addr = (case split addr of Some host \<Rightarrow> host | None \<Rightarrow> addr)"

definition edge_tls_client :: "(string \<Rightarrow> string option) \<Rightarrow> gateway_config \<Rightarrow> string \<Rightarrow> string \<Rightarrow> edge_error + tls_client" where
  "edge_tls_client split c edge dialAddr =
     (case edge_mtls_of c edge of
        Inl e \<Rightarrow> Inl e
      | Inr (enable, override) \<Rightarrow>
          if \<not> enable then Inr tls_client_off
          else if gw_mtls_cert_file c = [] \<or> gw_mtls_key_file c = [] \<or> gw_mtls_ca_file c = []
          then Inl (CertMaterialMissing edge)
          else (let serverName = (if override = [] then host_from_addr split dialAddr else override) in
                if serverName = [] then Inl (ServerNameMissing edge dialAddr)
                else Inr \<lparr>tc_enable = True, tc_cert_file = gw_mtls_cert_file c, tc_key_file = gw_mtls_key_file c,
                          tc_ca_files = [gw_mtls_ca_file c], tc_server_name = serverName\<rparr>))"

section \<open>Backend dials\<close>

definition backend_edge :: "string \<Rightarrow> string" where
  "backend_edge k =
     (if k \<in> {''vpc'', ''vpcInternal''} then ''vpc''
      else if k \<in> {''compute'', ''computeInternal''} then ''compute''
      else if k \<in> {''iam'', ''iamInternal''} then ''iam''
      else if k \<in> {''loadbalancer'', ''loadbalancerInternal''} then ''nlb''
      else if k \<in> {''geo'', ''geoInternal''} then ''geo''
      else if k \<in> {''registry'', ''registryInternal''} then ''registry''
      else if k \<in> {''storage'', ''storageInternal''} then ''storage''
      else [])"

fun build_creds_loop ::
  "(string \<Rightarrow> string option) \<Rightarrow> (tls_client \<Rightarrow> 'opt option) \<Rightarrow> gateway_config \<Rightarrow> string list \<Rightarrow> (string \<times> 'opt) list \<Rightarrow>
   edge_error + (string \<times> 'opt) list" where
  \<comment> \<open>the loop over the backend keys; the second argument is \<open>grpcclient.TLSClientCreds\<close>\<close>
  "build_creds_loop split tls_creds c [] creds = Inr creds"
| "build_creds_loop split tls_creds c (k # ks) creds =
     (if backend_edge k = [] then Inl (NoKnownEdge k)
      else case edge_tls_client split c (backend_edge k) (backend_addr c k) of
        Inl e \<Rightarrow> Inl e
      | Inr tc \<Rightarrow>
          (case tls_creds tc of
             None \<Rightarrow> Inl (TlsCredsFailed k)
           | Some opt \<Rightarrow> build_creds_loop split tls_creds c ks (AList.update k opt creds)))"

definition build_backend_dial_creds ::
  "(string \<Rightarrow> string option) \<Rightarrow> (tls_client \<Rightarrow> 'opt option) \<Rightarrow> gateway_config \<Rightarrow> edge_error + (string \<times> 'opt) list" where
  "build_backend_dial_creds split tls_creds c = build_creds_loop split tls_creds c backend_keys []"

definition iam_edge_dial_creds ::
  "(string \<Rightarrow> string option) \<Rightarrow> (tls_client \<Rightarrow> 'opt option) \<Rightarrow> gateway_config \<Rightarrow> string \<Rightarrow> edge_error + 'opt" where
  "iam_edge_dial_creds split tls_creds c addr =
     (case edge_tls_client split c ''iam'' addr of
        Inl e \<Rightarrow> Inl e
      | Inr tc \<Rightarrow> (case tls_creds tc of None \<Rightarrow> Inl (TlsCredsFailed ''iam'') | Some opt \<Rightarrow> Inr opt))"

section \<open>Internal listener security\<close>

record listener_security =
  ls_mtls_enabled :: bool
  ls_server_creds :: "string option" \<comment> \<open>the certificate file of the credentials\<close>
  ls_allowed_spiffe :: "string list"
  ls_reflection :: bool

datatype listener_error = ListenerCertMissing | NoCallerAllowlist | ServerCredsFailed | InsecureInProduction string

definition build_internal_listener_security ::
  "(string \<Rightarrow> string \<Rightarrow> string list \<Rightarrow> bool) \<Rightarrow> gateway_config \<Rightarrow> listener_error + listener_security" where
  \<comment> \<open>the first argument: \<open>grpcsrv.TLSServerCreds\<close> accepts certificate, key and client CAs\<close>
  "build_internal_listener_security server_creds c =
     (let insecure = \<lparr>ls_mtls_enabled = False, ls_server_creds = None, ls_allowed_spiffe = [], ls_reflection = gw_internal_reflection c\<rparr> in
      if \<not> gw_internal_mtls_enable c then Inr insecure
      else if gw_internal_cert_file c = [] \<or> gw_internal_key_file c = [] \<or> gw_mtls_ca_file c = [] then Inl ListenerCertMissing
      else (let allowed = internal_allowed_spiffe_set c in
            if allowed = [] then Inl NoCallerAllowlist
            else if \<not> server_creds (gw_internal_cert_file c) (gw_internal_key_file c) [gw_mtls_ca_file c] then Inl ServerCredsFailed
            else Inr (insecure\<lparr>ls_mtls_enabled := True, ls_server_creds := Some (gw_internal_cert_file c), ls_allowed_spiffe := allowed\<rparr>)))"

definition validate_production_internal_listener :: "string \<Rightarrow> bool \<Rightarrow> listener_error option" where
  "validate_production_internal_listener env mtlsEnabled =
     (if mtlsEnabled then None
      else if env \<in> {''dev'', ''local'', ''test''} then None
      else Some (InsecureInProduction env))"

section \<open>Start-up validation\<close>

record authz_posture =
  ap_enabled :: bool
  ap_fail_open :: bool
  ap_authn_mode :: string
  ap_dev_secret_set :: bool

datatype posture_problem = AuthzDisabled | AuthzFailOpen | AnonymousAuthn string | DevSecretSet

definition dev_class :: "string \<Rightarrow> bool" where
  "dev_class env \<longleftrightarrow> to_lower (trim_space env) \<in> {''dev'', ''local'', ''test''}"

definition validate_production_authz_config :: "string \<Rightarrow> authz_posture \<Rightarrow> posture_problem list" where
  \<comment> \<open>the problems of the error; none: start\<close>
  "validate_production_authz_config env cfg =
     (if dev_class env then []
      else
        (if \<not> ap_enabled cfg then [AuthzDisabled] else []) @
        (if ap_fail_open cfg then [AuthzFailOpen] else []) @
        (if ap_authn_mode cfg \<in> {''production'', ''production-strict''} then [] else [AnonymousAuthn (ap_authn_mode cfg)]) @
        (if ap_dev_secret_set cfg then [DevSecretSet] else []))"

section \<open>Readiness\<close>

definition evaluate_readiness :: "(string \<times> bool) list \<Rightarrow> (string \<Rightarrow> bool) \<Rightarrow> (string \<times> string) list \<times> bool" where
  \<comment> \<open>the loop over the map: status per backend, and whether a critical one is down\<close>
  "evaluate_readiness serving critical =
     foldl (\<lambda>(st, down) (domain, ok).
         if ok then (AList.update domain ''SERVING'' st, down)
         else (AList.update domain ''NOT_SERVING'' st, down \<or> critical domain)) ([], False) serving"

definition critical_backends :: "string \<Rightarrow> bool" where
  "critical_backends d \<longleftrightarrow> d \<in> {''iam'', ''iamInternal''}"

definition status_body :: "string \<Rightarrow> (string \<times> string) list \<Rightarrow> json" where
  \<comment> \<open>\<open>backends\<close> is left out when empty\<close>
  "status_body s bs =
     JObj ((''status'', JStr s) # (if bs = [] then [] else [(''backends'', JObj (map (\<lambda>(k, v). (k, JStr v)) bs))]))"

definition http_healthz :: "(json \<Rightarrow> string) \<Rightarrow> resp_writer" where
  "http_healthz encode =
     write_body (write_header (writer_new\<lparr>w_header := hset [] ''Content-Type'' ''application/json''\<rparr>) 200)
       (encode (status_body ''ok'' []))"

definition http_readyz ::
  "(json \<Rightarrow> string) \<Rightarrow> (string \<Rightarrow> bool) \<Rightarrow> (string \<times> (unit + bool)) list \<Rightarrow> resp_writer" where
  \<comment> \<open>each backend with the answer of its health check: an error, or whether it is serving\<close>
  "http_readyz encode critical answers =
     (let serving = map (\<lambda>(d, a). (d, case a of Inl _ \<Rightarrow> False | Inr s \<Rightarrow> s)) answers;
          (bs, down) = evaluate_readiness serving critical;
          w = writer_new\<lparr>w_header := hset [] ''Content-Type'' ''application/json''\<rparr>
      in if down then write_body (write_header w 503) (encode (status_body ''NOT_SERVING'' bs))
         else write_body (write_header w 200) (encode (status_body ''ok'' bs)))"

section \<open>Propagation of revocations\<close>

lemma invalidate_cache_view:
  "as_cache (invalidate_cache st) = Some c \<Longrightarrow> snd (decision_get c key now) = None"
  by (auto simp: invalidate_cache_def decision_invalidate_def decision_get_def lru_get_view view_invalidate)

lemma cursor_fold:
  "c \<le> foldl (\<lambda>c i. if i > c then i else c) c ids \<and> (\<forall>i \<in> set ids. i \<le> foldl (\<lambda>c i. if i > c then i else c) c ids)" for c :: int
proof (induction ids arbitrary: c)
  case (Cons i ids)
  show ?case
    using Cons.IH [of "if i > c then i else c"] by (auto split: if_splits)
qed simp

definition reports :: "int set \<Rightarrow> (int \<Rightarrow> string + int list \<times> int) \<Rightarrow> bool" where
  \<comment> \<open>a poller over an outbox: changes after the cursor are reported, up to its limit, with the head of the outbox\<close>
  "reports outbox poll \<longleftrightarrow>
     (\<forall>since ids head. poll since = Inr (ids, head) \<longrightarrow>
        ((\<exists>e \<in> outbox. since < e) \<longrightarrow> ids \<noteq> []) \<and> (\<forall>e \<in> outbox. e \<le> head))"

text \<open>
  C23: a grant change made anywhere reaches this replica: when a primed watcher polls successfully an
  outbox that holds a change it has not seen, the whole decision cache is empty afterwards and the
  cursor is past the change, however many changes the answer left out. A failed poll changes nothing, so
  the change is still to be seen at the next tick; the cursor never moves back.
\<close>

theorem change_reaches_replica:
  assumes "reports outbox poll" "cw_primed w" "e \<in> outbox" "cw_cursor w < e"
    and "watcher_tick (poll (cw_cursor w)) w st = (w', st')"
  shows "(case poll (cw_cursor w) of
       Inl _ \<Rightarrow> w' = w \<and> st' = st
     | Inr _ \<Rightarrow> e \<le> cw_cursor w' \<and> cw_cursor w \<le> cw_cursor w' \<and>
         (\<forall>c key now. as_cache st' = Some c \<longrightarrow> snd (decision_get c key now) = None))"
proof (cases "poll (cw_cursor w)")
  case (Inl x)
  then show ?thesis
    using assms(5) by (simp add: watcher_tick_def)
next
  case (Inr r)
  obtain ids head where r: "r = (ids, head)"
    by fastforce
  have ids: "ids \<noteq> []" "e \<le> head"
    using assms(1,3,4) Inr r unfolding reports_def by blast+
  then have st': "st' = invalidate_cache st"
    "cw_cursor w' = max head (foldl (\<lambda>c i. if i > c then i else c) (cw_cursor w) ids)"
    using assms(2,5) Inr r by (auto simp: watcher_tick_def Let_def)
  then show ?thesis
    using Inr ids cursor_fold [of "cw_cursor w" ids] invalidate_cache_view [of st] by auto
qed

theorem change_reaches_replica_witness:
  "\<exists>w' st'. watcher_tick (Inr ([7], 9)) ((watcher_new 0)\<lparr>cw_primed := True\<rparr>)
      \<lparr>as_cache = Some (decision_cache_new 1 1), as_metrics = metrics_new, as_catalog = catalog_new, as_overrides = None\<rparr> = (w', st') \<and>
    9 \<le> cw_cursor w'"
proof -
  let ?w = "(watcher_new 0)\<lparr>cw_primed := True\<rparr>"
  obtain w' st' where run: "watcher_tick (Inr ([7], 9)) ?w
      \<lparr>as_cache = Some (decision_cache_new 1 1), as_metrics = metrics_new, as_catalog = catalog_new, as_overrides = None\<rparr> = (w', st')"
    by fastforce
  have "reports {7, 9} (\<lambda>_. Inr ([7], 9))" "cw_primed ?w" "cw_cursor ?w < 9"
    by (auto simp: reports_def watcher_new_def Let_def)
  then show ?thesis
    using change_reaches_replica [of "{7, 9}" "\<lambda>_. Inr ([7], 9)" ?w 9] run by simp
qed

lemma authorized_caller:
  "authorize_internal_caller ci allowed p = None \<longleftrightarrow>
     (\<exists>leaf rest others. p = TLSPeer ((leaf # rest) # others) \<and> ci leaf \<noteq> [] \<and> ci leaf \<in> set allowed)"
  by (auto simp: authorize_internal_caller_def verified_peer_spiffe_def Let_def
      split: grpc_peer.splits list.splits if_splits)

text \<open>
  C24: the push path of a revocation. Only a peer with a verified certificate whose identity is on the
  allow-list reaches the cache: any other call changes nothing and is refused. For an allowed peer the
  call succeeds or reports that there was nothing to drop, and either way no decision of that subject is
  left, whatever the action, resource and context, and the generation has moved, so that a check in
  flight cannot put one back.
\<close>

theorem push_revocation_effective:
  assumes "as_cache st = Some c" "lru_inv c" "subj \<noteq> []"
    and "spiffe_unary ci allowed p (\<lambda>st. invalidate_subject_rpc (as_invalidator (Some st)) st subj) st = (st', r)"
  shows "if \<exists>leaf rest others. p = TLSPeer ((leaf # rest) # others) \<and> ci leaf \<noteq> [] \<and> ci leaf \<in> set allowed
    then (r = None \<or> map_option fst r = Some NotFound) \<and>
      (\<exists>c'. as_cache st' = Some c' \<and> decision_generation c' = decision_generation c + 1 \<and>
        (\<forall>h act rt i ctx now. snd (decision_get c' (build_cache_key h subj act rt i ctx) now) = None))
    else st' = st \<and> (map_option fst r = Some Unauthenticated \<or> map_option fst r = Some PermissionDenied)"
proof (cases "authorize_internal_caller ci allowed p")
  case None
  obtain c' n where drop: "decision_invalidate_subject c subj = (c', n)"
    by fastforce
  have "snd (decision_get c' (build_cache_key h subj act rt i ctx) now) = None" for h act rt i ctx now
    using decision_invalidate_subject_view [OF assms(2,3)] cache_key_prefix [of h subj act rt i ctx] drop
    by (simp add: decision_get_def lru_get_view)
  moreover have "decision_generation c' = decision_generation c + 1"
    using drop assms(2,3) lru.epoch_purge [of c "\<lambda>key. has_prefix key (subj @ ''|'')"]
    by (simp add: decision_invalidate_subject_def decision_generation_def generation_def)
  moreover have "as_cache st' = Some c'" "r = None \<or> map_option fst r = Some NotFound"
    using assms None drop
    by (auto simp: spiffe_unary_def invalidate_subject_rpc_def inv_invalidate_subject_def as_invalidator_def
        split: prod.splits if_splits)
  ultimately show ?thesis
    using None unfolding authorized_caller by auto
next
  case (Some e)
  have "fst e = Unauthenticated \<or> fst e = PermissionDenied"
    using Some by (auto simp: authorize_internal_caller_def verified_peer_spiffe_def Let_def
        split: grpc_peer.splits list.splits if_splits)
  moreover have "\<not> (\<exists>leaf rest others. p = TLSPeer ((leaf # rest) # others) \<and> ci leaf \<noteq> [] \<and> ci leaf \<in> set allowed)"
    using Some authorized_caller [of ci allowed p] by simp
  moreover have "st' = st" "r = Some e"
    using assms(4) Some by (simp_all add: spiffe_unary_def)
  ultimately show ?thesis
    by auto
qed

theorem push_revocation_effective_witness:
  "\<exists>st' r. spiffe_unary id [''drainer''] (TLSPeer [[''drainer'']])
      (\<lambda>st. invalidate_subject_rpc (as_invalidator (Some st)) st ''user:a'')
      \<lparr>as_cache = Some (decision_cache_new 1 1), as_metrics = metrics_new, as_catalog = catalog_new, as_overrides = None\<rparr> = (st', r) \<and>
    map_option fst r \<noteq> Some PermissionDenied"
proof -
  let ?st = "\<lparr>as_cache = Some (decision_cache_new 1 1), as_metrics = metrics_new, as_catalog = catalog_new, as_overrides = None\<rparr>"
  obtain st' r where run: "spiffe_unary id [''drainer''] (TLSPeer [[''drainer'']])
      (\<lambda>st. invalidate_subject_rpc (as_invalidator (Some st)) st ''user:a'') ?st = (st', r)"
    by fastforce
  have "lru_inv (decision_cache_new 1 1)"
    by (simp add: decision_cache_new_def lru_new_inv)
  then have "r = None \<or> map_option fst r = Some NotFound"
    using push_revocation_effective [of ?st "decision_cache_new 1 1" "''user:a''" id "[''drainer'']" "TLSPeer [[''drainer'']]" st' r] run
    by simp
  then show ?thesis
    using run by auto
qed

section \<open>Posture\<close>

definition closed_posture :: "authz_posture \<Rightarrow> bool \<Rightarrow> bool" where
  "closed_posture cfg mtls \<longleftrightarrow>
     ap_enabled cfg \<and> \<not> ap_fail_open cfg \<and> ap_authn_mode cfg \<in> {''production'', ''production-strict''} \<and>
     \<not> ap_dev_secret_set cfg \<and> mtls"

lemma dev_labels: "dev_class ''dev''" "dev_class ''local''" "dev_class ''test''"
  by code_simp+

text \<open>
  The process starts only in a closed posture, unless the environment says otherwise in so many
  words: for every label that is not one of the three development labels, an empty or misspelt one
  included, both validations pass exactly when authorization is enabled and fails closed, callers are
  authenticated, no symmetric secret is set and the internal listener demands client certificates.
\<close>

theorem production_start_closed:
  assumes "\<not> dev_class env"
  shows "validate_production_authz_config env cfg = [] \<and> validate_production_internal_listener env mtls = None \<longleftrightarrow>
    closed_posture cfg mtls"
proof -
  have "env \<notin> {''dev'', ''local'', ''test''}"
    using assms dev_labels by auto
  then show ?thesis
    using assms by (auto simp: validate_production_authz_config_def validate_production_internal_listener_def closed_posture_def)
qed

theorem production_start_closed_witness:
  "\<not> closed_posture \<lparr>ap_enabled = True, ap_fail_open = True, ap_authn_mode = ''production'', ap_dev_secret_set = False\<rparr> True"
proof -
  have "\<not> dev_class ''prd''" "validate_production_authz_config ''prd''
      \<lparr>ap_enabled = True, ap_fail_open = True, ap_authn_mode = ''production'', ap_dev_secret_set = False\<rparr> \<noteq> []"
    by code_simp+
  then show ?thesis
    using production_start_closed [of "''prd''"
        "\<lparr>ap_enabled = True, ap_fail_open = True, ap_authn_mode = ''production'', ap_dev_secret_set = False\<rparr>" True]
    by blast
qed

lemma build_creds_loop_spec:
  assumes "build_creds_loop split tls_creds c ks acc = Inr creds" "distinct ks"
  shows "if k \<in> set ks
    then \<exists>tc opt. edge_tls_client split c (backend_edge k) (backend_addr c k) = Inr tc \<and> tls_creds tc = Some opt \<and>
      map_of creds k = Some opt
    else map_of creds k = map_of acc k"
  using assms
proof (induction ks arbitrary: acc)
  case (Cons k' ks)
  obtain tc opt where step: "edge_tls_client split c (backend_edge k') (backend_addr c k') = Inr tc" "tls_creds tc = Some opt"
    "build_creds_loop split tls_creds c ks (AList.update k' opt acc) = Inr creds"
    using Cons.prems(1) by (auto split: if_splits sum.splits option.splits)
  have "distinct ks" "k' \<notin> set ks"
    using Cons.prems(2) by simp_all
  then show ?case
    using Cons.IH [OF step(3)] step(1,2) by (cases "k = k'") (auto simp: update_conv split: if_splits)
qed simp

text \<open>
  No backend is dialled half secured: when the credentials are built, every backend key has an
  option, and for a backend on an edge that is switched on this option comes from a client configuration
  with TLS on, the certificate, the key, the authority and a non-empty server name. Missing material is
  an error, never an insecure dial.
\<close>

theorem enabled_edge_never_insecure:
  assumes "build_backend_dial_creds split tls_creds c = Inr creds" "k \<in> set backend_keys"
    and "edge_mtls_of c (backend_edge k) = Inr (True, name)"
  shows "\<exists>tc. map_of creds k = tls_creds tc \<and> tls_creds tc \<noteq> None \<and> tc_enable tc \<and> tc_cert_file tc \<noteq> [] \<and>
    tc_key_file tc \<noteq> [] \<and> tc_ca_files tc = [gw_mtls_ca_file c] \<and> gw_mtls_ca_file c \<noteq> [] \<and> tc_server_name tc \<noteq> []"
proof -
  have "distinct backend_keys"
    by (simp add: backend_keys_def)
  then obtain tc opt where tc: "edge_tls_client split c (backend_edge k) (backend_addr c k) = Inr tc" "map_of creds k = tls_creds tc"
    "tls_creds tc = Some opt"
    using build_creds_loop_spec [of split tls_creds c backend_keys "[]" creds k] assms(1,2)
    by (auto simp: build_backend_dial_creds_def)
  then show ?thesis
    using assms(3) by (intro exI [of _ tc]) (auto simp: edge_tls_client_def Let_def split: if_splits)
qed

definition demo_gateway_config :: gateway_config where
  "demo_gateway_config =
     \<lparr>gw_app_env = [], gw_listen_addr = [], gw_tls_listen_addr = [], gw_tls_cert_file = [], gw_tls_key_file = [], gw_api_domain = [],
      gw_hydra_issuer = [], gw_hydra_jwks_url = [], gw_hydra_introspection_url = [], gw_hydra_admin_url = [], gw_oidc_issuer = [],
      gw_oidc_client_id = [], gw_oidc_redirect_uri = [], gw_iam_authorize_url = [],
      gw_backend_addrs = [(''iam'', ''iam'')], gw_internal_mtls_enable = False, gw_internal_cert_file = [],
      gw_internal_key_file = [], gw_internal_allowed_spiffe = [], gw_internal_reflection = False, gw_mtls_cert_file = ''c'',
      gw_mtls_key_file = ''k'', gw_mtls_ca_file = ''a'', gw_edges = [(''iam'', \<lparr>em_enable = True, em_server_name = ''n''\<rparr>)],
      gw_hybrid_mtls_external = False\<rparr>"

theorem enabled_edge_never_insecure_witness:
  "\<exists>creds tc. build_backend_dial_creds Some Some demo_gateway_config = Inr creds \<and> map_of creds ''iam'' = Some tc \<and> tc_enable tc"
proof -
  have "\<not> isl (build_backend_dial_creds Some Some demo_gateway_config)"
    "edge_mtls_of demo_gateway_config (backend_edge ''iam'') = Inr (True, ''n'')"
    by code_simp+
  moreover from this obtain creds where "build_backend_dial_creds Some Some demo_gateway_config = Inr creds"
    by (cases "build_backend_dial_creds Some Some demo_gateway_config") auto
  ultimately show ?thesis
    using enabled_edge_never_insecure [of Some Some demo_gateway_config creds "''iam''" "''n''"] by (auto simp: backend_keys_def)
qed

section \<open>Readiness\<close>

lemma readiness_fold:
  "snd (foldl (\<lambda>(st, down) (domain, ok).
     if ok then (AList.update domain ''SERVING'' st, down)
     else (AList.update domain ''NOT_SERVING'' st, down \<or> critical domain)) (m, d) serving) \<longleftrightarrow>
   d \<or> (\<exists>x. (x, False) \<in> set serving \<and> critical x)"
proof (induction serving arbitrary: m d)
  case (Cons a serving)
  obtain x ok where a: "a = (x, ok)"
    by fastforce
  show ?case
    unfolding a using Cons.IH by (cases ok) auto
qed simp

lemma critical_down_iff:
  "snd (evaluate_readiness serving critical) \<longleftrightarrow> (\<exists>x. (x, False) \<in> set serving \<and> critical x)"
  by (simp add: evaluate_readiness_def readiness_fold)

lemma readyz_status:
  "client_status (http_readyz encode critical answers) =
     (if \<exists>x a. (x, a) \<in> set answers \<and> critical x \<and> a \<noteq> Inr True then 503 else 200)"
proof -
  have "(case a of Inl _ \<Rightarrow> False | Inr s \<Rightarrow> s) \<longleftrightarrow> a = Inr True" for a :: "unit + bool"
    by (cases a) simp_all
  then have "(\<exists>x. (x, False) \<in> set (map (\<lambda>(d, a). (d, case a of Inl _ \<Rightarrow> False | Inr s \<Rightarrow> s)) answers) \<and> critical x) \<longleftrightarrow>
    (\<exists>x a. (x, a) \<in> set answers \<and> critical x \<and> a \<noteq> Inr True)"
    by (simp add: image_iff case_prod_beta) (metis fst_conv prod.collapse snd_conv)
  then have "snd (evaluate_readiness (map (\<lambda>(d, a). (d, case a of Inl _ \<Rightarrow> False | Inr s \<Rightarrow> s)) answers) critical) \<longleftrightarrow>
    (\<exists>x a. (x, a) \<in> set answers \<and> critical x \<and> a \<noteq> Inr True)"
    unfolding critical_down_iff .
  then show ?thesis
    by (simp add: http_readyz_def client_status_def write_body_def write_header_def writer_new_def Let_def case_prod_beta
        del: set_map) blast
qed

end
