(* ===== verification/Rest_Routes.thy ===== *)
theory Rest_Routes
  imports Go_Prelude
begin

text \<open>
  The generated REST route table (\<^verbatim>\<open>internal/middleware/rest_route_table_gen.go\<close>), one definition per
  domain in the order of the source.
\<close>

record rest_route =
  rt_method :: string
  rt_template :: string
  rt_fqn :: string

abbreviation (input) rt :: "string \<Rightarrow> string \<Rightarrow> string \<Rightarrow> rest_route" where
  "rt m t f \<equiv> \<lparr>rt_method = m, rt_template = t, rt_fqn = f\<rparr>"

definition routes_compute_1 :: "rest_route list" where
  "routes_compute_1 =
     [rt ''GET'' ''/compute/v1/diskPlacementGroups''
        ''kacho.cloud.compute.v1.DiskPlacementGroupService/List'',
      rt ''POST'' ''/compute/v1/diskPlacementGroups''
        ''kacho.cloud.compute.v1.DiskPlacementGroupService/Create'',
      rt ''DELETE'' ''/compute/v1/diskPlacementGroups/{disk_placement_group_id}''
        ''kacho.cloud.compute.v1.DiskPlacementGroupService/Delete'',
      rt ''GET'' ''/compute/v1/diskPlacementGroups/{disk_placement_group_id}''
        ''kacho.cloud.compute.v1.DiskPlacementGroupService/Get'',
      rt ''PATCH'' ''/compute/v1/diskPlacementGroups/{disk_placement_group_id}''
        ''kacho.cloud.compute.v1.DiskPlacementGroupService/Update'',
      rt ''GET'' ''/compute/v1/diskPlacementGroups/{disk_placement_group_id}/disks''
        ''kacho.cloud.compute.v1.DiskPlacementGroupService/ListDisks'',
      rt ''GET'' ''/compute/v1/diskPlacementGroups/{disk_placement_group_id}/operations''
        ''kacho.cloud.compute.v1.DiskPlacementGroupService/ListOperations'',
      rt ''GET'' ''/compute/v1/diskPlacementGroups/{resource_id}:listAccessBindings''
        ''kacho.cloud.compute.v1.DiskPlacementGroupService/ListAccessBindings'',
      rt ''POST'' ''/compute/v1/diskPlacementGroups/{resource_id}:setAccessBindings''
        ''kacho.cloud.compute.v1.DiskPlacementGroupService/SetAccessBindings'',
      rt ''POST'' ''/compute/v1/diskPlacementGroups/{resource_id}:updateAccessBindings''
        ''kacho.cloud.compute.v1.DiskPlacementGroupService/UpdateAccessBindings'',
      rt ''GET'' ''/compute/v1/diskTypes''
        ''kacho.cloud.compute.v1.DiskTypeService/List'',
      rt ''POST'' ''/compute/v1/diskTypes''
        ''kacho.cloud.compute.v1.InternalDiskTypeService/Create'',
      rt ''DELETE'' ''/compute/v1/diskTypes/{disk_type_id}''
        ''kacho.cloud.compute.v1.InternalDiskTypeService/Delete'',
      rt ''GET'' ''/compute/v1/diskTypes/{disk_type_id}''
        ''kacho.cloud.compute.v1.DiskTypeService/Get'',
      rt ''PATCH'' ''/compute/v1/diskTypes/{disk_type_id}''
        ''kacho.cloud.compute.v1.InternalDiskTypeService/Update'',
      rt ''GET'' ''/compute/v1/disks''
        ''kacho.cloud.compute.v1.DiskService/List'',
      rt ''POST'' ''/compute/v1/disks''
        ''kacho.cloud.compute.v1.DiskService/Create'',
      rt ''DELETE'' ''/compute/v1/disks/{disk_id}''
        ''kacho.cloud.compute.v1.DiskService/Delete'',
      rt ''GET'' ''/compute/v1/disks/{disk_id}''
        ''kacho.cloud.compute.v1.DiskService/Get'',
      rt ''PATCH'' ''/compute/v1/disks/{disk_id}''
        ''kacho.cloud.compute.v1.DiskService/Update'',
      rt ''GET'' ''/compute/v1/disks/{disk_id}/operations''
        ''kacho.cloud.compute.v1.DiskService/ListOperations'',
      rt ''POST'' ''/compute/v1/disks/{disk_id}:relocate''
        ''kacho.cloud.compute.v1.DiskService/Relocate'',
      rt ''GET'' ''/compute/v1/disks/{resource_id}:listAccessBindings''
        ''kacho.cloud.compute.v1.DiskService/ListAccessBindings'',
      rt ''POST'' ''/compute/v1/disks/{resource_id}:setAccessBindings''
        ''kacho.cloud.compute.v1.DiskService/SetAccessBindings'',
      rt ''POST'' ''/compute/v1/disks/{resource_id}:updateAccessBindings''
        ''kacho.cloud.compute.v1.DiskService/UpdateAccessBindings'',
      rt ''GET'' ''/compute/v1/filesystems''
        ''kacho.cloud.compute.v1.FilesystemService/List'',
      rt ''POST'' ''/compute/v1/filesystems''
        ''kacho.cloud.compute.v1.FilesystemService/Create'',
      rt ''DELETE'' ''/compute/v1/filesystems/{filesystem_id}''
        ''kacho.cloud.compute.v1.FilesystemService/Delete'',
      rt ''GET'' ''/compute/v1/filesystems/{filesystem_id}''
        ''kacho.cloud.compute.v1.FilesystemService/Get'',
      rt ''PATCH'' ''/compute/v1/filesystems/{filesystem_id}''
        ''kacho.cloud.compute.v1.FilesystemService/Update'',
      rt ''GET'' ''/compute/v1/filesystems/{filesystem_id}/operations''
        ''kacho.cloud.compute.v1.FilesystemService/ListOperations'',
      rt ''GET'' ''/compute/v1/filesystems/{resource_id}:listAccessBindings''
        ''kacho.cloud.compute.v1.FilesystemService/ListAccessBindings'',
      rt ''POST'' ''/compute/v1/filesystems/{resource_id}:setAccessBindings''
        ''kacho.cloud.compute.v1.FilesystemService/SetAccessBindings'',
      rt ''POST'' ''/compute/v1/filesystems/{resource_id}:updateAccessBindings''
        ''kacho.cloud.compute.v1.FilesystemService/UpdateAccessBindings'',
      rt ''GET'' ''/compute/v1/gpuClusters''
        ''kacho.cloud.compute.v1.GpuClusterService/List'',
      rt ''POST'' ''/compute/v1/gpuClusters''
        ''kacho.cloud.compute.v1.GpuClusterService/Create'',
      rt ''DELETE'' ''/compute/v1/gpuClusters/{gpu_cluster_id}''
        ''kacho.cloud.compute.v1.GpuClusterService/Delete'',
      rt ''GET'' ''/compute/v1/gpuClusters/{gpu_cluster_id}''
        ''kacho.cloud.compute.v1.GpuClusterService/Get'',
      rt ''PATCH'' ''/compute/v1/gpuClusters/{gpu_cluster_id}''
        ''kacho.cloud.compute.v1.GpuClusterService/Update'',
      rt ''GET'' ''/compute/v1/gpuClusters/{gpu_cluster_id}/instances''
        ''kacho.cloud.compute.v1.GpuClusterService/ListInstances'',
      rt ''GET'' ''/compute/v1/gpuClusters/{gpu_cluster_id}/operations''
        ''kacho.cloud.compute.v1.GpuClusterService/ListOperations'',
      rt ''GET'' ''/compute/v1/gpuClusters/{resource_id}:listAccessBindings''
        ''kacho.cloud.compute.v1.GpuClusterService/ListAccessBindings'',
      rt ''POST'' ''/compute/v1/gpuClusters/{resource_id}:setAccessBindings''
        ''kacho.cloud.compute.v1.GpuClusterService/SetAccessBindings'',
      rt ''POST'' ''/compute/v1/gpuClusters/{resource_id}:updateAccessBindings''
        ''kacho.cloud.compute.v1.GpuClusterService/UpdateAccessBindings'',
      rt ''GET'' ''/compute/v1/hostGroups''
        ''kacho.cloud.compute.v1.HostGroupService/List'',
      rt ''POST'' ''/compute/v1/hostGroups''
        ''kacho.cloud.compute.v1.HostGroupService/Create'',
      rt ''DELETE'' ''/compute/v1/hostGroups/{host_group_id}''
        ''kacho.cloud.compute.v1.HostGroupService/Delete'',
      rt ''GET'' ''/compute/v1/hostGroups/{host_group_id}''
        ''kacho.cloud.compute.v1.HostGroupService/Get'',
      rt ''PATCH'' ''/compute/v1/hostGroups/{host_group_id}''
        ''kacho.cloud.compute.v1.HostGroupService/Update'',
      rt ''GET'' ''/compute/v1/hostGroups/{host_group_id}/hosts''
        ''kacho.cloud.compute.v1.HostGroupService/ListHosts'',
      rt ''PATCH'' ''/compute/v1/hostGroups/{host_group_id}/hosts/{host_id}''
        ''kacho.cloud.compute.v1.HostGroupService/UpdateHost'',
      rt ''GET'' ''/compute/v1/hostGroups/{host_group_id}/instances''
        ''kacho.cloud.compute.v1.HostGroupService/ListInstances'',
      rt ''GET'' ''/compute/v1/hostGroups/{host_group_id}/operations''
        ''kacho.cloud.compute.v1.HostGroupService/ListOperations'',
      rt ''GET'' ''/compute/v1/hostGroups/{resource_id}:listAccessBindings''
        ''kacho.cloud.compute.v1.HostGroupService/ListAccessBindings'',
      rt ''POST'' ''/compute/v1/hostGroups/{resource_id}:setAccessBindings''
        ''kacho.cloud.compute.v1.HostGroupService/SetAccessBindings'',
      rt ''POST'' ''/compute/v1/hostGroups/{resource_id}:updateAccessBindings''
        ''kacho.cloud.compute.v1.HostGroupService/UpdateAccessBindings'',
      rt ''GET'' ''/compute/v1/hostTypes''
        ''kacho.cloud.compute.v1.HostTypeService/List'',
      rt ''GET'' ''/compute/v1/hostTypes/{host_type_id}''
        ''kacho.cloud.compute.v1.HostTypeService/Get'',
      rt ''GET'' ''/compute/v1/images''
        ''kacho.cloud.compute.v1.ImageService/List'',
      rt ''POST'' ''/compute/v1/images''
        ''kacho.cloud.compute.v1.ImageService/Create'',
      rt ''DELETE'' ''/compute/v1/images/{image_id}''
        ''kacho.cloud.compute.v1.ImageService/Delete'',
      rt ''GET'' ''/compute/v1/images/{image_id}''
        ''kacho.cloud.compute.v1.ImageService/Get'',
      rt ''PATCH'' ''/compute/v1/images/{image_id}''
        ''kacho.cloud.compute.v1.ImageService/Update'',
      rt ''GET'' ''/compute/v1/images/{image_id}/operations''
        ''kacho.cloud.compute.v1.ImageService/ListOperations'',
      rt ''GET'' ''/compute/v1/images/{resource_id}:listAccessBindings''
        ''kacho.cloud.compute.v1.ImageService/ListAccessBindings'',
      rt ''POST'' ''/compute/v1/images/{resource_id}:setAccessBindings''
        ''kacho.cloud.compute.v1.ImageService/SetAccessBindings'',
      rt ''POST'' ''/compute/v1/images/{resource_id}:updateAccessBindings''
        ''kacho.cloud.compute.v1.ImageService/UpdateAccessBindings'',
      rt ''GET'' ''/compute/v1/images:latestByFamily''
        ''kacho.cloud.compute.v1.ImageService/GetLatestByFamily'',
      rt ''GET'' ''/compute/v1/instanceGroups''
        ''kacho.cloud.compute.v1.instancegroup.InstanceGroupService/List'',
      rt ''POST'' ''/compute/v1/instanceGroups''
        ''kacho.cloud.compute.v1.instancegroup.InstanceGroupService/Create'',
      rt ''DELETE'' ''/compute/v1/instanceGroups/{instance_group_id}''
        ''kacho.cloud.compute.v1.instancegroup.InstanceGroupService/Delete'',
      rt ''GET'' ''/compute/v1/instanceGroups/{instance_group_id}''
        ''kacho.cloud.compute.v1.instancegroup.InstanceGroupService/Get'',
      rt ''PATCH'' ''/compute/v1/instanceGroups/{instance_group_id}''
        ''kacho.cloud.compute.v1.instancegroup.InstanceGroupService/Update'',
      rt ''GET'' ''/compute/v1/instanceGroups/{instance_group_id}/instances''
        ''kacho.cloud.compute.v1.instancegroup.InstanceGroupService/ListInstances'',
      rt ''GET'' ''/compute/v1/instanceGroups/{instance_group_id}/operations''
        ''kacho.cloud.compute.v1.instancegroup.InstanceGroupService/ListOperations'',
      rt ''POST'' ''/compute/v1/instanceGroups/{instance_group_id}:deleteInstances''
        ''kacho.cloud.compute.v1.instancegroup.InstanceGroupService/DeleteInstances'',
      rt ''GET'' ''/compute/v1/instanceGroups/{instance_group_id}:logs''
        ''kacho.cloud.compute.v1.instancegroup.InstanceGroupService/ListLogRecords'',
      rt ''POST'' ''/compute/v1/instanceGroups/{instance_group_id}:pauseProcesses''
        ''kacho.cloud.compute.v1.instancegroup.InstanceGroupService/PauseProcesses'',
      rt ''POST'' ''/compute/v1/instanceGroups/{instance_group_id}:resumeProcesses''
        ''kacho.cloud.compute.v1.instancegroup.InstanceGroupService/ResumeProcesses'',
      rt ''POST'' ''/compute/v1/instanceGroups/{instance_group_id}:rollingRecreate''
        ''kacho.cloud.compute.v1.instancegroup.InstanceGroupService/RollingRecreate'']"

definition routes_compute_2 :: "rest_route list" where
  "routes_compute_2 =
     [rt ''POST'' ''/compute/v1/instanceGroups/{instance_group_id}:rollingRestart''
        ''kacho.cloud.compute.v1.instancegroup.InstanceGroupService/RollingRestart'',
      rt ''POST'' ''/compute/v1/instanceGroups/{instance_group_id}:start''
        ''kacho.cloud.compute.v1.instancegroup.InstanceGroupService/Start'',
      rt ''POST'' ''/compute/v1/instanceGroups/{instance_group_id}:stop''
        ''kacho.cloud.compute.v1.instancegroup.InstanceGroupService/Stop'',
      rt ''POST'' ''/compute/v1/instanceGroups/{instance_group_id}:stopInstances''
        ''kacho.cloud.compute.v1.instancegroup.InstanceGroupService/StopInstances'',
      rt ''PATCH'' ''/compute/v1/instanceGroups/{instance_group_id}:yaml''
        ''kacho.cloud.compute.v1.instancegroup.InstanceGroupService/UpdateFromYaml'',
      rt ''GET'' ''/compute/v1/instanceGroups/{resource_id}:listAccessBindings''
        ''kacho.cloud.compute.v1.instancegroup.InstanceGroupService/ListAccessBindings'',
      rt ''POST'' ''/compute/v1/instanceGroups/{resource_id}:setAccessBindings''
        ''kacho.cloud.compute.v1.instancegroup.InstanceGroupService/SetAccessBindings'',
      rt ''POST'' ''/compute/v1/instanceGroups/{resource_id}:updateAccessBindings''
        ''kacho.cloud.compute.v1.instancegroup.InstanceGroupService/UpdateAccessBindings'',
      rt ''POST'' ''/compute/v1/instanceGroups:yaml''
        ''kacho.cloud.compute.v1.instancegroup.InstanceGroupService/CreateFromYaml'',
      rt ''GET'' ''/compute/v1/instances''
        ''kacho.cloud.compute.v1.InstanceService/List'',
      rt ''POST'' ''/compute/v1/instances''
        ''kacho.cloud.compute.v1.InstanceService/Create'',
      rt ''DELETE'' ''/compute/v1/instances/{instance_id}''
        ''kacho.cloud.compute.v1.InstanceService/Delete'',
      rt ''GET'' ''/compute/v1/instances/{instance_id}''
        ''kacho.cloud.compute.v1.InstanceService/Get'',
      rt ''PATCH'' ''/compute/v1/instances/{instance_id}''
        ''kacho.cloud.compute.v1.InstanceService/Update'',
      rt ''POST'' ''/compute/v1/instances/{instance_id}/addOneToOneNat''
        ''kacho.cloud.compute.v1.InstanceService/AddOneToOneNat'',
      rt ''GET'' ''/compute/v1/instances/{instance_id}/operations''
        ''kacho.cloud.compute.v1.InstanceService/ListOperations'',
      rt ''POST'' ''/compute/v1/instances/{instance_id}/removeOneToOneNat''
        ''kacho.cloud.compute.v1.InstanceService/RemoveOneToOneNat'',
      rt ''POST'' ''/compute/v1/instances/{instance_id}/updateMetadata''
        ''kacho.cloud.compute.v1.InstanceService/UpdateMetadata'',
      rt ''PATCH'' ''/compute/v1/instances/{instance_id}/updateNetworkInterface''
        ''kacho.cloud.compute.v1.InstanceService/UpdateNetworkInterface'',
      rt ''POST'' ''/compute/v1/instances/{instance_id}:attachDisk''
        ''kacho.cloud.compute.v1.InstanceService/AttachDisk'',
      rt ''POST'' ''/compute/v1/instances/{instance_id}:attachFilesystem''
        ''kacho.cloud.compute.v1.InstanceService/AttachFilesystem'',
      rt ''POST'' ''/compute/v1/instances/{instance_id}:attachNetworkInterface''
        ''kacho.cloud.compute.v1.InstanceService/AttachNetworkInterface'',
      rt ''POST'' ''/compute/v1/instances/{instance_id}:detachDisk''
        ''kacho.cloud.compute.v1.InstanceService/DetachDisk'',
      rt ''POST'' ''/compute/v1/instances/{instance_id}:detachFilesystem''
        ''kacho.cloud.compute.v1.InstanceService/DetachFilesystem'',
      rt ''POST'' ''/compute/v1/instances/{instance_id}:detachNetworkInterface''
        ''kacho.cloud.compute.v1.InstanceService/DetachNetworkInterface'',
      rt ''POST'' ''/compute/v1/instances/{instance_id}:relocate''
        ''kacho.cloud.compute.v1.InstanceService/Relocate'',
      rt ''POST'' ''/compute/v1/instances/{instance_id}:restart''
        ''kacho.cloud.compute.v1.InstanceService/Restart'',
      rt ''GET'' ''/compute/v1/instances/{instance_id}:serialPortOutput''
        ''kacho.cloud.compute.v1.InstanceService/GetSerialPortOutput'',
      rt ''POST'' ''/compute/v1/instances/{instance_id}:simulateMaintenanceEvent''
        ''kacho.cloud.compute.v1.InstanceService/SimulateMaintenanceEvent'',
      rt ''POST'' ''/compute/v1/instances/{instance_id}:start''
        ''kacho.cloud.compute.v1.InstanceService/Start'',
      rt ''POST'' ''/compute/v1/instances/{instance_id}:stop''
        ''kacho.cloud.compute.v1.InstanceService/Stop'',
      rt ''GET'' ''/compute/v1/instances/{resource_id}:listAccessBindings''
        ''kacho.cloud.compute.v1.InstanceService/ListAccessBindings'',
      rt ''POST'' ''/compute/v1/instances/{resource_id}:setAccessBindings''
        ''kacho.cloud.compute.v1.InstanceService/SetAccessBindings'',
      rt ''POST'' ''/compute/v1/instances/{resource_id}:updateAccessBindings''
        ''kacho.cloud.compute.v1.InstanceService/UpdateAccessBindings'',
      rt ''GET'' ''/compute/v1/maintenances''
        ''kacho.cloud.compute.v1.MaintenanceService/List'',
      rt ''GET'' ''/compute/v1/maintenances/{maintenance_id}''
        ''kacho.cloud.compute.v1.MaintenanceService/Get'',
      rt ''POST'' ''/compute/v1/maintenances/{maintenance_id}:reschedule''
        ''kacho.cloud.compute.v1.MaintenanceService/Reschedule'',
      rt ''GET'' ''/compute/v1/placementGroups''
        ''kacho.cloud.compute.v1.PlacementGroupService/List'',
      rt ''POST'' ''/compute/v1/placementGroups''
        ''kacho.cloud.compute.v1.PlacementGroupService/Create'',
      rt ''DELETE'' ''/compute/v1/placementGroups/{placement_group_id}''
        ''kacho.cloud.compute.v1.PlacementGroupService/Delete'',
      rt ''GET'' ''/compute/v1/placementGroups/{placement_group_id}''
        ''kacho.cloud.compute.v1.PlacementGroupService/Get'',
      rt ''PATCH'' ''/compute/v1/placementGroups/{placement_group_id}''
        ''kacho.cloud.compute.v1.PlacementGroupService/Update'',
      rt ''GET'' ''/compute/v1/placementGroups/{placement_group_id}/instances''
        ''kacho.cloud.compute.v1.PlacementGroupService/ListInstances'',
      rt ''GET'' ''/compute/v1/placementGroups/{placement_group_id}/operations''
        ''kacho.cloud.compute.v1.PlacementGroupService/ListOperations'',
      rt ''GET'' ''/compute/v1/placementGroups/{resource_id}:listAccessBindings''
        ''kacho.cloud.compute.v1.PlacementGroupService/ListAccessBindings'',
      rt ''POST'' ''/compute/v1/placementGroups/{resource_id}:setAccessBindings''
        ''kacho.cloud.compute.v1.PlacementGroupService/SetAccessBindings'',
      rt ''POST'' ''/compute/v1/placementGroups/{resource_id}:updateAccessBindings''
        ''kacho.cloud.compute.v1.PlacementGroupService/UpdateAccessBindings'',
      rt ''GET'' ''/compute/v1/reservedInstancePools''
        ''kacho.cloud.compute.v1.ReservedInstancePoolService/List'',
      rt ''POST'' ''/compute/v1/reservedInstancePools''
        ''kacho.cloud.compute.v1.ReservedInstancePoolService/Create'',
      rt ''DELETE'' ''/compute/v1/reservedInstancePools/{reserved_instance_pool_id}''
        ''kacho.cloud.compute.v1.ReservedInstancePoolService/Delete'',
      rt ''GET'' ''/compute/v1/reservedInstancePools/{reserved_instance_pool_id}''
        ''kacho.cloud.compute.v1.ReservedInstancePoolService/Get'',
      rt ''PATCH'' ''/compute/v1/reservedInstancePools/{reserved_instance_pool_id}''
        ''kacho.cloud.compute.v1.ReservedInstancePoolService/Update'',
      rt ''GET'' ''/compute/v1/reservedInstancePools/{reserved_instance_pool_id}/instances''
        ''kacho.cloud.compute.v1.ReservedInstancePoolService/ListInstances'',
      rt ''GET'' ''/compute/v1/reservedInstancePools/{reserved_instance_pool_id}/operations''
        ''kacho.cloud.compute.v1.ReservedInstancePoolService/ListOperations'',
      rt ''GET'' ''/compute/v1/snapshotSchedules''
        ''kacho.cloud.compute.v1.SnapshotScheduleService/List'',
      rt ''POST'' ''/compute/v1/snapshotSchedules''
        ''kacho.cloud.compute.v1.SnapshotScheduleService/Create'',
      rt ''GET'' ''/compute/v1/snapshotSchedules/{resource_id}:listAccessBindings''
        ''kacho.cloud.compute.v1.SnapshotScheduleService/ListAccessBindings'',
      rt ''POST'' ''/compute/v1/snapshotSchedules/{resource_id}:setAccessBindings''
        ''kacho.cloud.compute.v1.SnapshotScheduleService/SetAccessBindings'',
      rt ''POST'' ''/compute/v1/snapshotSchedules/{resource_id}:updateAccessBindings''
        ''kacho.cloud.compute.v1.SnapshotScheduleService/UpdateAccessBindings'',
      rt ''DELETE'' ''/compute/v1/snapshotSchedules/{snapshot_schedule_id}''
        ''kacho.cloud.compute.v1.SnapshotScheduleService/Delete'',
      rt ''GET'' ''/compute/v1/snapshotSchedules/{snapshot_schedule_id}''
        ''kacho.cloud.compute.v1.SnapshotScheduleService/Get'',
      rt ''PATCH'' ''/compute/v1/snapshotSchedules/{snapshot_schedule_id}''
        ''kacho.cloud.compute.v1.SnapshotScheduleService/Update'',
      rt ''GET'' ''/compute/v1/snapshotSchedules/{snapshot_schedule_id}/disks''
        ''kacho.cloud.compute.v1.SnapshotScheduleService/ListDisks'',
      rt ''GET'' ''/compute/v1/snapshotSchedules/{snapshot_schedule_id}/operations''
        ''kacho.cloud.compute.v1.SnapshotScheduleService/ListOperations'',
      rt ''GET'' ''/compute/v1/snapshotSchedules/{snapshot_schedule_id}/snapshots''
        ''kacho.cloud.compute.v1.SnapshotScheduleService/ListSnapshots'',
      rt ''POST'' ''/compute/v1/snapshotSchedules/{snapshot_schedule_id}:disable''
        ''kacho.cloud.compute.v1.SnapshotScheduleService/Disable'',
      rt ''POST'' ''/compute/v1/snapshotSchedules/{snapshot_schedule_id}:enable''
        ''kacho.cloud.compute.v1.SnapshotScheduleService/Enable'',
      rt ''PATCH'' ''/compute/v1/snapshotSchedules/{snapshot_schedule_id}:updateDisks''
        ''kacho.cloud.compute.v1.SnapshotScheduleService/UpdateDisks'',
      rt ''GET'' ''/compute/v1/snapshots''
        ''kacho.cloud.compute.v1.SnapshotService/List'',
      rt ''POST'' ''/compute/v1/snapshots''
        ''kacho.cloud.compute.v1.SnapshotService/Create'',
      rt ''GET'' ''/compute/v1/snapshots/{resource_id}:listAccessBindings''
        ''kacho.cloud.compute.v1.SnapshotService/ListAccessBindings'',
      rt ''POST'' ''/compute/v1/snapshots/{resource_id}:setAccessBindings''
        ''kacho.cloud.compute.v1.SnapshotService/SetAccessBindings'',
      rt ''POST'' ''/compute/v1/snapshots/{resource_id}:updateAccessBindings''
        ''kacho.cloud.compute.v1.SnapshotService/UpdateAccessBindings'',
      rt ''DELETE'' ''/compute/v1/snapshots/{snapshot_id}''
        ''kacho.cloud.compute.v1.SnapshotService/Delete'',
      rt ''GET'' ''/compute/v1/snapshots/{snapshot_id}''
        ''kacho.cloud.compute.v1.SnapshotService/Get'',
      rt ''PATCH'' ''/compute/v1/snapshots/{snapshot_id}''
        ''kacho.cloud.compute.v1.SnapshotService/Update'',
      rt ''GET'' ''/compute/v1/snapshots/{snapshot_id}/operations''
        ''kacho.cloud.compute.v1.SnapshotService/ListOperations'']"

definition routes_geo :: "rest_route list" where
  "routes_geo =
     [rt ''GET'' ''/geo/v1/regions''
        ''kacho.cloud.geo.v1.RegionService/List'',
      rt ''POST'' ''/geo/v1/regions''
        ''kacho.cloud.geo.v1.InternalRegionService/Create'',
      rt ''DELETE'' ''/geo/v1/regions/{region_id}''
        ''kacho.cloud.geo.v1.InternalRegionService/Delete'',
      rt ''GET'' ''/geo/v1/regions/{region_id}''
        ''kacho.cloud.geo.v1.RegionService/Get'',
      rt ''PATCH'' ''/geo/v1/regions/{region_id}''
        ''kacho.cloud.geo.v1.InternalRegionService/Update'',
      rt ''GET'' ''/geo/v1/zones''
        ''kacho.cloud.geo.v1.ZoneService/List'',
      rt ''POST'' ''/geo/v1/zones''
        ''kacho.cloud.geo.v1.InternalZoneService/Create'',
      rt ''DELETE'' ''/geo/v1/zones/{zone_id}''
        ''kacho.cloud.geo.v1.InternalZoneService/Delete'',
      rt ''GET'' ''/geo/v1/zones/{zone_id}''
        ''kacho.cloud.geo.v1.ZoneService/Get'',
      rt ''PATCH'' ''/geo/v1/zones/{zone_id}''
        ''kacho.cloud.geo.v1.InternalZoneService/Update'']"

definition routes_iam :: "rest_route list" where
  "routes_iam =
     [rt ''POST'' ''/iam/v1/accessBindings''
        ''kacho.cloud.iam.v1.AccessBindingService/Create'',
      rt ''DELETE'' ''/iam/v1/accessBindings/{access_binding_id}''
        ''kacho.cloud.iam.v1.AccessBindingService/Delete'',
      rt ''GET'' ''/iam/v1/accessBindings/{access_binding_id}''
        ''kacho.cloud.iam.v1.AccessBindingService/Get'',
      rt ''PATCH'' ''/iam/v1/accessBindings/{access_binding_id}''
        ''kacho.cloud.iam.v1.AccessBindingService/Update'',
      rt ''GET'' ''/iam/v1/accessBindings/{access_binding_id}/operations''
        ''kacho.cloud.iam.v1.AccessBindingService/ListOperations'',
      rt ''GET'' ''/iam/v1/accessBindings:expandAccess''
        ''kacho.cloud.iam.v1.AccessBindingService/ExpandAccess'',
      rt ''GET'' ''/iam/v1/accessBindings:listAssignableRoles''
        ''kacho.cloud.iam.v1.AccessBindingService/ListAssignableRoles'',
      rt ''GET'' ''/iam/v1/accessBindings:listByRole''
        ''kacho.cloud.iam.v1.AccessBindingService/ListByRole'',
      rt ''GET'' ''/iam/v1/accessBindings:listByScope''
        ''kacho.cloud.iam.v1.AccessBindingService/ListByScope'',
      rt ''GET'' ''/iam/v1/accessBindings:listBySubject''
        ''kacho.cloud.iam.v1.AccessBindingService/ListBySubject'',
      rt ''GET'' ''/iam/v1/accessBindings:listSubjectPrivileges''
        ''kacho.cloud.iam.v1.AccessBindingService/ListSubjectPrivileges'',
      rt ''GET'' ''/iam/v1/accounts''
        ''kacho.cloud.iam.v1.AccountService/List'',
      rt ''POST'' ''/iam/v1/accounts''
        ''kacho.cloud.iam.v1.AccountService/Create'',
      rt ''DELETE'' ''/iam/v1/accounts/{account_id}''
        ''kacho.cloud.iam.v1.AccountService/Delete'',
      rt ''GET'' ''/iam/v1/accounts/{account_id}''
        ''kacho.cloud.iam.v1.AccountService/Get'',
      rt ''PATCH'' ''/iam/v1/accounts/{account_id}''
        ''kacho.cloud.iam.v1.AccountService/Update'',
      rt ''GET'' ''/iam/v1/accounts/{account_id}/accessBindings''
        ''kacho.cloud.iam.v1.AccessBindingService/ListByAccount'',
      rt ''GET'' ''/iam/v1/accounts/{account_id}/operations''
        ''kacho.cloud.iam.v1.AccountService/ListOperations'',
      rt ''GET'' ''/iam/v1/accounts/{account_id}/operations:all''
        ''kacho.cloud.iam.v1.AccountService/ListAllOperations'',
      rt ''POST'' ''/iam/v1/authorize:batchCheck''
        ''kacho.cloud.iam.v1.AuthorizeService/BatchCheck'',
      rt ''POST'' ''/iam/v1/authorize:check''
        ''kacho.cloud.iam.v1.AuthorizeService/Check'',
      rt ''POST'' ''/iam/v1/authorize:expandRelations''
        ''kacho.cloud.iam.v1.AuthorizeService/ExpandRelations'',
      rt ''POST'' ''/iam/v1/authorize:listObjects''
        ''kacho.cloud.iam.v1.AuthorizeService/ListObjects'',
      rt ''POST'' ''/iam/v1/authorize:listSubjects''
        ''kacho.cloud.iam.v1.AuthorizeService/ListSubjects'',
      rt ''GET'' ''/iam/v1/conditions''
        ''kacho.cloud.iam.v1.ConditionsService/List'',
      rt ''POST'' ''/iam/v1/conditions''
        ''kacho.cloud.iam.v1.ConditionsService/Create'',
      rt ''DELETE'' ''/iam/v1/conditions/{condition_id}''
        ''kacho.cloud.iam.v1.ConditionsService/Delete'',
      rt ''GET'' ''/iam/v1/conditions/{condition_id}''
        ''kacho.cloud.iam.v1.ConditionsService/Get'',
      rt ''PATCH'' ''/iam/v1/conditions/{condition_id}''
        ''kacho.cloud.iam.v1.ConditionsService/Update'',
      rt ''POST'' ''/iam/v1/conditions/{condition_id}:evaluate''
        ''kacho.cloud.iam.v1.ConditionsService/Evaluate'',
      rt ''GET'' ''/iam/v1/groups''
        ''kacho.cloud.iam.v1.GroupService/List'',
      rt ''POST'' ''/iam/v1/groups''
        ''kacho.cloud.iam.v1.GroupService/Create'',
      rt ''DELETE'' ''/iam/v1/groups/{group_id}''
        ''kacho.cloud.iam.v1.GroupService/Delete'',
      rt ''GET'' ''/iam/v1/groups/{group_id}''
        ''kacho.cloud.iam.v1.GroupService/Get'',
      rt ''PATCH'' ''/iam/v1/groups/{group_id}''
        ''kacho.cloud.iam.v1.GroupService/Update'',
      rt ''GET'' ''/iam/v1/groups/{group_id}/operations''
        ''kacho.cloud.iam.v1.GroupService/ListOperations'',
      rt ''POST'' ''/iam/v1/groups/{group_id}:addMember''
        ''kacho.cloud.iam.v1.GroupService/AddMember'',
      rt ''GET'' ''/iam/v1/groups/{group_id}:listMembers''
        ''kacho.cloud.iam.v1.GroupService/ListMembers'',
      rt ''POST'' ''/iam/v1/groups/{group_id}:removeMember''
        ''kacho.cloud.iam.v1.GroupService/RemoveMember'',
      rt ''GET'' ''/iam/v1/internal/cluster''
        ''kacho.cloud.iam.v1.InternalClusterService/Get'',
      rt ''GET'' ''/iam/v1/internal/cluster/admins''
        ''kacho.cloud.iam.v1.InternalClusterService/ListAdmins'',
      rt ''POST'' ''/iam/v1/internal/cluster/admins''
        ''kacho.cloud.iam.v1.InternalClusterService/GrantAdmin'',
      rt ''DELETE'' ''/iam/v1/internal/cluster/admins/{subject_id}''
        ''kacho.cloud.iam.v1.InternalClusterService/RevokeAdmin'',
      rt ''POST'' ''/iam/v1/internal/iam:check''
        ''kacho.cloud.iam.v1.InternalIAMService/Check'',
      rt ''POST'' ''/iam/v1/internal/iam:lookupSubject''
        ''kacho.cloud.iam.v1.InternalIAMService/LookupSubject'',
      rt ''GET'' ''/iam/v1/internal/operations''
        ''kacho.cloud.iam.v1.InternalOperationsService/ListIamOperations'',
      rt ''POST'' ''/iam/v1/internal/users:upsertFromIdentity''
        ''kacho.cloud.iam.v1.InternalUserService/UpsertFromIdentity'',
      rt ''GET'' ''/iam/v1/me''
        ''kacho.cloud.iam.v1.AuthorizeService/WhoAmI'',
      rt ''GET'' ''/iam/v1/permissionCatalog''
        ''kacho.cloud.iam.v1.PermissionCatalogService/ListPermissionCatalog'',
      rt ''GET'' ''/iam/v1/projects''
        ''kacho.cloud.iam.v1.ProjectService/List'',
      rt ''POST'' ''/iam/v1/projects''
        ''kacho.cloud.iam.v1.ProjectService/Create'',
      rt ''DELETE'' ''/iam/v1/projects/{project_id}''
        ''kacho.cloud.iam.v1.ProjectService/Delete'',
      rt ''GET'' ''/iam/v1/projects/{project_id}''
        ''kacho.cloud.iam.v1.ProjectService/Get'',
      rt ''PATCH'' ''/iam/v1/projects/{project_id}''
        ''kacho.cloud.iam.v1.ProjectService/Update'',
      rt ''GET'' ''/iam/v1/projects/{project_id}/operations''
        ''kacho.cloud.iam.v1.ProjectService/ListOperations'',
      rt ''GET'' ''/iam/v1/roles''
        ''kacho.cloud.iam.v1.RoleService/List'',
      rt ''POST'' ''/iam/v1/roles''
        ''kacho.cloud.iam.v1.RoleService/Create'',
      rt ''DELETE'' ''/iam/v1/roles/{role_id}''
        ''kacho.cloud.iam.v1.RoleService/Delete'',
      rt ''GET'' ''/iam/v1/roles/{role_id}''
        ''kacho.cloud.iam.v1.RoleService/Get'',
      rt ''PATCH'' ''/iam/v1/roles/{role_id}''
        ''kacho.cloud.iam.v1.RoleService/Update'',
      rt ''GET'' ''/iam/v1/roles/{role_id}/operations''
        ''kacho.cloud.iam.v1.RoleService/ListOperations'',
      rt ''GET'' ''/iam/v1/serviceAccounts''
        ''kacho.cloud.iam.v1.ServiceAccountService/List'',
      rt ''POST'' ''/iam/v1/serviceAccounts''
        ''kacho.cloud.iam.v1.ServiceAccountService/Create'',
      rt ''DELETE'' ''/iam/v1/serviceAccounts/{service_account_id}''
        ''kacho.cloud.iam.v1.ServiceAccountService/Delete'',
      rt ''GET'' ''/iam/v1/serviceAccounts/{service_account_id}''
        ''kacho.cloud.iam.v1.ServiceAccountService/Get'',
      rt ''PATCH'' ''/iam/v1/serviceAccounts/{service_account_id}''
        ''kacho.cloud.iam.v1.ServiceAccountService/Update'',
      rt ''GET'' ''/iam/v1/serviceAccounts/{service_account_id}/keys''
        ''kacho.cloud.iam.v1.SAKeyService/List'',
      rt ''POST'' ''/iam/v1/serviceAccounts/{service_account_id}/keys''
        ''kacho.cloud.iam.v1.SAKeyService/Issue'',
      rt ''DELETE'' ''/iam/v1/serviceAccounts/{service_account_id}/keys/{key_id}''
        ''kacho.cloud.iam.v1.SAKeyService/Revoke'',
      rt ''GET'' ''/iam/v1/serviceAccounts/{service_account_id}/operations''
        ''kacho.cloud.iam.v1.ServiceAccountService/ListOperations'',
      rt ''GET'' ''/iam/v1/users''
        ''kacho.cloud.iam.v1.UserService/List'',
      rt ''DELETE'' ''/iam/v1/users/{user_id}''
        ''kacho.cloud.iam.v1.UserService/Delete'',
      rt ''GET'' ''/iam/v1/users/{user_id}''
        ''kacho.cloud.iam.v1.UserService/Get'',
      rt ''PATCH'' ''/iam/v1/users/{user_id}''
        ''kacho.cloud.iam.v1.UserService/Update'',
      rt ''GET'' ''/iam/v1/users/{user_id}/operations''
        ''kacho.cloud.iam.v1.UserService/ListOperations'',
      rt ''GET'' ''/iam/v1/users/{user_id}/tokens''
        ''kacho.cloud.iam.v1.UserTokenService/List'',
      rt ''POST'' ''/iam/v1/users/{user_id}/tokens''
        ''kacho.cloud.iam.v1.UserTokenService/Issue'',
      rt ''DELETE'' ''/iam/v1/users/{user_id}/tokens/{token_id}''
        ''kacho.cloud.iam.v1.UserTokenService/Revoke'',
      rt ''POST'' ''/iam/v1/users:invite''
        ''kacho.cloud.iam.v1.UserService/Invite'']"

definition routes_nlb :: "rest_route list" where
  "routes_nlb =
     [rt ''GET'' ''/nlb/v1/listeners''
        ''kacho.cloud.loadbalancer.v1.ListenerService/List'',
      rt ''POST'' ''/nlb/v1/listeners''
        ''kacho.cloud.loadbalancer.v1.ListenerService/Create'',
      rt ''DELETE'' ''/nlb/v1/listeners/{listener_id}''
        ''kacho.cloud.loadbalancer.v1.ListenerService/Delete'',
      rt ''GET'' ''/nlb/v1/listeners/{listener_id}''
        ''kacho.cloud.loadbalancer.v1.ListenerService/Get'',
      rt ''PATCH'' ''/nlb/v1/listeners/{listener_id}''
        ''kacho.cloud.loadbalancer.v1.ListenerService/Update'',
      rt ''GET'' ''/nlb/v1/listeners/{listener_id}/operations''
        ''kacho.cloud.loadbalancer.v1.ListenerService/ListOperations'',
      rt ''GET'' ''/nlb/v1/networkLoadBalancers''
        ''kacho.cloud.loadbalancer.v1.NetworkLoadBalancerService/List'',
      rt ''POST'' ''/nlb/v1/networkLoadBalancers''
        ''kacho.cloud.loadbalancer.v1.NetworkLoadBalancerService/Create'',
      rt ''DELETE'' ''/nlb/v1/networkLoadBalancers/{network_load_balancer_id}''
        ''kacho.cloud.loadbalancer.v1.NetworkLoadBalancerService/Delete'',
      rt ''GET'' ''/nlb/v1/networkLoadBalancers/{network_load_balancer_id}''
        ''kacho.cloud.loadbalancer.v1.NetworkLoadBalancerService/Get'',
      rt ''PATCH'' ''/nlb/v1/networkLoadBalancers/{network_load_balancer_id}''
        ''kacho.cloud.loadbalancer.v1.NetworkLoadBalancerService/Update'',
      rt ''GET'' ''/nlb/v1/networkLoadBalancers/{network_load_balancer_id}/operations''
        ''kacho.cloud.loadbalancer.v1.NetworkLoadBalancerService/ListOperations'',
      rt ''GET'' ''/nlb/v1/networkLoadBalancers/{network_load_balancer_id}/targetStates''
        ''kacho.cloud.loadbalancer.v1.NetworkLoadBalancerService/GetTargetStates'',
      rt ''POST'' ''/nlb/v1/networkLoadBalancers/{network_load_balancer_id}:attachTargetGroup''
        ''kacho.cloud.loadbalancer.v1.NetworkLoadBalancerService/AttachTargetGroup'',
      rt ''POST'' ''/nlb/v1/networkLoadBalancers/{network_load_balancer_id}:detachTargetGroup''
        ''kacho.cloud.loadbalancer.v1.NetworkLoadBalancerService/DetachTargetGroup'',
      rt ''POST'' ''/nlb/v1/networkLoadBalancers/{network_load_balancer_id}:move''
        ''kacho.cloud.loadbalancer.v1.NetworkLoadBalancerService/Move'',
      rt ''POST'' ''/nlb/v1/networkLoadBalancers/{network_load_balancer_id}:start''
        ''kacho.cloud.loadbalancer.v1.NetworkLoadBalancerService/Start'',
      rt ''POST'' ''/nlb/v1/networkLoadBalancers/{network_load_balancer_id}:stop''
        ''kacho.cloud.loadbalancer.v1.NetworkLoadBalancerService/Stop'',
      rt ''GET'' ''/nlb/v1/targetGroups''
        ''kacho.cloud.loadbalancer.v1.TargetGroupService/List'',
      rt ''POST'' ''/nlb/v1/targetGroups''
        ''kacho.cloud.loadbalancer.v1.TargetGroupService/Create'',
      rt ''DELETE'' ''/nlb/v1/targetGroups/{target_group_id}''
        ''kacho.cloud.loadbalancer.v1.TargetGroupService/Delete'',
      rt ''GET'' ''/nlb/v1/targetGroups/{target_group_id}''
        ''kacho.cloud.loadbalancer.v1.TargetGroupService/Get'',
      rt ''PATCH'' ''/nlb/v1/targetGroups/{target_group_id}''
        ''kacho.cloud.loadbalancer.v1.TargetGroupService/Update'',
      rt ''GET'' ''/nlb/v1/targetGroups/{target_group_id}/operations''
        ''kacho.cloud.loadbalancer.v1.TargetGroupService/ListOperations'',
      rt ''POST'' ''/nlb/v1/targetGroups/{target_group_id}:addTargets''
        ''kacho.cloud.loadbalancer.v1.TargetGroupService/AddTargets'',
      rt ''POST'' ''/nlb/v1/targetGroups/{target_group_id}:move''
        ''kacho.cloud.loadbalancer.v1.TargetGroupService/Move'',
      rt ''POST'' ''/nlb/v1/targetGroups/{target_group_id}:removeTargets''
        ''kacho.cloud.loadbalancer.v1.TargetGroupService/RemoveTargets'']"

definition routes_operations :: "rest_route list" where
  "routes_operations =
     [rt ''GET'' ''/operations/{operation_id}''
        ''kacho.cloud.operation.OperationService/Get'',
      rt ''POST'' ''/operations/{operation_id}:cancel''
        ''kacho.cloud.operation.OperationService/Cancel'']"

definition routes_registry :: "rest_route list" where
  "routes_registry =
     [rt ''GET'' ''/registry/v1/registries''
        ''kacho.cloud.registry.v1.RegistryService/List'',
      rt ''POST'' ''/registry/v1/registries''
        ''kacho.cloud.registry.v1.RegistryService/Create'',
      rt ''DELETE'' ''/registry/v1/registries/{registry_id}''
        ''kacho.cloud.registry.v1.RegistryService/Delete'',
      rt ''GET'' ''/registry/v1/registries/{registry_id}''
        ''kacho.cloud.registry.v1.RegistryService/Get'',
      rt ''PATCH'' ''/registry/v1/registries/{registry_id}''
        ''kacho.cloud.registry.v1.RegistryService/Update'',
      rt ''GET'' ''/registry/v1/registries/{registry_id}/operations''
        ''kacho.cloud.registry.v1.RegistryService/ListOperations'',
      rt ''GET'' ''/registry/v1/registries/{registry_id}/repositories''
        ''kacho.cloud.registry.v1.RegistryService/ListRepositories'',
      rt ''GET'' ''/registry/v1/registries/{registry_id}/repositories/{repository}/tags''
        ''kacho.cloud.registry.v1.RegistryService/ListTags'',
      rt ''DELETE'' ''/registry/v1/registries/{registry_id}/repositories/{repository}/tags/{tag}''
        ''kacho.cloud.registry.v1.RegistryService/DeleteTag'']"

definition routes_storage :: "rest_route list" where
  "routes_storage =
     [rt ''GET'' ''/storage/v1/diskTypes''
        ''kacho.cloud.storage.v1.DiskTypeService/List'',
      rt ''POST'' ''/storage/v1/diskTypes''
        ''kacho.cloud.storage.v1.InternalDiskTypeService/Create'',
      rt ''DELETE'' ''/storage/v1/diskTypes/{disk_type_id}''
        ''kacho.cloud.storage.v1.InternalDiskTypeService/Delete'',
      rt ''GET'' ''/storage/v1/diskTypes/{disk_type_id}''
        ''kacho.cloud.storage.v1.DiskTypeService/Get'',
      rt ''PATCH'' ''/storage/v1/diskTypes/{disk_type_id}''
        ''kacho.cloud.storage.v1.InternalDiskTypeService/Update'',
      rt ''GET'' ''/storage/v1/snapshots''
        ''kacho.cloud.storage.v1.SnapshotService/List'',
      rt ''POST'' ''/storage/v1/snapshots''
        ''kacho.cloud.storage.v1.SnapshotService/Create'',
      rt ''DELETE'' ''/storage/v1/snapshots/{snapshot_id}''
        ''kacho.cloud.storage.v1.SnapshotService/Delete'',
      rt ''GET'' ''/storage/v1/snapshots/{snapshot_id}''
        ''kacho.cloud.storage.v1.SnapshotService/Get'',
      rt ''PATCH'' ''/storage/v1/snapshots/{snapshot_id}''
        ''kacho.cloud.storage.v1.SnapshotService/Update'',
      rt ''GET'' ''/storage/v1/volumes''
        ''kacho.cloud.storage.v1.VolumeService/List'',
      rt ''POST'' ''/storage/v1/volumes''
        ''kacho.cloud.storage.v1.VolumeService/Create'',
      rt ''DELETE'' ''/storage/v1/volumes/{volume_id}''
        ''kacho.cloud.storage.v1.VolumeService/Delete'',
      rt ''GET'' ''/storage/v1/volumes/{volume_id}''
        ''kacho.cloud.storage.v1.VolumeService/Get'',
      rt ''PATCH'' ''/storage/v1/volumes/{volume_id}''
        ''kacho.cloud.storage.v1.VolumeService/Update'',
      rt ''GET'' ''/storage/v1/volumes/{volume_id}/operations''
        ''kacho.cloud.storage.v1.VolumeService/ListOperations'']"

definition routes_vpc :: "rest_route list" where
  "routes_vpc =
     [rt ''GET'' ''/vpc/v1/addressPools''
        ''kacho.cloud.vpc.v1.InternalAddressPoolService/List'',
      rt ''POST'' ''/vpc/v1/addressPools''
        ''kacho.cloud.vpc.v1.InternalAddressPoolService/Create'',
      rt ''POST'' ''/vpc/v1/addressPools/{address_pool_id}:addCidrBlocks''
        ''kacho.cloud.vpc.v1.InternalAddressPoolService/AddCidrBlocks'',
      rt ''POST'' ''/vpc/v1/addressPools/{address_pool_id}:removeCidrBlocks''
        ''kacho.cloud.vpc.v1.InternalAddressPoolService/RemoveCidrBlocks'',
      rt ''DELETE'' ''/vpc/v1/addressPools/{pool_id}''
        ''kacho.cloud.vpc.v1.InternalAddressPoolService/Delete'',
      rt ''GET'' ''/vpc/v1/addressPools/{pool_id}''
        ''kacho.cloud.vpc.v1.InternalAddressPoolService/Get'',
      rt ''PATCH'' ''/vpc/v1/addressPools/{pool_id}''
        ''kacho.cloud.vpc.v1.InternalAddressPoolService/Update'',
      rt ''GET'' ''/vpc/v1/addressPools/{pool_id}/addresses''
        ''kacho.cloud.vpc.v1.InternalAddressPoolService/ListAddresses'',
      rt ''GET'' ''/vpc/v1/addressPools/{pool_id}/utilization''
        ''kacho.cloud.vpc.v1.InternalAddressPoolService/GetUtilization'',
      rt ''GET'' ''/vpc/v1/addresses''
        ''kacho.cloud.vpc.v1.AddressService/List'',
      rt ''POST'' ''/vpc/v1/addresses''
        ''kacho.cloud.vpc.v1.AddressService/Create'',
      rt ''DELETE'' ''/vpc/v1/addresses/{address_id}''
        ''kacho.cloud.vpc.v1.AddressService/Delete'',
      rt ''GET'' ''/vpc/v1/addresses/{address_id}''
        ''kacho.cloud.vpc.v1.AddressService/Get'',
      rt ''PATCH'' ''/vpc/v1/addresses/{address_id}''
        ''kacho.cloud.vpc.v1.AddressService/Update'',
      rt ''GET'' ''/vpc/v1/addresses/{address_id}/operations''
        ''kacho.cloud.vpc.v1.AddressService/ListOperations'',
      rt ''GET'' ''/vpc/v1/addresses:bySubnet''
        ''kacho.cloud.vpc.v1.AddressService/ListBySubnet'',
      rt ''GET'' ''/vpc/v1/addresses:byValue''
        ''kacho.cloud.vpc.v1.AddressService/GetByValue'',
      rt ''GET'' ''/vpc/v1/gateways''
        ''kacho.cloud.vpc.v1.GatewayService/List'',
      rt ''POST'' ''/vpc/v1/gateways''
        ''kacho.cloud.vpc.v1.GatewayService/Create'',
      rt ''DELETE'' ''/vpc/v1/gateways/{gateway_id}''
        ''kacho.cloud.vpc.v1.GatewayService/Delete'',
      rt ''GET'' ''/vpc/v1/gateways/{gateway_id}''
        ''kacho.cloud.vpc.v1.GatewayService/Get'',
      rt ''PATCH'' ''/vpc/v1/gateways/{gateway_id}''
        ''kacho.cloud.vpc.v1.GatewayService/Update'',
      rt ''GET'' ''/vpc/v1/gateways/{gateway_id}/operations''
        ''kacho.cloud.vpc.v1.GatewayService/ListOperations'',
      rt ''GET'' ''/vpc/v1/networkInterfaces''
        ''kacho.cloud.vpc.v1.NetworkInterfaceService/List'',
      rt ''POST'' ''/vpc/v1/networkInterfaces''
        ''kacho.cloud.vpc.v1.NetworkInterfaceService/Create'',
      rt ''DELETE'' ''/vpc/v1/networkInterfaces/{network_interface_id}''
        ''kacho.cloud.vpc.v1.NetworkInterfaceService/Delete'',
      rt ''GET'' ''/vpc/v1/networkInterfaces/{network_interface_id}''
        ''kacho.cloud.vpc.v1.NetworkInterfaceService/Get'',
      rt ''PATCH'' ''/vpc/v1/networkInterfaces/{network_interface_id}''
        ''kacho.cloud.vpc.v1.NetworkInterfaceService/Update'',
      rt ''GET'' ''/vpc/v1/networkInterfaces/{network_interface_id}/operations''
        ''kacho.cloud.vpc.v1.NetworkInterfaceService/ListOperations'',
      rt ''GET'' ''/vpc/v1/networks''
        ''kacho.cloud.vpc.v1.NetworkService/List'',
      rt ''POST'' ''/vpc/v1/networks''
        ''kacho.cloud.vpc.v1.NetworkService/Create'',
      rt ''DELETE'' ''/vpc/v1/networks/{network_id}''
        ''kacho.cloud.vpc.v1.NetworkService/Delete'',
      rt ''GET'' ''/vpc/v1/networks/{network_id}''
        ''kacho.cloud.vpc.v1.NetworkService/Get'',
      rt ''PATCH'' ''/vpc/v1/networks/{network_id}''
        ''kacho.cloud.vpc.v1.NetworkService/Update'',
      rt ''DELETE'' ''/vpc/v1/networks/{network_id}/addressPoolBinding''
        ''kacho.cloud.vpc.v1.InternalAddressPoolService/UnbindNetworkDefault'',
      rt ''POST'' ''/vpc/v1/networks/{network_id}/addressPoolBinding''
        ''kacho.cloud.vpc.v1.InternalAddressPoolService/BindAsNetworkDefault'',
      rt ''GET'' ''/vpc/v1/networks/{network_id}/operations''
        ''kacho.cloud.vpc.v1.NetworkService/ListOperations'',
      rt ''GET'' ''/vpc/v1/networks/{network_id}/route_tables''
        ''kacho.cloud.vpc.v1.NetworkService/ListRouteTables'',
      rt ''GET'' ''/vpc/v1/networks/{network_id}/security_groups''
        ''kacho.cloud.vpc.v1.NetworkService/ListSecurityGroups'',
      rt ''GET'' ''/vpc/v1/networks/{network_id}/subnets''
        ''kacho.cloud.vpc.v1.NetworkService/ListSubnets'',
      rt ''GET'' ''/vpc/v1/networks/{network_id}:internal''
        ''kacho.cloud.vpc.v1.InternalNetworkService/GetNetwork'',
      rt ''GET'' ''/vpc/v1/routeTables''
        ''kacho.cloud.vpc.v1.RouteTableService/List'',
      rt ''POST'' ''/vpc/v1/routeTables''
        ''kacho.cloud.vpc.v1.RouteTableService/Create'',
      rt ''DELETE'' ''/vpc/v1/routeTables/{route_table_id}''
        ''kacho.cloud.vpc.v1.RouteTableService/Delete'',
      rt ''GET'' ''/vpc/v1/routeTables/{route_table_id}''
        ''kacho.cloud.vpc.v1.RouteTableService/Get'',
      rt ''PATCH'' ''/vpc/v1/routeTables/{route_table_id}''
        ''kacho.cloud.vpc.v1.RouteTableService/Update'',
      rt ''GET'' ''/vpc/v1/routeTables/{route_table_id}/operations''
        ''kacho.cloud.vpc.v1.RouteTableService/ListOperations'',
      rt ''POST'' ''/vpc/v1/routeTables/{route_table_id}:add-routes''
        ''kacho.cloud.vpc.v1.RouteTableService/AddRoutes'',
      rt ''POST'' ''/vpc/v1/routeTables/{route_table_id}:remove-routes''
        ''kacho.cloud.vpc.v1.RouteTableService/RemoveRoutes'',
      rt ''POST'' ''/vpc/v1/routeTables/{route_table_id}:update-route''
        ''kacho.cloud.vpc.v1.RouteTableService/UpdateRoute'',
      rt ''GET'' ''/vpc/v1/securityGroups''
        ''kacho.cloud.vpc.v1.SecurityGroupService/List'',
      rt ''POST'' ''/vpc/v1/securityGroups''
        ''kacho.cloud.vpc.v1.SecurityGroupService/Create'',
      rt ''DELETE'' ''/vpc/v1/securityGroups/{security_group_id}''
        ''kacho.cloud.vpc.v1.SecurityGroupService/Delete'',
      rt ''GET'' ''/vpc/v1/securityGroups/{security_group_id}''
        ''kacho.cloud.vpc.v1.SecurityGroupService/Get'',
      rt ''PATCH'' ''/vpc/v1/securityGroups/{security_group_id}''
        ''kacho.cloud.vpc.v1.SecurityGroupService/Update'',
      rt ''GET'' ''/vpc/v1/securityGroups/{security_group_id}/operations''
        ''kacho.cloud.vpc.v1.SecurityGroupService/ListOperations'',
      rt ''PATCH'' ''/vpc/v1/securityGroups/{security_group_id}/rules''
        ''kacho.cloud.vpc.v1.SecurityGroupService/UpdateRules'',
      rt ''PATCH'' ''/vpc/v1/securityGroups/{security_group_id}/rules/{rule_id}''
        ''kacho.cloud.vpc.v1.SecurityGroupService/UpdateRule'',
      rt ''GET'' ''/vpc/v1/subnets''
        ''kacho.cloud.vpc.v1.SubnetService/List'',
      rt ''POST'' ''/vpc/v1/subnets''
        ''kacho.cloud.vpc.v1.SubnetService/Create'',
      rt ''DELETE'' ''/vpc/v1/subnets/{subnet_id}''
        ''kacho.cloud.vpc.v1.SubnetService/Delete'',
      rt ''GET'' ''/vpc/v1/subnets/{subnet_id}''
        ''kacho.cloud.vpc.v1.SubnetService/Get'',
      rt ''PATCH'' ''/vpc/v1/subnets/{subnet_id}''
        ''kacho.cloud.vpc.v1.SubnetService/Update'',
      rt ''GET'' ''/vpc/v1/subnets/{subnet_id}/addresses''
        ''kacho.cloud.vpc.v1.SubnetService/ListUsedAddresses'',
      rt ''GET'' ''/vpc/v1/subnets/{subnet_id}/operations''
        ''kacho.cloud.vpc.v1.SubnetService/ListOperations'',
      rt ''POST'' ''/vpc/v1/subnets/{subnet_id}:add-cidr-blocks''
        ''kacho.cloud.vpc.v1.SubnetService/AddCidrBlocks'',
      rt ''POST'' ''/vpc/v1/subnets/{subnet_id}:remove-cidr-blocks''
        ''kacho.cloud.vpc.v1.SubnetService/RemoveCidrBlocks'']"

definition generated_rest_routes :: "rest_route list" where
  "generated_rest_routes =
     routes_compute_1 @ routes_compute_2 @ routes_geo @ routes_iam @ routes_nlb @ routes_operations @ routes_registry @ routes_storage @ routes_vpc"

end
