(* ===== verification/Rest_Router.thy ===== *)
theory Rest_Router
  imports Rest_Routes Edge_Context
begin

text \<open>
  The REST router (\<^verbatim>\<open>internal/middleware/rest_router.go\<close>): from a method and a path to the full name of
  the gRPC method, by a scan of the generated table, and the reverse map from method names to path
  templates.
\<close>

section \<open>Template matching\<close>

definition split_verb :: "string \<Rightarrow> string \<times> string" where
  "split_verb p =
     (let last = (case last_index_byte p (CHR ''/'') of None \<Rightarrow> p | Some slash \<Rightarrow> drop (slash + 1) p) in
      case index_byte last (CHR '':'') of
        Some colon \<Rightarrow> (take (length p - length last) p @ take colon last, drop (colon + 1) last)
      | None \<Rightarrow> (p, []))"

definition split_path :: "string \<Rightarrow> string list" where
  "split_path p = split_byte (CHR ''/'') (trim_byte (CHR ''/'') p)"

fun match_parts :: "string list \<Rightarrow> string list \<Rightarrow> bool" where
  \<comment> \<open>the loop over the segments; both lists have the same length\<close>
  "match_parts (t # ts) (p # ps) =
     (if is_placeholder t then (if p = [] then False else match_parts ts ps)
      else if t \<noteq> p then False else match_parts ts ps)"
| "match_parts _ _ = True"

definition match_template :: "string \<Rightarrow> string \<Rightarrow> bool" where
  "match_template template reqPath =
     (let (tSeg, tVerb) = split_verb template; (pSeg, pVerb) = split_verb reqPath in
      if tVerb \<noteq> pVerb then False
      else (let tparts = split_path tSeg; pparts = split_path pSeg in
            if length tparts \<noteq> length pparts then False else match_parts tparts pparts))"

section \<open>The router\<close>

record rest_router =
  by_method :: "(string \<times> rest_route list) list"
  fqn_template :: "(string \<times> string) list"

definition add_route :: "rest_router \<Rightarrow> rest_route \<Rightarrow> rest_router" where
  \<comment> \<open>one iteration of the loop of \<open>NewRestRouter\<close>\<close>
  "add_route r x =
     (let routes = (case map_of (by_method r) (rt_method x) of None \<Rightarrow> [] | Some rs \<Rightarrow> rs);
          r1 = r\<lparr>by_method := AList.update (rt_method x) (routes @ [x]) (by_method r)\<rparr>
      in if map_of (fqn_template r1) (rt_fqn x) = None
         then r1\<lparr>fqn_template := AList.update (rt_fqn x) (rt_template x) (fqn_template r1)\<rparr> else r1)"

definition router_of :: "rest_route list \<Rightarrow> rest_router" where
  "router_of rts = foldl add_route \<lparr>by_method = [], fqn_template = []\<rparr> rts"

definition new_rest_router :: rest_router where
  "new_rest_router = router_of generated_rest_routes"

definition drop_query :: "string \<Rightarrow> string" where
  "drop_query p = (case index_byte p (CHR ''?'') of None \<Rightarrow> p | Some i \<Rightarrow> take i p)"

definition rest_resolve :: "rest_router \<Rightarrow> string \<Rightarrow> string \<Rightarrow> string option" where
  "rest_resolve r httpMethod httpPath =
     (let path = drop_query httpPath;
          routes = (case map_of (by_method r) (to_upper httpMethod) of None \<Rightarrow> [] | Some rs \<Rightarrow> rs)
      in map_option rt_fqn (find (\<lambda>x. match_template (rt_template x) path) routes))"

definition path_templates :: "rest_router \<Rightarrow> (string \<times> string) list" where
  "path_templates r = fqn_template r"

section \<open>The scan by method is a scan of the table\<close>

lemma router_of_snoc: "router_of (rts @ [x]) = add_route (router_of rts) x"
  by (simp add: router_of_def)

lemma router_by_method:
  "(case map_of (by_method (router_of rts)) m of None \<Rightarrow> [] | Some rs \<Rightarrow> rs) =
     filter (\<lambda>x. rt_method x = m) rts"
proof (induction rts rule: rev_induct)
  case (snoc x xs)
  then show ?case
    by (auto simp: router_of_snoc add_route_def Let_def update_conv split: option.splits)
qed (simp add: router_of_def)

lemma router_fqn_template:
  "map_of (fqn_template (router_of rts)) f = map_option rt_template (find (\<lambda>x. rt_fqn x = f) rts)"
proof (induction rts rule: rev_induct)
  case (snoc x xs)
  have "find P (xs @ [x]) = (case find P xs of None \<Rightarrow> if P x then Some x else None | Some y \<Rightarrow> Some y)"
    for P :: "rest_route \<Rightarrow> bool"
    by (induction xs) auto
  with snoc show ?case
    by (auto simp: router_of_snoc add_route_def Let_def update_conv split: option.splits)
qed (simp add: router_of_def)

lemma find_filter: "find P (filter Q xs) = find (\<lambda>x. Q x \<and> P x) xs"
  by (induction xs) auto

lemma rest_resolve_router_of:
  "rest_resolve (router_of rts) m p =
     map_option rt_fqn
       (find (\<lambda>x. rt_method x = to_upper m \<and> match_template (rt_template x) (drop_query p)) rts)"
  by (simp add: rest_resolve_def router_by_method find_filter Let_def)

text \<open>
  The router returns the method name of the first row of the generated table whose HTTP method is
  the upper-cased request method and whose template matches the path without its query, and nothing
  when no row matches; the reverse map gives the template of the first row of each method name.
\<close>

theorem resolve_is_first_match:
  "rest_resolve new_rest_router m p =
     map_option rt_fqn
       (find (\<lambda>x. rt_method x = to_upper m \<and> match_template (rt_template x) (drop_query p))
          generated_rest_routes) \<and>
   map_of (path_templates new_rest_router) f =
     map_option rt_template (find (\<lambda>x. rt_fqn x = f) generated_rest_routes)"
  by (simp add: new_rest_router_def rest_resolve_router_of path_templates_def router_fqn_template)

section \<open>Instances of a template match it\<close>

definition good_segment :: "string \<Rightarrow> bool" where
  "good_segment s \<longleftrightarrow> s \<noteq> [] \<and> CHR ''/'' \<notin> set s \<and> CHR '':'' \<notin> set s \<and> CHR ''?'' \<notin> set s"

fun fill_parts :: "string list \<Rightarrow> string list \<Rightarrow> string list" where
  "fill_parts (t # ts) (v # vs) =
     (if is_placeholder t then v # fill_parts ts vs else t # fill_parts ts (v # vs))"
| "fill_parts ts _ = ts"

definition build_path :: "string list \<Rightarrow> string \<Rightarrow> string" where
  "build_path segs verb =
     ''/'' @ join_with ''/'' segs @ (if verb = [] then [] else CHR '':'' # verb)"

definition instantiate :: "string \<Rightarrow> string list \<Rightarrow> string" where
  \<comment> \<open>the path with the placeholders of the template replaced from left to right\<close>
  "instantiate t vs = (let (base, verb) = split_verb t in build_path (fill_parts (split_path base) vs) verb)"

definition good_template :: "string \<Rightarrow> bool" where
  "good_template t =
     (let (base, verb) = split_verb t; segs = split_path base in
      t = build_path segs verb \<and> list_all good_segment segs \<and>
      CHR ''/'' \<notin> set verb \<and> CHR ''?'' \<notin> set verb)"

lemma match_parts_refl: "list_all good_segment ts \<Longrightarrow> match_parts ts ts"
  by (induction ts) (auto simp: good_segment_def)

lemma fill_parts_good:
  "list_all good_segment ts \<Longrightarrow> list_all good_segment vs \<Longrightarrow>
     list_all good_segment (fill_parts ts vs) \<and> length (fill_parts ts vs) = length ts \<and>
     match_parts ts (fill_parts ts vs)"
  by (induction ts vs rule: fill_parts.induct) (auto simp: good_segment_def match_parts_refl)

lemma trim_join_segments:
  assumes "list_all good_segment segs" "segs \<noteq> []"
  shows "split_path (''/'' @ join_with ''/'' segs) = segs"
proof -
  let ?j = "join_with ''/'' segs"
  obtain x xs where x: "segs = x # xs" "good_segment x"
    using assms by (cases segs) auto
  obtain y ys where y: "segs = ys @ [y]" "good_segment y"
    using assms by (cases segs rule: rev_cases) auto
  have "hd ?j \<noteq> CHR ''/''" "?j \<noteq> []"
    using x join_with_ends(1,2) [of x "''/''" xs] by (auto simp: good_segment_def dest: hd_in_set)
  moreover have "last ?j \<noteq> CHR ''/''"
    using y join_with_ends(3) [of y "''/''" ys] by (auto simp: good_segment_def dest: last_in_set)
  ultimately have "trim_byte (CHR ''/'') (''/'' @ ?j) = ?j"
    by (simp add: trim_byte_id)
  then show ?thesis
    using assms by (simp add: split_path_def split_join_byte good_segment_def list_all_iff)
qed

lemma split_verb_build:
  assumes "list_all good_segment segs" "segs \<noteq> []" "CHR ''/'' \<notin> set verb"
  shows "split_verb (build_path segs verb) = (''/'' @ join_with ''/'' segs, verb)"
proof -
  obtain a l where segs: "''/'' @ join_with ''/'' segs = a @ CHR ''/'' # l" and l: "good_segment l"
  proof (cases segs rule: rev_cases)
    case (snoc init x)
    then have "good_segment x" using assms(1) by simp
    moreover have "''/'' @ join_with ''/'' segs =
        (if init = [] then [] else ''/'' @ join_with ''/'' init) @ CHR ''/'' # x"
      using snoc by (simp add: join_with_snoc)
    ultimately show thesis by (rule that [rotated])
  qed (use assms(2) in simp)
  let ?v = "if verb = [] then [] else CHR '':'' # verb"
  have path: "build_path segs verb = a @ CHR ''/'' # (l @ ?v)"
    using segs by (simp add: build_path_def)
  have "CHR ''/'' \<notin> set (l @ ?v)"
    using l assms(3) by (auto simp: good_segment_def)
  then have "last_index_byte (build_path segs verb) (CHR ''/'') = Some (length a)"
    unfolding path by (rule last_index_byte_append)
  moreover have "index_byte (l @ ?v) (CHR '':'') = (if verb = [] then None else Some (length l))"
    using l by (auto simp: good_segment_def index_byte_append index_byte_None)
  ultimately show ?thesis
    unfolding segs by (auto simp: split_verb_def path)
qed

lemma drop_query_id: "CHR ''?'' \<notin> set p \<Longrightarrow> drop_query p = p"
  by (simp add: drop_query_def index_byte_None [THEN iffD2])

lemma match_template_instantiate:
  assumes "good_template t" "list_all good_segment vs"
  shows "match_template t (instantiate t vs)" "CHR ''?'' \<notin> set (instantiate t vs)"
proof -
  obtain base verb where sv: "split_verb t = (base, verb)" by (cases "split_verb t") auto
  let ?segs = "split_path base"
  have good: "list_all good_segment ?segs" "?segs \<noteq> []" "CHR ''/'' \<notin> set verb" "CHR ''?'' \<notin> set verb"
    using assms(1) sv by (auto simp: good_template_def Let_def split_path_def)
  note fill = fill_parts_good [OF good(1) assms(2)]
  then have ne: "fill_parts ?segs vs \<noteq> []"
    using good(2) by (metis length_0_conv)
  then have sp: "split_verb (instantiate t vs) = (''/'' @ join_with ''/'' (fill_parts ?segs vs), verb)"
    using fill good(3) sv by (simp add: instantiate_def split_verb_build)
  then show "match_template t (instantiate t vs)"
    using fill ne sv trim_join_segments [of "fill_parts ?segs vs"] by (simp add: match_template_def)
  have "CHR ''?'' \<notin> set (join_with ''/'' (fill_parts ?segs vs))"
    using set_join_with [of "''/''" "fill_parts ?segs vs"] fill by (auto simp: list_all_iff good_segment_def)
  then show "CHR ''?'' \<notin> set (instantiate t vs)"
    using good(4) sv by (simp add: instantiate_def build_path_def)
qed

lemma routes_compute_1_good: "list_all (\<lambda>x. good_template (rt_template x)) routes_compute_1"
  by code_simp

lemma routes_compute_2_good: "list_all (\<lambda>x. good_template (rt_template x)) routes_compute_2"
  by code_simp

lemma routes_geo_good: "list_all (\<lambda>x. good_template (rt_template x)) routes_geo"
  by code_simp

lemma routes_iam_good: "list_all (\<lambda>x. good_template (rt_template x)) routes_iam"
  by code_simp

lemma routes_nlb_good: "list_all (\<lambda>x. good_template (rt_template x)) routes_nlb"
  by code_simp

lemma routes_operations_good: "list_all (\<lambda>x. good_template (rt_template x)) routes_operations"
  by code_simp

lemma routes_registry_good: "list_all (\<lambda>x. good_template (rt_template x)) routes_registry"
  by code_simp

lemma routes_storage_good: "list_all (\<lambda>x. good_template (rt_template x)) routes_storage"
  by code_simp

lemma routes_vpc_good: "list_all (\<lambda>x. good_template (rt_template x)) routes_vpc"
  by code_simp

lemmas routes_good =
  routes_compute_1_good
  routes_compute_2_good
  routes_geo_good
  routes_iam_good
  routes_nlb_good
  routes_operations_good
  routes_registry_good
  routes_storage_good
  routes_vpc_good

lemma generated_routes_good: "x \<in> set generated_rest_routes \<Longrightarrow> good_template (rt_template x)"
  using routes_good by (auto simp: generated_rest_routes_def list_all_iff)

text \<open>
  No request that instantiates a row of the table is lost: with any non-empty segments (without
  slash, colon and question mark) for its placeholders, the path of the row resolves, to the method
  name of a row that has the same HTTP method and matches the path.
\<close>

theorem template_instances_resolve:
  assumes "x \<in> set generated_rest_routes" "list_all good_segment vs" "to_upper m = rt_method x"
  shows "\<exists>y \<in> set generated_rest_routes.
    rest_resolve new_rest_router m (instantiate (rt_template x) vs) = Some (rt_fqn y) \<and>
    rt_method y = rt_method x \<and> match_template (rt_template y) (instantiate (rt_template x) vs)"
proof -
  let ?p = "instantiate (rt_template x) vs"
  let ?P = "\<lambda>y. rt_method y = to_upper m \<and> match_template (rt_template y) (drop_query ?p)"
  note inst = match_template_instantiate [OF generated_routes_good [OF assms(1)] assms(2)]
  then have dq: "drop_query ?p = ?p"
    by (simp add: drop_query_id)
  then have "?P x"
    using inst(1) assms(3) by simp
  then obtain y where y: "find ?P generated_rest_routes = Some y"
    using assms(1) by (cases "find ?P generated_rest_routes") (auto simp: find_None_iff)
  then have "y \<in> set generated_rest_routes" "?P y"
    by (auto simp: find_Some_iff)
  then show ?thesis
    using y dq assms(3) by (auto simp: new_rest_router_def rest_resolve_router_of)
qed

lemma network_route:
  "rt ''GET'' ''/vpc/v1/networks/{network_id}'' ''kacho.cloud.vpc.v1.NetworkService/Get'' \<in> set routes_vpc"
  unfolding routes_vpc_def list.set insert_iff by simp

theorem template_instances_resolve_witness:
  "rest_resolve new_rest_router ''get'' (instantiate ''/vpc/v1/networks/{network_id}'' [''n1'']) \<noteq> None"
proof -
  let ?x = "rt ''GET'' ''/vpc/v1/networks/{network_id}'' ''kacho.cloud.vpc.v1.NetworkService/Get''"
  have "?x \<in> set generated_rest_routes"
    using network_route by (simp add: generated_rest_routes_def)
  moreover have "list_all good_segment [''n1'']" "to_upper ''get'' = ''GET''"
    by code_simp+
  ultimately show ?thesis
    using template_instances_resolve [of ?x "[''n1'']" "''get''"] by auto
qed

end
