(* ===== verification/Gateway_Start.thy ===== *)
theory Gateway_Start
  imports Gateway_Chain Control_Plane Rest_Router
begin

text \<open>
  How \<^verbatim>\<open>cmd/api-gateway/main.go\<close> builds the process from its configuration, fail-fast: the connections to the
  backends (\<^verbatim>\<open>mtls_config.go\<close>), the client-certificate policy of the external listener
  (\<^verbatim>\<open>internal/config/config.go\<close>), the token-binding middleware, the authorization middleware with its
  reload on SIGHUP, and the internal gRPC listener (\<^verbatim>\<open>internal_grpc_listener.go\<close>). Files, sockets, TLS
  and gRPC connections are parameters. Multiplications of configured seconds stay below the 64-bit range.
\<close>

section \<open>Dialling the backends\<close>

datatype dial_error = DialCreds edge_error | DialFailed string string

record ('opt, 'conn) dialer =
  dl_split :: "string \<Rightarrow> string option"
  dl_tls_creds :: "tls_client \<Rightarrow> 'opt option"
  dl_new_client :: "string \<Rightarrow> 'opt option \<Rightarrow> 'conn option" \<comment> \<open>\<open>grpc.NewClient\<close>; a missing map entry is the nil option\<close>
  dl_insecure :: 'opt

record 'conn dial_state =
  dl_live :: "'conn list" \<comment> \<open>the connections that exist: created and not closed\<close>
  dl_opened :: "'conn list" \<comment> \<open>the slice \<open>opened\<close> that \<open>cleanup\<close> walks\<close>
  dl_backends :: "(string \<times> 'conn) list"

definition dial_one ::
  "('opt, 'conn) dialer \<Rightarrow> string \<Rightarrow> string \<Rightarrow> 'opt option \<Rightarrow> 'conn dial_state \<Rightarrow> dial_error + 'conn dial_state" where
  "dial_one d key addr opt s =
     (case dl_new_client d addr opt of
        None \<Rightarrow> Inl (DialFailed key addr)
      | Some conn \<Rightarrow>
          Inr \<lparr>dl_live = dl_live s @ [conn], dl_opened = dl_opened s @ [conn], dl_backends = AList.update key conn (dl_backends s)\<rparr>)"

definition cleanup :: "'conn dial_state \<Rightarrow> 'conn dial_state" where
  \<comment> \<open>closes every connection of \<open>opened\<close>\<close>
  "cleanup s = s\<lparr>dl_live := foldl (\<lambda>live c. remove1 c live) (dl_live s) (dl_opened s)\<rparr>"

fun dial_loop ::
  "('opt, 'conn) dialer \<Rightarrow> gateway_config \<Rightarrow> (string \<times> 'opt) list \<Rightarrow> string list \<Rightarrow> 'conn dial_state \<Rightarrow>
   'conn dial_state \<times> dial_error option" where
  "dial_loop d c creds [] s = (s, None)"
| "dial_loop d c creds (k # ks) s =
     (case dial_one d k (backend_addr c k) (map_of creds k) s of
        Inl e \<Rightarrow> (cleanup s, Some e)
      | Inr s' \<Rightarrow> dial_loop d c creds ks s')"

definition loopback_addr :: "string \<Rightarrow> string" where
  "loopback_addr a = (if a \<noteq> [] \<and> hd a = CHR '':'' then ''127.0.0.1'' @ a else a)"

definition dial_backends ::
  "('opt, 'conn) dialer \<Rightarrow> gateway_config \<Rightarrow> string list \<Rightarrow> 'conn dial_state \<times> dial_error option" where
  \<comment> \<open>the keys of \<open>BackendAddrs\<close> in the order of the map iteration; the first component at an error is what is left\<close>
  "dial_backends d c keys =
     (let s0 = \<lparr>dl_live = [], dl_opened = [], dl_backends = []\<rparr> in
      case build_backend_dial_creds (dl_split d) (dl_tls_creds d) c of
        Inl e \<Rightarrow> (s0, Some (DialCreds e))
      | Inr creds \<Rightarrow>
          (case dial_loop d c creds keys s0 of
             (s, Some e) \<Rightarrow> (s, Some e)
           | (s, None) \<Rightarrow>
               (case dial_one d ''operation'' (loopback_addr (gw_listen_addr c)) (Some (dl_insecure d)) s of
                  Inl e \<Rightarrow> (cleanup s, Some e)
                | Inr s' \<Rightarrow> (s', None))))"

section \<open>Client certificates on the external listener\<close>

datatype client_auth = NoClientCert | VerifyClientCertIfGiven

record 'pool server_tls =
  st_client_auth :: client_auth
  st_client_cas :: "'pool option"

datatype hybrid_error = ClientCAMissing | ClientCAUnreadable string | ClientCAUnparsable string

definition external_listener_client_auth ::
  "(string \<Rightarrow> string option) \<Rightarrow> (string \<Rightarrow> 'pool option) \<Rightarrow> gateway_config \<Rightarrow> 'pool server_tls option \<Rightarrow>
   hybrid_error + 'pool server_tls" where
  \<comment> \<open>\<open>os.ReadFile\<close> and \<open>AppendCertsFromPEM\<close>\<close>
  "external_listener_client_auth read_file pool_of c base =
     (let b = (case base of None \<Rightarrow> \<lparr>st_client_auth = NoClientCert, st_client_cas = None\<rparr> | Some x \<Rightarrow> x) in
      if \<not> gw_hybrid_mtls_external c then Inr b
      else if gw_mtls_ca_file c = [] then Inl ClientCAMissing
      else case read_file (gw_mtls_ca_file c) of
        None \<Rightarrow> Inl (ClientCAUnreadable (gw_mtls_ca_file c))
      | Some pem \<Rightarrow>
          (case pool_of pem of
             None \<Rightarrow> Inl (ClientCAUnparsable (gw_mtls_ca_file c))
           | Some pool \<Rightarrow> Inr \<lparr>st_client_auth = VerifyClientCertIfGiven, st_client_cas = Some pool\<rparr>))"

section \<open>Token binding\<close>

definition catalog_permission_lookup :: "catalog option \<Rightarrow> string \<Rightarrow> permission_requirement" where
  "catalog_permission_lookup cat fqn =
     (case cat of
        None \<Rightarrow> no_requirement
      | Some c \<Rightarrow>
          if fqn = [] then no_requirement
          else (case catalog_lookup c fqn of
                  None \<Rightarrow> no_requirement
                | Some e \<Rightarrow> permission_requirement.make (ce_required_acr_min e) 0))"

datatype dpop_build_error =
  DpopVerifierRequired | DpopValidatorRequired | StepUpRequired | DpopLoggerRequired | ApiDomainRequired

definition new_dpop_middleware ::
  "bool list \<Rightarrow> (string \<Rightarrow> permission_requirement) option \<Rightarrow> 's dpop_mw \<Rightarrow> dpop_build_error + 's dpop_mw" where
  \<comment> \<open>whether verifier, validator, step-up gate and logger are given; the rest of the configuration\<close>
  "new_dpop_middleware given lookup cfg =
     (case given of
        [v, d, s, l] \<Rightarrow>
          if \<not> v then Inl DpopVerifierRequired
          else if \<not> d then Inl DpopValidatorRequired
          else if \<not> s then Inl StepUpRequired
          else if \<not> l then Inl DpopLoggerRequired
          else if mw_api_domain cfg = [] then Inl ApiDomainRequired
          else Inr (cfg\<lparr>mw_lookup := (case lookup of None \<Rightarrow> (\<lambda>_. no_requirement) | Some f \<Rightarrow> f)\<rparr>)
      | _ \<Rightarrow> Inl DpopVerifierRequired)"

record 's dpop_parts =
  \<comment> \<open>what \<open>main\<close> has built before: the verifier shared with the interceptor, introspection, crypto\<close>
  dq_verify :: "'s \<Rightarrow> string \<Rightarrow> 's \<times> (jwt_error + verified_token)"
  dq_introspect :: "introspection_cache \<Rightarrow> string \<Rightarrow> string \<Rightarrow> introspection_cache \<times> introspect_error option"
  dq_env :: dpop_env
  dq_iat_seconds :: int

datatype binding_error = BindingCatalog config_error | BindingMiddleware dpop_build_error

definition build_dpop ::
  "'s dpop_parts \<Rightarrow> gateway_config \<Rightarrow> string \<Rightarrow> config_error + catalog \<Rightarrow> binding_error + 's dpop_mw" where
  \<comment> \<open>the third argument is the authentication mode, the fourth the step-up catalog as it loads\<close>
  "build_dpop p c mode stepup =
     (case stepup of
        Inl e \<Rightarrow> Inl (BindingCatalog e)
      | Inr cat \<Rightarrow>
          (case new_dpop_middleware [True, True, True, True] (Some (catalog_permission_lookup (Some cat)))
                  \<lparr>mw_verify = dq_verify p, mw_introspect = dq_introspect p, mw_lookup = (\<lambda>_. no_requirement),
                   mw_routes = Some (rest_resolve new_rest_router), mw_env = dq_env p,
                   mw_validator = dpop_validator_new (dq_iat_seconds p * second) None, mw_api_domain = gw_api_domain c,
                   mw_require_all = (mode = ''production-strict'')\<rparr> of
             Inl e \<Rightarrow> Inl (BindingMiddleware e)
           | Inr m \<Rightarrow> Inr m))"

section \<open>The authorization middleware\<close>

record authz_settings =
  zs_enabled :: bool
  zs_fail_open :: bool
  zs_catalog_file :: string
  zs_overrides_file :: string
  zs_check_timeout_ms :: int
  zs_cache_ttl_seconds :: int
  zs_cache_max_entries :: int
  zs_trusted_xff :: bool
  zs_trusted_proxy_count :: int

record 'opt authz_parts =
  \<comment> \<open>decoders, file system, embedded catalog, libraries, and the dial of the IAM client\<close>
  ap_decoder :: catalog_decoder
  ap_yaml :: "string \<Rightarrow> (int \<times> override_row list) option"
  ap_files :: file_system
  ap_embedded :: string
  ap_parse_ip :: "string \<Rightarrow> string option"
  ap_rfc3339 :: "string \<Rightarrow> int option"
  ap_split :: "string \<Rightarrow> string option"
  ap_decode_json :: "string \<Rightarrow> claims option"
  ap_valid_id :: "string \<Rightarrow> bool"
  ap_sha256_hex :: "string \<Rightarrow> string"
  ap_tls_creds :: "tls_client \<Rightarrow> 'opt option"
  ap_dials :: "string \<Rightarrow> 'opt \<Rightarrow> bool"

datatype start_error =
    StartCatalog config_error | StartOverrides config_error | StartIamCreds edge_error | StartIamClient client_error
  | StartAuthz authz_error | StartPosture "posture_problem list"

definition authz_config_of :: "'opt authz_parts \<Rightarrow> authz_settings \<Rightarrow> authz_config" where
  "authz_config_of p z =
     \<lparr>az_enabled = zs_enabled z, az_fail_open = zs_fail_open z, az_fallback = True,
      az_context = context_extractor_new (zs_trusted_xff z) (Some (zs_trusted_proxy_count z)) (ap_parse_ip p) (ap_rfc3339 p),
      az_split_host_port = ap_split p, az_templates = fqn_template new_rest_router, az_decode_json = ap_decode_json p,
      az_valid_id = ap_valid_id p, az_allow = default_public_allowlist, az_router = Some (rest_resolve new_rest_router),
      az_sha256_hex = ap_sha256_hex p\<rparr>"

definition build_authz_middleware ::
  "'opt authz_parts \<Rightarrow> gateway_config \<Rightarrow> authz_settings \<Rightarrow> start_error + authz_state \<times> authorize_client option" where
  \<comment> \<open>the state of the middleware and the client of its checker\<close>
  "build_authz_middleware p c z =
     (if \<not> zs_enabled z
      then (case new_authz_middleware False [] 0 0 None catalog_new None of Inl e \<Rightarrow> Inl (StartAuthz e) | Inr st \<Rightarrow> Inr (st, None))
      else case load_embedded_catalog (ap_decoder p) (ap_files p) (ap_embedded p) (zs_catalog_file z) of
        Inl e \<Rightarrow> Inl (StartCatalog e)
      | Inr cat \<Rightarrow>
          (case (if zs_overrides_file z \<noteq> []
                 then load_file (parse_overrides (ap_yaml p)) (ap_files p) overrides_new (zs_overrides_file z)
                 else (overrides_new, None)) of
             (_, Some e) \<Rightarrow> Inl (StartOverrides e)
           | (ovr, None) \<Rightarrow>
               (let addr = resolved_iam_authorize_url c in
                case iam_edge_dial_creds (ap_split p) (ap_tls_creds p) c addr of
                  Inl e \<Rightarrow> Inl (StartIamCreds e)
                | Inr creds \<Rightarrow>
                    (case authorize_client_new addr True (ap_dials p addr creds) (zs_check_timeout_ms z * millisecond) 0 of
                       Inl e \<Rightarrow> Inl (StartIamClient e)
                     | Inr client \<Rightarrow>
                         (case new_authz_middleware True [True, True, True, True, True, True] (zs_cache_max_entries z)
                                 (zs_cache_ttl_seconds z * second) None cat (Some ovr) of
                            Inl e \<Rightarrow> Inl (StartAuthz e)
                          | Inr st \<Rightarrow> Inr (st, Some client))))))"

definition start_authz ::
  "'opt authz_parts \<Rightarrow> gateway_config \<Rightarrow> authz_settings \<Rightarrow> string \<Rightarrow> bool \<Rightarrow>
   start_error + authz_state \<times> authorize_client option" where
  \<comment> \<open>the block of \<open>main\<close>: the posture is validated first; the authentication mode, and whether a development secret is set\<close>
  "start_authz p c z mode devSecret =
     (case validate_production_authz_config (gw_app_env c)
             \<lparr>ap_enabled = zs_enabled z, ap_fail_open = zs_fail_open z, ap_authn_mode = mode, ap_dev_secret_set = devSecret\<rparr> of
        [] \<Rightarrow> build_authz_middleware p c z
      | problems \<Rightarrow> Inl (StartPosture problems))"

definition authz_sighup ::
  "'opt authz_parts \<Rightarrow> bool \<Rightarrow> file_system list \<Rightarrow> authz_state \<Rightarrow> authz_state" where
  \<comment> \<open>the loop of \<open>installAuthzSIGHUP\<close>: one reload per signal, from the files as they are then; errors are logged\<close>
  "authz_sighup p enabled signals st =
     foldl (\<lambda>st fs. fst (authz_reload (ap_decoder p) (ap_yaml p) fs enabled st)) st signals"

section \<open>The internal listener\<close>

record internal_server =
  is_creds :: "string option" \<comment> \<open>the transport credentials, none when the listener is insecure\<close>
  is_allowed :: "string list option" \<comment> \<open>the interceptors with their allow-list\<close>
  is_reflection :: bool

datatype internal_error =
    ListenerSecurity listener_error | ListenAddrRequired | ExternalServerRequired | ServerCredsNil | ListenFailed string

definition server_options :: "listener_security \<Rightarrow> string option \<times> string list option" where
  "server_options s = (if \<not> ls_mtls_enabled s then (None, None) else (ls_server_creds s, Some (ls_allowed_spiffe s)))"

definition start_internal_listener ::
  "(string \<Rightarrow> bool) \<Rightarrow> string \<Rightarrow> bool \<Rightarrow> listener_security \<Rightarrow> internal_error + internal_server" where
  \<comment> \<open>\<open>net.Listen\<close> succeeds, the address, an external server is given\<close>
  "start_internal_listener listens addr external s =
     (if addr = [] then Inl ListenAddrRequired
      else if \<not> external then Inl ExternalServerRequired
      else if ls_mtls_enabled s \<and> ls_server_creds s = None then Inl ServerCredsNil
      else if \<not> listens addr then Inl (ListenFailed addr)
      else (let (creds, allowed) = server_options s in
            Inr \<lparr>is_creds = creds, is_allowed = allowed, is_reflection = ls_reflection s\<rparr>))"

definition start_internal ::
  "(string \<Rightarrow> string \<Rightarrow> string list \<Rightarrow> bool) \<Rightarrow> (string \<Rightarrow> bool) \<Rightarrow> gateway_config \<Rightarrow> string \<Rightarrow> internal_error + internal_server" where
  \<comment> \<open>the block of \<open>main\<close>: build the security, refuse an insecure listener in production, listen\<close>
  "start_internal server_creds listens c addr =
     (case build_internal_listener_security server_creds c of
        Inl e \<Rightarrow> Inl (ListenerSecurity e)
      | Inr s \<Rightarrow>
          (case validate_production_internal_listener (gw_app_env c) (ls_mtls_enabled s) of
             Some e \<Rightarrow> Inl (ListenerSecurity e)
           | None \<Rightarrow> start_internal_listener listens addr True s))"

definition internal_invalidate ::
  "('cert \<Rightarrow> string) \<Rightarrow> internal_server \<Rightarrow> 'cert grpc_peer \<Rightarrow> string \<Rightarrow> authz_state \<Rightarrow> authz_state \<times> (code \<times> string) option" where
  \<comment> \<open>\<open>InvalidateSubject\<close> through the interceptors of the server\<close>
  "internal_invalidate ci srv p subj st =
     (let handler = (\<lambda>st. invalidate_subject_rpc (as_invalidator (Some st)) st subj) in
      case is_allowed srv of
        None \<Rightarrow> handler st
      | Some allowed \<Rightarrow> spiffe_unary ci allowed p handler st)"

section \<open>Connections\<close>

lemma update_fresh: "k \<notin> fst ` set al \<Longrightarrow> AList.update k v al = al @ [(k, v)]"
  by (induction al) auto

lemma foldl_remove1_self: "foldl (\<lambda>l c. remove1 c l) xs xs = []"
  by (induction xs) simp_all

definition dial_ok :: "'conn dial_state \<Rightarrow> bool" where
  \<comment> \<open>every live connection is in the slice and in the table\<close>
  "dial_ok s \<longleftrightarrow> dl_opened s = dl_live s \<and> dl_live s = map snd (dl_backends s)"

lemma cleanup_closes: "dial_ok s \<Longrightarrow> dl_live (cleanup s) = []"
  by (simp add: dial_ok_def cleanup_def foldl_remove1_self)

lemma dial_one_Inr:
  assumes "dial_one d k addr opt s = Inr s'" "dial_ok s" "k \<notin> fst ` set (dl_backends s)"
  shows "dial_ok s'" "\<exists>conn. dl_new_client d addr opt = Some conn \<and> dl_backends s' = dl_backends s @ [(k, conn)]"
  using assms by (auto simp: dial_one_def dial_ok_def update_fresh split: option.splits)

lemma dial_loop_spec:
  assumes "dial_loop d c creds ks s = (s', e)" "dial_ok s" "distinct ks" "set ks \<inter> fst ` set (dl_backends s) = {}"
  shows "if e = None
    then dial_ok s' \<and> (\<exists>conns. dl_backends s' = dl_backends s @ zip ks conns \<and> length conns = length ks \<and>
           list_all2 (\<lambda>k conn. dl_new_client d (backend_addr c k) (map_of creds k) = Some conn) ks conns)
    else dl_live s' = []"
  using assms
proof (induction ks arbitrary: s)
  case (Cons k ks)
  show ?case
  proof (cases "dial_one d k (backend_addr c k) (map_of creds k) s")
    case (Inl err)
    then show ?thesis
      using Cons.prems(1) cleanup_closes [OF Cons.prems(2)] by auto
  next
    case (Inr s1)
    have "k \<notin> fst ` set (dl_backends s)"
      using Cons.prems(4) by simp
    from dial_one_Inr [OF Inr Cons.prems(2) this] obtain conn where
      ok: "dial_ok s1" and conn: "dl_new_client d (backend_addr c k) (map_of creds k) = Some conn" "dl_backends s1 = dl_backends s @ [(k, conn)]"
      by blast
    have "set ks \<inter> fst ` set (dl_backends s1) = {}" "distinct ks" "dial_loop d c creds ks s1 = (s', e)"
      using Cons.prems conn(2) Inr by auto
    note rest = Cons.IH [OF this(3) ok this(2,1)]
    show ?thesis
    proof (cases e)
      case None
      with rest obtain conns where "dial_ok s'" "dl_backends s' = dl_backends s1 @ zip ks conns" "length conns = length ks"
        "list_all2 (\<lambda>k conn. dl_new_client d (backend_addr c k) (map_of creds k) = Some conn) ks conns"
        by auto
      with None conn show ?thesis
        by (auto intro!: exI [of _ "conn # conns"])
    qed (use rest in auto)
  qed
qed simp

lemma map_of_zip_all2:
  "list_all2 P ks vs \<Longrightarrow> distinct ks \<Longrightarrow> k \<in> set ks \<Longrightarrow> \<exists>v. map_of (zip ks vs) k = Some v \<and> P k v"
  by (induction ks vs rule: list_all2_induct) auto

lemma enabled_edge_client:
  assumes "edge_tls_client split c edge addr = Inr tc" "edge_mtls_of c edge = Inr (True, name)"
  shows "tc_enable tc \<and> tc_cert_file tc \<noteq> [] \<and> tc_key_file tc \<noteq> [] \<and> tc_ca_files tc = [gw_mtls_ca_file c] \<and>
    gw_mtls_ca_file c \<noteq> [] \<and> tc_server_name tc \<noteq> []"
  using assms by (auto simp: edge_tls_client_def Let_def split: if_splits)

lemma backend_keys_distinct: "distinct backend_keys" "''operation'' \<notin> set backend_keys"
  by (simp_all add: backend_keys_def)

text \<open>
  The backends are dialled all or none. Whatever the order of the iteration, when a credential cannot be
  built or a client cannot be created, no connection is left open; otherwise the live connections are exactly
  those of the table, one for every backend and one for the loopback, and the connection of a backend was made
  for its address with the credentials of its edge: on an edge that is switched on, with TLS, a certificate, a
  key, the authority and a server name to verify.
\<close>

theorem dial_backends_all_or_none:
  assumes "distinct keys" "set keys = set backend_keys" "dial_backends d c keys = (s, e)"
  shows "if e \<noteq> None then dl_live s = []
    else dl_live s = map snd (dl_backends s) \<and> distinct (map fst (dl_backends s)) \<and>
      set (map fst (dl_backends s)) = insert ''operation'' (set backend_keys) \<and>
      (\<forall>k \<in> set backend_keys. \<exists>conn opt tc. map_of (dl_backends s) k = Some conn \<and>
         dl_new_client d (backend_addr c k) (Some opt) = Some conn \<and> dl_tls_creds d tc = Some opt \<and>
         (\<forall>name. edge_mtls_of c (backend_edge k) = Inr (True, name) \<longrightarrow>
            tc_enable tc \<and> tc_cert_file tc \<noteq> [] \<and> tc_key_file tc \<noteq> [] \<and> tc_ca_files tc = [gw_mtls_ca_file c] \<and>
            gw_mtls_ca_file c \<noteq> [] \<and> tc_server_name tc \<noteq> []))"
proof (cases "build_backend_dial_creds (dl_split d) (dl_tls_creds d) c")
  case (Inl err)
  then show ?thesis
    using assms(3) by (auto simp: dial_backends_def)
next
  case (Inr creds)
  let ?s0 = "\<lparr>dl_live = [], dl_opened = [], dl_backends = []\<rparr>"
  obtain s1 e1 where loop: "dial_loop d c creds keys ?s0 = (s1, e1)"
    by fastforce
  have loop_spec: "if e1 = None
    then dial_ok s1 \<and> (\<exists>conns. dl_backends s1 = zip keys conns \<and> length conns = length keys \<and>
           list_all2 (\<lambda>k conn. dl_new_client d (backend_addr c k) (map_of creds k) = Some conn) keys conns)
    else dl_live s1 = []"
    using dial_loop_spec [OF loop _ assms(1)] by (cases e1) (simp_all add: dial_ok_def)
  show ?thesis
  proof (cases "e1 = None \<and> e = None")
    case False
    then show ?thesis
      using assms(3) Inr loop loop_spec cleanup_closes [of s1]
      by (auto simp: dial_backends_def split: option.splits sum.splits)
  next
    case True
    from True loop_spec obtain conns where ok: "dial_ok s1" and conns: "dl_backends s1 = zip keys conns" "length conns = length keys"
      "list_all2 (\<lambda>k conn. dl_new_client d (backend_addr c k) (map_of creds k) = Some conn) keys conns"
      by auto
    have last: "dial_one d ''operation'' (loopback_addr (gw_listen_addr c)) (Some (dl_insecure d)) s1 = Inr s"
      using assms(3) Inr loop True by (auto simp: dial_backends_def split: sum.splits)
    have "''operation'' \<notin> fst ` set (dl_backends s1)"
      using assms(2) conns(1) backend_keys_distinct(2) set_zip_leftD by fastforce
    from dial_one_Inr [OF last ok this] obtain lo where s: "dial_ok s" "dl_backends s = zip keys conns @ [(''operation'', lo)]"
      using conns(1) by auto
    have "\<exists>conn opt tc. map_of (dl_backends s) k = Some conn \<and> dl_new_client d (backend_addr c k) (Some opt) = Some conn \<and>
        dl_tls_creds d tc = Some opt \<and> edge_tls_client (dl_split d) c (backend_edge k) (backend_addr c k) = Inr tc" if "k \<in> set backend_keys" for k
      using map_of_zip_all2 [OF conns(3) assms(1), of k] that assms(2) s(2)
        build_creds_loop_spec [of "dl_split d" "dl_tls_creds d" c backend_keys "[]" creds k] Inr backend_keys_distinct(1)
      by (auto simp: build_backend_dial_creds_def map_add_Some_iff)
    then have "\<forall>k \<in> set backend_keys. \<exists>conn opt tc. map_of (dl_backends s) k = Some conn \<and>
         dl_new_client d (backend_addr c k) (Some opt) = Some conn \<and> dl_tls_creds d tc = Some opt \<and>
         (\<forall>name. edge_mtls_of c (backend_edge k) = Inr (True, name) \<longrightarrow>
            tc_enable tc \<and> tc_cert_file tc \<noteq> [] \<and> tc_key_file tc \<noteq> [] \<and> tc_ca_files tc = [gw_mtls_ca_file c] \<and>
            gw_mtls_ca_file c \<noteq> [] \<and> tc_server_name tc \<noteq> [])"
      using enabled_edge_client by blast
    then show ?thesis
      using True s assms(1,2) conns(2) backend_keys_distinct(2) by (auto simp: dial_ok_def)
  qed
qed

definition demo_dialer :: "(tls_client, string) dialer" where
  "demo_dialer = \<lparr>dl_split = Some, dl_tls_creds = Some, dl_new_client = (\<lambda>addr opt. Some addr), dl_insecure = tls_client_off\<rparr>"

theorem dial_backends_all_or_none_witness:
  "\<exists>s tc. dial_backends demo_dialer demo_gateway_config backend_keys = (s, None) \<and> dl_live s = map snd (dl_backends s) \<and>
     dl_new_client demo_dialer (backend_addr demo_gateway_config ''iam'') (Some tc) \<noteq> None \<and> tc_enable tc"
proof -
  obtain s e where run: "dial_backends demo_dialer demo_gateway_config backend_keys = (s, e)"
    by fastforce
  have "snd (dial_backends demo_dialer demo_gateway_config backend_keys) = None"
    by code_simp
  with run have e: "\<not> e \<noteq> None"
    by simp
  have iam: "''iam'' \<in> set backend_keys" "edge_mtls_of demo_gateway_config (backend_edge ''iam'') = Inr (True, ''n'')"
    by code_simp+
  note th = dial_backends_all_or_none [OF backend_keys_distinct(1) refl run, unfolded if_not_P [OF e]]
  from bspec [OF th [THEN conjunct2, THEN conjunct2, THEN conjunct2] iam(1)] obtain conn opt tc where
    "dl_new_client demo_dialer (backend_addr demo_gateway_config ''iam'') (Some opt) = Some conn" "dl_tls_creds demo_dialer tc = Some opt"
    and "\<forall>name. edge_mtls_of demo_gateway_config (backend_edge ''iam'') = Inr (True, name) \<longrightarrow> tc_enable tc \<and> tc_cert_file tc \<noteq> [] \<and>
      tc_key_file tc \<noteq> [] \<and> tc_ca_files tc = [gw_mtls_ca_file demo_gateway_config] \<and> gw_mtls_ca_file demo_gateway_config \<noteq> [] \<and> tc_server_name tc \<noteq> []"
    by (elim exE conjE)
  moreover from this(2) have "opt = tc"
    by (simp add: demo_dialer_def)
  ultimately have "dl_new_client demo_dialer (backend_addr demo_gateway_config ''iam'') (Some tc) \<noteq> None" "tc_enable tc"
    using iam(2) by (simp_all only: option.simps not_False_eq_True)
  then show ?thesis
    using run e th [THEN conjunct1] by (intro exI [of _ s] exI [of _ tc]) simp
qed

section \<open>A gateway that has started in production\<close>

lemma build_authz_reachable:
  assumes "build_authz_middleware p c z = Inr (st, cl)" "zs_enabled z"
  shows "authz_reachable (authz_config_of p z) ask st"
  using assms
  by (auto simp: build_authz_middleware_def Let_def intro: authz_reachable.fresh split: sum.splits prod.splits option.splits)

lemma sighup_reachable:
  "authz_reachable cfg ask st \<Longrightarrow> authz_reachable cfg ask (authz_sighup p True signals st)"
  unfolding authz_sighup_def by (induction signals arbitrary: st) (auto intro: authz_reachable.reloaded)

lemma validated_posture:
  assumes "\<not> dev_class env" "validate_production_authz_config env cfg = []"
  shows "ap_enabled cfg \<and> \<not> ap_fail_open cfg \<and> ap_authn_mode cfg \<in> {''production'', ''production-strict''} \<and> \<not> ap_dev_secret_set cfg"
  using assms by (auto simp: validate_production_authz_config_def split: if_splits)

lemma start_authz_Inr:
  assumes "start_authz p c z mode secret = Inr (st, cl)" "\<not> dev_class (gw_app_env c)"
  shows "zs_enabled z" "\<not> zs_fail_open z" "mode \<in> {''production'', ''production-strict''}" "\<not> secret"
    "build_authz_middleware p c z = Inr (st, cl)"
  using assms validated_posture [OF assms(2)] by (auto simp: start_authz_def split: list.splits) fastforce+

lemma start_internal_Inr:
  assumes "start_internal server_creds listens c addr = Inr srv" "\<not> dev_class (gw_app_env c)"
  shows "is_allowed srv = Some (internal_allowed_spiffe_set c)" "is_creds srv = Some (gw_internal_cert_file c)"
proof -
  have "gw_app_env c \<notin> {''dev'', ''local'', ''test''}"
    using assms(2) dev_labels by auto
  then show "is_allowed srv = Some (internal_allowed_spiffe_set c)" "is_creds srv = Some (gw_internal_cert_file c)"
    using assms(1)
    by (auto simp: start_internal_def start_internal_listener_def server_options_def build_internal_listener_security_def
        validate_production_internal_listener_def Let_def split: sum.splits option.splits if_splits)
qed

lemma stream_handled:
  "az_enabled cfg \<Longrightarrow> \<not> az_fail_open cfg \<Longrightarrow>
   snd (authz_stream cfg ev call herr st) = Handled herr \<longleftrightarrow> outcome_of cfg ev (stream_request call) st = OutcomeAllow"
  by (simp add: authz_stream_def Let_def split: prod.split decision_outcome.split)

text \<open>
  C7: what a production start guarantees. If the process starts under an environment label that is not one of
  the development labels, then callers are authenticated, no symmetric secret is set, and after any number of
  reloads on SIGHUP, whatever the files hold by then, the middleware is in a reachable state (so that its
  allows are justified), it has a decision cache, and a proxied call reaches its handler exactly if the
  decision is an allow. On the internal listener a caller without a verified certificate of an allow-listed
  identity is refused and leaves the cache as it is.
\<close>

theorem production_gateway_enforces:
  assumes "\<not> dev_class (gw_app_env c)" "start_authz p c z mode secret = Inr (st, cl)"
    and "start_internal server_creds listens c addr = Inr srv"
  shows "mode \<in> {''production'', ''production-strict''} \<and> \<not> secret \<and>
    (let cfg = authz_config_of p z; st' = authz_sighup p True signals st in
       authz_reachable cfg ask st' \<and>
       (snd (authz_stream cfg ev call herr st') = Handled herr \<longleftrightarrow> outcome_of cfg ev (stream_request call) st' = OutcomeAllow) \<and>
       ((\<nexists>leaf rest others. peer = TLSPeer ((leaf # rest) # others) \<and> ci leaf \<noteq> [] \<and> ci leaf \<in> set (internal_allowed_spiffe_set c)) \<longrightarrow>
          fst (internal_invalidate ci srv peer subj st') = st' \<and> snd (internal_invalidate ci srv peer subj st') \<noteq> None))"
proof -
  note az = start_authz_Inr [OF assms(2,1)] and srv = start_internal_Inr [OF assms(3,1)]
  let ?st = "authz_sighup p True signals st"
  have "authz_reachable (authz_config_of p z) ask ?st"
    by (rule sighup_reachable [OF build_authz_reachable [OF az(5,1)]])
  moreover have "az_enabled (authz_config_of p z)" "\<not> az_fail_open (authz_config_of p z)"
    using az(1,2) by (simp_all add: authz_config_of_def)
  moreover have "internal_invalidate ci srv peer subj ?st = (?st, authorize_internal_caller ci (internal_allowed_spiffe_set c) peer)"
    if "authorize_internal_caller ci (internal_allowed_spiffe_set c) peer \<noteq> None"
    using that srv(1) by (auto simp: internal_invalidate_def spiffe_unary_def Let_def)
  ultimately show ?thesis
    using az(3,4) authorized_caller [of ci "internal_allowed_spiffe_set c" peer] by (auto simp: stream_handled Let_def)
qed

definition demo_start_config :: gateway_config where
  "demo_start_config = demo_gateway_config\<lparr>gw_internal_mtls_enable := True, gw_internal_cert_file := ''c'', gw_internal_key_file := ''k'',
     gw_internal_allowed_spiffe := ['' spiffe://iam '']\<rparr>"

definition demo_parts :: "tls_client authz_parts" where
  "demo_parts = \<lparr>ap_decoder = demo_decoder, ap_yaml = (\<lambda>_. None), ap_files = (\<lambda>_. None), ap_embedded = ''A'', ap_parse_ip = Some,
     ap_rfc3339 = (\<lambda>_. None), ap_split = Some, ap_decode_json = (\<lambda>_. None), ap_valid_id = (\<lambda>_. True), ap_sha256_hex = (\<lambda>x. x),
     ap_tls_creds = Some, ap_dials = (\<lambda>_ _. True)\<rparr>"

definition demo_settings :: authz_settings where
  "demo_settings = \<lparr>zs_enabled = True, zs_fail_open = False, zs_catalog_file = [], zs_overrides_file = [], zs_check_timeout_ms = 200,
     zs_cache_ttl_seconds = 5, zs_cache_max_entries = 10, zs_trusted_xff = False, zs_trusted_proxy_count = 1\<rparr>"

theorem production_gateway_enforces_witness:
  "\<exists>st cl srv. start_authz demo_parts demo_start_config demo_settings ''production'' False = Inr (st, cl) \<and>
     start_internal (\<lambda>_ _ _. True) (\<lambda>_. True) demo_start_config ''a'' = Inr srv \<and>
     authz_reachable (authz_config_of demo_parts demo_settings) (demo_ask True) (authz_sighup demo_parts True [\<lambda>_. None] st) \<and>
     snd (internal_invalidate (\<lambda>_. ''spiffe://other'') srv (TLSPeer [[()]]) ''user:u'' (authz_sighup demo_parts True [\<lambda>_. None] st)) \<noteq> None"
proof -
  have env: "\<not> dev_class (gw_app_env demo_start_config)"
    by code_simp
  have "\<not> isl (start_authz demo_parts demo_start_config demo_settings ''production'' False)"
    by code_simp
  then obtain st cl where st: "start_authz demo_parts demo_start_config demo_settings ''production'' False = Inr (st, cl)"
    by (metis prod.collapse sum.collapse(2))
  have "\<not> isl (start_internal (\<lambda>_ _ _. True) (\<lambda>_. True) demo_start_config ''a'')"
    by code_simp
  then obtain srv where srv: "start_internal (\<lambda>_ _ _. True) (\<lambda>_. True) demo_start_config ''a'' = Inr srv"
    by (metis sum.collapse(2))
  have "''spiffe://other'' \<notin> set (internal_allowed_spiffe_set demo_start_config)"
    by code_simp
  then show ?thesis
    using production_gateway_enforces [OF env st srv, where signals = "[\<lambda>_. None]" and ask = "demo_ask True" and peer = "TLSPeer [[()]]"
        and ci = "\<lambda>_. ''spiffe://other''" and subj = "''user:u''"] st srv
    by (auto simp: Let_def)
qed

section \<open>The level of authentication that the catalog demands\<close>

text \<open>
  C17: the step-up gate enforces the catalog. With the token-binding middleware as the gateway builds it, a
  request whose path the route table resolves to a method with a demanded level reaches the next handler only
  with an authentic token of at least that level, or without any token when binding is not enforced for all;
  in the latter case no principal has been taken from a token.
\<close>

theorem catalog_level_enforced:
  assumes "build_dpop p c mode (Inr cat) = Inr m" "dq_verify p = (\<lambda>c. jwt_verify env v (lookup c) c)"
    and "dpop_wrap m st r now u u' now' = (st', Forward r')" "\<not> is_public_http_path (req_path r)"
    and "rest_resolve new_rest_router (req_method r) (req_path r) = Some fqn" "fqn \<noteq> []"
    and "catalog_lookup cat fqn = Some e" "ce_required_acr_min e \<noteq> []"
  shows "(\<exists>t. jwt_authentic env v (fst (split_auth_scheme (hget (req_header r) ''Authorization''))) t \<and>
       acr_rank (ce_required_acr_min e) \<le> acr_rank (vt_acr t) \<and> r' = inject_verified_token_headers r t) \<or>
    fst (split_auth_scheme (hget (req_header r) ''Authorization'')) = [] \<and> mode \<noteq> ''production-strict'' \<and> r' = r"
proof -
  obtain tok scheme where split: "split_auth_scheme (hget (req_header r) ''Authorization'') = (tok, scheme)"
    by fastforce
  have m: "mw_verify m = (\<lambda>c. jwt_verify env v (lookup c) c)" "mw_require_all m \<longleftrightarrow> mode = ''production-strict''"
    "mw_lookup m = catalog_permission_lookup (Some cat)" "mw_routes m = Some (rest_resolve new_rest_router)"
    using assms(1,2) by (auto simp: build_dpop_def new_dpop_middleware_def split: sum.splits if_splits)
  have req: "mw_lookup m (resolve_fqn m (req_method r) (req_path r)) = permission_requirement.make (ce_required_acr_min e) 0"
    using m(3,4) assms(5-7) by (simp add: resolve_fqn_def catalog_permission_lookup_def)
  show ?thesis
  proof (cases "tok = []")
    case True
    then show ?thesis
      using assms(3,4) split m(2) by (auto simp: dpop_wrap_def Let_def split: if_splits)
  next
    case False
    show ?thesis
    proof (rule jv.wrap_forward [OF m(1) assms(3,4) split False])
      fix c' t st2 st3
      assume t: "jwt_authentic env v tok t" "r' = inject_verified_token_headers r t"
        "stepup_check (Some t) (mw_lookup m (resolve_fqn m (req_method r) (req_path r))) now' = None"
      then show ?thesis
        using stepup_check_None [OF t(3)] req assms(8) split by (auto simp: permission_requirement.defs)
    qed
  qed
qed

definition demo_level_entry :: catalog_entry where
  "demo_level_entry =
     (demo_catalog_entry ''kacho.cloud.compute.v1.DiskPlacementGroupService/List'' ''p'' ''viewer'' demo_scope)\<lparr>ce_required_acr_min := ''0''\<rparr>"

definition demo_level_catalog :: catalog where
  "demo_level_catalog = \<lparr>fc_current = [(ce_fqn demo_level_entry, demo_level_entry)], fc_path = None\<rparr>"

definition demo_binding_parts :: "jwks_cache dpop_parts" where
  "demo_binding_parts = \<lparr>dq_verify = mw_verify demo_mw, dq_introspect = mw_introspect demo_mw, dq_env = demo_dpop_env, dq_iat_seconds = 0\<rparr>"

abbreviation demo_level_request :: http_request where
  "demo_level_request \<equiv> demo_wrap_request\<lparr>req_path := ''/compute/v1/diskPlacementGroups''\<rparr>"

abbreviation demo_binding_state :: "jwks_cache dpop_state" where
  "demo_binding_state \<equiv> \<lparr>ds_verifier = demo_jwks, ds_introspection = None, ds_replay = replay_new 3 0\<rparr>"

lemma demo_level_route:
  "rest_resolve new_rest_router ''GET'' ''/compute/v1/diskPlacementGroups'' = Some ''kacho.cloud.compute.v1.DiskPlacementGroupService/List''"
  unfolding new_rest_router_def rest_resolve_router_of by code_simp

lemma wrap_requirement:
  assumes "mw_lookup m (resolve_fqn m (req_method r) (req_path r)) = req"
  shows "dpop_wrap m st r now u u' now' = dpop_wrap (m\<lparr>mw_routes := None, mw_lookup := (\<lambda>_. req)\<rparr>) st r now u u' now'"
proof -
  let ?m = "m\<lparr>mw_routes := None, mw_lookup := (\<lambda>_. req)\<rparr>"
  have sel: "mw_lookup ?m = (\<lambda>_. req)" "mw_require_all ?m = mw_require_all m" "mw_verify ?m = mw_verify m" "mw_introspect ?m = mw_introspect m"
    "mw_env ?m = mw_env m" "mw_validator ?m = mw_validator m" "mw_api_domain ?m = mw_api_domain m"
    by simp_all
  have revoked: "check_revoked ?m = check_revoked m"
    by (intro ext) (unfold check_revoked_def sel, rule refl)
  have binding: "check_binding ?m = check_binding m"
    by (intro ext) (unfold check_binding_def sel, rule refl)
  show ?thesis
    unfolding dpop_wrap_def sel revoked binding assms by (rule refl)
qed

theorem catalog_level_enforced_witness:
  "\<exists>t m. build_dpop demo_binding_parts (demo_gateway_config\<lparr>gw_api_domain := ''api''\<rparr>) ''production'' (Inr demo_level_catalog) = Inr m \<and>
     jwt_authentic demo_env demo_verifier ''e30.e30.AA'' t \<and>
     snd (dpop_wrap m demo_binding_state demo_level_request second second second second) =
       Forward (inject_verified_token_headers demo_level_request t)"
proof -
  let ?c = "demo_gateway_config\<lparr>gw_api_domain := ''api''\<rparr>"
  obtain m where m: "build_dpop demo_binding_parts ?c ''production'' (Inr demo_level_catalog) = Inr m"
    by (simp add: build_dpop_def new_dpop_middleware_def demo_binding_parts_def)
  have fields: "m = demo_mw\<lparr>mw_routes := Some (rest_resolve new_rest_router), mw_require_all := False,
      mw_lookup := catalog_permission_lookup (Some demo_level_catalog)\<rparr>"
    using m by (simp add: build_dpop_def new_dpop_middleware_def demo_binding_parts_def demo_mw_def)
  have lookup: "mw_lookup m (resolve_fqn m ''GET'' ''/compute/v1/diskPlacementGroups'') = permission_requirement.make ''0'' 0"
    by (simp add: fields resolve_fqn_def demo_level_route catalog_permission_lookup_def demo_level_catalog_def catalog_lookup_def
        demo_level_entry_def demo_catalog_entry_def)
  let ?m = "demo_mw\<lparr>mw_require_all := False, mw_routes := None, mw_lookup := (\<lambda>_. permission_requirement.make ''0'' 0)\<rparr>"
  have "case snd (dpop_wrap ?m demo_binding_state demo_level_request second second second second) of Forward _ \<Rightarrow> True | Challenge _ \<Rightarrow> False"
    unfolding permission_requirement.defs by code_simp
  moreover have "dpop_wrap m demo_binding_state demo_level_request second second second second =
      dpop_wrap ?m demo_binding_state demo_level_request second second second second"
    by (subst wrap_requirement [where req = "permission_requirement.make ''0'' 0"])
      (use lookup in \<open>simp_all add: fields demo_wrap_request_def\<close>)
  ultimately obtain r' where "snd (dpop_wrap m demo_binding_state demo_level_request second second second second) = Forward r'"
    by (auto split: wrap_outcome.splits)
  then have w: "dpop_wrap m demo_binding_state demo_level_request second second second second =
      (fst (dpop_wrap m demo_binding_state demo_level_request second second second second), Forward r')"
    by (metis prod.collapse)
  have hyps: "\<not> is_public_http_path (req_path demo_level_request)"
    "split_auth_scheme (hget (req_header demo_level_request) ''Authorization'') = (''e30.e30.AA'', ''Bearer'')"
    by code_simp+
  have entry: "rest_resolve new_rest_router (req_method demo_level_request) (req_path demo_level_request) = Some (ce_fqn demo_level_entry)"
    "ce_fqn demo_level_entry \<noteq> []" "catalog_lookup demo_level_catalog (ce_fqn demo_level_entry) = Some demo_level_entry"
    "ce_required_acr_min demo_level_entry \<noteq> []"
    by (simp_all add: demo_level_route demo_wrap_request_def demo_level_catalog_def catalog_lookup_def demo_level_entry_def demo_catalog_entry_def)
  have verify: "dq_verify demo_binding_parts = (\<lambda>c. jwt_verify demo_env demo_verifier
       (\<lambda>kid. jwks_resolve (\<lambda>c. c) c kid (Inl ErrJWKSUnreachable) second second second) c)"
    by (simp add: demo_binding_parts_def demo_mw_def)
  obtain t where "jwt_authentic demo_env demo_verifier ''e30.e30.AA'' t" "r' = inject_verified_token_headers demo_level_request t"
    using catalog_level_enforced [OF m verify w hyps(1) entry] unfolding hyps(2) fst_conv by blast
  then show ?thesis
    using m w by (metis snd_conv)
qed

end
