(* ===== verification/Proxy_Routing.thy ===== *)
theory Proxy_Routing
  imports Allowlist Rest_Router Edge_Context
begin

text \<open>
  Where a request goes: the gRPC method resolver and the pass-through handler
  (\<^verbatim>\<open>internal/proxy/server.go\<close>, \<^verbatim>\<open>shimproxy.go\<close>), the operations facade
  (\<^verbatim>\<open>internal/opsproxy/proxy.go\<close>), and the REST split multiplexer (\<^verbatim>\<open>internal/restmux/mux.go\<close>): its table
  of registrations, the metadata it forwards and its dispatch between the public and the internal
  side. A backend connection is an opaque value; the prefixes that \<^verbatim>\<open>kacho-corelib\<close> defines are a
  parameter.
\<close>

section \<open>gRPC method resolver\<close>

type_synonym 'conn backends = "(string \<times> 'conn) list"

definition proxy_resolver :: "'conn backends \<Rightarrow> string \<Rightarrow> (string \<times> 'conn) option" where
  "proxy_resolver backends method =
     (if \<not> has_prefix method ''/kacho.cloud.'' then None
      else if has_internal_suffix method \<or> \<not> is_allowed method then None
      else (let parts = splitn_byte 3 (CHR ''/'') method in
            if length parts < 3 \<or> parts ! 1 = [] then None
            else (let pkgParts = split_byte (CHR ''.'') (parts ! 1) in
                  if length pkgParts < 4 then None
                  else map_option (\<lambda>conn. (method, conn)) (map_of backends (pkgParts ! 2)))))"

section \<open>Pass-through handler\<close>

datatype 'e proxy_status = PInternal | PUnknownMethod string | PStream 'e

fun pump :: "'f list \<Rightarrow> 'e option \<Rightarrow> ('f \<Rightarrow> 'e option) \<Rightarrow> 'f list \<Rightarrow> 'f list \<times> 'e option" where
  \<comment> \<open>one copying goroutine: the frames the source delivers before it ends (\<open>None\<close>: EOF), the
     destination's send, and the frames sent so far\<close>
  "pump [] ending send sent = (sent, ending)"
| "pump (f # fs) ending send sent =
     (case send f of Some e \<Rightarrow> (sent, Some e) | None \<Rightarrow> pump fs ending send (sent @ [f]))"

fun first_error :: "'e option list \<Rightarrow> 'e option" where
  \<comment> \<open>the results of the two goroutines in the order in which they arrive\<close>
  "first_error [] = None"
| "first_error (Some e # rs) = Some e"
| "first_error (None # rs) = first_error rs"

definition proxy_handler ::
  "(string \<Rightarrow> (string \<times> 'conn) option) \<Rightarrow> ('conn \<Rightarrow> grpc_ctx \<Rightarrow> string \<Rightarrow> 'e option) \<Rightarrow>
   'e option list \<Rightarrow> string option \<Rightarrow> grpc_ctx \<Rightarrow> 'e proxy_status option" where
  \<comment> \<open>parameters: the resolver, \<open>NewStream\<close> (the error it returns) and the results of the copying\<close>
  "proxy_handler resolve new_stream copied method ctx =
     (case method of
        None \<Rightarrow> Some PInternal
      | Some m \<Rightarrow>
          (case resolve m of
             None \<Rightarrow> Some (PUnknownMethod m)
           | Some (target, conn) \<Rightarrow>
               (case new_stream conn (outgoing_from_incoming ctx) target of
                  Some e \<Rightarrow> Some (PStream e)
                | None \<Rightarrow> map_option PStream (first_error copied))))"

section \<open>Operations facade\<close>

record op_ids =
  prefix_operation_vpc :: string
  prefix_operation_compute :: string
  prefix_operation_nlb :: string
  prefix_operation_reg :: string
  prefix_operation_storage :: string

definition prefix_to_backend :: "op_ids \<Rightarrow> (string \<times> string) list" where
  "prefix_to_backend ids =
     [(prefix_operation_vpc ids, ''vpc''), (''e9b'', ''vpc''),
      (prefix_operation_compute ids, ''compute''), (''iop'', ''iam''),
      (prefix_operation_nlb ids, ''loadbalancer''), (prefix_operation_reg ids, ''registry''),
      (prefix_operation_storage ids, ''storage'')]"

definition legacy_prefix_to_backend :: "(string \<times> string) list" where
  "legacy_prefix_to_backend = [(''vpc'', ''vpc'')]"

datatype 'e ops_error = OpInvalidId string | OpNotFound string | OpDenied | OpBackend 'e

definition op_domain :: "op_ids \<Rightarrow> string \<Rightarrow> string option" where
  "op_domain ids oid =
     (if length oid = 20 then map_of (prefix_to_backend ids) (take 3 oid)
      else (case index_byte oid (CHR ''_'') of
              None \<Rightarrow> None
            | Some i \<Rightarrow> if i = 0 then None else map_of legacy_prefix_to_backend (take i oid)))"

definition resolve_backend ::
  "op_ids \<Rightarrow> (string \<times> 'client) list \<Rightarrow> string \<Rightarrow> 'e ops_error + 'client" where
  "resolve_backend ids backends oid =
     (case op_domain ids oid of
        None \<Rightarrow> Inl (OpInvalidId oid)
      | Some d \<Rightarrow> (case map_of backends d of None \<Rightarrow> Inl (OpNotFound oid) | Some c \<Rightarrow> Inr c))"

record operation =
  op_principal_type :: string
  op_principal_id :: string

definition principal_from_context :: "grpc_ctx \<Rightarrow> string \<times> string" where
  "principal_from_context ctx =
     (case incoming_md ctx of
        None \<Rightarrow> ([], [])
      | Some md \<Rightarrow> (md_first md MetaPrincipalID, md_first md MetaPrincipalType))"

definition check_operation_ownership :: "grpc_ctx \<Rightarrow> operation option \<Rightarrow> 'e ops_error option" where
  "check_operation_ownership ctx op =
     (let (callerID, callerType) = principal_from_context ctx in
      if callerID = [] then Some OpDenied
      else if callerType = ''system'' \<and> callerID = ''bootstrap'' then None
      else (case op of
              None \<Rightarrow> Some OpDenied
            | Some o' \<Rightarrow>
                if op_principal_id o' = [] then Some OpDenied
                else if op_principal_type o' = ''system'' \<and> op_principal_id o' = ''bootstrap'' then Some OpDenied
                else if callerID \<noteq> op_principal_id o' \<or> callerType \<noteq> op_principal_type o' then Some OpDenied
                else None))"

type_synonym 'e ops_client = "grpc_ctx \<Rightarrow> string \<Rightarrow> 'e + operation option"

definition ops_call ::
  "op_ids \<Rightarrow> (string \<times> 'client) list \<Rightarrow> ('client \<Rightarrow> 'e ops_client) \<Rightarrow> grpc_ctx \<Rightarrow> string \<Rightarrow>
   'e ops_error + operation option" where
  \<comment> \<open>the common body of \<open>Get\<close> and \<open>Cancel\<close>, which differ in the RPC they call\<close>
  "ops_call ids backends rpc ctx oid =
     (case resolve_backend ids backends oid of
        Inl e \<Rightarrow> Inl e
      | Inr client \<Rightarrow>
          (case rpc client (outgoing_from_incoming ctx) oid of
             Inl e \<Rightarrow> Inl (OpBackend e)
           | Inr op \<Rightarrow>
               (case check_operation_ownership ctx op of
                  Some e \<Rightarrow> Inl e
                | None \<Rightarrow> Inr op)))"

record 'e ops_backend =
  be_get :: "'e ops_client"
  be_cancel :: "'e ops_client"

definition ops_get ::
  "op_ids \<Rightarrow> (string \<times> 'e ops_backend) list \<Rightarrow> grpc_ctx \<Rightarrow> string \<Rightarrow> 'e ops_error + operation option" where
  "ops_get ids backends ctx oid = ops_call ids backends be_get ctx oid"

definition ops_cancel ::
  "op_ids \<Rightarrow> (string \<times> 'e ops_backend) list \<Rightarrow> grpc_ctx \<Rightarrow> string \<Rightarrow> 'e ops_error + operation option" where
  "ops_cancel ids backends ctx oid = ops_call ids backends be_cancel ctx oid"

section \<open>REST multiplexer\<close>

definition header_or :: "http_request \<Rightarrow> string \<Rightarrow> string" where
  "header_or r h = (if hget (req_header r) (header_grpc_meta h) \<noteq> []
     then hget (req_header r) (header_grpc_meta h) else hget (req_header r) h)"

definition append_if :: "header \<Rightarrow> string \<Rightarrow> string \<Rightarrow> header" where
  "append_if md k v = (if v \<noteq> [] then md_append md k v else md)"

definition build_principal_metadata :: "http_request \<Rightarrow> header" where
  "build_principal_metadata r =
     (let pt = header_or r HeaderPrincipalType; pi = header_or r HeaderPrincipalID;
          pd = header_or r HeaderPrincipalDisplay; acr = header_or r HeaderTokenACR
      in append_if (append_if (append_if (append_if [] MetaPrincipalType pt) MetaPrincipalID pi)
           MetaPrincipalDisplay pd) MetaTokenACR acr)"

definition principal_header_matcher :: "(string \<Rightarrow> string option) \<Rightarrow> string \<Rightarrow> string option" where
  \<comment> \<open>the parameter is grpc-gateway's \<open>DefaultHeaderMatcher\<close>\<close>
  "principal_header_matcher dflt key =
     (case dflt key of
        Some k \<Rightarrow> Some k
      | None \<Rightarrow> (let lower = to_lower key in if has_prefix lower MetaPrincipalPrefix then Some lower else None))"

definition is_internal_path :: "string \<Rightarrow> bool" where
  "is_internal_path path =
     (if contains_sub path ''/internal/'' \<or> has_suffix path ''/internal'' \<or> has_suffix path '':internal'' then True
      else if path = ''/vpc/v1/addressPools'' \<or> has_prefix path ''/vpc/v1/addressPools/'' \<or>
              has_prefix path ''/vpc/v1/addressPools:'' then True
      else if has_prefix path ''/vpc/v1/networks/'' \<and> has_suffix path ''/addressPoolBinding'' then True
      else if has_internal_suffix path then True
      else False)"

datatype dispatch = Http404 | ServeInternal | ServePublic

definition dispatcher :: "http_request \<Rightarrow> dispatch" where
  "dispatcher r =
     (if is_internal_path (req_path r) then
        (if is_external (Some (req_ctx r)) then Http404 else ServeInternal)
      else ServePublic)"

subsection \<open>Registrations\<close>

datatype reg_target = Endpoint string string | InProcess
  \<comment> \<open>the address dialled and the key of its transport credentials\<close>

type_synonym registration = "string \<times> reg_target"

definition addr_of :: "(string \<times> string) list \<Rightarrow> string \<Rightarrow> string" where
  "addr_of addrs k = (case map_of addrs k of None \<Rightarrow> [] | Some a \<Rightarrow> a)"

definition on_edge :: "(string \<times> string) list \<Rightarrow> string \<Rightarrow> string list \<Rightarrow> registration list" where
  \<comment> \<open>services registered on one backend address with the credentials of the same key\<close>
  "on_edge addrs k svcs = map (\<lambda>s. (s, Endpoint (addr_of addrs k) k)) svcs"

definition if_addr :: "(string \<times> string) list \<Rightarrow> string \<Rightarrow> registration list \<Rightarrow> registration list" where
  "if_addr addrs k regs = (if addr_of addrs k \<noteq> [] then regs else [])"

definition regs_vpc :: "(string \<times> string) list \<Rightarrow> registration list" where
  "regs_vpc addrs =
     on_edge addrs ''vpc''
       [''NetworkService'', ''SubnetService'', ''AddressService'', ''RouteTableService'',
        ''SecurityGroupService'', ''GatewayService'', ''NetworkInterfaceService''] @
     if_addr addrs ''vpcInternal'' (on_edge addrs ''vpcInternal''
       [''InternalAddressPoolService'', ''InternalNetworkService''])"

definition regs_compute :: "(string \<times> string) list \<Rightarrow> registration list" where
  "regs_compute addrs =
     on_edge addrs ''compute''
       [''DiskService'', ''ImageService'', ''SnapshotService'', ''InstanceService'', ''DiskTypeService''] @
     if_addr addrs ''computeInternal'' (on_edge addrs ''computeInternal'' [''InternalDiskTypeService''])"

definition regs_storage :: "(string \<times> string) list \<Rightarrow> registration list" where
  "regs_storage addrs =
     if_addr addrs ''storage'' (on_edge addrs ''storage''
       [''VolumeService'', ''SnapshotService'', ''DiskTypeService'']) @
     if_addr addrs ''storageInternal'' (on_edge addrs ''storageInternal''
       [''InternalVolumeService'', ''InternalDiskTypeService''])"

definition regs_geo :: "(string \<times> string) list \<Rightarrow> registration list" where
  "regs_geo addrs =
     if_addr addrs ''geo'' (on_edge addrs ''geo'' [''RegionService'', ''ZoneService'']) @
     if_addr addrs ''geoInternal'' (on_edge addrs ''geoInternal''
       [''InternalRegionService'', ''InternalZoneService''])"

definition regs_iam :: "(string \<times> string) list \<Rightarrow> registration list" where
  "regs_iam addrs =
     if_addr addrs ''iam'' (on_edge addrs ''iam''
       [''AccountService'', ''ProjectService'', ''UserService'', ''ServiceAccountService'', ''GroupService'',
        ''RoleService'', ''PermissionCatalogService'', ''AccessBindingService'', ''SAKeyService'',
        ''UserTokenService'', ''AuthorizeService'']) @
     if_addr addrs ''iamInternal'' (on_edge addrs ''iamInternal''
       [''InternalUserService'', ''InternalIAMService'', ''InternalClusterService'',
        ''InternalOperationsService''])"

definition regs_lb_registry :: "(string \<times> string) list \<Rightarrow> registration list" where
  "regs_lb_registry addrs =
     if_addr addrs ''loadbalancer'' (on_edge addrs ''loadbalancer''
       [''NetworkLoadBalancerService'', ''ListenerService'', ''TargetGroupService'']) @
     if_addr addrs ''loadbalancerInternal'' (on_edge addrs ''loadbalancerInternal''
       [''InternalResourceLifecycleService'']) @
     if_addr addrs ''registry'' (on_edge addrs ''registry'' [''RegistryService'']) @
     if_addr addrs ''registryInternal'' (on_edge addrs ''registryInternal'' [''InternalRegistryService''])"

definition registrations :: "(string \<times> string) list \<Rightarrow> registration list" where
  "registrations addrs =
     regs_vpc addrs @ regs_compute addrs @ regs_storage addrs @ regs_geo addrs @ regs_iam addrs @
     regs_lb_registry addrs @ [(''OperationService'', InProcess)]"

datatype mux_id = PublicMux | InternalMux

definition new_mux ::
  "(mux_id \<Rightarrow> registration \<Rightarrow> 'e option) \<Rightarrow> (string \<times> string) list \<Rightarrow>
   'e + (mux_id \<times> registration) list" where
  \<comment> \<open>the parameter registers one service on one mux; the first error is returned\<close>
  "new_mux register addrs =
     (let plan = concat (map (\<lambda>m. map (\<lambda>r. (m, r)) (registrations addrs)) [PublicMux, InternalMux]) in
      case List.map_filter (\<lambda>(m, r). register m r) plan of
        e # _ \<Rightarrow> Inl e
      | [] \<Rightarrow> Inr plan)"

section \<open>Which methods are routed\<close>

definition method_domain :: "string \<Rightarrow> string option" where
  \<comment> \<open>the domain that the resolver reads out of a method path\<close>
  "method_domain method =
     (if \<not> has_prefix method ''/kacho.cloud.'' then None
      else (let parts = splitn_byte 3 (CHR ''/'') method in
            if length parts < 3 \<or> parts ! 1 = [] then None
            else (let pkgParts = split_byte (CHR ''.'') (parts ! 1) in
                  if length pkgParts < 4 then None else Some (pkgParts ! 2))))"

lemma proxy_resolver_eq:
  "proxy_resolver backends m =
     (if is_allowed m then
        (case method_domain m of
           None \<Rightarrow> None
         | Some d \<Rightarrow> map_option (\<lambda>conn. (m, conn)) (map_of backends d))
      else None)"
  using allowed_not_internal [of m] by (auto simp: proxy_resolver_def method_domain_def Let_def)

lemma domain_vpc: "list_all (\<lambda>m. method_domain m = Some ''vpc'') allowed_vpc"
  by code_simp

lemma domain_compute: "list_all (\<lambda>m. method_domain m = Some ''compute'') allowed_compute"
  by code_simp

lemma domain_storage: "list_all (\<lambda>m. method_domain m = Some ''storage'') allowed_storage"
  by code_simp

lemma domain_geo: "list_all (\<lambda>m. method_domain m = Some ''geo'') allowed_geo"
  by code_simp

lemma domain_iam: "list_all (\<lambda>m. method_domain m = Some ''iam'') allowed_iam"
  by code_simp

lemma domain_loadbalancer: "list_all (\<lambda>m. method_domain m = Some ''loadbalancer'') allowed_loadbalancer"
  by code_simp

lemma domain_registry: "list_all (\<lambda>m. method_domain m = Some ''registry'') allowed_registry"
  by code_simp

lemma domain_operation: "list_all (\<lambda>m. method_domain m = Some ''operation'') allowed_operation"
  by code_simp

definition allowed_by_domain :: "(string \<times> string list) list" where
  "allowed_by_domain =
     [(''vpc'', allowed_vpc),
      (''compute'', allowed_compute),
      (''storage'', allowed_storage),
      (''geo'', allowed_geo),
      (''iam'', allowed_iam),
      (''loadbalancer'', allowed_loadbalancer),
      (''registry'', allowed_registry),
      (''operation'', allowed_operation)]"

lemma allowed_methods_by_domain: "is_allowed m \<longleftrightarrow> (\<exists>(d, ms) \<in> set allowed_by_domain. m \<in> set ms)"
  by (auto simp: is_allowed_def allowed_methods_def allowed_by_domain_def)

lemma method_domain_table: "(d, ms) \<in> set allowed_by_domain \<Longrightarrow> m \<in> set ms \<Longrightarrow> method_domain m = Some d"
  using domain_vpc domain_compute domain_storage domain_geo domain_iam domain_loadbalancer domain_registry domain_operation
  by (auto simp: allowed_by_domain_def list_all_iff)

text \<open>
  C29: the gRPC router sends an allowlisted method to the backend of its own domain, whenever that
  backend is configured, and resolves no other method; in particular no method of an internal
  service, whatever the backends, and for those the handler answers as for a method that does not
  exist.
\<close>

theorem proxy_routes_exactly_the_allowlist:
  "(proxy_resolver backends m = Some (target, conn) \<longleftrightarrow>
      (\<exists>(d, ms) \<in> set allowed_by_domain. m \<in> set ms \<and> map_of backends d = Some conn) \<and> target = m) \<and>
   (has_internal_suffix m \<longrightarrow>
      proxy_handler (proxy_resolver backends) ns copied (Some m) ctx = Some (PUnknownMethod m))"
proof
  show "proxy_resolver backends m = Some (target, conn) \<longleftrightarrow>
      (\<exists>(d, ms) \<in> set allowed_by_domain. m \<in> set ms \<and> map_of backends d = Some conn) \<and> target = m"
  proof
    assume r: "proxy_resolver backends m = Some (target, conn)"
    then have "is_allowed m"
      by (auto simp: proxy_resolver_eq split: if_splits)
    then obtain d ms where d: "(d, ms) \<in> set allowed_by_domain" "m \<in> set ms"
      by (auto simp: allowed_methods_by_domain)
    with r \<open>is_allowed m\<close> have "map_of backends d = Some conn \<and> target = m"
      by (auto simp: proxy_resolver_eq method_domain_table [OF d])
    with d show "(\<exists>(d, ms) \<in> set allowed_by_domain. m \<in> set ms \<and> map_of backends d = Some conn) \<and> target = m"
      by blast
  next
    assume "(\<exists>(d, ms) \<in> set allowed_by_domain. m \<in> set ms \<and> map_of backends d = Some conn) \<and> target = m"
    then obtain d ms where d: "(d, ms) \<in> set allowed_by_domain" "m \<in> set ms" "map_of backends d = Some conn"
      and t: "target = m"
      by blast
    then have "is_allowed m"
      by (auto simp: allowed_methods_by_domain)
    then show "proxy_resolver backends m = Some (target, conn)"
      using d(3) t by (simp add: proxy_resolver_eq method_domain_table [OF d(1,2)])
  qed
  show "has_internal_suffix m \<longrightarrow>
      proxy_handler (proxy_resolver backends) ns copied (Some m) ctx = Some (PUnknownMethod m)"
    by (auto simp: proxy_handler_def proxy_resolver_def)
qed

theorem proxy_routes_exactly_the_allowlist_witness:
  "has_internal_suffix ''/kacho.cloud.geo.v1.InternalRegionService/Create'' \<and>
   proxy_handler (proxy_resolver [(''geo'', ())]) (\<lambda>_ _ _. None :: unit option) []
     (Some ''/kacho.cloud.geo.v1.InternalRegionService/Create'') \<lparr>incoming_md = None, outgoing_md = None\<rparr> =
   Some (PUnknownMethod ''/kacho.cloud.geo.v1.InternalRegionService/Create'')"
proof -
  have i: "has_internal_suffix ''/kacho.cloud.geo.v1.InternalRegionService/Create''"
    by code_simp
  then show ?thesis
    using proxy_routes_exactly_the_allowlist [of "[(''geo'', ())]" "''/kacho.cloud.geo.v1.InternalRegionService/Create''"
        _ _ "\<lambda>_ _ _. None" "[]" "\<lparr>incoming_md = None, outgoing_md = None\<rparr>"]
    by blast
qed

section \<open>Operations belong to their creator\<close>


definition demo_ids :: op_ids where
  "demo_ids = \<lparr>prefix_operation_vpc = ''enp'', prefix_operation_compute = ''epd'',
     prefix_operation_nlb = ''nlb'', prefix_operation_reg = ''rop'', prefix_operation_storage = ''sop''\<rparr>"

definition demo_ops_ctx :: grpc_ctx where
  "demo_ops_ctx = \<lparr>incoming_md = Some [(MetaPrincipalID, [''u1'']), (MetaPrincipalType, [''user''])],
     outgoing_md = None\<rparr>"


section \<open>Isolation of the internal side\<close>

text \<open>
  A request is served by the internal mux exactly if its path is internal and its connection was
  accepted by the wrapped internal listener, however many wrappers with a \<open>NetConn\<close> method lie over
  it; an internal path on any other connection is answered 404, and every other path is public.
\<close>

theorem internal_paths_need_internal_listener:
  assumes "req_ctx r = internal_conn_context ctx_background c"
  shows "dispatcher r =
    (if is_internal_path (req_path r) then (if wraps_internal c then ServeInternal else Http404)
     else ServePublic)"
  using assms external_unless_marked [of c] by (simp add: dispatcher_def)

theorem internal_paths_need_internal_listener_witness:
  "dispatcher \<lparr>req_method = ''GET'', req_path = ''/vpc/v1/networks/n1:internal'', req_query = [], req_header = [],
     req_body = None, req_host = [], req_remote = [], req_peer_certs = None,
     req_ctx = internal_conn_context ctx_background (NetConn (Some Plain))\<rparr> = Http404"
proof -
  have "is_internal_path ''/vpc/v1/networks/n1:internal''"
    by code_simp
  then show ?thesis
    using internal_paths_need_internal_listener [of "\<lparr>req_method = ''GET'', req_path = ''/vpc/v1/networks/n1:internal'',
      req_query = [], req_header = [], req_body = None, req_host = [], req_remote = [], req_peer_certs = None,
      req_ctx = internal_conn_context ctx_background (NetConn (Some Plain))\<rparr>" "NetConn (Some Plain)"]
    by simp
qed

lemma map_filter_hd: "List.map_filter f xs = e # es \<Longrightarrow> \<exists>x \<in> set xs. f x = Some e"
  by (induction xs) (auto simp: map_filter_simps split: option.splits)

lemma regs_by_edge:
  "(svc, Endpoint a k) \<in> set (registrations addrs) \<Longrightarrow> a = addr_of addrs k \<and>
     (has_prefix svc ''Internal'' \<longleftrightarrow> has_suffix k ''Internal'')"
  unfolding registrations_def regs_vpc_def regs_compute_def regs_storage_def regs_geo_def regs_iam_def
    regs_lb_registry_def
  by (auto simp: on_edge_def if_addr_def has_prefix_def has_suffix_def split: if_splits)

text \<open>
  The mux registers every service on both sides or fails, never dials an internal service on the
  address or with the credentials of a public edge, and never a public service on an internal edge.
\<close>

theorem internal_services_on_internal_edges:
  "(case new_mux register addrs of
      Inl e \<Rightarrow> \<exists>m r. register m r = Some e
    | Inr plan \<Rightarrow>
        set plan = {PublicMux, InternalMux} \<times> set (registrations addrs) \<and>
        (\<forall>m svc a k. (m, svc, Endpoint a k) \<in> set plan \<longrightarrow> a = addr_of addrs k \<and>
           (has_prefix svc ''Internal'' \<longleftrightarrow> has_suffix k ''Internal'')))"
  using regs_by_edge
  by (auto simp: new_mux_def Let_def split: list.splits sum.splits dest!: map_filter_hd)

theorem internal_services_on_internal_edges_witness:
  "case new_mux (\<lambda>m r. None :: unit option) [(''vpcInternal'', ''vpc:9091'')] of
     Inl e \<Rightarrow> False
   | Inr plan \<Rightarrow> \<forall>m svc a. (m, svc, Endpoint a ''vpcInternal'') \<in> set plan \<longrightarrow> a = ''vpc:9091'' \<and> has_prefix svc ''Internal''"
proof (cases "new_mux (\<lambda>m r. None :: unit option) [(''vpcInternal'', ''vpc:9091'')]")
  case (Inl e)
  then show ?thesis
    using internal_services_on_internal_edges [of "\<lambda>m r. None :: unit option" "[(''vpcInternal'', ''vpc:9091'')]"] by simp
next
  case (Inr plan)
  have k: "addr_of [(''vpcInternal'', ''vpc:9091'')] ''vpcInternal'' = ''vpc:9091''" "has_suffix ''vpcInternal'' ''Internal''"
    by code_simp+
  have "(m, svc, Endpoint a ''vpcInternal'') \<in> set plan \<Longrightarrow> a = addr_of [(''vpcInternal'', ''vpc:9091'')] ''vpcInternal'' \<and>
      (has_prefix svc ''Internal'' \<longleftrightarrow> has_suffix ''vpcInternal'' ''Internal'')" for m svc a
    using internal_services_on_internal_edges [of "\<lambda>m r. None :: unit option" "[(''vpcInternal'', ''vpc:9091'')]"]
    unfolding Inr sum.case by blast
  then show ?thesis
    unfolding k Inr sum.case using k(2) by blast
qed

section \<open>Internal methods on public paths\<close>

definition exposed_internal :: "rest_route list \<Rightarrow> (string \<times> string) list" where
  \<comment> \<open>rows for a method of an internal service whose path is not an internal path\<close>
  "exposed_internal rts =
     List.map_filter (\<lambda>x. if has_internal_suffix (''/'' @ rt_fqn x)
       then (if is_internal_path (rt_template x) then None else Some (rt_method x, rt_template x))
       else None) rts"

lemma exposed_internal_append: "exposed_internal (xs @ ys) = exposed_internal xs @ exposed_internal ys"
  by (simp add: exposed_internal_def map_filter_def)

lemma exposed_compute_1:
  "exposed_internal routes_compute_1 =
     [(''POST'', ''/compute/v1/diskTypes''),
      (''DELETE'', ''/compute/v1/diskTypes/{disk_type_id}''),
      (''PATCH'', ''/compute/v1/diskTypes/{disk_type_id}'')]"
  by code_simp

lemma exposed_compute_2:
  "exposed_internal routes_compute_2 =
     []"
  by code_simp

lemma exposed_geo:
  "exposed_internal routes_geo =
     [(''POST'', ''/geo/v1/regions''),
      (''DELETE'', ''/geo/v1/regions/{region_id}''),
      (''PATCH'', ''/geo/v1/regions/{region_id}''),
      (''POST'', ''/geo/v1/zones''),
      (''DELETE'', ''/geo/v1/zones/{zone_id}''),
      (''PATCH'', ''/geo/v1/zones/{zone_id}'')]"
  by code_simp

lemma exposed_iam:
  "exposed_internal routes_iam =
     []"
  by code_simp

lemma exposed_nlb:
  "exposed_internal routes_nlb =
     []"
  by code_simp

lemma exposed_operations:
  "exposed_internal routes_operations =
     []"
  by code_simp

lemma exposed_registry:
  "exposed_internal routes_registry =
     []"
  by code_simp

lemma exposed_storage:
  "exposed_internal routes_storage =
     [(''POST'', ''/storage/v1/diskTypes''),
      (''DELETE'', ''/storage/v1/diskTypes/{disk_type_id}''),
      (''PATCH'', ''/storage/v1/diskTypes/{disk_type_id}'')]"
  by code_simp

lemma exposed_vpc:
  "exposed_internal routes_vpc =
     []"
  by code_simp


end
