(* ===== verification/Http_Surface.thy ===== *)
theory Http_Surface
  imports Gateway_Start Proxy_Routing
begin

text \<open>
  The HTTP surface of the gateway: the \<open>http.ServeMux\<close> that \<^verbatim>\<open>cmd/api-gateway/main.go\<close> and
  \<open>OIDCHandler.Register\<close> (\<^verbatim>\<open>internal/middleware/oidc_auth.go\<close>) fill, in front of the REST mux, with the part of
  net/http's matching these patterns use; the 401 answers of the token-binding middleware
  (\<^verbatim>\<open>internal/middleware/dpop_http_middleware.go\<close>); and the transport credentials with which the REST mux
  dials (\<^verbatim>\<open>internal/restmux/mux.go\<close>). The properties relate the mux to the paths on which the authorization
  and token-binding middleware stand aside, and show that every REST call of a method was decided.
\<close>

section \<open>The registered patterns\<close>

datatype http_endpoint = Healthz | Readyz | OidcLogin | OidcCallback | OidcMe | OidcLogout | TokenLogout | RestMux

definition oidc_patterns :: "(string \<times> http_endpoint) list" where
  "oidc_patterns =
     [(''/iam/v1/auth/login'', OidcLogin), (''/iam/v1/auth/callback'', OidcCallback),
      (''/iam/v1/auth/me'', OidcMe), (''/iam/v1/auth/logout'', OidcLogout)]"

definition http_mux :: "(string \<times> http_endpoint) list" where
  "http_mux =
     [(''/healthz'', Healthz), (''/readyz'', Readyz)] @ oidc_patterns @ [(''/oauth/logout'', TokenLogout), (''/'', RestMux)]"

section \<open>net/http\<close>

fun clean_segments :: "string list \<Rightarrow> string list \<Rightarrow> string list" where
  \<comment> \<open>\<open>path.Clean\<close> on a rooted path; the accumulator holds the segments kept so far, last first\<close>
  "clean_segments acc [] = rev acc"
| "clean_segments acc (s # ss) =
     (if s = [] \<or> s = ''.'' then clean_segments acc ss
      else if s = ''..'' then clean_segments (tl acc) ss
      else clean_segments (s # acc) ss)"

definition path_clean :: "string \<Rightarrow> string" where
  "path_clean p = ''/'' @ join_with ''/'' (clean_segments [] (split_byte (CHR ''/'') p))"

definition clean_path :: "string \<Rightarrow> string" where
  "clean_path p0 =
     (if p0 = [] then ''/''
      else (let p = (if hd p0 = CHR ''/'' then p0 else CHR ''/'' # p0); np = path_clean p in
            if last p = CHR ''/'' \<and> np \<noteq> ''/'' then np @ ''/'' else np))"

definition pattern_matches :: "(string \<Rightarrow> string) \<Rightarrow> string \<Rightarrow> string \<Rightarrow> bool" where
  \<comment> \<open>\<open>unescape\<close> decodes one segment; a pattern that ends in a slash matches the subtree\<close>
  "pattern_matches unescape pat path \<longleftrightarrow>
     (if pat = ''/'' then True
      else map unescape (split_byte (CHR ''/'') (tl path)) = split_byte (CHR ''/'') (tl pat))"

datatype mux_target = Redirect string | Serve http_endpoint | MuxNotFound

definition mux_target :: "(string \<Rightarrow> string) \<Rightarrow> (string \<times> http_endpoint) list \<Rightarrow> string \<Rightarrow> string \<Rightarrow> mux_target" where
  \<comment> \<open>\<open>findHandler\<close> on the method and the escaped path; only the root pattern ends in a slash\<close>
  "mux_target unescape pats m escaped =
     (let path = (if m = ''CONNECT'' then escaped else clean_path escaped) in
      if path \<noteq> escaped \<or> path = [] then Redirect (if path = [] then ''/'' else path)
      else (case find (\<lambda>(pat, _). pattern_matches unescape pat path) pats of
              Some (_, ep) \<Rightarrow> Serve ep
            | None \<Rightarrow> MuxNotFound))"

section \<open>Challenges of the token-binding middleware\<close>

record error_texts =
  \<comment> \<open>\<open>err.Error()\<close> of the three validators\<close>
  et_jwt :: "jwt_error \<Rightarrow> string"
  et_dpop :: "dpop_error \<Rightarrow> string"
  et_mtls :: "mtls_error \<Rightarrow> string"

definition www_authenticate :: "error_texts \<Rightarrow> challenge_reason \<Rightarrow> string" where
  \<comment> \<open>the header value that \<open>Wrap\<close> gives to \<open>challenge\<close> on each refusing branch\<close>
  "www_authenticate txt c =
     (let quoted = (\<lambda>s. [CHR 0x22] @ s @ [CHR 0x22]);
          value = (\<lambda>scheme err desc. scheme @ '' error='' @ quoted err @ '', error_description='' @ quoted desc)
      in case c of
           MissingToken \<Rightarrow> value ''Bearer'' ''invalid_token'' ''missing access token''
         | JwtFailed e \<Rightarrow> value ''Bearer'' ''invalid_token'' (sanitize_err (et_jwt txt e))
         | TokenRevoked \<Rightarrow> value ''Bearer'' ''invalid_token'' ''token revoked''
         | DpopFailed e \<Rightarrow> value ''DPoP'' ''invalid_dpop_proof'' (sanitize_err (et_dpop txt e))
         | MtlsFailed e \<Rightarrow> value ''Bearer'' ''invalid_token'' (sanitize_err (et_mtls txt e))
         | SchemeWithoutJkt \<Rightarrow> value ''DPoP'' ''invalid_token'' ''access token has no cnf.jkt''
         | StepUp s \<Rightarrow> s)"

definition dpop_challenge :: "(json \<Rightarrow> string) \<Rightarrow> error_texts \<Rightarrow> challenge_reason \<Rightarrow> resp_writer" where
  "dpop_challenge encode txt c =
     json_response encode [(''WWW-Authenticate'', www_authenticate txt c), (''Content-Type'', ''application/json'')] 401
       [(''code'', JNum 401), (''message'', JStr ''authentication failed'')]"

lemma set_sanitize_err: "set (sanitize_err s) \<inter> {CHR 0x22, CHR 0x0A, CHR 0x0D} = {}"
  by (auto simp: sanitize_err_def Let_def dest!: in_set_takeD split: if_splits)

text \<open>
  Whatever the text of an error (it may quote the client's token), the challenge stays one line and the
  text cannot leave its quotes.
\<close>

lemma challenge_single_line:
  "(\<And>s. c \<noteq> StepUp s) \<Longrightarrow> set (www_authenticate txt c) \<inter> {CHR 0x0A, CHR 0x0D} = {}"
  "(\<And>s. c \<noteq> StepUp s) \<Longrightarrow> length (filter (\<lambda>d. d = CHR 0x22) (www_authenticate txt c)) = 4"
proof -
  have plain: "filter (\<lambda>d. d = CHR 0x22) (sanitize_err s) = []" "CHR 0x0A \<notin> set (sanitize_err s)" "CHR 0x0D \<notin> set (sanitize_err s)" for s
    using set_sanitize_err [of s] by (auto simp: filter_empty_conv)
  assume "\<And>s. c \<noteq> StepUp s"
  then show "set (www_authenticate txt c) \<inter> {CHR 0x0A, CHR 0x0D} = {}"
    "length (filter (\<lambda>d. d = CHR 0x22) (www_authenticate txt c)) = 4"
    using plain by (cases c; simp add: www_authenticate_def Let_def)+
qed

section \<open>Transport credentials of the REST mux\<close>

definition opts_for :: "(string \<times> 'opt) list \<Rightarrow> 'opt \<Rightarrow> string \<Rightarrow> 'opt" where
  \<comment> \<open>the second argument is the insecure option\<close>
  "opts_for dialOpts insecure backendKey = (case map_of dialOpts backendKey of None \<Rightarrow> insecure | Some t \<Rightarrow> t)"

lemma registration_keys: "(svc, Endpoint addr k) \<in> set (registrations addrs) \<Longrightarrow> k \<in> set backend_keys"
  by (auto simp: registrations_def regs_vpc_def regs_compute_def regs_storage_def regs_geo_def regs_iam_def regs_lb_registry_def
      if_addr_def on_edge_def backend_keys_def split: if_splits)

text \<open>
  With the credentials that the gateway builds, the REST mux never falls back to an insecure dial: each
  service is dialled with the option made from the client configuration of its own edge.
\<close>

lemma rest_dials_by_edge:
  assumes "build_backend_dial_creds split tls_creds c = Inr creds" "(svc, Endpoint addr k) \<in> set (registrations addrs)"
  shows "\<exists>tc. edge_tls_client split c (backend_edge k) (backend_addr c k) = Inr tc \<and> tls_creds tc = Some (opts_for creds insecure k)"
proof -
  have "distinct backend_keys"
    by (simp add: backend_keys_def)
  then show ?thesis
    using build_creds_loop_spec [of split tls_creds c backend_keys "[]" creds k] assms(1) registration_keys [OF assms(2)]
    by (auto simp: build_backend_dial_creds_def opts_for_def)
qed

section \<open>Public paths and the route table\<close>

definition misses_auth :: "rest_route \<Rightarrow> bool" where
  \<comment> \<open>the template matches no path below the prefix of the authentication endpoints\<close>
  "misses_auth x \<longleftrightarrow>
     (let ts = split_path (fst (split_verb (rt_template x))) in
      length ts < 3 \<or> \<not> match_parts (take 3 ts) [''iam'', ''v1'', ''auth''])"

definition misses_public :: "rest_route \<Rightarrow> bool" where
  "misses_public x \<longleftrightarrow>
     misses_auth x \<and> list_all (\<lambda>p. \<not> match_template (rt_template x) p) [''/healthz'', ''/readyz'', ''/oauth/logout'']"

lemma split_verb_below: "\<exists>r. fst (split_verb (a @ CHR ''/'' # q)) = a @ CHR ''/'' # r"
proof -
  obtain x l where x: "CHR ''/'' # q = x @ CHR ''/'' # l" "CHR ''/'' \<notin> set l"
    using split_list_last [of "CHR ''/''" "CHR ''/'' # q"] by auto
  then have path: "a @ CHR ''/'' # q = (a @ x) @ CHR ''/'' # l"
    by simp
  have slash: "last_index_byte (a @ CHR ''/'' # q) (CHR ''/'') = Some (length (a @ x))"
    unfolding path by (rule last_index_byte_append [OF x(2)])
  have "\<exists>l'. fst (split_verb (a @ CHR ''/'' # q)) = (a @ x) @ CHR ''/'' # l'"
    unfolding split_verb_def slash Let_def unfolding path by (auto split: option.split)
  moreover have "\<exists>r. x @ CHR ''/'' # l' = CHR ''/'' # r" for l'
    using x(1) by (cases x) auto
  ultimately show ?thesis
    by (metis append_assoc)
qed

lemma split_path_below:
  assumes "CHR ''/'' \<notin> set x" "CHR ''/'' \<notin> set y" "CHR ''/'' \<notin> set z" "x \<noteq> []" "z \<noteq> []"
  shows "\<exists>ps. split_path (CHR ''/'' # x @ CHR ''/'' # y @ CHR ''/'' # z @ CHR ''/'' # r) = x # y # z # ps"
proof -
  let ?s = "x @ CHR ''/'' # y @ CHR ''/'' # z"
  let ?f = "\<lambda>d. d = CHR ''/''"
  have left: "trim_left_byte (CHR ''/'') (CHR ''/'' # ?s @ CHR ''/'' # r) = ?s @ CHR ''/'' # r"
    using assms(1,4) by (cases x) (auto simp: trim_left_byte_def)
  have z: "dropWhile ?f (rev z @ w) = rev z @ w" for w
    using assms(3,5) by (cases "rev z") (auto simp: rev_eq_Cons_iff)
  show ?thesis
  proof (cases "\<forall>d \<in> set r. d = CHR ''/''")
    case True
    then have "trim_byte (CHR ''/'') (CHR ''/'' # ?s @ CHR ''/'' # r) = ?s"
      unfolding trim_byte_def left
      using dropWhile_append2 [of "rev r" ?f] z [of "CHR ''/'' # rev y @ CHR ''/'' # rev x"]
      by (simp add: trim_right_byte_def)
    then show ?thesis
      using assms by (simp add: split_path_def split_byte_append split_byte_no_sep)
  next
    case False
    then have "trim_byte (CHR ''/'') (CHR ''/'' # ?s @ CHR ''/'' # r) = ?s @ CHR ''/'' # rev (dropWhile ?f (rev r))"
      unfolding trim_byte_def left by (auto simp: trim_right_byte_def dropWhile_append)
    then show ?thesis
      using assms by (simp add: split_path_def split_byte_append)
  qed
qed

lemma split_path_head:
  assumes "CHR ''/'' \<notin> set w" "w \<noteq> []"
  shows "\<exists>ps. split_path (CHR ''/'' # w @ CHR ''/'' # r) = w # ps"
proof -
  let ?f = "\<lambda>d. d = CHR ''/''"
  have left: "trim_left_byte (CHR ''/'') (CHR ''/'' # w @ CHR ''/'' # r) = w @ CHR ''/'' # r"
    using assms by (cases w) (auto simp: trim_left_byte_def)
  have w: "dropWhile ?f (rev w) = rev w"
    using assms by (cases "rev w") (auto simp: rev_eq_Cons_iff)
  show ?thesis
  proof (cases "\<forall>d \<in> set r. d = CHR ''/''")
    case True
    then have "trim_byte (CHR ''/'') (CHR ''/'' # w @ CHR ''/'' # r) = w"
      unfolding trim_byte_def left using dropWhile_append2 [of "rev r" ?f] w by (simp add: trim_right_byte_def)
    then show ?thesis
      using assms by (simp add: split_path_def split_byte_no_sep)
  next
    case False
    then have "trim_byte (CHR ''/'') (CHR ''/'' # w @ CHR ''/'' # r) = w @ CHR ''/'' # rev (dropWhile ?f (rev r))"
      unfolding trim_byte_def left by (auto simp: trim_right_byte_def dropWhile_append)
    then show ?thesis
      using assms by (simp add: split_path_def split_byte_append)
  qed
qed

text \<open>The rows of the other domains are told apart by the first segment of their template.\<close>

definition own_domain :: "string \<Rightarrow> bool" where
  "own_domain w \<longleftrightarrow>
     CHR ''/'' \<notin> set w \<and> w \<noteq> [] \<and> \<not> is_placeholder w \<and> w \<noteq> ''iam'' \<and> w \<noteq> ''healthz'' \<and> w \<noteq> ''readyz'' \<and> w \<noteq> ''oauth''"

lemma public_paths_split:
  "split_path (fst (split_verb ''/healthz'')) = [''healthz'']" "split_path (fst (split_verb ''/readyz'')) = [''readyz'']"
  "split_path (fst (split_verb ''/oauth/logout'')) = [''oauth'', ''logout'']"
  by code_simp+

lemma other_domain_public:
  assumes "own_domain w" "has_prefix (rt_template x) (''/'' @ w @ ''/'')"
  shows "misses_public x"
proof -
  have w: "CHR ''/'' \<notin> set w" "w \<noteq> []" "\<not> is_placeholder w" "w \<noteq> ''iam''" "w \<noteq> ''healthz''" "w \<noteq> ''readyz''" "w \<noteq> ''oauth''"
    using assms(1) by (simp_all add: own_domain_def)
  obtain q where "rt_template x = (CHR ''/'' # w) @ CHR ''/'' # q"
    using assms(2) by (auto simp: has_prefix_iff)
  then obtain r where "fst (split_verb (rt_template x)) = CHR ''/'' # w @ CHR ''/'' # r"
    using split_verb_below [of "CHR ''/'' # w" q] by auto
  then obtain ps where ps: "split_path (fst (split_verb (rt_template x))) = w # ps"
    using split_path_head [OF w(1,2)] by metis
  have first: "\<not> match_template (rt_template x) p" if "split_path (fst (split_verb p)) = v # vs" "w \<noteq> v" for p v vs
    using ps that w(3) by (auto simp: match_template_def Let_def split: prod.splits)
  have "misses_auth x"
    using ps w(3,4) by (auto simp: misses_auth_def Let_def take_Suc_conv_app_nth numeral_3_eq_3)
  then show ?thesis
    using first [OF public_paths_split(1) w(5)] first [OF public_paths_split(2) w(6)] first [OF public_paths_split(3) w(7)]
    by (simp add: misses_public_def)
qed

lemma routes_compute_1_domain: "list_all (\<lambda>x. has_prefix (rt_template x) (''/'' @ ''compute'' @ ''/'')) routes_compute_1"
  by code_simp

lemma routes_compute_2_domain: "list_all (\<lambda>x. has_prefix (rt_template x) (''/'' @ ''compute'' @ ''/'')) routes_compute_2"
  by code_simp

lemma routes_geo_domain: "list_all (\<lambda>x. has_prefix (rt_template x) (''/'' @ ''geo'' @ ''/'')) routes_geo"
  by code_simp

lemma routes_nlb_domain: "list_all (\<lambda>x. has_prefix (rt_template x) (''/'' @ ''nlb'' @ ''/'')) routes_nlb"
  by code_simp

lemma routes_operations_domain: "list_all (\<lambda>x. has_prefix (rt_template x) (''/'' @ ''operations'' @ ''/'')) routes_operations"
  by code_simp

lemma routes_registry_domain: "list_all (\<lambda>x. has_prefix (rt_template x) (''/'' @ ''registry'' @ ''/'')) routes_registry"
  by code_simp

lemma routes_storage_domain: "list_all (\<lambda>x. has_prefix (rt_template x) (''/'' @ ''storage'' @ ''/'')) routes_storage"
  by code_simp

lemma routes_vpc_domain: "list_all (\<lambda>x. has_prefix (rt_template x) (''/'' @ ''vpc'' @ ''/'')) routes_vpc"
  by code_simp

lemma domains_own: "list_all own_domain [''compute'', ''geo'', ''nlb'', ''operations'', ''registry'', ''storage'', ''vpc'']"
  by code_simp

lemma routes_iam_public: "list_all misses_public routes_iam"
  by code_simp

lemmas routes_domain =
  routes_compute_1_domain
  routes_compute_2_domain
  routes_geo_domain
  routes_nlb_domain
  routes_operations_domain
  routes_registry_domain
  routes_storage_domain
  routes_vpc_domain

lemma generated_routes_public: "x \<in> set generated_rest_routes \<Longrightarrow> misses_public x"
  using routes_domain domains_own routes_iam_public
  by (auto simp: generated_rest_routes_def list_all_iff intro: other_domain_public)

lemma match_parts_take: "match_parts ts ps \<Longrightarrow> match_parts (take n ts) (take n ps)"
proof (induction ts ps arbitrary: n rule: match_parts.induct)
  case (1 t ts p ps)
  then show ?case
    by (cases n) (auto split: if_splits)
qed simp_all

lemma drop_query_below: "CHR ''?'' \<notin> set a \<Longrightarrow> \<exists>r. drop_query (a @ q) = a @ r"
proof -
  assume a: "CHR ''?'' \<notin> set a"
  show ?thesis
  proof (cases "index_byte (a @ q) (CHR ''?'')")
    case (Some i)
    then have "length a \<le> i"
      using a by (auto simp: index_byte_Some nth_append split: if_splits) (metis not_le nth_mem)
    then show ?thesis
      using Some by (simp add: drop_query_def)
  qed (simp add: drop_query_def)
qed

lemma public_path_unrouted:
  assumes "is_public_http_path p" "x \<in> set generated_rest_routes"
  shows "\<not> match_template (rt_template x) (drop_query p)"
proof (cases "has_prefix p ''/iam/v1/auth/''")
  case False
  then show ?thesis
    using assms generated_routes_public [OF assms(2)]
    by (auto simp: is_public_http_path_def misses_public_def drop_query_id split: if_splits)
next
  case True
  then obtain q where "p = ''/iam/v1/auth/'' @ q"
    by (auto simp: has_prefix_iff)
  then obtain r where r: "drop_query p = ''/iam/v1/auth'' @ CHR ''/'' # r"
    using drop_query_below [of "''/iam/v1/auth/''" q] by auto
  then obtain r' where r': "fst (split_verb (drop_query p)) = ''/iam/v1/auth'' @ CHR ''/'' # r'"
    using split_verb_below [of "''/iam/v1/auth''" r] by auto
  obtain ps where ps: "split_path (fst (split_verb (drop_query p))) = ''iam'' # ''v1'' # ''auth'' # ps"
    using split_path_below [of "''iam''" "''v1''" "''auth''" r'] r' by auto
  show ?thesis
  proof
    assume m: "match_template (rt_template x) (drop_query p)"
    let ?ts = "split_path (fst (split_verb (rt_template x)))"
    have "match_parts ?ts (''iam'' # ''v1'' # ''auth'' # ps)" "length ?ts = 3 + length ps"
      using m ps by (auto simp: match_template_def Let_def split: prod.splits if_splits)
    then show False
      using generated_routes_public [OF assms(2)] match_parts_take [of ?ts _ 3]
      by (fastforce simp: misses_public_def misses_auth_def Let_def)
  qed
qed

lemma public_not_resolved: "is_public_http_path p \<Longrightarrow> rest_resolve new_rest_router m p = None"
  unfolding new_rest_router_def rest_resolve_router_of by (auto simp: find_None_iff dest: public_path_unrouted)

section \<open>Properties\<close>

lemma mux_patterns_public:
  "list_all (\<lambda>(pat, ep). ep \<noteq> RestMux \<longrightarrow> is_public_http_path pat \<and> pat \<noteq> [] \<and> hd pat = CHR ''/'' \<and> pat \<noteq> ''/'') http_mux"
  by code_simp

text \<open>
  C37: the paths on which authorization and token binding stand aside name no method, and they cover every
  endpoint the gateway serves itself. A public path resolves to no method of the generated route table,
  whatever the HTTP method, dot segments, repeated slashes, verbs and queries included; and a request
  the mux gives to a health, OIDC or logout endpoint has a public path.
\<close>

theorem public_surface:
  assumes "p = CHR ''/'' # join_with ''/'' (map unescape (split_byte (CHR ''/'') (tl escaped)))"
  shows "(is_public_http_path p \<longrightarrow> rest_resolve new_rest_router m p = None) \<and>
    (mux_target unescape http_mux m escaped = Serve ep \<and> ep \<noteq> RestMux \<longrightarrow> is_public_http_path p)"
proof (intro conjI impI)
  show "rest_resolve new_rest_router m p = None" if "is_public_http_path p"
    using that by (rule public_not_resolved)
next
  assume run: "mux_target unescape http_mux m escaped = Serve ep \<and> ep \<noteq> RestMux"
  then obtain pat where "find (\<lambda>(pat, _). pattern_matches unescape pat escaped) http_mux = Some (pat, ep)"
    by (auto simp: mux_target_def Let_def split: if_splits option.splits)
  then have pat: "(pat, ep) \<in> set http_mux" "pattern_matches unescape pat escaped"
    by (auto simp: find_Some_iff) (metis nth_mem)
  then have "is_public_http_path pat" "pat \<noteq> []" "hd pat = CHR ''/''" "pat \<noteq> ''/''"
    using mux_patterns_public run by (auto simp: list_all_iff)
  moreover from this have "p = CHR ''/'' # tl pat"
    using pat(2) assms by (simp add: pattern_matches_def join_split_byte)
  ultimately show "is_public_http_path p"
    by (metis list.collapse)
qed

theorem public_surface_witness:
  "is_public_http_path ''/iam/v1/auth/../../../vpc/v1/networks'' \<and>
   mux_target id http_mux ''GET'' ''/iam/v1/auth/../../../vpc/v1/networks'' = Redirect ''/vpc/v1/networks'' \<and>
   mux_target id http_mux ''CONNECT'' ''/iam/v1/auth/../../../vpc/v1/networks'' = Serve RestMux \<and>
   rest_resolve new_rest_router ''CONNECT'' ''/iam/v1/auth/../../../vpc/v1/networks'' = None \<and>
   is_public_http_path ''/iam/v1/auth/login''"
proof -
  let ?p = "''/iam/v1/auth/../../../vpc/v1/networks''"
  have split: "?p = CHR ''/'' # join_with ''/'' (map id (split_byte (CHR ''/'') (tl ?p)))"
    "''/iam/v1/auth/login'' = CHR ''/'' # join_with ''/'' (map id (split_byte (CHR ''/'') (tl ''/iam/v1/auth/login'')))"
    by code_simp+
  have pub: "is_public_http_path ?p" "mux_target id http_mux ''GET'' ?p = Redirect ''/vpc/v1/networks''"
    "mux_target id http_mux ''CONNECT'' ?p = Serve RestMux"
    "mux_target id http_mux ''GET'' ''/iam/v1/auth/login'' = Serve OidcLogin \<and> OidcLogin \<noteq> RestMux"
    by code_simp+
  have "rest_resolve new_rest_router ''CONNECT'' ?p = None"
    using public_surface [OF split(1)] pub(1) by blast
  moreover have "is_public_http_path ''/iam/v1/auth/login''"
    using public_surface [OF split(2)] pub(4) by blast
  ultimately show ?thesis
    using pub by blast
qed

section \<open>Complete mediation on REST\<close>

abbreviation route_of :: "http_request option \<Rightarrow> (string \<times> string) option" where
  "route_of \<equiv> map_option (\<lambda>r. (req_method r, req_path r))"

lemma body_keeps_route: "extract_from_json_body dec r f = (r', i) \<Longrightarrow> req_method r' = req_method r \<and> req_path r' = req_path r"
  by (auto simp: extract_from_json_body_def Let_def split: option.splits if_splits)

lemma extract_keeps_route:
  "extract_from_http dec ts r fqn e = (r', i) \<Longrightarrow> req_method r' = req_method r \<and> req_path r' = req_path r"
  "scope_type_from_http dec r f = (r', i) \<Longrightarrow> req_method r' = req_method r \<and> req_path r' = req_path r"
  by (auto simp: extract_from_http_def scope_type_from_http_def Let_def dest: body_keeps_route
      split: option.splits if_splits prod.splits)

lemma resource_keeps_route:
  "phase_resource cfg dr entry subj st = (st1, dr1, r) \<Longrightarrow> route_of (dr_http dr1) = route_of (dr_http dr)"
  by (auto simp: phase_resource_def extract_resource_def dynamic_type_def Let_def dest!: extract_keeps_route
      split: if_splits option.splits prod.splits)

lemma decide_keeps_route:
  assumes "decide cfg ev dr st = (st', dr', dec)"
  shows "route_of (dr_http dr') = route_of (dr_http dr)"
proof -
  obtain st1 where run: "decide_phases cfg ev dr st = (st1, dr', dec)"
    using assms by (auto simp: decide_def split: prod.splits)
  show ?thesis
  proof (cases "passes_gates cfg dr st")
    case False
    then show ?thesis
      using decide_gated(1) [OF False run] by simp
  next
    case True
    have "route_of (dr_http dr2) = route_of (dr_http dr)"
      if "after_subject cfg ev dr entry subj st = (st2, dr2, dec2)" for entry subj st2 dr2 dec2
      using that by (auto simp: after_subject_def dest!: resource_keeps_route split: prod.splits sum.splits option.splits)
    then show ?thesis
      using run unfolding decide_ungated [OF True] by (auto split: option.splits if_splits prod.splits)
  qed
qed

lemma authz_http_reached:
  assumes "authz_http cfg encode ev md rid next r st = (st', Reached r' w)" "az_enabled cfg" "\<not> az_fail_open cfg"
    and "\<not> is_public_http_path (req_path r')"
  shows "\<exists>st2 dr' dec. decide cfg ev (http_decision_request cfg r md rid) st = (st2, dr', dec) \<and> dc_outcome dec = OutcomeAllow \<and>
    req_method r' = req_method r \<and> req_path r' = req_path r"
proof -
  obtain st2 dr' dec where run: "decide cfg ev (http_decision_request cfg r md rid) st = (st2, dr', dec)"
    by (metis surj_pair)
  have route: "route_of (dr_http dr') = Some (req_method r, req_path r)"
    using decide_keeps_route [OF run] by (simp add: http_decision_request_def)
  then show ?thesis
    using assms run by (auto simp: authz_http_def Let_def split: if_splits decision_outcome.splits option.splits)
qed

text \<open>
  C2: every REST call of a method was decided. With the authorization middleware as the gateway configures it
  (enabled, failing closed), in any reachable state and under any interleaving, a request that comes out of
  the whole chain (authentication, token binding, authorization) with a method and a path that the route
  table maps to a gRPC method was decided for exactly that method, as the request that authentication
  and token binding passed on, and the allow has one of the five grounds.
\<close>

theorem rest_call_mediated:
  assumes "rest_chain e env next st r = (st', Authorized (Reached r' w))"
    and "rest_resolve new_rest_router (req_method r') (req_path r') = Some fqn"
    and "re_authz e = authz_config_of p z" "zs_enabled z" "\<not> zs_fail_open z"
    and "authz_reachable (re_authz e) (iam_ask new_struct stubs now client) (rs_authz st)"
    and "rv_check env = env_of (re_authz e) (iam_ask new_struct stubs now client) k between during clock"
  shows "\<exists>a r1 d r2 dr. auth_http (re_auth e) (rs_auth st) r = (a, Served r1) \<and>
    rest_bind e env (rs_dpop st) r1 = (d, Forward r2) \<and>
    dr = http_decision_request (re_authz e) r2 None (rv_request_id env) \<and> dr_fqn dr = fqn \<and>
    (fqn \<in> set default_public_allowlist \<or> internal_exempt dr (rs_authz st) \<or> override_of dr (rs_authz st) = Some OverrideAllow \<or>
     (\<exists>entry subj. catalog_lookup (as_catalog (rs_authz st)) fqn = Some entry \<and> subject_of (re_authz e) dr = Some subj \<and>
        (is_exempt entry \<or>
         (\<exists>i. ci_subject i = rs_fga subj \<and> ci_action i = ce_permission entry \<and>
            granted (re_authz e) (iam_allows stubs) (key_of_input (re_authz e) i)))))"
proof -
  have public: "\<not> is_public_http_path (req_path r')"
    using public_not_resolved assms(2) by fastforce
  obtain a r1 d r2 z' where chain: "auth_http (re_auth e) (rs_auth st) r = (a, Served r1)"
    "rest_bind e env (rs_dpop st) r1 = (d, Forward r2)"
    "authz_http (re_authz e) (re_encode e) (rv_check env) None (rv_request_id env) next r2 (rs_authz st) = (z', Reached r' w)"
    using assms(1) by (auto simp: rest_chain_def split: prod.splits http_outcome.splits wrap_outcome.splits)
  define dr where "dr = http_decision_request (re_authz e) r2 None (rv_request_id env)"
  have enabled: "az_enabled (re_authz e)" "\<not> az_fail_open (re_authz e)"
    using assms(3-5) by (simp_all add: authz_config_of_def)
  obtain st2 dr' dec where run: "decide (re_authz e) (rv_check env) dr (rs_authz st) = (st2, dr', dec)" "dc_outcome dec = OutcomeAllow"
    "req_method r' = req_method r2" "req_path r' = req_path r2"
    using authz_http_reached [OF chain(3) enabled public] unfolding dr_def by blast
  have fqn: "dr_fqn dr = fqn"
    using assms(2,3) run(3,4) by (simp add: dr_def http_decision_request_def resolve_rest_fqn_def authz_config_of_def)
  have allow: "az_allow (re_authz e) = default_public_allowlist"
    using assms(3) by (simp add: authz_config_of_def)
  note grounds = iamz.decide_allow [OF iamz.vc.reachable_holds [OF assms(6)] run(1) [unfolded assms(7)] run(2), unfolded fqn allow]
  show ?thesis
    by (rule exI [of _ a], rule exI [of _ r1], rule exI [of _ d], rule exI [of _ r2], rule exI [of _ dr])
      (intro conjI chain(1,2) dr_def fqn grounds)
qed

definition demo_mediated_state :: authz_state where
  "demo_mediated_state =
     demo_state\<lparr>as_overrides := Some \<lparr>fc_current = [(ce_fqn demo_level_entry, (OverrideAllow, []))], fc_path = None\<rparr>\<rparr>"

abbreviation demo_mediated_edge :: "(jwks_cache, subject_cache, kratos_client, unit) rest_edge" where
  "demo_mediated_edge \<equiv> demo_edge\<lparr>re_authz := authz_config_of demo_parts demo_settings\<rparr>"

abbreviation demo_mediated_env :: rest_env where
  "demo_mediated_env \<equiv>
     \<lparr>rv_dpop_clock = (\<lambda>_. 0), rv_check = env_of (authz_config_of demo_parts demo_settings) (demo_ask True) 0 [] [] (\<lambda>_. 0),
      rv_request_id = []\<rparr>"

abbreviation demo_mediated_request :: http_request where
  "demo_mediated_request \<equiv> demo_rest_get\<lparr>req_path := ''/compute/v1/diskPlacementGroups''\<rparr>"

lemma demo_mediated_reachable: "authz_reachable cfg ask demo_mediated_state"
  by (rule fresh [of "[]" 0 0 None "as_catalog demo_state" "as_overrides demo_mediated_state"])
    (simp add: new_authz_middleware_def required_deps_def demo_state_def demo_mediated_state_def)

lemma demo_mediated_run:
  "\<exists>st' w. rest_chain demo_mediated_edge demo_mediated_env (\<lambda>_. []) (demo_rest_state\<lparr>rs_authz := demo_mediated_state\<rparr>) demo_mediated_request =
     (st', Authorized (Reached (strip_forgeable_identity_headers demo_mediated_request) w))"
proof -
  let ?r = "strip_forgeable_identity_headers demo_mediated_request"
  let ?cfg = "authz_config_of demo_parts demo_settings"
  let ?dr = "http_decision_request ?cfg ?r None []"
  have auth: "auth_http (re_auth demo_mediated_edge) ast demo_mediated_request = (ast, Served ?r)" for ast
    by (rule auth_http_bare) (simp_all add: demo_rest_get_def)
  have fqn: "dr_fqn ?dr = ce_fqn demo_level_entry" "dr_http ?dr = Some ?r"
    using demo_level_route
    by (simp_all add: http_decision_request_def resolve_rest_fqn_def authz_config_of_def strip_frame demo_rest_get_def
        demo_level_entry_def demo_catalog_entry_def)
  have "ce_fqn demo_level_entry \<notin> set default_public_allowlist" "\<not> has_internal_suffix (''/'' @ ce_fqn demo_level_entry)"
    by code_simp+
  then have gate: "\<not> passes_gates ?cfg ?dr demo_mediated_state" "override_of ?dr demo_mediated_state = Some OverrideAllow"
    by (simp_all add: passes_gates_def override_of_def fqn demo_mediated_state_def override_lookup_def)
  obtain st1 dr' dec where run: "decide_phases ?cfg (rv_check demo_mediated_env) ?dr demo_mediated_state = (st1, dr', dec)"
    by (rule prod_cases3)
  have "dr' = ?dr" "dc_outcome dec = OutcomeAllow"
    using decide_gated(1,3) [OF gate(1) run] gate(2) by simp_all
  note run = run [unfolded this(1)] this(2)
  have public: "\<not> is_public_http_path (req_path ?r)" "az_enabled ?cfg"
    by (simp_all add: strip_frame authz_config_of_def demo_settings_def is_public_http_path_def has_prefix_def)
  show ?thesis
    using auth fqn(2) run public by (simp add: rest_chain_def rest_bind_def demo_edge_def authz_http_def decide_def demo_rest_state_def Let_def)
qed

theorem rest_call_mediated_witness:
  "\<exists>r2 dr. dr = http_decision_request (re_authz demo_mediated_edge) r2 None [] \<and>
     dr_fqn dr = ''kacho.cloud.compute.v1.DiskPlacementGroupService/List''"
proof -
  let ?r = "strip_forgeable_identity_headers demo_mediated_request"
  obtain st' w where run: "rest_chain demo_mediated_edge demo_mediated_env (\<lambda>_. []) (demo_rest_state\<lparr>rs_authz := demo_mediated_state\<rparr>)
      demo_mediated_request = (st', Authorized (Reached ?r w))"
    using demo_mediated_run by blast
  have "rest_resolve new_rest_router (req_method ?r) (req_path ?r) = Some ''kacho.cloud.compute.v1.DiskPlacementGroupService/List''"
    using demo_level_route by (simp add: strip_frame demo_rest_get_def)
  from rest_call_mediated [OF run this, of demo_parts demo_settings "\<lambda>_. None" "\<lambda>_. demo_stub True" "\<lambda>_. 0" "\<lambda>_. authorize_client_from_conn 0 0" 0 "[]" "[]" "\<lambda>_. 0"]
  obtain r2 dr where "dr = http_decision_request (re_authz demo_mediated_edge) r2 None (rv_request_id demo_mediated_env)"
    "dr_fqn dr = ''kacho.cloud.compute.v1.DiskPlacementGroupService/List''"
    by (auto simp: demo_settings_def demo_mediated_reachable)
  then show ?thesis
    by (intro exI [of _ r2] exI [of _ dr]) simp
qed

end
