(* ===== verification/Gateway_Config.thy ===== *)
theory Gateway_Config
  imports Gateway_Start
begin

text \<open>
  The environment of the process (\<^verbatim>\<open>internal/config/config.go\<close>): the fields of \<open>Config\<close> with the variables they are
  read from and their defaults, the loader, and the parts of the configuration that the other theories use.
  The loader of the core library is an argument: for a variable and its default it gives the value of the
  field, or fails. A configuration is the association list of its fields.
\<close>

section \<open>The fields\<close>

datatype config_value = CStr string | CBool bool | CInt int | CDuration duration | CList "string list"

type_synonym config_field = "string \<times> string \<times> config_value"
  \<comment> \<open>the field, its variable, its default\<close>

definition config_addresses :: "config_field list" where
  \<comment> \<open>listeners, backends\<close>
  "config_addresses =
     [(''ListenAddr'', ''KACHO_API_GATEWAY_LISTEN_ADDR'', CStr '':8080''),
      (''TLSListenAddr'', ''KACHO_API_GATEWAY_TLS_LISTEN_ADDR'', CStr []),
      (''InternalRESTAddr'', ''KACHO_API_GATEWAY_INTERNAL_REST_ADDR'', CStr '':8081''),
      (''TLSCertFile'', ''KACHO_API_GATEWAY_TLS_CERT_FILE'', CStr []),
      (''TLSKeyFile'', ''KACHO_API_GATEWAY_TLS_KEY_FILE'', CStr []),
      (''VPCAddr'', ''KACHO_API_GATEWAY_VPC_GRPC'', CStr ''vpc.kacho.svc.cluster.local:9090''),
      (''VPCInternalAddr'', ''KACHO_API_GATEWAY_VPC_INTERNAL_GRPC'', CStr ''vpc.kacho.svc.cluster.local:9091''),
      (''ComputeAddr'', ''KACHO_API_GATEWAY_COMPUTE_GRPC'', CStr ''compute.kacho.svc.cluster.local:9090''),
      (''ComputeInternalAddr'', ''KACHO_API_GATEWAY_COMPUTE_INTERNAL_GRPC'', CStr ''compute.kacho.svc.cluster.local:9091''),
      (''IAMAddr'', ''KACHO_API_GATEWAY_IAM_GRPC'', CStr ''iam.kacho.svc.cluster.local:9090''),
      (''IAMInternalAddr'', ''KACHO_API_GATEWAY_IAM_INTERNAL_GRPC'', CStr ''iam.kacho.svc.cluster.local:9091''),
      (''NLBAddr'', ''KACHO_API_GATEWAY_NLB_GRPC'', CStr ''kacho-nlb.kacho.svc.cluster.local:9090''),
      (''NLBInternalAddr'', ''KACHO_API_GATEWAY_NLB_INTERNAL_GRPC'', CStr ''kacho-nlb.kacho.svc.cluster.local:9091''),
      (''GeoAddr'', ''KACHO_API_GATEWAY_GEO_GRPC'', CStr ''kacho-geo.kacho.svc.cluster.local:9090''),
      (''GeoInternalAddr'', ''KACHO_API_GATEWAY_GEO_INTERNAL_GRPC'', CStr ''kacho-geo-internal.kacho.svc.cluster.local:9091''),
      (''RegistryAddr'', ''KACHO_API_GATEWAY_REGISTRY_GRPC'', CStr ''kacho-registry.kacho.svc.cluster.local:9090''),
      (''RegistryInternalAddr'', ''KACHO_API_GATEWAY_REGISTRY_INTERNAL_GRPC'', CStr ''kacho-registry.kacho.svc.cluster.local:9091''),
      (''StorageAddr'', ''KACHO_API_GATEWAY_STORAGE_GRPC'', CStr ''kacho-storage.kacho.svc.cluster.local:9090''),
      (''StorageInternalAddr'', ''KACHO_API_GATEWAY_STORAGE_INTERNAL_GRPC'', CStr ''kacho-storage.kacho.svc.cluster.local:9091''),
      (''AdvertisedEndpointAddr'', ''KACHO_API_GATEWAY_ADVERTISED_ENDPOINT'', CStr ''api.kacho.local:443'')]"

definition config_process :: "config_field list" where
  \<comment> \<open>authentication mode, environment, Kratos, the internal listener\<close>
  "config_process =
     [(''AuthNMode'', ''KACHO_API_GATEWAY_AUTHN_MODE'', CStr ''dev''),
      (''AuthNDevSecret'', ''KACHO_API_GATEWAY_AUTHN_DEV_SECRET'', CStr []),
      (''AppEnv'', ''KACHO_APP_ENV'', CStr []),
      (''KratosPublicURL'', ''KACHO_API_GATEWAY_KRATOS_PUBLIC_URL'', CStr ''http://kacho-umbrella-kratos-public.kacho.svc.cluster.local:80''),
      (''InternalGRPCAddr'', ''KACHO_API_GATEWAY_INTERNAL_GRPC_ADDR'', CStr '':9091''),
      (''InternalGRPCMTLSEnable'', ''KACHO_API_GATEWAY_INTERNAL_GRPC_MTLS_ENABLE'', CBool False),
      (''InternalGRPCTLSCertFile'', ''KACHO_API_GATEWAY_INTERNAL_GRPC_TLS_CERT_FILE'', CStr []),
      (''InternalGRPCTLSKeyFile'', ''KACHO_API_GATEWAY_INTERNAL_GRPC_TLS_KEY_FILE'', CStr []),
      (''InternalGRPCAllowedSPIFFE'', ''KACHO_API_GATEWAY_INTERNAL_GRPC_ALLOWED_SPIFFE'', CList []),
      (''InternalGRPCReflection'', ''KACHO_API_GATEWAY_INTERNAL_GRPC_REFLECTION'', CBool False)]"

definition config_oidc :: "config_field list" where
  \<comment> \<open>OIDC and Hydra\<close>
  "config_oidc =
     [(''OIDCIssuer'', ''KACHO_API_GATEWAY_OIDC_ISSUER'', CStr []),
      (''OIDCExternalIssuer'', ''KACHO_API_GATEWAY_OIDC_EXTERNAL_ISSUER'', CStr []),
      (''OIDCClientID'', ''KACHO_API_GATEWAY_OIDC_CLIENT_ID'', CStr []),
      (''OIDCClientSecret'', ''KACHO_API_GATEWAY_OIDC_CLIENT_SECRET'', CStr []),
      (''OIDCRedirectURI'', ''KACHO_API_GATEWAY_OIDC_REDIRECT_URI'', CStr []),
      (''APIDomain'', ''KACHO_API_DOMAIN'', CStr ''api.kacho.cloud''),
      (''HydraIssuer'', ''KACHO_HYDRA_ISSUER'', CStr []),
      (''HydraJWKSURL'', ''KACHO_HYDRA_JWKS_URL'', CStr []),
      (''HydraIntrospectionURL'', ''KACHO_HYDRA_INTROSPECTION_URL'', CStr []),
      (''HydraAdminURL'', ''KACHO_HYDRA_ADMIN_URL'', CStr [])]"

definition config_tokens :: "config_field list" where
  \<comment> \<open>verification of tokens and token binding\<close>
  "config_tokens =
     [(''JWKSCacheTTLSeconds'', ''KACHO_JWKS_CACHE_TTL_SECONDS'', CInt 300),
      (''JWKSFetchTimeoutSeconds'', ''KACHO_JWKS_FETCH_TIMEOUT_SECONDS'', CInt 5),
      (''DPoPReplayCacheSize'', ''KACHO_DPOP_REPLAY_CACHE_SIZE'', CInt 100000),
      (''DPoPReplayCacheTTLSeconds'', ''KACHO_DPOP_REPLAY_CACHE_TTL_SECONDS'', CInt 120),
      (''DPoPIatFreshnessSeconds'', ''KACHO_DPOP_IAT_FRESHNESS_SECONDS'', CInt 60),
      (''JWTClockSkewSeconds'', ''KACHO_JWT_CLOCK_SKEW_SECONDS'', CInt 30),
      (''IntrospectionCacheTTLSeconds'', ''KACHO_INTROSPECTION_CACHE_TTL_SECONDS'', CInt 5),
      (''IntrospectionCacheSize'', ''KACHO_INTROSPECTION_CACHE_SIZE'', CInt 10000),
      (''HookSharedSecret'', ''KACHO_IAM_HOOK_TOKEN'', CStr []),
      (''AuthNEnableDPoP'', ''KACHO_API_GATEWAY_AUTHN_ENABLE_DPOP'', CBool False)]"

definition config_authz :: "config_field list" where
  \<comment> \<open>authorization and the watcher\<close>
  "config_authz =
     [(''AuthZEnabled'', ''KACHO_API_GATEWAY_AUTHZ_ENABLED'', CBool False),
      (''AuthZFailOpen'', ''KACHO_API_GATEWAY_AUTHZ_FAIL_OPEN'', CBool False),
      (''IAMAuthorizeURL'', ''KACHO_API_GATEWAY_IAM_AUTHORIZE_URL'', CStr []),
      (''AuthZCacheTTLSeconds'', ''KACHO_API_GATEWAY_AUTHZ_CACHE_TTL_SECONDS'', CInt 5),
      (''AuthZCacheMaxEntries'', ''KACHO_API_GATEWAY_AUTHZ_CACHE_MAX_ENTRIES'', CInt 10000),
      (''AuthZCheckTimeoutMs'', ''KACHO_API_GATEWAY_AUTHZ_CHECK_TIMEOUT_MS'', CInt 200),
      (''AuthZPermissionCatalogFile'', ''KACHO_API_GATEWAY_PERMISSION_CATALOG_FILE'', CStr []),
      (''AuthZOverridesFile'', ''KACHO_API_GATEWAY_AUTHZ_OVERRIDES_FILE'', CStr []),
      (''AuthZTrustedXForwardedFor'', ''KACHO_API_GATEWAY_AUTHZ_TRUSTED_XFF'', CBool True),
      (''AuthZTrustedProxyCount'', ''KACHO_API_GATEWAY_AUTHZ_TRUSTED_PROXY_COUNT'', CInt 1),
      (''SubjectChangePollInterval'', ''KACHO_API_GATEWAY_SUBJECT_CHANGE_POLL_INTERVAL'', CDuration (2 * second))]"

definition config_mtls :: "config_field list" where
  \<comment> \<open>client certificates\<close>
  "config_mtls =
     [(''MTLSClientCertFile'', ''KACHO_API_GATEWAY_MTLS_CLIENT_CERT_FILE'', CStr []),
      (''MTLSClientKeyFile'', ''KACHO_API_GATEWAY_MTLS_CLIENT_KEY_FILE'', CStr []),
      (''MTLSCAFile'', ''KACHO_API_GATEWAY_MTLS_CA_FILE'', CStr []),
      (''MTLSVPCEnable'', ''KACHO_API_GATEWAY_MTLS_VPC_ENABLE'', CBool False),
      (''MTLSComputeEnable'', ''KACHO_API_GATEWAY_MTLS_COMPUTE_ENABLE'', CBool False),
      (''MTLSIAMEnable'', ''KACHO_API_GATEWAY_MTLS_IAM_ENABLE'', CBool False),
      (''MTLSNLBEnable'', ''KACHO_API_GATEWAY_MTLS_NLB_ENABLE'', CBool False),
      (''MTLSGeoEnable'', ''KACHO_API_GATEWAY_MTLS_GEO_ENABLE'', CBool False),
      (''MTLSRegistryEnable'', ''KACHO_API_GATEWAY_MTLS_REGISTRY_ENABLE'', CBool False),
      (''MTLSStorageEnable'', ''KACHO_API_GATEWAY_MTLS_STORAGE_ENABLE'', CBool False),
      (''MTLSVPCServerName'', ''KACHO_API_GATEWAY_MTLS_VPC_SERVER_NAME'', CStr []),
      (''MTLSComputeServerName'', ''KACHO_API_GATEWAY_MTLS_COMPUTE_SERVER_NAME'', CStr []),
      (''MTLSIAMServerName'', ''KACHO_API_GATEWAY_MTLS_IAM_SERVER_NAME'', CStr []),
      (''MTLSNLBServerName'', ''KACHO_API_GATEWAY_MTLS_NLB_SERVER_NAME'', CStr []),
      (''MTLSGeoServerName'', ''KACHO_API_GATEWAY_MTLS_GEO_SERVER_NAME'', CStr []),
      (''MTLSRegistryServerName'', ''KACHO_API_GATEWAY_MTLS_REGISTRY_SERVER_NAME'', CStr []),
      (''MTLSStorageServerName'', ''KACHO_API_GATEWAY_MTLS_STORAGE_SERVER_NAME'', CStr []),
      (''HybridMTLSExternal'', ''KACHO_API_GATEWAY_HYBRID_MTLS_EXTERNAL'', CBool False)]"


definition config_fields :: "config_field list" where
  "config_fields = config_addresses @ config_process @ config_oidc @ config_tokens @ config_authz @ config_mtls"

type_synonym config_table = "(string \<times> config_value) list"

fun load_fields :: "(string \<Rightarrow> config_value \<Rightarrow> config_value option) \<Rightarrow> config_field list \<Rightarrow> string + config_table" where
  \<comment> \<open>the fields in the order of the struct, up to the first variable that cannot be read\<close>
  "load_fields load [] = Inr []"
| "load_fields load ((f, env, dflt) # rest) =
     (case load env dflt of
        None \<Rightarrow> Inl env
      | Some v \<Rightarrow> (case load_fields load rest of Inl e \<Rightarrow> Inl e | Inr t \<Rightarrow> Inr ((f, v) # t)))"

definition config_load :: "(string \<Rightarrow> config_value \<Rightarrow> config_value option) \<Rightarrow> string + config_table" where
  "config_load load = load_fields load config_fields"

section \<open>Reading a field\<close>

definition cfg_str :: "config_table \<Rightarrow> string \<Rightarrow> string" where
  "cfg_str t f = (case map_of t f of Some (CStr s) \<Rightarrow> s | _ \<Rightarrow> [])"

definition cfg_bool :: "config_table \<Rightarrow> string \<Rightarrow> bool" where
  "cfg_bool t f = (case map_of t f of Some (CBool b) \<Rightarrow> b | _ \<Rightarrow> False)"

definition cfg_int :: "config_table \<Rightarrow> string \<Rightarrow> int" where
  "cfg_int t f = (case map_of t f of Some (CInt n) \<Rightarrow> n | _ \<Rightarrow> 0)"

definition cfg_duration :: "config_table \<Rightarrow> string \<Rightarrow> duration" where
  "cfg_duration t f = (case map_of t f of Some (CDuration d) \<Rightarrow> d | _ \<Rightarrow> 0)"

definition cfg_list :: "config_table \<Rightarrow> string \<Rightarrow> string list" where
  "cfg_list t f = (case map_of t f of Some (CList l) \<Rightarrow> l | _ \<Rightarrow> [])"

section \<open>The configuration as the other theories see it\<close>

definition backend_fields :: "(string \<times> string) list" where
  \<comment> \<open>the keys of \<open>BackendAddrs\<close> with the fields of their addresses\<close>
  "backend_fields =
     [(''vpc'', ''VPCAddr''), (''vpcInternal'', ''VPCInternalAddr''), (''compute'', ''ComputeAddr''),
      (''computeInternal'', ''ComputeInternalAddr''), (''iam'', ''IAMAddr''), (''iamInternal'', ''IAMInternalAddr''),
      (''loadbalancer'', ''NLBAddr''), (''loadbalancerInternal'', ''NLBInternalAddr''), (''geo'', ''GeoAddr''),
      (''geoInternal'', ''GeoInternalAddr''), (''registry'', ''RegistryAddr''), (''registryInternal'', ''RegistryInternalAddr''),
      (''storage'', ''StorageAddr''), (''storageInternal'', ''StorageInternalAddr'')]"

definition backend_addrs :: "config_table \<Rightarrow> (string \<times> string) list" where
  "backend_addrs t = map (\<lambda>(k, f). (k, cfg_str t f)) backend_fields"

definition edge_fields :: "(string \<times> string \<times> string) list" where
  \<comment> \<open>the edges of \<open>edgeMTLS\<close> with the fields of the switch and of the server name\<close>
  "edge_fields =
     [(''vpc'', ''MTLSVPCEnable'', ''MTLSVPCServerName''), (''compute'', ''MTLSComputeEnable'', ''MTLSComputeServerName''),
      (''iam'', ''MTLSIAMEnable'', ''MTLSIAMServerName''), (''nlb'', ''MTLSNLBEnable'', ''MTLSNLBServerName''),
      (''geo'', ''MTLSGeoEnable'', ''MTLSGeoServerName''), (''registry'', ''MTLSRegistryEnable'', ''MTLSRegistryServerName''),
      (''storage'', ''MTLSStorageEnable'', ''MTLSStorageServerName'')]"

definition edges_of :: "config_table \<Rightarrow> (string \<times> edge_mtls) list" where
  "edges_of t = map (\<lambda>(e, sw, name). (e, \<lparr>em_enable = cfg_bool t sw, em_server_name = cfg_str t name\<rparr>)) edge_fields"

definition gateway_config_of :: "config_table \<Rightarrow> gateway_config" where
  "gateway_config_of t =
     \<lparr>gw_app_env = cfg_str t ''AppEnv'', gw_listen_addr = cfg_str t ''ListenAddr'',
      gw_tls_listen_addr = cfg_str t ''TLSListenAddr'', gw_tls_cert_file = cfg_str t ''TLSCertFile'',
      gw_tls_key_file = cfg_str t ''TLSKeyFile'', gw_api_domain = cfg_str t ''APIDomain'',
      gw_hydra_issuer = cfg_str t ''HydraIssuer'', gw_hydra_jwks_url = cfg_str t ''HydraJWKSURL'',
      gw_hydra_introspection_url = cfg_str t ''HydraIntrospectionURL'', gw_hydra_admin_url = cfg_str t ''HydraAdminURL'',
      gw_oidc_issuer = cfg_str t ''OIDCIssuer'', gw_oidc_client_id = cfg_str t ''OIDCClientID'',
      gw_oidc_redirect_uri = cfg_str t ''OIDCRedirectURI'', gw_iam_authorize_url = cfg_str t ''IAMAuthorizeURL'',
      gw_backend_addrs = backend_addrs t, gw_internal_mtls_enable = cfg_bool t ''InternalGRPCMTLSEnable'',
      gw_internal_cert_file = cfg_str t ''InternalGRPCTLSCertFile'', gw_internal_key_file = cfg_str t ''InternalGRPCTLSKeyFile'',
      gw_internal_allowed_spiffe = cfg_list t ''InternalGRPCAllowedSPIFFE'',
      gw_internal_reflection = cfg_bool t ''InternalGRPCReflection'', gw_mtls_cert_file = cfg_str t ''MTLSClientCertFile'',
      gw_mtls_key_file = cfg_str t ''MTLSClientKeyFile'', gw_mtls_ca_file = cfg_str t ''MTLSCAFile'',
      gw_edges = edges_of t, gw_hybrid_mtls_external = cfg_bool t ''HybridMTLSExternal''\<rparr>"

definition authz_settings_of :: "config_table \<Rightarrow> authz_settings" where
  "authz_settings_of t =
     \<lparr>zs_enabled = cfg_bool t ''AuthZEnabled'', zs_fail_open = cfg_bool t ''AuthZFailOpen'',
      zs_catalog_file = cfg_str t ''AuthZPermissionCatalogFile'', zs_overrides_file = cfg_str t ''AuthZOverridesFile'',
      zs_check_timeout_ms = cfg_int t ''AuthZCheckTimeoutMs'', zs_cache_ttl_seconds = cfg_int t ''AuthZCacheTTLSeconds'',
      zs_cache_max_entries = cfg_int t ''AuthZCacheMaxEntries'', zs_trusted_xff = cfg_bool t ''AuthZTrustedXForwardedFor'',
      zs_trusted_proxy_count = cfg_int t ''AuthZTrustedProxyCount''\<rparr>"

section \<open>Laws of the loader\<close>

lemma load_fields_lookup:
  "load_fields load fs = Inr t \<Longrightarrow>
     map_of t f = (case map_of fs f of None \<Rightarrow> None | Some (env, dflt) \<Rightarrow> load env dflt)"
  by (induction load fs arbitrary: t rule: load_fields.induct) (auto split: option.splits sum.splits)

lemma load_fields_total:
  "(\<And>f env dflt. (f, env, dflt) \<in> set fs \<Longrightarrow> load env dflt \<noteq> None) \<Longrightarrow> \<exists>t. load_fields load fs = Inr t"
proof (induction load fs rule: load_fields.induct)
  case (2 load f env dflt rest)
  from 2(2) [of f env dflt] obtain v where v: "load env dflt = Some v"
    by auto
  have "\<exists>t. load_fields load rest = Inr t"
    by (rule 2(1) [OF v]) (use 2(2) in auto)
  with v show ?case
    by auto
qed simp

lemma load_fields_error:
  "load_fields load fs = Inl e \<Longrightarrow> \<exists>f dflt. (f, e, dflt) \<in> set fs \<and> load e dflt = None"
  by (induction load fs rule: load_fields.induct) (auto split: option.splits sum.splits)

lemma config_load_field:
  assumes "config_load load = Inr t" "map_of config_fields f = Some (env, dflt)" "load env dflt = Some v"
  shows "map_of t f = Some v"
  using load_fields_lookup [OF assms(1) [unfolded config_load_def], of f] assms(2,3) by simp

lemma cfg_load_simps:
  assumes "map_of t f = Some v"
  shows "v = CStr s \<Longrightarrow> cfg_str t f = s" "v = CBool b \<Longrightarrow> cfg_bool t f = b" "v = CInt n \<Longrightarrow> cfg_int t f = n"
    "v = CDuration d \<Longrightarrow> cfg_duration t f = d" "v = CList l \<Longrightarrow> cfg_list t f = l"
  using assms by (simp_all add: cfg_str_def cfg_bool_def cfg_int_def cfg_duration_def cfg_list_def)

lemma posture_fields:
  "map_of config_fields ''AppEnv'' = Some (''KACHO_APP_ENV'', CStr [])"
  "map_of config_fields ''AuthZEnabled'' = Some (''KACHO_API_GATEWAY_AUTHZ_ENABLED'', CBool False)"
  "map_of config_fields ''AuthZFailOpen'' = Some (''KACHO_API_GATEWAY_AUTHZ_FAIL_OPEN'', CBool False)"
  "map_of config_fields ''AuthNMode'' = Some (''KACHO_API_GATEWAY_AUTHN_MODE'', CStr ''dev'')"
  by code_simp+

end
