(* ===== verification/Gateway_Listeners.thy ===== *)
theory Gateway_Listeners
  imports Gateway_Start Proxy_Routing
begin

text \<open>
  The listeners of the process and its end (\<^verbatim>\<open>cmd/api-gateway/main.go\<close>): which listeners \<open>main\<close> opens, what origin the
  connections of each carry, the goroutines that serve them, and the shutdown, as a step relation of
  the goroutines. The cmux library is an argument: what it makes of a connection, and whether closing a
  matched listener closes its root listener.
\<close>

section \<open>Opening the listeners\<close>

datatype root = RootInternalGrpc | RootMain | RootAdmin | RootTls
  \<comment> \<open>the sockets: \<open>internalLis\<close>, \<open>listener\<close>, \<open>internalRESTListener\<close>, \<open>tlsListener\<close>\<close>

datatype serving = ServeInternalGrpc | ServeGrpc | ServeHttp | ServeAdminRest | ServeTlsGrpc | ServeTlsHttp | ServeTlsMux
  \<comment> \<open>the goroutines; \<open>cmuxer.Serve\<close> runs in \<open>main\<close> itself\<close>

record 'pool net_env =
  ne_listen :: "string \<Rightarrow> bool"
  ne_key_pair :: "string \<Rightarrow> string \<Rightarrow> bool" \<comment> \<open>\<open>tls.LoadX509KeyPair\<close> succeeds\<close>
  ne_read_file :: "string \<Rightarrow> string option"
  ne_pool_of :: "string \<Rightarrow> 'pool option"

datatype open_error = ListenFailed string | KeyPairFailed string string | ClientAuthFailed hybrid_error

definition open_tls :: "'pool net_env \<Rightarrow> gateway_config \<Rightarrow> open_error + 'pool server_tls option" where
  \<comment> \<open>the configuration of the TLS listener, none when TLS is not configured\<close>
  "open_tls env c =
     (if \<not> tls_enabled c then Inr None
      else if \<not> ne_key_pair env (gw_tls_cert_file c) (gw_tls_key_file c) then Inl (KeyPairFailed (gw_tls_cert_file c) (gw_tls_key_file c))
      else case external_listener_client_auth (ne_read_file env) (ne_pool_of env) c
                  (Some \<lparr>st_client_auth = NoClientCert, st_client_cas = None\<rparr>) of
        Inl e \<Rightarrow> Inl (ClientAuthFailed e)
      | Inr t \<Rightarrow> if ne_listen env (gw_tls_listen_addr c) then Inr (Some t) else Inl (ListenFailed (gw_tls_listen_addr c)))"

definition open_listeners :: "'pool net_env \<Rightarrow> gateway_config \<Rightarrow> string \<Rightarrow> open_error + root list \<times> serving list" where
  \<comment> \<open>the third argument is the address of the internal REST listener; the internal gRPC listener is open\<close>
  "open_listeners env c adminAddr =
     (if \<not> ne_listen env (gw_listen_addr c) then Inl (ListenFailed (gw_listen_addr c))
      else if adminAddr \<noteq> [] \<and> \<not> ne_listen env adminAddr then Inl (ListenFailed adminAddr)
      else case open_tls env c of
        Inl e \<Rightarrow> Inl e
      | Inr t \<Rightarrow>
          Inr ([RootInternalGrpc, RootMain] @ (if adminAddr \<noteq> [] then [RootAdmin] else []) @ (if t \<noteq> None then [RootTls] else []),
               [ServeInternalGrpc, ServeGrpc, ServeHttp] @ (if adminAddr \<noteq> [] then [ServeAdminRest] else []) @
               (if t \<noteq> None then [ServeTlsGrpc, ServeTlsHttp, ServeTlsMux] else [])))"

section \<open>The origin of a connection\<close>

definition accepted_conn :: "(conn \<Rightarrow> conn) \<Rightarrow> serving \<Rightarrow> conn" where
  \<comment> \<open>what \<open>ConnContext\<close> of the HTTP server gets for a TCP connection; the first argument is the wrapper of cmux\<close>
  "accepted_conn mux s =
     (case s of
        ServeAdminRest \<Rightarrow> InternalConn Plain
      | ServeTlsHttp \<Rightarrow> mux (NetConn (Some Plain))
      | _ \<Rightarrow> mux Plain)"

definition connection_ctx :: "(conn \<Rightarrow> conn) \<Rightarrow> serving \<Rightarrow> conn_ctx" where
  "connection_ctx mux s = internal_conn_context ctx_background (accepted_conn mux s)"

section \<open>The goroutines and the shutdown\<close>

datatype serve_error = ErrServerStopped | ErrServerClosed | OtherServeError string

definition listener_died :: "serving \<Rightarrow> serve_error option \<Rightarrow> bool" where
  \<comment> \<open>the error that a serving goroutine does not expect\<close>
  "listener_died s e =
     (e \<noteq> None \<and>
      (case s of
         ServeTlsMux \<Rightarrow> True
       | ServeHttp \<Rightarrow> e \<noteq> Some ErrServerClosed
       | ServeAdminRest \<Rightarrow> e \<noteq> Some ErrServerClosed
       | ServeTlsHttp \<Rightarrow> e \<noteq> Some ErrServerClosed
       | _ \<Rightarrow> e \<noteq> Some ErrServerStopped))"

datatype shutdown_pc =
    AwaitDone | StopGrpc | DrainGrpc | StopInternal | DrainInternal | ShutHttp | DrainHttp | CloseMain | CloseTls | CloseAdmin | Finished

record process =
  pr_done :: bool \<comment> \<open>\<open>ctx.Err() \<noteq> nil\<close>\<close>
  pr_serving :: "serving list"
  pr_died :: "serving list" \<comment> \<open>returned with an unexpected error\<close>
  pr_open :: "root list"
  pr_pc :: shutdown_pc
  pr_forced :: "bool list" \<comment> \<open>for each server stopped so far, whether the grace window ran out\<close>
  pr_elapsed :: duration \<comment> \<open>spent in the drains\<close>
  pr_accept_failed :: bool \<comment> \<open>\<open>cmuxer.Serve\<close> returned although its listener was open\<close>
  pr_main :: bool \<comment> \<open>\<open>main\<close> has returned, which ends the process\<close>

record shutdown_env =
  \<comment> \<open>how long each server needs to drain, \<open>None\<close> when it never does; the behaviour of cmux\<close>
  se_grpc :: "duration option"
  se_internal :: "duration option"
  se_http :: "duration option"
  se_closes_root :: bool

abbreviation grace_window :: duration where
  "grace_window \<equiv> 10 * second"

definition stop_graceful :: "duration option \<Rightarrow> duration \<Rightarrow> duration \<times> bool" where
  \<comment> \<open>how long it takes and whether the server was stopped by force; also \<open>Shutdown\<close> with a deadline\<close>
  "stop_graceful d timeout =
     (case d of Some t \<Rightarrow> if t \<le> timeout then (t, False) else (timeout, True) | None \<Rightarrow> (timeout, True))"

definition process_start :: "root list \<Rightarrow> serving list \<Rightarrow> process" where
  "process_start roots gs =
     \<lparr>pr_done = False, pr_serving = gs, pr_died = [], pr_open = roots, pr_pc = AwaitDone, pr_forced = [], pr_elapsed = 0,
      pr_accept_failed = False, pr_main = False\<rparr>"

definition serve_returned :: "serving \<Rightarrow> serve_error option \<Rightarrow> process \<Rightarrow> process" where
  \<comment> \<open>the end of a serving goroutine: \<open>cancel()\<close> on an unexpected error, unless the context is done\<close>
  "serve_returned s e p =
     (let p1 = p\<lparr>pr_serving := remove1 s (pr_serving p)\<rparr> in
      if listener_died s e then p1\<lparr>pr_died := s # pr_died p, pr_done := True\<rparr> else p1)"

definition close_roots :: "root list \<Rightarrow> process \<Rightarrow> process" where
  "close_roots rs p = p\<lparr>pr_open := filter (\<lambda>r. r \<notin> set rs) (pr_open p)\<rparr>"

definition drain :: "duration option \<Rightarrow> process \<Rightarrow> process" where
  "drain d p =
     (let (t, forced) = stop_graceful d grace_window in p\<lparr>pr_elapsed := pr_elapsed p + t, pr_forced := pr_forced p @ [forced]\<rparr>)"

fun pc_next :: "shutdown_pc \<Rightarrow> shutdown_pc" where
  "pc_next AwaitDone = StopGrpc"
| "pc_next StopGrpc = DrainGrpc"
| "pc_next DrainGrpc = StopInternal"
| "pc_next StopInternal = DrainInternal"
| "pc_next DrainInternal = ShutHttp"
| "pc_next ShutHttp = DrainHttp"
| "pc_next DrainHttp = CloseMain"
| "pc_next CloseMain = CloseTls"
| "pc_next CloseTls = CloseAdmin"
| "pc_next CloseAdmin = Finished"
| "pc_next Finished = Finished"

definition shutdown_step :: "shutdown_env \<Rightarrow> process \<Rightarrow> process" where
  \<comment> \<open>one step of the shutdown goroutine: a server first closes its listeners, then drains\<close>
  "shutdown_step env p =
     (let subs = (if se_closes_root env then [RootMain, RootTls] else []);
          p1 = (case pr_pc p of
                  StopGrpc \<Rightarrow> close_roots subs p
                | DrainGrpc \<Rightarrow> drain (se_grpc env) p
                | StopInternal \<Rightarrow> close_roots [RootInternalGrpc] p
                | DrainInternal \<Rightarrow> drain (se_internal env) p
                | ShutHttp \<Rightarrow> close_roots (RootAdmin # subs) p
                | DrainHttp \<Rightarrow> drain (se_http env) p
                | CloseMain \<Rightarrow> close_roots [RootMain] p
                | CloseTls \<Rightarrow> close_roots [RootTls] p
                | CloseAdmin \<Rightarrow> close_roots [RootAdmin] p
                | _ \<Rightarrow> p)
      in p1\<lparr>pr_pc := pc_next (pr_pc p)\<rparr>)"

inductive process_step :: "shutdown_env \<Rightarrow> process \<Rightarrow> process \<Rightarrow> bool" for env where
  signalled: "\<not> pr_main p \<Longrightarrow> \<not> pr_done p \<Longrightarrow> process_step env p (p\<lparr>pr_done := True\<rparr>)"
| served: "\<not> pr_main p \<Longrightarrow> s \<in> set (pr_serving p) \<Longrightarrow> process_step env p (serve_returned s e p)"
| shutdown: "\<not> pr_main p \<Longrightarrow> pr_done p \<Longrightarrow> pr_pc p \<noteq> Finished \<Longrightarrow> process_step env p (shutdown_step env p)"
| main_closed: "\<not> pr_main p \<Longrightarrow> RootMain \<notin> set (pr_open p) \<Longrightarrow> process_step env p (p\<lparr>pr_main := True\<rparr>)"
| main_failed: "\<not> pr_main p \<Longrightarrow> RootMain \<in> set (pr_open p) \<Longrightarrow>
    process_step env p (p\<lparr>pr_main := True, pr_accept_failed := True\<rparr>)"

inductive process_reachable :: "shutdown_env \<Rightarrow> 'pool net_env \<Rightarrow> gateway_config \<Rightarrow> string \<Rightarrow> process \<Rightarrow> bool"
  for env nenv c adminAddr where
  start: "open_listeners nenv c adminAddr = Inr (roots, gs) \<Longrightarrow> process_reachable env nenv c adminAddr (process_start roots gs)"
| step: "process_reachable env nenv c adminAddr p \<Longrightarrow> process_step env p q \<Longrightarrow> process_reachable env nenv c adminAddr q"

inductive_cases process_stepE: "process_step env p q"

section \<open>Invariants\<close>

fun pc_rank :: "shutdown_pc \<Rightarrow> nat" where
  "pc_rank AwaitDone = 10"
| "pc_rank StopGrpc = 9"
| "pc_rank DrainGrpc = 8"
| "pc_rank StopInternal = 7"
| "pc_rank DrainInternal = 6"
| "pc_rank ShutHttp = 5"
| "pc_rank DrainHttp = 4"
| "pc_rank CloseMain = 3"
| "pc_rank CloseTls = 2"
| "pc_rank CloseAdmin = 1"
| "pc_rank Finished = 0"

definition drains_left :: "shutdown_pc \<Rightarrow> nat" where
  "drains_left pc = length (filter (\<lambda>r. r < pc_rank pc) [3, 5, 7])"

definition process_rank :: "process \<Rightarrow> nat" where
  \<comment> \<open>an upper bound of the steps that are left\<close>
  "process_rank p =
     (if pr_main p then 0 else 1) + (if pr_done p then 0 else 1) + length (pr_serving p) + pc_rank (pr_pc p)"

definition process_inv :: "shutdown_env \<Rightarrow> process \<Rightarrow> bool" where
  "process_inv env p \<longleftrightarrow>
     (pr_died p \<noteq> [] \<or> pr_pc p \<noteq> AwaitDone \<longrightarrow> pr_done p) \<and>
     pr_elapsed p \<le> int (length (pr_forced p)) * grace_window \<and>
     length (pr_forced p) + drains_left (pr_pc p) = 3 \<and>
     (pc_rank (pr_pc p) < 3 \<longrightarrow> RootMain \<notin> set (pr_open p)) \<and>
     (\<not> se_closes_root env \<and> RootMain \<notin> set (pr_open p) \<longrightarrow> pc_rank (pr_pc p) < 3) \<and>
     (pr_main p \<longrightarrow> pr_accept_failed p \<or> RootMain \<notin> set (pr_open p))"

lemma open_listeners_roots:
  "open_listeners nenv c adminAddr = Inr (roots, gs) \<Longrightarrow>
     RootMain \<in> set roots \<and> (ServeAdminRest \<in> set gs \<longleftrightarrow> adminAddr \<noteq> []) \<and> (ServeTlsHttp \<in> set gs \<longleftrightarrow> tls_enabled c)"
  by (auto simp: open_listeners_def open_tls_def split: if_splits sum.splits)

lemma stop_graceful_bound: "fst (stop_graceful d timeout) \<le> timeout"
  by (simp add: stop_graceful_def split: option.split)

lemma drain_facts [simp]:
  "pr_done (drain d p) = pr_done p" "pr_serving (drain d p) = pr_serving p" "pr_died (drain d p) = pr_died p"
  "pr_open (drain d p) = pr_open p" "pr_pc (drain d p) = pr_pc p" "pr_main (drain d p) = pr_main p"
  "pr_accept_failed (drain d p) = pr_accept_failed p" "length (pr_forced (drain d p)) = Suc (length (pr_forced p))"
  by (simp_all add: drain_def split: prod.split)

lemma drain_elapsed: "pr_elapsed (drain d p) \<le> pr_elapsed p + grace_window"
  using stop_graceful_bound [of d grace_window] by (auto simp: drain_def split: prod.split)

lemma close_roots_facts [simp]:
  "pr_done (close_roots rs p) = pr_done p" "pr_serving (close_roots rs p) = pr_serving p" "pr_died (close_roots rs p) = pr_died p"
  "set (pr_open (close_roots rs p)) = set (pr_open p) - set rs" "pr_pc (close_roots rs p) = pr_pc p"
  "pr_main (close_roots rs p) = pr_main p" "pr_accept_failed (close_roots rs p) = pr_accept_failed p"
  "pr_forced (close_roots rs p) = pr_forced p" "pr_elapsed (close_roots rs p) = pr_elapsed p"
  by (auto simp: close_roots_def)

lemma serve_returned_facts [simp]:
  "pr_open (serve_returned s e p) = pr_open p" "pr_pc (serve_returned s e p) = pr_pc p" "pr_main (serve_returned s e p) = pr_main p"
  "pr_accept_failed (serve_returned s e p) = pr_accept_failed p" "pr_forced (serve_returned s e p) = pr_forced p"
  "pr_elapsed (serve_returned s e p) = pr_elapsed p" "pr_serving (serve_returned s e p) = remove1 s (pr_serving p)"
  "pr_done (serve_returned s e p) \<longleftrightarrow> pr_done p \<or> listener_died s e"
  "pr_died (serve_returned s e p) = (if listener_died s e then s # pr_died p else pr_died p)"
  by (simp_all add: serve_returned_def Let_def)

lemma shutdown_step_inv:
  assumes "process_inv env p" "pr_done p" "\<not> pr_main p"
  shows "process_inv env (shutdown_step env p)"
  using assms drain_elapsed [of "se_grpc env" p] drain_elapsed [of "se_internal env" p] drain_elapsed [of "se_http env" p]
  by (cases "pr_pc p") (auto simp: process_inv_def shutdown_step_def drains_left_def Let_def algebra_simps)

lemma process_step_inv:
  assumes "process_inv env p" "process_step env p q"
  shows "process_inv env q"
  using assms(2)
proof cases
  case shutdown
  then show ?thesis
    using shutdown_step_inv [OF assms(1)] by simp
qed (use assms(1) in \<open>auto simp: process_inv_def\<close>)

lemma process_reachable_inv: "process_reachable env nenv c adminAddr p \<Longrightarrow> process_inv env p"
proof (induction rule: process_reachable.induct)
  case (start roots gs)
  then show ?case
    using open_listeners_roots [OF start] by (simp add: process_inv_def process_start_def drains_left_def)
qed (rule process_step_inv)

lemma process_step_rank: "process_step env p q \<Longrightarrow> process_rank q < process_rank p"
proof (induction rule: process_step.induct)
  case (served p s e)
  then show ?case
    using length_pos_if_in_set [OF served(2)] by (auto simp: process_rank_def length_remove1)
next
  case (shutdown p)
  then show ?case
    by (cases "pr_pc p") (simp_all add: process_rank_def shutdown_step_def Let_def)
qed (simp_all add: process_rank_def)

section \<open>Properties\<close>


definition demo_net :: "unit net_env" where
  "demo_net = \<lparr>ne_listen = (\<lambda>_. True), ne_key_pair = (\<lambda>_ _. True), ne_read_file = (\<lambda>_. None), ne_pool_of = (\<lambda>_. None)\<rparr>"

lemma demo_open:
  "open_listeners demo_net (demo_gateway_config\<lparr>gw_tls_listen_addr := ''t'', gw_tls_cert_file := ''c'', gw_tls_key_file := ''k''\<rparr>) ''a'' =
     Inr ([RootInternalGrpc, RootMain, RootAdmin, RootTls],
          [ServeInternalGrpc, ServeGrpc, ServeHttp, ServeAdminRest, ServeTlsGrpc, ServeTlsHttp, ServeTlsMux])"
  by (simp add: open_listeners_def open_tls_def demo_net_def tls_enabled_def external_listener_client_auth_def demo_gateway_config_def Let_def)


text \<open>
  C26: a dead listener ends the process, in bounded time. In every reachable state: if a serving goroutine
  returned with an unexpected error then the context is cancelled; once it is, the shutdown goroutine or
  \<open>main\<close> can always move, whatever the other goroutines do; every step lowers the rank, so that no run
  goes on forever; and the drains take at most thirty seconds together, even when a stream never ends.
\<close>

theorem dead_listener_ends_process:
  assumes "process_reachable env nenv c adminAddr p"
  shows "(pr_died p \<noteq> [] \<longrightarrow> pr_done p) \<and>
    (pr_done p \<and> \<not> pr_main p \<longrightarrow>
       process_step env p (shutdown_step env p) \<or> process_step env p (p\<lparr>pr_main := True\<rparr>)) \<and>
    (\<forall>q. process_step env p q \<longrightarrow> process_rank q < process_rank p) \<and>
    pr_elapsed p \<le> 30 * second"
proof -
  have inv: "process_inv env p"
    using process_reachable_inv [OF assms] .
  have "length (pr_forced p) \<le> 3"
    using inv by (simp add: process_inv_def)
  then have "pr_elapsed p \<le> 30 * second"
    using inv by (simp add: process_inv_def)
  moreover have "process_step env p (shutdown_step env p) \<or> process_step env p (p\<lparr>pr_main := True\<rparr>)" if "pr_done p" "\<not> pr_main p"
  proof (cases "pr_pc p = Finished")
    case True
    then show ?thesis
      using that inv main_closed [of p env] by (simp add: process_inv_def)
  next
    case False
    then show ?thesis
      using that shutdown [of p env] by blast
  qed
  ultimately show ?thesis
    using inv process_step_rank by (auto simp: process_inv_def)
qed

definition demo_shutdown :: "bool \<Rightarrow> shutdown_env" where
  "demo_shutdown b = \<lparr>se_grpc = None, se_internal = Some second, se_http = Some 0, se_closes_root = b\<rparr>"

theorem dead_listener_ends_process_witness:
  "pr_done (serve_returned ServeInternalGrpc (Some (OtherServeError ''accept''))
     (process_start [RootInternalGrpc, RootMain, RootAdmin, RootTls]
        [ServeInternalGrpc, ServeGrpc, ServeHttp, ServeAdminRest, ServeTlsGrpc, ServeTlsHttp, ServeTlsMux]))"
proof -
  let ?p = "process_start [RootInternalGrpc, RootMain, RootAdmin, RootTls]
    [ServeInternalGrpc, ServeGrpc, ServeHttp, ServeAdminRest, ServeTlsGrpc, ServeTlsHttp, ServeTlsMux]"
  have "process_step (demo_shutdown False) ?p (serve_returned ServeInternalGrpc (Some (OtherServeError ''accept'')) ?p)"
    by (rule served) (simp_all add: process_start_def)
  from dead_listener_ends_process [OF step [OF start [OF demo_open] this]]
  show ?thesis
    by (simp add: listener_died_def)
qed

text \<open>
  C27: whether the process waits for its drains depends on cmux alone. \<open>main\<close> returns when \<open>cmuxer.Serve\<close> does and
  does not wait for the shutdown goroutine. If closing a matched listener leaves the root listener open,
  then \<open>main\<close> (as long as accepting does not fail) returns only after all three servers were drained or
  stopped by force; if it closes the root listener, then a plain signal can end the process before any of them
  was.
\<close>

theorem exit_waits_for_drain:
  assumes "open_listeners nenv c adminAddr = Inr (roots, gs)"
  shows "(\<forall>p. process_reachable env nenv c adminAddr p \<and> pr_main p \<and> \<not> pr_accept_failed p \<longrightarrow> length (pr_forced p) = 3) \<longleftrightarrow>
    \<not> se_closes_root env"
proof
  assume "\<not> se_closes_root env"
  then show "\<forall>p. process_reachable env nenv c adminAddr p \<and> pr_main p \<and> \<not> pr_accept_failed p \<longrightarrow> length (pr_forced p) = 3"
    using process_reachable_inv [of env nenv c adminAddr] by (fastforce simp: process_inv_def drains_left_def)
next
  assume all: "\<forall>p. process_reachable env nenv c adminAddr p \<and> pr_main p \<and> \<not> pr_accept_failed p \<longrightarrow> length (pr_forced p) = 3"
  let ?p1 = "(process_start roots gs)\<lparr>pr_done := True\<rparr>"
  let ?p2 = "?p1\<lparr>pr_pc := StopGrpc\<rparr>"
  show "\<not> se_closes_root env"
  proof
    assume closes: "se_closes_root env"
    let ?p3 = "(close_roots [RootMain, RootTls] ?p2)\<lparr>pr_pc := DrainGrpc\<rparr>"
    have "process_step env (process_start roots gs) ?p1"
      by (rule signalled) (simp_all add: process_start_def)
    moreover have "process_step env ?p1 ?p2"
      using shutdown [of ?p1 env] by (simp add: process_start_def shutdown_step_def)
    moreover have "process_step env ?p2 ?p3"
      using shutdown [of ?p2 env] closes by (simp add: process_start_def shutdown_step_def)
    moreover have "process_step env ?p3 (?p3\<lparr>pr_main := True\<rparr>)"
      by (rule main_closed) (simp_all add: process_start_def)
    ultimately have "process_reachable env nenv c adminAddr (?p3\<lparr>pr_main := True\<rparr>)"
      using start [OF assms] by (meson step)
    from all [rule_format, of "?p3\<lparr>pr_main := True\<rparr>"] this show False
      by (simp add: process_start_def)
  qed
qed

theorem exit_waits_for_drain_witness:
  "\<exists>p. process_reachable (demo_shutdown True) demo_net
      (demo_gateway_config\<lparr>gw_tls_listen_addr := ''t'', gw_tls_cert_file := ''c'', gw_tls_key_file := ''k''\<rparr>) ''a'' p \<and>
    pr_main p \<and> \<not> pr_accept_failed p \<and> length (pr_forced p) \<noteq> 3"
  using exit_waits_for_drain [OF demo_open, of "demo_shutdown True"] by (simp add: demo_shutdown_def)

end
