(* ===== verification/Session_Endpoints.thy ===== *)
theory Session_Endpoints
  imports Authn
begin

text \<open>
  The HTTP endpoints that start and end a session: the logout handler
  (\<^verbatim>\<open>internal/handler/logout_handler.go\<close>) and the OIDC login, callback, profile and logout handlers
  (\<^verbatim>\<open>internal/middleware/oidc_auth.go\<close>). The verifier, IAM, Hydra, the identity provider, random bytes and
  SHA-256 are parameters. A response is its status, redirect target, cookies and JSON body.
\<close>

section \<open>Forms\<close>

definition hex_digit :: "char \<Rightarrow> nat option" where
  "hex_digit c =
     (let n = of_char c :: nat in
      if 48 \<le> n \<and> n \<le> 57 then Some (n - 48)
      else if 97 \<le> n \<and> n \<le> 102 then Some (n - 87)
      else if 65 \<le> n \<and> n \<le> 70 then Some (n - 55)
      else None)"

fun query_unescape :: "string \<Rightarrow> string option" where
  "query_unescape [] = Some []"
| "query_unescape (c # cs) =
     (if c = CHR ''%'' then
        (case cs of
           a # b # rest \<Rightarrow>
             (case (hex_digit a, hex_digit b) of
                (Some x, Some y) \<Rightarrow> map_option (Cons (char_of (16 * x + y))) (query_unescape rest)
              | _ \<Rightarrow> None)
         | _ \<Rightarrow> None)
      else map_option (Cons (if c = CHR ''+'' then CHR '' '' else c)) (query_unescape cs))"

definition query_pair :: "string \<Rightarrow> (string \<times> string) option" where
  \<comment> \<open>one part of \<open>url.ParseQuery\<close>; a bad part is skipped\<close>
  "query_pair part =
     (if CHR '';'' \<in> set part \<or> part = [] then None
      else (let (k, v) = (case cut_sub ''='' part of None \<Rightarrow> (part, []) | Some kv \<Rightarrow> kv) in
            case (query_unescape k, query_unescape v) of (Some k', Some v') \<Rightarrow> Some (k', v') | _ \<Rightarrow> None))"

definition parse_query :: "string \<Rightarrow> (string \<times> string) list" where
  "parse_query s = List.map_filter query_pair (split_byte (CHR ''&'') s)"

definition post_form :: "http_request \<Rightarrow> (string \<times> string) list" where
  \<comment> \<open>the body of \<open>ParseForm\<close> for a POST; at most 10 MiB, and only the form media type\<close>
  "post_form r =
     (let ct = (case split_byte (CHR '';'') (hget (req_header r) ''Content-Type'') of c # _ \<Rightarrow> to_lower (trim_space c) | [] \<Rightarrow> []) in
      case req_body r of
        None \<Rightarrow> []
      | Some b \<Rightarrow> if ct = ''application/x-www-form-urlencoded'' \<and> length b \<le> 10 * 2 ^ 20 then parse_query b else [])"

definition form_get :: "http_request \<Rightarrow> string \<Rightarrow> string" where
  \<comment> \<open>\<open>r.Form.Get\<close>: body values stand before those of the query\<close>
  "form_get r k =
     (case map_of (post_form r) k of
        Some v \<Rightarrow> v
      | None \<Rightarrow> (case map_of (req_query r) k of Some (v # _) \<Rightarrow> v | _ \<Rightarrow> []))"

section \<open>Responses\<close>

record cookie =
  ck_name :: string
  ck_value :: string
  ck_max_age :: int
  ck_http_only :: bool
  ck_secure :: bool
  ck_same_site_lax :: bool

record auth_response =
  ar_status :: int
  ar_location :: "string option" \<comment> \<open>the target given to \<open>http.Redirect\<close>\<close>
  ar_cookies :: "cookie list"
  ar_headers :: "(string \<times> string) list"
  ar_body :: "json option"

definition json_reply :: "int \<Rightarrow> (string \<times> json) list \<Rightarrow> auth_response" where
  "json_reply st body =
     \<lparr>ar_status = st, ar_location = None, ar_cookies = [], ar_headers = [(''Content-Type'', ''application/json'')],
      ar_body = Some (JObj body)\<rparr>"

definition browser_cookie :: "string \<Rightarrow> string \<Rightarrow> int \<Rightarrow> bool \<Rightarrow> cookie" where
  "browser_cookie n v age sec =
     \<lparr>ck_name = n, ck_value = v, ck_max_age = age, ck_http_only = True, ck_secure = sec, ck_same_site_lax = True\<rparr>"

section \<open>Logout handler\<close>

record verified_caller =
  vc_subject :: string
  vc_jti :: string

record revoke_request =
  rr_token_jti :: string
  rr_user_id :: string
  rr_reason :: string
  rr_revoke_all :: bool
  rr_ttl_expires_at :: time

datatype logout_call = RevokeSession revoke_request | KillHydraSession string

record logout_handler =
  lh_verify :: "(string \<Rightarrow> verified_caller option) option" \<comment> \<open>nil, or the verifier; \<open>None\<close> is its error\<close>
  lh_revocations :: bool \<comment> \<open>a revocation client is wired\<close>
  lh_hydra_admin_url :: string

definition logout_handler_new :: "bool \<Rightarrow> (string \<Rightarrow> verified_caller option) option \<Rightarrow> bool \<Rightarrow> string \<Rightarrow> logout_handler option" where
  \<comment> \<open>\<open>None\<close>: no logger\<close>
  "logout_handler_new logger v revocations url =
     (if \<not> logger then None
      else Some \<lparr>lh_verify = v, lh_revocations = revocations, lh_hydra_admin_url = trim_right_byte (CHR ''/'') url\<rparr>)"

definition logout_verifier :: "('t \<Rightarrow> 'e + verified_token) \<Rightarrow> 't \<Rightarrow> verified_caller option" where
  \<comment> \<open>\<open>logoutVerifierAdapter\<close> over the JWKS verifier\<close>
  "logout_verifier verify token =
     (case verify token of Inl _ \<Rightarrow> None | Inr vt \<Rightarrow> Some \<lparr>vc_subject = vt_subject vt, vc_jti = vt_jti vt\<rparr>)"

definition extract_access_token :: "http_request \<Rightarrow> string" where
  "extract_access_token r =
     (let auth = hget (req_header r) ''Authorization'' in
      if auth = [] then []
      else case find (has_prefix auth) [''Bearer '', ''DPoP '', ''bearer '', ''dpop ''] of
        Some scheme \<Rightarrow> trim_space (drop (length scheme) auth)
      | None \<Rightarrow> [])"

datatype logout_warning =
    RevocationFailed string
  | HydraUnreachable string
  | HydraStatus int string

definition kill_hydra_session :: "string + int \<times> string \<Rightarrow> logout_warning option" where
  \<comment> \<open>the answer of Hydra: no answer, or status and body, of which 512 bytes are reported\<close>
  "kill_hydra_session a =
     (case a of
        Inl e \<Rightarrow> Some (HydraUnreachable e)
      | Inr (st, body) \<Rightarrow> if st \<in> {204, 200, 404} then None else Some (HydraStatus st (take 512 body)))"

definition presented_token :: "http_request \<Rightarrow> string" where
  "presented_token r =
     (let t = extract_access_token r in if t = [] then trim_space (form_get r ''token'') else t)"

definition revoke_requested :: "http_request \<Rightarrow> bool" where
  "revoke_requested r \<longleftrightarrow>
     trim_space (form_get r ''subject'') \<noteq> [] \<or> trim_space (form_get r ''token_jti'') \<noteq> [] \<or> form_get r ''revoke_all'' = ''true''"

definition logout_revoke ::
  "logout_handler \<Rightarrow> verified_caller option \<Rightarrow> bool \<Rightarrow> time \<Rightarrow> string option \<Rightarrow> string + int \<times> string \<Rightarrow> logout_call list \<times> logout_warning list" where
  \<comment> \<open>steps 4 and 5: the calls and the collected errors\<close>
  "logout_revoke h caller revokeAll now revoked killed =
     (case caller of
        None \<Rightarrow> ([], [])
      | Some c \<Rightarrow>
          (let (calls1, errs1) =
                 (if lh_revocations h
                  then ([RevokeSession \<lparr>rr_token_jti = vc_jti c, rr_user_id = vc_subject c, rr_reason = ''user-logout'',
                                        rr_revoke_all = revokeAll, rr_ttl_expires_at = now + 30 * 24 * hour\<rparr>],
                        (case revoked of None \<Rightarrow> [] | Some e \<Rightarrow> [RevocationFailed e]))
                  else ([], []));
               (calls2, errs2) =
                 (if lh_hydra_admin_url h \<noteq> [] \<and> vc_subject c \<noteq> []
                  then ([KillHydraSession (vc_subject c)],
                        (case kill_hydra_session killed of None \<Rightarrow> [] | Some e \<Rightarrow> [e]))
                  else ([], []))
           in (calls1 @ calls2, errs1 @ errs2)))"

definition logout_caller :: "logout_handler \<Rightarrow> string \<Rightarrow> verified_caller option option" where
  \<comment> \<open>step 2: \<open>None\<close> for a token that was refused, else the caller, if there is one\<close>
  "logout_caller h rawToken =
     (if rawToken = [] then Some None
      else case lh_verify h of
        None \<Rightarrow> Some None
      | Some verify \<Rightarrow> (case verify rawToken of None \<Rightarrow> None | Some c \<Rightarrow> Some (Some c)))"

definition logout_serve ::
  "logout_handler \<Rightarrow> (logout_warning \<Rightarrow> string) \<Rightarrow> time \<Rightarrow> string option \<Rightarrow> string + int \<times> string \<Rightarrow> http_request \<Rightarrow> logout_call list \<times> auth_response" where
  \<comment> \<open>how a warning is printed, the clock, the error of \<open>Revoke\<close> if any, and the answer of Hydra\<close>
  "logout_serve h render now revoked killed r =
     (if req_method r \<noteq> ''POST''
      then ([], (json_reply 405 [(''error'', JStr ''POST required'')])
                  \<lparr>ar_headers := [(''Allow'', ''POST''), (''Content-Type'', ''application/json'')]\<rparr>)
      else
        (let rawToken = presented_token r in
         case logout_caller h rawToken of
           None \<Rightarrow> ([], json_reply 401 [(''error'', JStr ''invalid_token'')])
         | Some caller \<Rightarrow>
             if revoke_requested r \<and> caller = None
             then ([], json_reply 401 [(''error'', JStr ''authentication required to revoke sessions'')])
             else
               (let (calls, errs) = logout_revoke h caller (form_get r ''revoke_all'' = ''true'') now revoked killed in
                (calls,
                 (json_reply 200
                    ([(''ok'', JBool True)] @
                     (if errs \<noteq> [] then [(''warnings'', JArr (map (JStr \<circ> render) errs))] else []) @
                     (if rawToken = [] then [(''note'', JStr ''no access_token presented; cookies cleared'')] else [])))
                   \<lparr>ar_cookies := map (\<lambda>n. browser_cookie n [] (-1) True) [''kacho_session'', ''ory_kratos_session'']\<rparr>))))"

section \<open>OIDC handlers\<close>

record oidc_config =
  oc_issuer :: string
  oc_external_issuer :: string
  oc_client_id :: string
  oc_redirect_uri :: string
  oc_client_secret :: string
  oc_disabled :: bool

definition external_issuer :: "oidc_config \<Rightarrow> string" where
  "external_issuer c = (if oc_external_issuer c \<noteq> [] then oc_external_issuer c else oc_issuer c)"

definition request_is_https :: "http_request \<Rightarrow> bool" where
  "request_is_https r =
     (if req_peer_certs r \<noteq> None then True else equal_fold (hget (req_header r) ''X-Forwarded-Proto'') ''https'')"

definition safe_relative_path :: "string \<Rightarrow> string" where
  "safe_relative_path n =
     (if n = [] \<or> hd n \<noteq> CHR ''/'' then ''/''
      else if length n > 1 \<and> (n ! 1 = CHR ''/'' \<or> n ! 1 = CHR 0x5C) then ''/''
      else if list_ex (\<lambda>c. (let b = of_char c :: nat in b < 0x20 \<or> b = 0x7F) \<or> c = CHR 0x5C) n then ''/''
      else n)"

definition http_error :: "int \<Rightarrow> string \<Rightarrow> auth_response" where
  \<comment> \<open>\<open>http.Error\<close>, with the \<open>error\<close> member of its text\<close>
  "http_error st err =
     \<lparr>ar_status = st, ar_location = None, ar_cookies = [], ar_headers = [(''Content-Type'', ''text/plain; charset=utf-8'')],
      ar_body = Some (JObj [(''error'', JStr err)])\<rparr>"

record login_env =
  le_state :: "string option" \<comment> \<open>\<open>randomState\<close>, \<open>None\<close> on error\<close>
  le_verifier :: "string option"
  le_s256 :: "string \<Rightarrow> string" \<comment> \<open>base64url of SHA-256\<close>
  le_url :: "string \<Rightarrow> (string \<times> string) list \<Rightarrow> string option" \<comment> \<open>\<open>url.Parse\<close> and \<open>Values.Encode\<close>\<close>

definition oidc_login :: "oidc_config \<Rightarrow> login_env \<Rightarrow> http_request \<Rightarrow> auth_response" where
  "oidc_login cfg env r =
     (if oc_disabled cfg \<or> oc_issuer cfg = [] then http_error 503 ''oidc not configured''
      else if oc_client_id cfg = [] then http_error 503 ''oidc client_id not yet bootstrapped''
      else case le_state env of
        None \<Rightarrow> http_error 500 ''failed to generate state''
      | Some state \<Rightarrow>
          (case le_verifier env of
             None \<Rightarrow> http_error 500 ''failed to generate pkce verifier''
           | Some v \<Rightarrow>
               (let cookies = [browser_cookie ''kacho_oauth_state'' state 600 (request_is_https r),
                               browser_cookie ''kacho_oauth_pkce'' v 600 (request_is_https r)] in
                case le_url env (trim_right_byte (CHR ''/'') (external_issuer cfg) @ ''/oauth/v2/authorize'')
                       [(''client_id'', oc_client_id cfg), (''redirect_uri'', oc_redirect_uri cfg), (''response_type'', ''code''),
                        (''scope'', ''openid profile email''), (''state'', state), (''code_challenge'', le_s256 env v),
                        (''code_challenge_method'', ''S256'')] of
                  None \<Rightarrow> (http_error 500 ''bad issuer'')\<lparr>ar_cookies := cookies\<rparr>
                | Some u \<Rightarrow>
                    \<lparr>ar_status = 302, ar_location = Some u, ar_cookies = cookies, ar_headers = [], ar_body = None\<rparr>)))"

datatype token_answer =
    BuildFailed | ExchangeFailed | NonOk int | BadBody
  | TokenIssued string \<comment> \<open>\<open>access_token\<close>, empty when the body has none\<close>

definition token_form :: "oidc_config \<Rightarrow> string \<Rightarrow> http_request \<Rightarrow> (string \<times> string) list" where
  "token_form cfg code r =
     [(''grant_type'', ''authorization_code''), (''code'', code), (''redirect_uri'', oc_redirect_uri cfg), (''client_id'', oc_client_id cfg)] @
     (if oc_client_secret cfg \<noteq> [] then [(''client_secret'', oc_client_secret cfg)] else []) @
     (case request_cookie r ''kacho_oauth_pkce'' of
        Some (x # xs) \<Rightarrow> [(''code_verifier'', x # xs)]
      | _ \<Rightarrow> [])"

definition query_first :: "http_request \<Rightarrow> string \<Rightarrow> string" where
  "query_first r k = (case map_of (req_query r) k of Some (v # _) \<Rightarrow> v | _ \<Rightarrow> [])"

definition oidc_callback ::
  "oidc_config \<Rightarrow> (string \<Rightarrow> (string \<times> string) list \<Rightarrow> token_answer) \<Rightarrow> http_request \<Rightarrow>
   (string \<times> (string \<times> string) list) option \<times> auth_response" where
  \<comment> \<open>the exchange gets the URL and the form; the first component is the exchange that was made, if any\<close>
  "oidc_callback cfg exchange r =
     (let code = query_first r ''code''; state = query_first r ''state'' in
      if code = [] \<or> state = [] then (None, http_error 400 ''missing code or state'')
      else if request_cookie r ''kacho_oauth_state'' \<noteq> Some state then (None, http_error 400 ''state mismatch'')
      else
        (let url = trim_right_byte (CHR ''/'') (oc_issuer cfg) @ ''/oauth/v2/token''; form = token_form cfg code r in
         case exchange url form of
           BuildFailed \<Rightarrow> (None, http_error 502 ''token exchange failed'')
         | ExchangeFailed \<Rightarrow> (Some (url, form), http_error 502 ''token exchange failed'')
         | NonOk _ \<Rightarrow> (Some (url, form), http_error 502 ''token exchange non-200'')
         | BadBody \<Rightarrow> (Some (url, form), http_error 502 ''bad token response'')
         | TokenIssued tok \<Rightarrow>
             (Some (url, form),
              \<lparr>ar_status = 302, ar_location = Some (safe_relative_path (query_first r ''next'')),
               ar_cookies = [browser_cookie ''kacho_session'' tok 3600 (request_is_https r),
                             browser_cookie ''kacho_oauth_state'' [] (-1) (request_is_https r),
                             browser_cookie ''kacho_oauth_pkce'' [] (-1) (request_is_https r)],
               ar_headers = [], ar_body = None\<rparr>)))"

definition oidc_logout :: "http_request \<Rightarrow> auth_response" where
  "oidc_logout r =
     (json_reply 200 [(''ok'', JBool True)])
       \<lparr>ar_cookies := [browser_cookie ''kacho_session'' [] (-1) (request_is_https r),
                       browser_cookie ''kacho_oauth_state'' [] (-1) (request_is_https r)]\<rparr>"

definition oidc_me ::
  "(string \<Rightarrow> whoami) option \<Rightarrow> (whoami \<Rightarrow> subject option) option \<Rightarrow> (string \<Rightarrow> bool) option \<Rightarrow> http_request \<Rightarrow> auth_response" where
  \<comment> \<open>the session client, the lookup (with the lazy upsert when it supports it) and the admin check, each nil or wired\<close>
  "oidc_me kratos lookup admin r =
     (let cookieHdr = hget (req_header r) ''Cookie''; nobody = json_reply 200 [(''user'', JNull)] in
      case kratos of
        None \<Rightarrow> nobody
      | Some whoami_of \<Rightarrow>
          if \<not> contains_sub cookieHdr ''ory_kratos_session'' then nobody
          else (let res = whoami_of cookieHdr in
                if \<not> (who_active res \<and> who_identity res \<noteq> []) then nobody
                else
                  (let (i, display, kind, perms) =
                         (case Option.bind lookup (\<lambda>l. l res) of
                            None \<Rightarrow> (who_identity res, who_display res, ''user'', [])
                          | Some s \<Rightarrow>
                              (subject_id s, (if subject_display s \<noteq> [] then subject_display s else who_display res), subject_type s,
                               (case admin of
                                  None \<Rightarrow> []
                                | Some is_admin \<Rightarrow> if is_admin (subject_type s @ '':'' @ subject_id s) then [''*'', ''admin''] else [])))
                   in json_reply 200
                        [(''user'', JObj [(''id'', JStr i), (''email'', JStr (who_email res)), (''displayName'', JStr display),
                                          (''subjectType'', JStr kind), (''permissions'', JArr (map JStr perms))])])))"

section \<open>Who can end a session\<close>

definition own_session :: "verified_caller \<Rightarrow> logout_call \<Rightarrow> bool" where
  "own_session c call =
     (case call of
        RevokeSession q \<Rightarrow> rr_user_id q = vc_subject c \<and> rr_token_jti q = vc_jti c
      | KillHydraSession s \<Rightarrow> s = vc_subject c \<and> s \<noteq> [])"

lemma logout_revoke_own:
  "call \<in> set (fst (logout_revoke h caller all now revoked killed)) \<Longrightarrow> \<exists>c. caller = Some c \<and> own_session c call"
  by (auto simp: logout_revoke_def own_session_def Let_def split: option.splits if_splits)

lemma logout_caller_verified:
  "logout_caller h tok = Some (Some c) \<longleftrightarrow> (\<exists>verify. lh_verify h = Some verify \<and> tok \<noteq> [] \<and> verify tok = Some c)"
  by (auto simp: logout_caller_def split: option.splits)

lemma logout_serve_calls:
  assumes "logout_serve h render now revoked killed r = (calls, resp)"
  shows "calls = [] \<or> (\<exists>c. logout_caller h (presented_token r) = Some (Some c) \<and>
      calls = fst (logout_revoke h (Some c) (form_get r ''revoke_all'' = ''true'') now revoked killed))"
proof -
  have "fst (logout_revoke h None b now revoked killed) = []" for b
    by (simp add: logout_revoke_def)
  then show ?thesis
    using assms by (auto simp: logout_serve_def Let_def split: if_splits option.splits prod.splits) (metis fst_conv not_Some_eq)+
qed

lemma logout_serve_refused:
  assumes "logout_serve h render now revoked killed r = (calls, resp)" "req_method r = ''POST''" "revoke_requested r"
    and "\<nexists>c. logout_caller h (presented_token r) = Some (Some c)"
  shows "calls = [] \<and> ar_status resp = 401"
  using assms by (auto simp: logout_serve_def json_reply_def Let_def split: if_splits option.splits)

text \<open>
  C31: logout ends only the caller's own session. Every call that the handler makes to IAM or to Hydra
  names the subject and the token identifier of an access token that was presented and that the verifier
  accepted; a subject or token identifier written into the request is never used, and a request that asks
  for a revocation without such a token is refused with 401 and makes no call.
\<close>

theorem logout_only_own_session:
  assumes "logout_serve h render now revoked killed r = (calls, resp)"
  shows "(\<forall>call \<in> set calls. \<exists>verify c. lh_verify h = Some verify \<and> presented_token r \<noteq> [] \<and>
      verify (presented_token r) = Some c \<and> own_session c call) \<and>
    (req_method r = ''POST'' \<and> revoke_requested r \<and>
     (\<nexists>verify c. lh_verify h = Some verify \<and> presented_token r \<noteq> [] \<and> verify (presented_token r) = Some c) \<longrightarrow>
       calls = [] \<and> ar_status resp = 401)"
proof -
  have "\<exists>verify c. lh_verify h = Some verify \<and> presented_token r \<noteq> [] \<and> verify (presented_token r) = Some c \<and> own_session c call"
    if "call \<in> set calls" for call
    using logout_serve_calls [OF assms] logout_revoke_own [of call] that logout_caller_verified [of h "presented_token r"] by fastforce
  then show ?thesis
    using logout_serve_refused [OF assms] unfolding logout_caller_verified by blast
qed

definition demo_logout :: http_request where
  "demo_logout =
     \<lparr>req_method = ''POST'', req_path = ''/oauth/logout'', req_query = [(''subject'', [''victim''])],
      req_header = [(''Authorization'', [''Bearer t''])], req_body = None, req_host = [], req_remote = [], req_peer_certs = None,
      req_ctx = ctx_background\<rparr>"

definition demo_logout_handler :: logout_handler where
  "demo_logout_handler =
     \<lparr>lh_verify = Some (\<lambda>t. if t = ''t'' then Some \<lparr>vc_subject = ''me'', vc_jti = ''j''\<rparr> else None), lh_revocations = True,
      lh_hydra_admin_url = ''h''\<rparr>"

theorem logout_only_own_session_witness:
  "\<exists>calls resp. logout_serve demo_logout_handler (\<lambda>_. []) 0 None (Inr (204, [])) demo_logout = (calls, resp) \<and>
     KillHydraSession ''me'' \<in> set calls \<and> own_session \<lparr>vc_subject = ''me'', vc_jti = ''j''\<rparr> (KillHydraSession ''me'')"
proof -
  obtain calls resp where run: "logout_serve demo_logout_handler (\<lambda>_. []) 0 None (Inr (204, [])) demo_logout = (calls, resp)"
    by fastforce
  have "KillHydraSession ''me'' \<in> set (fst (logout_serve demo_logout_handler (\<lambda>_. []) 0 None (Inr (204, [])) demo_logout))"
    by code_simp
  then have "KillHydraSession ''me'' \<in> set calls"
    using run by simp
  then show ?thesis
    using logout_only_own_session [OF run] run by (fastforce simp: demo_logout_handler_def split: if_splits)
qed

section \<open>Who can start a session\<close>

definition local_target :: "string \<Rightarrow> bool" where
  \<comment> \<open>a path on this origin, also for a client that drops control bytes and reads a backslash as a slash\<close>
  "local_target t \<longleftrightarrow>
     (let plain = map (\<lambda>c. if c = CHR 0x5C then CHR ''/'' else c) (filter (\<lambda>c. 0x20 \<le> (of_char c :: nat) \<and> (of_char c :: nat) \<noteq> 0x7F) t)
      in has_prefix plain ''/'' \<and> \<not> has_prefix plain ''//'')"

lemma safe_path_plain:
  assumes "\<forall>c \<in> set t. 0x20 \<le> (of_char c :: nat) \<and> (of_char c :: nat) \<noteq> 0x7F \<and> c \<noteq> CHR 0x5C"
  shows "map (\<lambda>c. if c = CHR 0x5C then CHR ''/'' else c) (filter (\<lambda>c. 0x20 \<le> (of_char c :: nat) \<and> (of_char c :: nat) \<noteq> 0x7F) t) = t"
  using assms by (induction t) auto

lemma safe_relative_path_local: "local_target (safe_relative_path n)"
proof -
  have slash: "local_target ''/''"
    by code_simp
  have "local_target n" if "safe_relative_path n = n" "n \<noteq> ''/''"
  proof -
    have ok: "n \<noteq> []" "hd n = CHR ''/''" "length n > 1 \<longrightarrow> n ! 1 \<noteq> CHR ''/''"
      "\<not> list_ex (\<lambda>c. (let b = of_char c :: nat in b < 0x20 \<or> b = 0x7F) \<or> c = CHR 0x5C) n"
      using that by (simp_all add: safe_relative_path_def split: if_splits)
    have bytes: "\<forall>c \<in> set n. 0x20 \<le> (of_char c :: nat) \<and> (of_char c :: nat) \<noteq> 0x7F \<and> c \<noteq> CHR 0x5C"
      using ok(4) unfolding list_ex_iff Let_def by (metis not_le)
    obtain a xs where n: "n = a # xs"
      using ok(1) by (cases n) auto
    show ?thesis
      unfolding local_target_def safe_path_plain [OF bytes] using ok(2,3) n by (cases xs) (auto simp: has_prefix_def)
  qed
  moreover have "safe_relative_path n = n \<or> safe_relative_path n = ''/''"
    by (auto simp: safe_relative_path_def)
  ultimately show ?thesis
    using slash by metis
qed

text \<open>
  C32: the callback starts a session only for the browser that started the login. A session cookie is set
  only if the request has a code and a state that equals the state cookie of the login, and only with the
  access token that the identity provider returned for this code; the redirect that follows stays on this
  origin, also for a client that drops control bytes and reads a backslash as a slash.
\<close>

theorem callback_session_needs_state:
  assumes "oidc_callback cfg exchange r = (made, resp)" "ck \<in> set (ar_cookies resp)" "ck_name ck = ''kacho_session''"
  shows "\<exists>code url form target. query_first r ''code'' = code \<and> code \<noteq> [] \<and> query_first r ''state'' \<noteq> [] \<and>
    request_cookie r ''kacho_oauth_state'' = Some (query_first r ''state'') \<and>
    made = Some (url, form) \<and> map_of form ''code'' = Some code \<and> exchange url form = TokenIssued (ck_value ck) \<and>
    ck_http_only ck \<and> ar_location resp = Some target \<and> local_target target"
proof -
  let ?url = "trim_right_byte (CHR ''/'') (oc_issuer cfg) @ ''/oauth/v2/token''" and ?form = "token_form cfg (query_first r ''code'') r"
  have gates: "query_first r ''code'' \<noteq> []" "query_first r ''state'' \<noteq> []"
    "request_cookie r ''kacho_oauth_state'' = Some (query_first r ''state'')"
    using assms by (auto simp: oidc_callback_def http_error_def Let_def split: if_splits)
  then have out: "oidc_callback cfg exchange r =
      (case exchange ?url ?form of
         BuildFailed \<Rightarrow> (None, http_error 502 ''token exchange failed'')
       | ExchangeFailed \<Rightarrow> (Some (?url, ?form), http_error 502 ''token exchange failed'')
       | NonOk _ \<Rightarrow> (Some (?url, ?form), http_error 502 ''token exchange non-200'')
       | BadBody \<Rightarrow> (Some (?url, ?form), http_error 502 ''bad token response'')
       | TokenIssued tok \<Rightarrow>
           (Some (?url, ?form),
            \<lparr>ar_status = 302, ar_location = Some (safe_relative_path (query_first r ''next'')),
             ar_cookies = [browser_cookie ''kacho_session'' tok 3600 (request_is_https r),
                           browser_cookie ''kacho_oauth_state'' [] (-1) (request_is_https r),
                           browser_cookie ''kacho_oauth_pkce'' [] (-1) (request_is_https r)],
             ar_headers = [], ar_body = None\<rparr>))"
    by (simp add: oidc_callback_def Let_def)
  obtain tok where tok: "exchange ?url ?form = TokenIssued tok"
    using assms(1,2) unfolding out by (auto simp: http_error_def split: token_answer.splits)
  then have "made = Some (?url, ?form)" "ck = browser_cookie ''kacho_session'' tok 3600 (request_is_https r)"
    "ar_location resp = Some (safe_relative_path (query_first r ''next''))"
    using assms unfolding out by (auto simp: browser_cookie_def)
  moreover have "map_of ?form ''code'' = Some (query_first r ''code'')"
    by (simp add: token_form_def)
  ultimately show ?thesis
    using gates tok safe_relative_path_local by (auto simp: browser_cookie_def)
qed

definition demo_callback :: http_request where
  "demo_callback = demo_logout\<lparr>req_method := ''GET'', req_query := [(''code'', [''c'']), (''state'', [''s'']), (''next'', [''//evil''])],
     req_header := [(''Cookie'', [''kacho_oauth_state=s''])]\<rparr>"

definition demo_oidc :: oidc_config where
  "demo_oidc = \<lparr>oc_issuer = ''i'', oc_external_issuer = [], oc_client_id = ''c'', oc_redirect_uri = ''r'', oc_client_secret = [], oc_disabled = False\<rparr>"

theorem callback_session_needs_state_witness:
  "\<exists>made resp target. oidc_callback demo_oidc (\<lambda>_ _. TokenIssued ''tok'') demo_callback = (made, resp) \<and>
     ar_location resp = Some target \<and> local_target target"
proof -
  let ?run = "oidc_callback demo_oidc (\<lambda>_ _. TokenIssued ''tok'') demo_callback"
  obtain made resp where run: "?run = (made, resp)"
    by fastforce
  have "browser_cookie ''kacho_session'' ''tok'' 3600 False \<in> set (ar_cookies (snd ?run))"
    by code_simp
  then have "browser_cookie ''kacho_session'' ''tok'' 3600 False \<in> set (ar_cookies resp)"
    using run by simp
  then obtain target where "ar_location resp = Some target" "local_target target"
    using callback_session_needs_state [OF run] by (force simp: browser_cookie_def)
  then show ?thesis
    using run by blast
qed

end
