(* ===== verification/Gateway_Main.thy ===== *)
theory Gateway_Main
  imports Gateway_Config Gateway_Listeners Session_Endpoints
begin

text \<open>
  \<open>main\<close> as a whole (\<^verbatim>\<open>cmd/api-gateway/main.go\<close>): from the environment of the process to the gateway that serves, or
  to the first error, each of which ends the process. The environment, dials, files, sockets, TLS, the JWT
  library, IAM and the identity providers are the fields of a platform. What is built is a record: the
  interceptors of both chains, the token binding, the logout handler, authorization, the watcher, the
  registrations of the REST mux, the internal server and the listeners.
\<close>

section \<open>Constructors of the collaborators\<close>

datatype subject_client_error = SubjectAddrEmpty | SubjectDialFailed string

definition new_iam_subject_client ::
  "('opt, 'conn) dialer \<Rightarrow> string \<Rightarrow> 'opt option \<Rightarrow> subject_client_error + 'conn \<times> subject_cache" where
  "new_iam_subject_client d addr transportCreds =
     (if addr = [] then Inl SubjectAddrEmpty
      else (let creds = (case transportCreds of None \<Rightarrow> dl_insecure d | Some o1 \<Rightarrow> o1) in
            case dl_new_client d addr (Some creds) of
              None \<Rightarrow> Inl (SubjectDialFailed addr)
            | Some conn \<Rightarrow> Inr (conn, subject_cache_new 10000 (30 * second))))"

datatype cnf_build_error = CnfVerifierRequired | CnfLoggerRequired

type_synonym 's cnf_interceptor = "'s \<Rightarrow> header option \<Rightarrow> string list option \<Rightarrow> 's \<times> cnf_error option"

definition new_cnf_interceptor ::
  "('s \<Rightarrow> string \<Rightarrow> 's \<times> (jwt_error + verified_token)) option \<Rightarrow> bool \<Rightarrow> (nat list \<Rightarrow> string option) \<Rightarrow> (string \<Rightarrow> string) \<Rightarrow>
   cnf_build_error + 's cnf_interceptor" where
  \<comment> \<open>the verifier, if any, and whether a logger is given; a missing certificate validator is replaced by a fresh one\<close>
  "new_cnf_interceptor verifier logger alg_of sha256_b64 =
     (case verifier of
        None \<Rightarrow> Inl CnfVerifierRequired
      | Some v \<Rightarrow> if \<not> logger then Inl CnfLoggerRequired else Inr (cnf_enforce alg_of v sha256_b64))"

definition cnf_around :: "'s \<times> cnf_error option \<Rightarrow> 'r \<Rightarrow> 's \<times> (cnf_error + 'r)" where
  \<comment> \<open>\<open>Unary\<close> and \<open>Stream\<close>: the handler runs only when \<open>enforce\<close> finds nothing\<close>
  "cnf_around enforced handled =
     (case enforced of (st, Some e) \<Rightarrow> (st, Inl e) | (st, None) \<Rightarrow> (st, Inr handled))"

definition adapter_revoke :: "('req \<Rightarrow> 'e + 'op) \<Rightarrow> 'req \<Rightarrow> 'e option" where
  \<comment> \<open>\<open>SessionRevocationsAdapter.Revoke\<close>: the operation of the answer is dropped\<close>
  "adapter_revoke stub req = (case stub req of Inl e \<Rightarrow> Some e | Inr _ \<Rightarrow> None)"

section \<open>Options of the REST muxes\<close>

record json_marshaler =
  jm_use_proto_names :: bool
  jm_emit_unpopulated :: bool
  jm_discard_unknown :: bool

definition mux_marshaler :: "mux_id \<Rightarrow> json_marshaler" where
  \<comment> \<open>empty fields are shown on the public mux and hidden on the internal one\<close>
  "mux_marshaler m =
     (case m of
        PublicMux \<Rightarrow> \<lparr>jm_use_proto_names = False, jm_emit_unpopulated = True, jm_discard_unknown = True\<rparr>
      | InternalMux \<Rightarrow> \<lparr>jm_use_proto_names = False, jm_emit_unpopulated = False, jm_discard_unknown = True\<rparr>)"

record mux_options =
  mo_marshaler :: json_marshaler
  mo_header_matcher :: "string \<Rightarrow> string option"
  mo_metadata :: "http_request \<Rightarrow> header"

definition mux_options_of :: "(string \<Rightarrow> string option) \<Rightarrow> mux_id \<Rightarrow> mux_options" where
  \<comment> \<open>the first argument is \<open>runtime.DefaultHeaderMatcher\<close>; the identity of a request goes to both muxes alike\<close>
  "mux_options_of default_matcher m =
     \<lparr>mo_marshaler = mux_marshaler m, mo_header_matcher = principal_header_matcher default_matcher,
      mo_metadata = build_principal_metadata\<rparr>"

section \<open>The platform and the gateway\<close>

record ('opt, 'conn, 'k, 'e, 'pool) platform =
  pf_load :: "string \<Rightarrow> config_value \<Rightarrow> config_value option"
  pf_dialer :: "('opt, 'conn) dialer"
  pf_key_order :: "string list" \<comment> \<open>the order in which the backends are iterated\<close>
  pf_whoami :: "string \<Rightarrow> 'k \<Rightarrow> string \<Rightarrow> 'k \<times> whoami" \<comment> \<open>of the Kratos at a URL\<close>
  pf_jwt_env :: jwt_env
  pf_keys :: "string \<Rightarrow> duration \<Rightarrow> jwks_cache \<Rightarrow> string \<Rightarrow> jwks_cache \<times> (jwt_error + jwk)"
    \<comment> \<open>the lookup of a key in the key set at a URL, fetched within a time\<close>
  pf_alg_of :: "nat list \<Rightarrow> string option"
  pf_parse :: "(string \<Rightarrow> string option) \<Rightarrow> string \<Rightarrow> (claims \<times> bool) option"
  pf_iam :: iam_directory
  pf_clock :: "nat \<Rightarrow> time \<times> time"
  pf_upsert :: "code option"
  pf_introspect :: "introspection_cache \<Rightarrow> string \<Rightarrow> string \<Rightarrow> introspection_cache \<times> introspect_error option"
  pf_dpop_env :: dpop_env
  pf_authz :: "'opt authz_parts"
  pf_default_matcher :: "string \<Rightarrow> string option"
  pf_register :: "mux_id \<Rightarrow> registration \<Rightarrow> 'e option"
  pf_server_creds :: "string \<Rightarrow> string \<Rightarrow> string list \<Rightarrow> bool"
  pf_net :: "'pool net_env"

record token_binding =
  tb_dpop :: "jwks_cache dpop_mw"
  tb_cnf :: "jwks_cache cnf_interceptor"
  tb_replay :: replay_cache
  tb_introspection :: "introspection_cache option"

record ('conn, 'k) gateway =
  gm_config :: gateway_config
  gm_backends :: "(string \<times> 'conn) list"
  gm_subjects :: "'conn \<times> subject_cache"
  gm_auth :: "(jwks_cache, subject_cache, 'k) auth_interceptor"
  gm_verifier :: "(jwt_verifier \<times> jwks_cache) option" \<comment> \<open>with its key cache at the start\<close>
  gm_binding :: "token_binding option"
  gm_logout :: "jwks_cache \<Rightarrow> logout_handler option" \<comment> \<open>the handler, for a state of the key cache\<close>
  gm_authz :: authz_config
  gm_authz_state :: authz_state
  gm_watcher :: change_watcher
  gm_mux :: "(mux_id \<times> registration) list"
  gm_mux_options :: "mux_id \<Rightarrow> mux_options"
  gm_oidc :: oidc_config
  gm_oidc_kratos :: bool
  gm_internal :: internal_server
  gm_listeners :: "root list \<times> serving list"

datatype 'e main_error =
    MainConfig string | MainDial dial_error | MainSubjectCreds edge_error | MainSubjectClient subject_client_error
  | MainVerifierRequired string | MainStepUpCatalog config_error | MainIntrospection introspect_error
  | MainBinding binding_error | MainCnf cnf_build_error | MainLogout | MainAuthz start_error
  | MainRestCreds edge_error | MainRestMux 'e | MainInternal internal_error | MainListen open_error

section \<open>The steps of main\<close>

definition main_verifier :: "config_table \<Rightarrow> string + jwt_verifier \<times> jwks_cache" where
  "main_verifier t =
     (let c = gateway_config_of t in
      jwt_verifier_new (resolved_hydra_jwks_url c) (cfg_int t ''JWKSCacheTTLSeconds'' * second) (resolved_hydra_issuer c)
        (Control_Plane.expected_audience c) (cfg_int t ''JWTClockSkewSeconds'' * second) False)"

definition main_keys ::
  "('opt, 'conn, 'k, 'e, 'pool) platform \<Rightarrow> config_table \<Rightarrow> jwks_cache \<Rightarrow> string \<Rightarrow> jwks_cache \<times> (jwt_error + jwk)" where
  \<comment> \<open>the key set that the verifier reads\<close>
  "main_keys pf t =
     pf_keys pf (resolved_hydra_jwks_url (gateway_config_of t))
       (let d = cfg_int t ''JWKSFetchTimeoutSeconds'' * second in if d \<le> 0 then 5 * second else d)"

definition main_auth ::
  "('opt, 'conn, 'k, 'e, 'pool) platform \<Rightarrow> config_table \<Rightarrow> jwt_verifier option \<Rightarrow> 'k auth_setup" where
  "main_auth pf t v =
     \<lparr>su_mode = cfg_str t ''AuthNMode'', su_dev_secret = cfg_str t ''AuthNDevSecret'', su_kratos_url = cfg_str t ''KratosPublicURL'',
      su_hybrid = gw_hybrid_mtls_external (gateway_config_of t), su_whoami = pf_whoami pf (cfg_str t ''KratosPublicURL''),
      su_env = pf_jwt_env pf, su_verifier = v, su_keys = main_keys pf t, su_alg_of = pf_alg_of pf, su_parse = pf_parse pf,
      su_iam = pf_iam pf, su_clock = pf_clock pf, su_upsert = pf_upsert pf\<rparr>"

definition main_verify ::
  "('opt, 'conn, 'k, 'e, 'pool) platform \<Rightarrow> config_table \<Rightarrow> jwt_verifier \<Rightarrow> jwks_cache \<Rightarrow> string \<Rightarrow>
   jwks_cache \<times> (jwt_error + verified_token)" where
  \<comment> \<open>\<open>Verify\<close> of the verifier that \<open>main\<close> has built\<close>
  "main_verify pf t v c tok = jwt_verify (pf_jwt_env pf) v (main_keys pf t c) c tok"

definition main_introspection :: "config_table \<Rightarrow> introspect_error + introspection_cache option" where
  "main_introspection t =
     (let url = resolved_hydra_introspection_url (gateway_config_of t) in
      if url = [] then Inr None
      else case introspection_new url (cfg_int t ''IntrospectionCacheSize'') (cfg_int t ''IntrospectionCacheTTLSeconds'' * second) [] [] of
        Inl e \<Rightarrow> Inl e
      | Inr ic \<Rightarrow> Inr (Some ic))"

definition main_binding ::
  "('opt, 'conn, 'k, 'e, 'pool) platform \<Rightarrow> config_table \<Rightarrow> string + jwt_verifier \<times> jwks_cache \<Rightarrow>
   'e main_error + token_binding option" where
  "main_binding pf t verifier =
     (if \<not> cfg_bool t ''AuthNEnableDPoP'' then Inr None
      else case verifier of
        Inl e \<Rightarrow> Inl (MainVerifierRequired e)
      | Inr (v, _) \<Rightarrow>
          (let az = pf_authz pf in
           case load_embedded_catalog (ap_decoder az) (ap_files az) (ap_embedded az) (cfg_str t ''AuthZPermissionCatalogFile'') of
             Inl e \<Rightarrow> Inl (MainStepUpCatalog e)
           | Inr cat \<Rightarrow>
               (case main_introspection t of
                  Inl e \<Rightarrow> Inl (MainIntrospection e)
                | Inr ic \<Rightarrow>
                    (case build_dpop \<lparr>dq_verify = main_verify pf t v, dq_introspect = pf_introspect pf, dq_env = pf_dpop_env pf,
                                      dq_iat_seconds = cfg_int t ''DPoPIatFreshnessSeconds''\<rparr>
                            (gateway_config_of t) (cfg_str t ''AuthNMode'') (Inr cat) of
                       Inl e \<Rightarrow> Inl (MainBinding e)
                     | Inr m \<Rightarrow>
                         (case new_cnf_interceptor (Some (main_verify pf t v)) True (pf_alg_of pf) (de_sha256 (pf_dpop_env pf)) of
                            Inl e \<Rightarrow> Inl (MainCnf e)
                          | Inr i \<Rightarrow>
                              Inr (Some \<lparr>tb_dpop = m, tb_cnf = i,
                                         tb_replay = replay_new (cfg_int t ''DPoPReplayCacheSize'') (cfg_int t ''DPoPReplayCacheTTLSeconds'' * second),
                                         tb_introspection = ic\<rparr>))))))"

definition main_logout ::
  "('opt, 'conn, 'k, 'e, 'pool) platform \<Rightarrow> config_table \<Rightarrow> string + jwt_verifier \<times> jwks_cache \<Rightarrow> jwks_cache \<Rightarrow> logout_handler option" where
  "main_logout pf t verifier cache =
     logout_handler_new True
       (case verifier of Inl _ \<Rightarrow> None | Inr (v, _) \<Rightarrow> Some (logout_verifier (\<lambda>tok. snd (main_verify pf t v cache tok))))
       True (resolved_hydra_admin_url (gateway_config_of t))"

definition main_oidc :: "config_table \<Rightarrow> oidc_config" where
  "main_oidc t =
     \<lparr>oc_issuer = cfg_str t ''OIDCIssuer'', oc_external_issuer = cfg_str t ''OIDCExternalIssuer'', oc_client_id = cfg_str t ''OIDCClientID'',
      oc_redirect_uri = cfg_str t ''OIDCRedirectURI'', oc_client_secret = cfg_str t ''OIDCClientSecret'',
      oc_disabled = oidc_disabled (gateway_config_of t)\<rparr>"

definition main_edge ::
  "('opt, 'conn, 'k, 'e, 'pool) platform \<Rightarrow> gateway_config \<Rightarrow> string \<Rightarrow> string \<Rightarrow>
   'e main_error + (mux_id \<times> registration) list \<times> internal_server \<times> root list \<times> serving list" where
  \<comment> \<open>from the REST mux to the listeners: the addresses of the internal gRPC and of the admin REST listener\<close>
  "main_edge pf c grpcAddr restAddr =
     (case build_backend_dial_creds (dl_split (pf_dialer pf)) (dl_tls_creds (pf_dialer pf)) c of
        Inl e \<Rightarrow> Inl (MainRestCreds e)
      | Inr _ \<Rightarrow>
          (case new_mux (pf_register pf) (gw_backend_addrs c) of
             Inl e \<Rightarrow> Inl (MainRestMux e)
           | Inr mux \<Rightarrow>
               (case start_internal (pf_server_creds pf) (ne_listen (pf_net pf)) c grpcAddr of
                  Inl e \<Rightarrow> Inl (MainInternal e)
                | Inr srv \<Rightarrow>
                    (case open_listeners (pf_net pf) c restAddr of
                       Inl e \<Rightarrow> Inl (MainListen e)
                     | Inr ls \<Rightarrow> Inr (mux, srv, ls)))))"

definition main_wire ::
  "('opt, 'conn, 'k, 'e, 'pool) platform \<Rightarrow> config_table \<Rightarrow> (string \<times> 'conn) list \<Rightarrow> 'conn \<times> subject_cache \<Rightarrow>
   'e main_error + ('conn, 'k) gateway" where
  \<comment> \<open>\<open>main\<close> once the backends and the subject client are dialled\<close>
  "main_wire pf t backends subjects =
     (let c = gateway_config_of t; z = authz_settings_of t; verifier = main_verifier t in
      case main_binding pf t verifier of
        Inl e \<Rightarrow> Inl e
      | Inr binding \<Rightarrow>
          (if main_logout pf t verifier (jwks_new 0) = None then Inl MainLogout
           else case start_authz (pf_authz pf) c z (cfg_str t ''AuthNMode'') (cfg_str t ''AuthNDevSecret'' \<noteq> []) of
             Inl e \<Rightarrow> Inl (MainAuthz e)
           | Inr (zst, _) \<Rightarrow>
               (case main_edge pf c (cfg_str t ''InternalGRPCAddr'') (cfg_str t ''InternalRESTAddr'') of
                  Inl e \<Rightarrow> Inl e
                | Inr (mux, srv, ls) \<Rightarrow>
                    Inr \<lparr>gm_config = c, gm_backends = backends, gm_subjects = subjects,
                         gm_auth = gateway_auth (main_auth pf t (case verifier of Inl _ \<Rightarrow> None | Inr (v, _) \<Rightarrow> Some v)),
                         gm_verifier = (case verifier of Inl _ \<Rightarrow> None | Inr vc \<Rightarrow> Some vc),
                         gm_binding = binding, gm_logout = main_logout pf t verifier,
                         gm_authz = authz_config_of (pf_authz pf) z, gm_authz_state = zst,
                         gm_watcher = watcher_new (cfg_duration t ''SubjectChangePollInterval''), gm_mux = mux,
                         gm_mux_options = mux_options_of (pf_default_matcher pf), gm_oidc = main_oidc t, gm_oidc_kratos = (cfg_str t ''KratosPublicURL'' \<noteq> ''disabled''),
                         gm_internal = srv, gm_listeners = ls\<rparr>)))"

definition gateway_main :: "('opt, 'conn, 'k, 'e, 'pool) platform \<Rightarrow> 'e main_error + ('conn, 'k) gateway" where
  "gateway_main pf =
     (case config_load (pf_load pf) of
        Inl env \<Rightarrow> Inl (MainConfig env)
      | Inr t \<Rightarrow>
          (let c = gateway_config_of t; iam = cfg_str t ''IAMInternalAddr''; d = pf_dialer pf in
           case dial_backends d c (pf_key_order pf) of
             (_, Some e) \<Rightarrow> Inl (MainDial e)
           | (s, None) \<Rightarrow>
               (case iam_edge_dial_creds (dl_split d) (dl_tls_creds d) c iam of
                  Inl e \<Rightarrow> Inl (MainSubjectCreds e)
                | Inr creds \<Rightarrow>
                    (case new_iam_subject_client d iam (Some creds) of
                       Inl e \<Rightarrow> Inl (MainSubjectClient e)
                     | Inr subjects \<Rightarrow> main_wire pf t (dl_backends s) subjects))))"

section \<open>The chains of a started gateway\<close>

definition gateway_edge :: "(json \<Rightarrow> string) \<Rightarrow> ('conn, 'k) gateway \<Rightarrow> (jwks_cache, subject_cache, 'k, jwks_cache) rest_edge" where
  "gateway_edge encode g =
     \<lparr>re_auth = gm_auth g, re_dpop = map_option tb_dpop (gm_binding g), re_authz = gm_authz g, re_encode = encode\<rparr>"

definition gateway_cnf ::
  "('conn, 'k) gateway \<Rightarrow> jwks_cache \<Rightarrow> string list option \<Rightarrow> (header option \<Rightarrow> cnf_error option) option" where
  \<comment> \<open>the interceptor of the gRPC chain when it is mounted: the key cache and the certificates of the peer\<close>
  "gateway_cnf g cache certs = map_option (\<lambda>b md. snd (tb_cnf b cache md certs)) (gm_binding g)"

definition gateway_knows :: "('conn, 'k) gateway \<Rightarrow> string \<Rightarrow> string \<Rightarrow> bool" where
  \<comment> \<open>a part of the gateway takes an access token for one of a subject, at some state of the key cache: the
     interceptors of both chains, the token binding, or the logout handler\<close>
  "gateway_knows g tok subj \<longleftrightarrow>
     (\<exists>verify c c' t. ai_verify (gm_auth g) = Some verify \<and> verify c tok = (c', Inr t) \<and> vt_subject t = subj) \<or>
     (\<exists>b c c' t. gm_binding g = Some b \<and> mw_verify (tb_dpop b) c tok = (c', Inr t) \<and> vt_subject t = subj) \<or>
     (\<exists>c h caller. gm_logout g c = Some h \<and> logout_caller h tok = Some (Some caller) \<and> vc_subject caller = subj)"

lemma main_edge_Inr:
  assumes "main_edge pf c grpcAddr restAddr = Inr (mux, srv, ls)"
  shows "new_mux (pf_register pf) (gw_backend_addrs c) = Inr mux"
    "start_internal (pf_server_creds pf) (ne_listen (pf_net pf)) c grpcAddr = Inr srv"
    "open_listeners (pf_net pf) c restAddr = Inr ls"
  using assms by (auto simp: main_edge_def split: sum.splits)

lemma main_wire_Inr:
  assumes "main_wire pf t backends subjects = Inr g"
  shows "gm_config g = gateway_config_of t" "gm_authz g = authz_config_of (pf_authz pf) (authz_settings_of t)"
    "gm_backends g = backends" "main_binding pf t (main_verifier t) = Inr (gm_binding g)"
    "gm_auth g = gateway_auth (main_auth pf t (map_option fst (gm_verifier g)))"
    "gm_verifier g = (case main_verifier t of Inl _ \<Rightarrow> None | Inr vc \<Rightarrow> Some vc)"
    "gm_logout g = main_logout pf t (main_verifier t)"
    "\<exists>cl. start_authz (pf_authz pf) (gateway_config_of t) (authz_settings_of t) (cfg_str t ''AuthNMode'')
        (cfg_str t ''AuthNDevSecret'' \<noteq> []) = Inr (gm_authz_state g, cl)"
    "start_internal (pf_server_creds pf) (ne_listen (pf_net pf)) (gateway_config_of t) (cfg_str t ''InternalGRPCAddr'') = Inr (gm_internal g)"
    "open_listeners (pf_net pf) (gateway_config_of t) (cfg_str t ''InternalRESTAddr'') = Inr (gm_listeners g)"
  using assms
  by (auto simp: main_wire_def Let_def intro: main_edge_Inr(2,3) split: sum.splits if_splits prod.splits)

lemma gateway_main_Inr:
  assumes "gateway_main pf = Inr g"
  obtains t s subjects where "config_load (pf_load pf) = Inr t" "main_wire pf t (dl_backends s) subjects = Inr g"
    "dial_backends (pf_dialer pf) (gateway_config_of t) (pf_key_order pf) = (s, None)"
  using assms by (auto simp: gateway_main_def Let_def split: sum.splits prod.splits option.splits)

section \<open>From the environment to the posture\<close>

lemma load_bool:
  assumes "config_load load = Inr t" "map_of config_fields f = Some (env, CBool b)"
  shows "cfg_bool t f \<longleftrightarrow> load env (CBool b) = Some (CBool True)"
  using load_fields_lookup [OF assms(1) [unfolded config_load_def], of f] assms(2)
  by (auto simp: cfg_bool_def split: option.splits config_value.splits)

lemma load_str:
  assumes "config_load load = Inr t" "map_of config_fields f = Some (env, CStr d)" "cfg_str t f \<noteq> []"
  shows "load env (CStr d) = Some (CStr (cfg_str t f))"
  using load_fields_lookup [OF assms(1) [unfolded config_load_def], of f] assms(2,3)
  by (auto simp: cfg_str_def split: option.splits config_value.splits)

lemma load_str_given:
  assumes "config_load load = Inr t" "map_of config_fields f = Some (env, CStr d)" "load env (CStr d) = Some (CStr s)"
  shows "cfg_str t f = s"
  using config_load_field [OF assms] by (simp add: cfg_str_def)

lemma internal_allow_list:
  assumes "start_internal server_creds listens c addr = Inr srv" "is_allowed srv = Some allowed"
  shows "gw_internal_mtls_enable c \<and> allowed \<noteq> []"
  using assms
  by (auto simp: start_internal_def start_internal_listener_def server_options_def build_internal_listener_security_def
      Let_def split: sum.splits option.splits if_splits)

lemma started_posture:
  assumes "main_wire pf t backends subjects = Inr g" "\<not> dev_class (cfg_str t ''AppEnv'')"
  shows "cfg_bool t ''AuthZEnabled'' \<and> \<not> cfg_bool t ''AuthZFailOpen'' \<and>
    cfg_str t ''AuthNMode'' \<in> {''production'', ''production-strict''} \<and> cfg_str t ''AuthNDevSecret'' = [] \<and>
    cfg_bool t ''InternalGRPCMTLSEnable'' \<and>
    (\<exists>allowed. is_allowed (gm_internal g) = Some allowed \<and> allowed \<noteq> [])"
proof -
  note w = main_wire_Inr [OF assms(1)]
  have env: "\<not> dev_class (gw_app_env (gateway_config_of t))"
    using assms(2) by (simp add: gateway_config_of_def)
  from w(8) obtain cl where az: "start_authz (pf_authz pf) (gateway_config_of t) (authz_settings_of t) (cfg_str t ''AuthNMode'')
        (cfg_str t ''AuthNDevSecret'' \<noteq> []) = Inr (gm_authz_state g, cl)"
    by blast
  note a = start_authz_Inr [OF az env] and i = start_internal_Inr [OF w(9) env]
  have "gw_internal_mtls_enable (gateway_config_of t) = cfg_bool t ''InternalGRPCMTLSEnable''"
    by (simp add: gateway_config_of_def)
  then show ?thesis
    using a(1-4) i(1) internal_allow_list [OF w(9) i(1)] by (simp add: authz_settings_of_def)
qed

section \<open>Secure by default\<close>

lemma empty_not_dev: "\<not> dev_class []"
  by code_simp

lemma deployment_fields:
  "map_of config_fields ''InternalGRPCMTLSEnable'' = Some (''KACHO_API_GATEWAY_INTERNAL_GRPC_MTLS_ENABLE'', CBool False)"
  "map_of config_fields ''APIDomain'' = Some (''KACHO_API_DOMAIN'', CStr ''api.kacho.cloud'')"
  "map_of config_fields ''HydraIssuer'' = Some (''KACHO_HYDRA_ISSUER'', CStr [])"
  by code_simp+

text \<open>
  C5: the gateway is secure by default. A process that starts either has a development label in
  \<open>KACHO_APP_ENV\<close>, explicitly, or its environment switches authorization on, does not let it fail open and names a
  production mode of authentication; then no symmetric secret is configured, and the internal listener demands
  client certificates of a non-empty allow-list. With these variables unset the process does not start.
\<close>

theorem secure_by_default:
  assumes "gateway_main pf = Inr g"
  shows "(\<exists>label. pf_load pf ''KACHO_APP_ENV'' (CStr []) = Some (CStr label) \<and> dev_class label) \<or>
    (pf_load pf ''KACHO_API_GATEWAY_AUTHZ_ENABLED'' (CBool False) = Some (CBool True) \<and>
     pf_load pf ''KACHO_API_GATEWAY_AUTHZ_FAIL_OPEN'' (CBool False) \<noteq> Some (CBool True) \<and>
     (\<exists>mode. pf_load pf ''KACHO_API_GATEWAY_AUTHN_MODE'' (CStr ''dev'') = Some (CStr mode) \<and>
        mode \<in> {''production'', ''production-strict''} \<and> ai_mode (gm_auth g) = mode) \<and>
     ai_dev_secret (gm_auth g) = [] \<and>
     pf_load pf ''KACHO_API_GATEWAY_INTERNAL_GRPC_MTLS_ENABLE'' (CBool False) = Some (CBool True) \<and>
     (\<exists>allowed. is_allowed (gm_internal g) = Some allowed \<and> allowed \<noteq> []))"
proof -
  from assms obtain t s subjects where t: "config_load (pf_load pf) = Inr t" and wire: "main_wire pf t (dl_backends s) subjects = Inr g"
    and "dial_backends (pf_dialer pf) (gateway_config_of t) (pf_key_order pf) = (s, None)"
    by (rule gateway_main_Inr)
  note bools = load_bool [OF t posture_fields(2)] load_bool [OF t posture_fields(3)] load_bool [OF t deployment_fields(1)]
  show ?thesis
  proof (cases "dev_class (cfg_str t ''AppEnv'')")
    case True
    then have "cfg_str t ''AppEnv'' \<noteq> []"
      using empty_not_dev by metis
    with True show ?thesis
      using load_str [OF t posture_fields(1)] by blast
  next
    case False
    note p = started_posture [OF wire False]
    have "cfg_str t ''AuthNMode'' \<noteq> []"
      using p by auto
    then have "pf_load pf ''KACHO_API_GATEWAY_AUTHN_MODE'' (CStr ''dev'') = Some (CStr (cfg_str t ''AuthNMode''))"
      by (rule load_str [OF t posture_fields(4)])
    moreover have "ai_mode (gm_auth g) = cfg_str t ''AuthNMode''" "ai_dev_secret (gm_auth g) = cfg_str t ''AuthNDevSecret''"
      using main_wire_Inr(5) [OF wire] by (simp_all add: gateway_auth_fields main_auth_def)
    ultimately show ?thesis
      using p bools by (intro disjI2) (simp del: insert_iff)
  qed
qed

section \<open>The tokens a gateway knows\<close>

lemma main_verify_authentic:
  "main_verify pf t v c tok = (c', Inr tk) \<Longrightarrow> jwt_authentic (pf_jwt_env pf) v tok tk"
  unfolding main_verify_def by (rule jv.verify_authentic)

lemma binding_verify:
  assumes "main_binding pf t verifier = Inr (Some b)"
  obtains v c where "verifier = Inr (v, c)" "mw_verify (tb_dpop b) = main_verify pf t v"
    "tb_cnf b = cnf_enforce (pf_alg_of pf) (main_verify pf t v) (de_sha256 (pf_dpop_env pf))"
  using assms
  by (auto simp: main_binding_def build_dpop_def new_dpop_middleware_def new_cnf_interceptor_def Let_def
      split: if_splits sum.splits prod.splits)

lemma logout_knows:
  assumes "main_logout pf t verifier c = Some h" "logout_caller h tok = Some (Some caller)"
  obtains v jc c' tk where "verifier = Inr (v, jc)" "main_verify pf t v c tok = (c', Inr tk)" "vt_subject tk = vc_subject caller"
proof -
  from assms obtain v jc where "verifier = Inr (v, jc)" "logout_verifier (\<lambda>tok. snd (main_verify pf t v c tok)) tok = Some caller"
    by (auto simp: main_logout_def logout_handler_new_def logout_caller_def split: sum.splits if_splits option.splits prod.splits)
  with that show ?thesis
    by (auto simp: logout_verifier_def split: sum.splits) (metis prod.collapse)
qed

lemma wired_knows:
  assumes "main_wire pf t backends subjects = Inr g" "gateway_knows g tok subj"
  obtains v jc c c' tk where "main_verifier t = Inr (v, jc)" "main_verify pf t v c tok = (c', Inr tk)" "vt_subject tk = subj"
proof -
  note w = main_wire_Inr [OF assms(1)]
  show ?thesis
    using assms(2) unfolding gateway_knows_def
  proof (elim disjE exE conjE)
    fix verify c c' tk
    assume auth: "ai_verify (gm_auth g) = Some verify" "verify c tok = (c', Inr tk)" "vt_subject tk = subj"
    have "ai_verify (gm_auth g) = map_option (main_verify pf t) (map_option fst (gm_verifier g))"
      unfolding w(5) gateway_auth_fields by (simp add: main_auth_def main_verify_def [abs_def])
    with auth(1) obtain v jc where v: "main_verifier t = Inr (v, jc)" "verify = main_verify pf t v"
      using w(6) by (cases "main_verifier t") auto
    show ?thesis
      by (rule that [OF v(1) auth(2,3) [unfolded v(2)]])
  next
    fix b c c' tk
    assume binding: "gm_binding g = Some b" "mw_verify (tb_dpop b) c tok = (c', Inr tk)" "vt_subject tk = subj"
    from w(4) binding(1) have "main_binding pf t (main_verifier t) = Inr (Some b)"
      by simp
    then obtain v jc where "main_verifier t = Inr (v, jc)" "mw_verify (tb_dpop b) = main_verify pf t v"
      and "tb_cnf b = cnf_enforce (pf_alg_of pf) (main_verify pf t v) (de_sha256 (pf_dpop_env pf))"
      by (rule binding_verify)
    then show ?thesis
      using that binding(2,3) by simp
  next
    fix c h caller
    assume logout: "gm_logout g c = Some h" "logout_caller h tok = Some (Some caller)" "vc_subject caller = subj"
    have "main_logout pf t (main_verifier t) c = Some h"
      using logout(1) w(7) by simp
    then obtain v jc c' tk where "main_verifier t = Inr (v, jc)" "main_verify pf t v c tok = (c', Inr tk)" "vt_subject tk = vc_subject caller"
      using logout(2) by (rule logout_knows)
    then show ?thesis
      using that logout(3) by simp
  qed
qed

lemma main_verifier_Inr:
  assumes "main_verifier t = Inr (v, jc)"
  shows "expected_issuer v = resolved_hydra_issuer (gateway_config_of t)" "resolved_hydra_issuer (gateway_config_of t) \<noteq> []"
    "Jwt.expected_audience v = ''https://'' @ cfg_str t ''APIDomain''" "\<not> allow_missing_audience v"
  using assms by (auto simp: main_verifier_def jwt_verifier_new_def Let_def Control_Plane.expected_audience_def gateway_config_of_def
      split: if_splits)


section \<open>Requests without credentials at a started gateway\<close>

lemma not_dev_label:
  assumes "config_load (pf_load pf) = Inr t"
    and "\<forall>label. pf_load pf ''KACHO_APP_ENV'' (CStr []) = Some (CStr label) \<longrightarrow> \<not> dev_class label"
  shows "\<not> dev_class (cfg_str t ''AppEnv'')"
  using assms(2) load_str [OF assms(1) posture_fields(1)] empty_not_dev by metis

lemma started_authz_enabled:
  assumes "main_wire pf t backends subjects = Inr g" "\<not> dev_class (cfg_str t ''AppEnv'')"
  shows "az_enabled (gm_authz g)" "\<not> az_fail_open (gm_authz g)"
  using started_posture [OF assms] by (simp_all add: main_wire_Inr(2) [OF assms(1)] authz_config_of_def authz_settings_of_def)

text \<open>
  C6: a started gateway refuses a REST request without credentials. If the environment does not name a
  development label, then in any state of its interceptors, and whatever identity headers the request
  brings, a request with no Authorization and no Cookie header for a catalogued method that no public gate
  admits is answered with 401 by the authorization middleware, or refused for the missing token when
  binding is enforced for all; the handler is not reached.
\<close>

theorem started_gateway_refuses_bare:
  assumes "gateway_main pf = Inr g" "\<forall>label. pf_load pf ''KACHO_APP_ENV'' (CStr []) = Some (CStr label) \<longrightarrow> \<not> dev_class label"
    and "canonical_headers r" "map_of (req_header r) ''Authorization'' = None" "map_of (req_header r) ''Cookie'' = None"
    and "\<not> is_public_http_path (req_path r)"
    and "dr = http_decision_request (gm_authz g) (strip_forgeable_identity_headers r) None (rv_request_id env)"
    and "passes_gates (gm_authz g) dr (rs_authz st)" "catalog_lookup (as_catalog (rs_authz st)) (dr_fqn dr) = Some entry"
    and "rest_chain (gateway_edge encode g) env next st r = (st', res)"
  shows "res = BindingRefused MissingToken \<or> (\<exists>w. res = Authorized (Answered w) \<and> client_status w = 401)"
proof -
  from assms(1) obtain t s subjects where t: "config_load (pf_load pf) = Inr t" and wire: "main_wire pf t (dl_backends s) subjects = Inr g"
    and "dial_backends (pf_dialer pf) (gateway_config_of t) (pf_key_order pf) = (s, None)"
    by (rule gateway_main_Inr)
  have enabled: "az_enabled (re_authz (gateway_edge encode g))"
    using started_authz_enabled(1) [OF wire not_dev_label [OF t assms(2)]] by (simp add: gateway_edge_def)
  have authz: "re_authz (gateway_edge encode g) = gm_authz g"
    by (simp add: gateway_edge_def)
  show ?thesis
    by (rule bare_rest_request_refused [OF assms(3-5) enabled assms(6) assms(7) [folded authz] assms(8) [folded authz] assms(9,10)])
qed

section \<open>Bound tokens on gRPC\<close>

lemma cnf_enforce_None:
  assumes "snd (cnf_enforce alg_of verify sha st md certs) = None" "extract_bearer md \<noteq> []" "is_asymmetric_jwt alg_of (extract_bearer md)"
    and "verify st (extract_bearer md) = (st', Inr vt)"
  shows "if has_x5t (vt_cnf vt) then mtls_validate sha (Some vt) certs None = None else \<not> has_jkt (vt_cnf vt)"
  using assms by (auto simp: cnf_enforce_def Let_def split: if_splits)

lemma dpop_field: "map_of config_fields ''AuthNEnableDPoP'' = Some (''KACHO_API_GATEWAY_AUTHN_ENABLE_DPOP'', CBool False)"
  by code_simp


section \<open>A concrete process\<close>

definition demo_environment :: "(string \<times> config_value) list" where
  "demo_environment =
     [(''KACHO_API_GATEWAY_AUTHZ_ENABLED'', CBool True), (''KACHO_API_GATEWAY_AUTHN_MODE'', CStr ''production''),
      (''KACHO_API_GATEWAY_INTERNAL_GRPC_MTLS_ENABLE'', CBool True), (''KACHO_API_GATEWAY_INTERNAL_GRPC_TLS_CERT_FILE'', CStr ''c''),
      (''KACHO_API_GATEWAY_INTERNAL_GRPC_TLS_KEY_FILE'', CStr ''k''), (''KACHO_API_GATEWAY_MTLS_CA_FILE'', CStr ''a''),
      (''KACHO_API_GATEWAY_INTERNAL_GRPC_ALLOWED_SPIFFE'', CList [''spiffe://iam'']), (''KACHO_HYDRA_ISSUER'', CStr ''https://hydra/''),
      (''KACHO_API_GATEWAY_AUTHN_ENABLE_DPOP'', CBool True)]"

definition demo_load :: "string \<Rightarrow> config_value \<Rightarrow> config_value" where
  \<comment> \<open>the value of a variable that is set, else the default\<close>
  "demo_load env dflt = (case map_of demo_environment env of Some v \<Rightarrow> v | None \<Rightarrow> dflt)"

definition demo_table :: config_table where
  "demo_table = map (\<lambda>(f, env, dflt). (f, demo_load env dflt)) config_fields"

definition demo_main_env :: jwt_env where
  "demo_main_env = demo_env\<lparr>env_parse := (\<lambda>alg skew pk tok.
     Some ([(''iss'', JStr ''https://hydra''), (''sub'', JStr ''u1''), (''aud'', JStr ''https://api.kacho.cloud'')], True))\<rparr>"

definition demo_platform :: "(tls_client, string, kratos_client, unit, unit) platform" where
  "demo_platform =
     \<lparr>pf_load = (\<lambda>env dflt. Some (demo_load env dflt)), pf_dialer = demo_dialer, pf_key_order = backend_keys,
      pf_whoami = (\<lambda>_ k c. (k, whoami_zero)), pf_jwt_env = demo_main_env,
      pf_keys = (\<lambda>_ _ c kid. jwks_resolve (\<lambda>c. c) c kid (Inl ErrJWKSUnreachable) second second second),
      pf_alg_of = (\<lambda>_. Some ''EdDSA''), pf_parse = (\<lambda>_ _. None), pf_iam = (\<lambda>_ _. Inl NotFound), pf_clock = (\<lambda>_. (0, 0)),
      pf_upsert = None, pf_introspect = (\<lambda>c _ _. (c, None)), pf_dpop_env = demo_dpop_env, pf_authz = demo_parts,
      pf_default_matcher = (\<lambda>_. None), pf_register = (\<lambda>_ _. None), pf_server_creds = (\<lambda>_ _ _. True), pf_net = demo_net\<rparr>"

lemma load_fields_default:
  "load_fields (\<lambda>env dflt. Some (f env dflt)) fs = Inr (map (\<lambda>(n, env, dflt). (n, f env dflt)) fs)"
  by (induction fs) auto

lemma demo_config_load: "config_load (pf_load demo_platform) = Inr demo_table"
  by (simp add: config_load_def demo_platform_def demo_table_def load_fields_default)

definition demo_value :: "string \<Rightarrow> config_value option" where
  "demo_value f = map_option (\<lambda>(env, dflt). demo_load env dflt) (map_of config_fields f)"

lemma demo_lookup: "map_of demo_table f = demo_value f"
proof -
  have "map_of (map (\<lambda>(f, env, dflt). (f, demo_load env dflt)) fs) f = map_option (\<lambda>(env, dflt). demo_load env dflt) (map_of fs f)" for fs
    by (induction fs) auto
  then show ?thesis
    by (simp add: demo_table_def demo_value_def)
qed

lemma demo_texts:
  "map demo_value [''AuthZPermissionCatalogFile'', ''AuthZOverridesFile'', ''IAMAuthorizeURL'', ''IAMAddr'', ''AuthNMode'',
     ''AuthNDevSecret'', ''InternalGRPCAddr'', ''IAMInternalAddr'', ''InternalGRPCTLSCertFile'', ''InternalGRPCTLSKeyFile'',
     ''MTLSCAFile'', ''TLSListenAddr''] =
   map (Some \<circ> CStr) [[], [], [], ''iam.kacho.svc.cluster.local:9090'', ''production'', [], '':9091'',
     ''iam.kacho.svc.cluster.local:9091'', ''c'', ''k'', ''a'', []]"
  by code_simp

lemma demo_flags:
  "map demo_value [''AuthZEnabled'', ''AuthZFailOpen'', ''AuthNEnableDPoP'', ''InternalGRPCMTLSEnable'', ''InternalGRPCAllowedSPIFFE''] =
   map Some [CBool True, CBool False, CBool True, CBool True, CList [''spiffe://iam'']]"
  "list_all (\<lambda>(_, sw, _). demo_value sw = Some (CBool False)) edge_fields"
  by code_simp+

lemmas demo_values = demo_texts [simplified] demo_flags(1) [simplified]

lemma edges_off:
  assumes "\<forall>(e, m) \<in> set (gw_edges c). \<not> em_enable m" "edge \<in> set edge_names"
  shows "edge_tls_client split c edge addr = Inr tls_client_off"
  using assms by (auto simp: edge_tls_client_def edge_mtls_of_def split: option.splits dest: map_of_SomeD)

lemma backend_edge_known: "list_all (\<lambda>k. backend_edge k \<in> set edge_names \<and> backend_edge k \<noteq> []) backend_keys"
  by code_simp

lemma edges_off_creds:
  assumes "\<forall>(e, m) \<in> set (gw_edges c). \<not> em_enable m" "\<forall>tc. tls_creds tc \<noteq> None"
  shows "\<exists>creds. build_backend_dial_creds split tls_creds c = Inr creds"
proof -
  have "list_all (\<lambda>k. backend_edge k \<in> set edge_names \<and> backend_edge k \<noteq> []) ks \<Longrightarrow>
      \<exists>creds'. build_creds_loop split tls_creds c ks creds = Inr creds'" for ks creds
    using assms(2) by (induction ks arbitrary: creds) (auto simp: edges_off [OF assms(1)] split: option.splits)
  with backend_edge_known show ?thesis
    by (simp add: build_backend_dial_creds_def)
qed

lemma dial_loop_total:
  "(\<And>addr opt. dl_new_client d addr opt \<noteq> None) \<Longrightarrow> \<exists>s'. dial_loop d c creds ks s = (s', None)"
  by (induction ks arbitrary: s) (auto simp: dial_one_def split: option.splits)

lemma edges_off_dial:
  assumes "\<forall>(e, m) \<in> set (gw_edges c). \<not> em_enable m" "\<forall>tc. dl_tls_creds d tc \<noteq> None"
    and "\<And>addr opt. dl_new_client d addr opt \<noteq> None"
  shows "\<exists>s. dial_backends d c keys = (s, None)"
proof -
  obtain creds where creds: "build_backend_dial_creds (dl_split d) (dl_tls_creds d) c = Inr creds"
    using edges_off_creds [OF assms(1,2)] by blast
  obtain s where s: "dial_loop d c creds keys \<lparr>dl_live = [], dl_opened = [], dl_backends = []\<rparr> = (s, None)"
    using dial_loop_total [OF assms(3)] by blast
  show ?thesis
    using assms(3) by (auto simp: dial_backends_def creds s dial_one_def split: option.splits)
qed

lemma demo_edges_off: "\<forall>(e, m) \<in> set (gw_edges (gateway_config_of demo_table)). \<not> em_enable m"
  using demo_flags(2)
  by (auto simp: gateway_config_of_def edges_of_def list_all_iff cfg_bool_def demo_lookup split: option.splits config_value.splits)

abbreviation demo_config :: gateway_config where
  "demo_config \<equiv> gateway_config_of demo_table"

lemma demo_config_fields:
  "gw_internal_mtls_enable demo_config" "gw_internal_cert_file demo_config = ''c''" "gw_internal_key_file demo_config = ''k''"
  "gw_mtls_ca_file demo_config = ''a''" "gw_tls_listen_addr demo_config = []" "gw_iam_authorize_url demo_config = []"
  "gw_internal_allowed_spiffe demo_config = [''spiffe://iam'']"
  "backend_addr demo_config ''iam'' = ''iam.kacho.svc.cluster.local:9090''"
  by (simp_all add: gateway_config_of_def cfg_str_def cfg_bool_def cfg_list_def demo_lookup demo_values backend_addr_def
      backend_addrs_def backend_fields_def)

lemma demo_start_internal: "\<exists>srv. start_internal (\<lambda>_ _ _. True) (\<lambda>_. True) demo_config '':9091'' = Inr srv"
proof -
  have "trim_space ''spiffe://iam'' = ''spiffe://iam''"
    by code_simp
  then have "internal_allowed_spiffe_set demo_config = [''spiffe://iam'']"
    by (simp add: internal_allowed_spiffe_set_def demo_config_fields)
  then show ?thesis
    by (simp add: start_internal_def build_internal_listener_security_def validate_production_internal_listener_def
        start_internal_listener_def server_options_def demo_config_fields)
qed

lemma demo_open_listeners: "\<exists>ls. open_listeners demo_net demo_config addr = Inr ls"
  by (simp add: open_listeners_def open_tls_def tls_enabled_def demo_net_def demo_config_fields)

lemma demo_catalog_loads: "\<exists>cat. load_embedded_catalog demo_decoder (\<lambda>_. None) ''A'' [] = Inr cat"
proof -
  have "\<not> isl (load_embedded_catalog demo_decoder (\<lambda>_. None) ''A'' [])"
    by code_simp
  then show ?thesis
    by (auto simp: isl_def) (metis sum.exhaust)
qed

lemma demo_start_authz:
  "\<exists>st. start_authz demo_parts demo_config (authz_settings_of demo_table) ''production'' False = Inr st"
proof -
  obtain cat where "load_embedded_catalog demo_decoder (\<lambda>_. None) ''A'' [] = Inr cat"
    using demo_catalog_loads by blast
  moreover have "edge_tls_client split demo_config ''iam'' addr = Inr tls_client_off" for split addr
    by (rule edges_off [OF demo_edges_off]) (simp add: edge_names_def)
  ultimately show ?thesis
    by (simp add: start_authz_def validate_production_authz_config_def authz_settings_of_def cfg_bool_def cfg_str_def demo_lookup
        demo_values build_authz_middleware_def demo_parts_def resolved_iam_authorize_url_def demo_config_fields
        iam_edge_dial_creds_def authorize_client_new_def new_authz_middleware_def required_deps_def)
qed

definition demo_main_verifier :: jwt_verifier where
  "demo_main_verifier = \<lparr>expected_issuer = ''https://hydra'', expected_audience = ''https://api.kacho.cloud'', clock_skew = 30 * second,
     allow_missing_audience = False\<rparr>"

lemma demo_skew: "demo_value ''JWTClockSkewSeconds'' = Some (CInt 30)"
  "demo_value ''HybridMTLSExternal'' = Some (CBool False)"
  "map demo_value [''HydraIssuer'', ''HydraJWKSURL'', ''APIDomain''] = map (Some \<circ> CStr) [''https://hydra/'', [], ''api.kacho.cloud'']"
  by code_simp+

lemma demo_main_verifier_built: "\<exists>jc. main_verifier demo_table = Inr (demo_main_verifier, jc)"
proof -
  have "trim_right_byte (CHR ''/'') ''https://hydra/'' = ''https://hydra''"
    by code_simp
  then show ?thesis
    using demo_skew
    by (simp add: main_verifier_def jwt_verifier_new_def demo_main_verifier_def Let_def resolved_hydra_jwks_url_def resolved_hydra_issuer_def
        Control_Plane.expected_audience_def gateway_config_of_def cfg_str_def cfg_int_def demo_lookup)
qed

lemma demo_binding_built: "\<exists>b. main_binding demo_platform demo_table (Inr (v, jc)) = Inr (Some b)"
proof -
  obtain cat where "load_embedded_catalog demo_decoder (\<lambda>_. None) ''A'' [] = Inr cat"
    using demo_catalog_loads by blast
  moreover have "gw_api_domain demo_config \<noteq> []"
    using demo_skew by (simp add: gateway_config_of_def cfg_str_def demo_lookup)
  moreover obtain ic where "main_introspection demo_table = Inr ic"
    by (cases "resolved_hydra_introspection_url demo_config = []") (simp_all add: main_introspection_def introspection_new_def Let_def)
  ultimately show ?thesis
    by (auto simp: main_binding_def Let_def cfg_bool_def cfg_str_def demo_lookup demo_values demo_platform_def demo_parts_def build_dpop_def
        new_dpop_middleware_def new_cnf_interceptor_def split: sum.splits)
qed

lemma demo_started: "\<exists>g. gateway_main demo_platform = Inr g"
proof -
  have d: "dl_split demo_dialer = Some" "dl_tls_creds demo_dialer = Some" "dl_new_client demo_dialer = (\<lambda>addr opt. Some addr)"
    by (simp_all add: demo_dialer_def)
  obtain s where s: "dial_backends demo_dialer demo_config backend_keys = (s, None)"
    using edges_off_dial [OF demo_edges_off, of demo_dialer backend_keys] by (auto simp: d)
  obtain creds where creds: "build_backend_dial_creds Some Some demo_config = Inr creds"
    using edges_off_creds [OF demo_edges_off, of Some Some] by auto
  have iam: "edge_tls_client Some demo_config ''iam'' addr = Inr tls_client_off" for addr
    by (rule edges_off [OF demo_edges_off]) (simp add: edge_names_def)
  obtain zst cl srv ls ls2 where parts:
    "start_authz demo_parts demo_config (authz_settings_of demo_table) ''production'' False = Inr (zst, cl)"
    "start_internal (\<lambda>_ _ _. True) (\<lambda>_. True) demo_config '':9091'' = Inr srv"
    "open_listeners demo_net demo_config (cfg_str demo_table ''InternalRESTAddr'') = Inr (ls, ls2)"
    using demo_start_authz demo_start_internal demo_open_listeners by (metis surj_pair)
  have fields: "cfg_str demo_table ''AuthNMode'' = ''production''" "cfg_str demo_table ''AuthNDevSecret'' = []"
    "cfg_str demo_table ''InternalGRPCAddr'' = '':9091''" "cfg_str demo_table ''IAMInternalAddr'' = ''iam.kacho.svc.cluster.local:9091''"
    by (simp_all add: cfg_str_def cfg_bool_def demo_lookup demo_values)
  have pf: "pf_dialer demo_platform = demo_dialer" "pf_key_order demo_platform = backend_keys" "pf_authz demo_platform = demo_parts"
    "pf_register demo_platform = (\<lambda>_ _. None)" "pf_server_creds demo_platform = (\<lambda>_ _ _. True)" "pf_net demo_platform = demo_net"
    "ne_listen demo_net = (\<lambda>_. True)"
    by (simp_all add: demo_platform_def demo_net_def)
  obtain mux where mux: "new_mux (\<lambda>_ _. None :: unit option) (gw_backend_addrs demo_config) = Inr mux"
    by (auto simp: new_mux_def List.map_filter_def Let_def)
  have "main_edge demo_platform demo_config '':9091'' (cfg_str demo_table ''InternalRESTAddr'') = Inr (mux, srv, ls, ls2)"
    by (simp add: main_edge_def pf d creds mux parts(2,3))
  moreover obtain jc where jc: "main_verifier demo_table = Inr (demo_main_verifier, jc)"
    using demo_main_verifier_built by blast
  moreover obtain b where "main_binding demo_platform demo_table (Inr (demo_main_verifier, jc)) = Inr (Some b)"
    using demo_binding_built by blast
  moreover have "main_logout demo_platform demo_table v c \<noteq> None" for v c
    by (simp add: main_logout_def logout_handler_new_def)
  ultimately have "\<exists>g. main_wire demo_platform demo_table b subj = Inr g" for b subj
    by (simp add: main_wire_def fields pf parts(1) Let_def)
  then show ?thesis
    by (simp add: gateway_main_def demo_config_load pf s d iam_edge_dial_creds_def iam fields new_iam_subject_client_def Let_def)
qed

section \<open>Witnesses\<close>

lemma demo_environment_loads:
  "pf_load demo_platform ''KACHO_APP_ENV'' (CStr []) = Some (CStr [])"
  "pf_load demo_platform ''KACHO_API_DOMAIN'' (CStr ''api.kacho.cloud'') = Some (CStr ''api.kacho.cloud'')"
  "pf_load demo_platform ''KACHO_HYDRA_ISSUER'' (CStr []) = Some (CStr ''https://hydra/'')"
  by (simp_all add: demo_platform_def demo_load_def demo_environment_def)

theorem secure_by_default_witness:
  "\<exists>g allowed. gateway_main demo_platform = Inr g \<and> ai_mode (gm_auth g) \<in> {''production'', ''production-strict''} \<and>
     is_allowed (gm_internal g) = Some allowed \<and> allowed \<noteq> []"
proof -
  obtain g where g: "gateway_main demo_platform = Inr g"
    using demo_started by blast
  then show ?thesis
    using secure_by_default [OF g] empty_not_dev by (auto simp: demo_environment_loads)
qed

lemma demo_wire:
  assumes "gateway_main demo_platform = Inr g"
  shows "\<exists>b subjects. main_wire demo_platform demo_table b subjects = Inr g"
proof -
  from assms obtain t s subjects where "config_load (pf_load demo_platform) = Inr t"
    and wire: "main_wire demo_platform t (dl_backends s) subjects = Inr g"
    and "dial_backends (pf_dialer demo_platform) (gateway_config_of t) (pf_key_order demo_platform) = (s, None)"
    by (rule gateway_main_Inr)
  moreover from this(1) have "t = demo_table"
    by (simp add: demo_config_load)
  ultimately show ?thesis
    by blast
qed

lemma demo_main_verifies:
  "\<exists>c tk. main_verify demo_platform demo_table demo_main_verifier demo_jwks ''e30.e30.AA'' = (c, Inr tk) \<and> vt_subject tk = ''u1''"
proof -
  have "case snd (jwt_verify demo_main_env demo_main_verifier
       (\<lambda>kid. jwks_resolve (\<lambda>c. c) demo_jwks kid (Inl ErrJWKSUnreachable) second second second) demo_jwks ''e30.e30.AA'')
     of Inl e \<Rightarrow> False | Inr t \<Rightarrow> vt_subject t = ''u1''"
    by code_simp
  then show ?thesis
    by (auto simp: main_verify_def main_keys_def demo_platform_def split: sum.splits) (metis prod.collapse)
qed


abbreviation demo_bare_get :: http_request where
  "demo_bare_get \<equiv> demo_rest_get\<lparr>req_path := ''/compute/v1/diskPlacementGroups''\<rparr>"

definition demo_bare_state :: "(jwks_cache, subject_cache, kratos_client, jwks_cache) rest_state" where
  "demo_bare_state = \<lparr>rs_auth = demo_auth_state, rs_dpop = demo_binding_state, rs_authz = demo_state\<lparr>as_catalog := demo_level_catalog\<rparr>\<rparr>"

theorem started_gateway_refuses_bare_witness:
  "\<exists>g st' res. gateway_main demo_platform = Inr g \<and>
     rest_chain (gateway_edge (\<lambda>_. []) g) demo_rest_env (\<lambda>_. []) demo_bare_state demo_bare_get = (st', res) \<and>
     (res = BindingRefused MissingToken \<or> (\<exists>w. res = Authorized (Answered w) \<and> client_status w = 401))"
proof -
  obtain g where g: "gateway_main demo_platform = Inr g"
    using demo_started by blast
  then obtain b subjects where wire: "main_wire demo_platform demo_table b subjects = Inr g"
    using demo_wire by blast
  obtain st' res where run: "rest_chain (gateway_edge (\<lambda>_. []) g) demo_rest_env (\<lambda>_. []) demo_bare_state demo_bare_get = (st', res)"
    by fastforce
  have "list_all (\<lambda>k. canonical_key k = k) (map fst (req_header demo_rest_get))"
    by code_simp
  then have canonical: "canonical_headers demo_bare_get"
    by (simp add: canonical_headers_def list_all_iff)
  have bare: "map_of (req_header demo_bare_get) ''Authorization'' = None" "map_of (req_header demo_bare_get) ''Cookie'' = None"
    by (simp_all add: demo_rest_get_def)
  have path: "\<not> is_public_http_path (req_path demo_bare_get)"
    by code_simp
  have label: "\<forall>label. pf_load demo_platform ''KACHO_APP_ENV'' (CStr []) = Some (CStr label) \<longrightarrow> \<not> dev_class label"
    using empty_not_dev by (simp add: demo_environment_loads)
  let ?fqn = "''kacho.cloud.compute.v1.DiskPlacementGroupService/List''"
  let ?dr = "http_decision_request (gm_authz g) (strip_forgeable_identity_headers demo_bare_get) None (rv_request_id demo_rest_env)"
  have fqn: "dr_fqn ?dr = ?fqn"
    by (simp add: http_decision_request_def resolve_rest_fqn_def main_wire_Inr(2) [OF wire] authz_config_of_def demo_level_route demo_rest_get_def)
  have "?fqn \<notin> set default_public_allowlist" "\<not> has_internal_suffix (''/'' @ ?fqn)"
    by (code_simp, code_simp)
  moreover have "az_allow (gm_authz g) = default_public_allowlist"
    by (simp add: main_wire_Inr(2) [OF wire] authz_config_of_def)
  ultimately have gates: "passes_gates (gm_authz g) ?dr (rs_authz demo_bare_state)"
    unfolding passes_gates_def internal_exempt_def override_of_def fqn by (simp add: demo_bare_state_def demo_state_def)
  have entry: "catalog_lookup (as_catalog (rs_authz demo_bare_state)) (dr_fqn ?dr) = Some demo_level_entry"
    unfolding fqn by (simp add: demo_bare_state_def demo_level_catalog_def catalog_lookup_def demo_level_entry_def demo_catalog_entry_def)
  have "res = BindingRefused MissingToken \<or> (\<exists>w. res = Authorized (Answered w) \<and> client_status w = 401)"
    by (rule started_gateway_refuses_bare [OF g label canonical bare path refl gates entry run])
  then show ?thesis
    using g run by blast
qed

abbreviation demo_exempt_call :: grpc_call where
  "demo_exempt_call \<equiv> demo_call\<lparr>gc_full_method := ''/n/List''\<rparr>"

lemma demo_exempt_facts:
  "extract_bearer (incoming_md (strip_incoming demo_anonymous_ctx)) = []"
  "extract_bearer (incoming_md (inject_anonymous (strip_incoming demo_anonymous_ctx))) = []"
  "normalize_fqn (gc_full_method demo_exempt_call) = ''n/List''" "''n/List'' \<notin> set default_public_allowlist"
  "\<not> has_internal_suffix ''/n/List''"
  "catalog_lookup (as_catalog demo_exempt_state) ''n/List'' = Some (demo_catalog_entry ''n/List'' ''<exempt>'' [] demo_scope)"
  "is_exempt (demo_catalog_entry ''n/List'' ''<exempt>'' [] demo_scope)" "as_overrides demo_exempt_state = None"
  by code_simp+


end
