(* ===== verification/Gateway_Reports.thy ===== *)
theory Gateway_Reports
  imports Authz_Config Authz_Check "HOL-Library.Char_ord" "HOL-Library.List_Lexorder"
begin

text \<open>
  What operators read off the gateway and load into it: the snapshot of the authorization metrics
  (\<^verbatim>\<open>internal/middleware/authz_metrics.go\<close>), the names in the permission catalog (\<^verbatim>\<open>permission_catalog.go\<close>), and the loading,
  reloading and rendering of overrides (\<^verbatim>\<open>authz_overrides.go\<close>). A float is a rational; the
  rendering of one that is not whole is an argument.
\<close>

section \<open>The snapshot of the metrics\<close>

function dec_nat :: "nat \<Rightarrow> string" where
  "dec_nat n = (if n < 10 then [char_of (48 + n)] else dec_nat (n div 10) @ [char_of (48 + n mod 10)])"
  by pat_completeness auto
termination
  by (relation "measure id") auto

declare dec_nat.simps [simp del]

definition format_bucket :: "(rat \<Rightarrow> string) \<Rightarrow> rat \<Rightarrow> string" where
  \<comment> \<open>of a positive bound below \<open>2 ^ 63\<close>; the argument is \<open>strconv.FormatFloat\<close>\<close>
  "format_bucket format_float v = (if v = of_int \<lfloor>v\<rfloor> then dec_nat (nat \<lfloor>v\<rfloor>) else format_float v)"

definition sample_name :: "string \<Rightarrow> string \<Rightarrow> string \<Rightarrow> string" where
  "sample_name metric label v = metric @ ''{'' @ label @ ''='' @ [CHR 0x22] @ v @ [CHR 0x22] @ ''}''"

abbreviation check_total :: string where
  "check_total \<equiv> ''kacho_api_gateway_authz_check_total''"

abbreviation cache_total :: string where
  "cache_total \<equiv> ''kacho_api_gateway_authz_cache_total''"

definition latency_bucket_name :: "string \<Rightarrow> string" where
  "latency_bucket_name le = sample_name ''kacho_api_gateway_authz_check_latency_ms_bucket'' ''le'' le"

definition counter_value :: "64 word \<Rightarrow> rat" where
  "counter_value w = of_int (sint w)"

definition authz_snapshot :: "(rat \<Rightarrow> string) \<Rightarrow> authz_metrics \<Rightarrow> (string \<times> rat) list" where
  \<comment> \<open>the entries in the order in which they are written\<close>
  "authz_snapshot format_float m =
     (let total = am_hit m + am_miss m in
      [(sample_name check_total ''result'' ''allowed'', counter_value (am_allowed m)),
       (sample_name check_total ''result'' ''denied'', counter_value (am_denied m)),
       (sample_name check_total ''result'' ''error'', counter_value (am_error m)),
       (sample_name cache_total ''result'' ''hit'', counter_value (am_hit m)),
       (sample_name cache_total ''result'' ''miss'', counter_value (am_miss m))] @
      (if sint total > 0 then [(''kacho_api_gateway_authz_cache_hit_ratio'', counter_value (am_hit m) / counter_value total)] else []) @
      zip (map (\<lambda>ub. latency_bucket_name (format_bucket format_float ub)) (am_buckets m) @ [latency_bucket_name ''+Inf''])
          (map counter_value (cumulative_counts m)) @
      [(''kacho_api_gateway_authz_check_latency_ms_sum'', am_sum m),
       (''kacho_api_gateway_authz_check_latency_ms_count'', counter_value (am_count m))])"

lemma counter_value_of_nat: "n < 2 ^ 63 \<Longrightarrow> counter_value (of_nat n) = of_nat n"
proof -
  assume "n < 2 ^ 63"
  then have "sint (of_nat n :: 64 word) = int n"
    by (simp add: signed_of_nat signed_take_bit_int_eq_self)
  then show ?thesis
    by (simp add: counter_value_def)
qed

lemma observe_all_count:
  "am_count (observe_all m samples) = am_count m + of_nat (length samples)"
proof (induction samples arbitrary: m)
  case (Cons x xs)
  have "observe_all m (x # xs) = observe_all (observe_latency_ms m x) xs"
    by (simp add: observe_all_def)
  then show ?case
    using Cons.IH [of "observe_latency_ms m x"] by (simp add: observe_latency_ms_def Let_def)
qed (simp add: observe_all_def)

lemma cumulative_length: "length (cumulative_counts m) = length (am_buckets m) + 1"
  by (simp add: cumulative_counts_def)

text \<open>
  The published histogram is right: after fewer than \<open>2 ^ 63\<close> samples the snapshot gives, under every configured bound, the
  number of samples within it, and the number of all samples both under \<open>+Inf\<close> and as the count.
\<close>

theorem snapshot_counts_samples:
  assumes "m = metrics_with_buckets bs" "length samples < 2 ^ 63" "s = authz_snapshot ff (observe_all m samples)"
  shows "\<forall>ub \<in> set (am_buckets m). (latency_bucket_name (format_bucket ff ub), of_nat (length (filter (within_bound ub) samples))) \<in> set s"
    "(latency_bucket_name ''+Inf'', of_nat (length samples)) \<in> set s"
    "(''kacho_api_gateway_authz_check_latency_ms_count'', of_nat (length samples)) \<in> set s"
proof -
  let ?o = "observe_all m samples"
  have obs: "am_buckets ?o = am_buckets m" "last (cumulative_counts ?o) = of_nat (length samples)"
    "i < length (am_buckets m) \<Longrightarrow> cumulative_counts ?o ! i = of_nat (length (filter (within_bound (am_buckets m ! i)) samples))" for i
    using observe_all_cumulative [of m samples] metrics_new_wf [of bs] cumulative_fresh [where bs = bs] assms(1) by auto
  let ?names = "map (\<lambda>ub. latency_bucket_name (format_bucket ff ub)) (am_buckets m) @ [latency_bucket_name ''+Inf'']"
  let ?rows = "zip ?names (map counter_value (cumulative_counts ?o))"
  have len: "length ?names = length (map counter_value (cumulative_counts ?o))"
    by (simp add: cumulative_length obs(1))
  have rows: "set ?rows \<subseteq> set s"
    unfolding assms(3) authz_snapshot_def Let_def obs(1) set_append by blast
  have row: "(?names ! i, counter_value (cumulative_counts ?o ! i)) \<in> set s" if "i < length ?names" for i
    using that len rows by (auto simp: set_zip)
  show "\<forall>ub \<in> set (am_buckets m). (latency_bucket_name (format_bucket ff ub), of_nat (length (filter (within_bound ub) samples))) \<in> set s"
  proof
    fix ub
    assume "ub \<in> set (am_buckets m)"
    then obtain i where i: "i < length (am_buckets m)" "am_buckets m ! i = ub"
      by (auto simp: in_set_conv_nth)
    have "length (filter (within_bound ub) samples) < 2 ^ 63"
      using le_less_trans [OF length_filter_le assms(2)] .
    with row [of i] i obs(3) [of i] show "(latency_bucket_name (format_bucket ff ub), of_nat (length (filter (within_bound ub) samples))) \<in> set s"
      by (simp add: nth_append counter_value_of_nat)
  qed
  have "cumulative_counts ?o \<noteq> []"
    by (simp add: cumulative_counts_def)
  then have "cumulative_counts ?o ! length (am_buckets m) = of_nat (length samples)"
    using obs(2) by (simp add: last_conv_nth cumulative_length obs(1))
  with row [of "length (am_buckets m)"] show "(latency_bucket_name ''+Inf'', of_nat (length samples)) \<in> set s"
    using counter_value_of_nat [OF assms(2)] by (simp add: nth_append)
  have "am_count m = 0"
    by (simp add: assms(1) metrics_with_buckets_def metrics_new_def metrics_of_def)
  then show "(''kacho_api_gateway_authz_check_latency_ms_count'', of_nat (length samples)) \<in> set s"
    by (simp add: assms(3) authz_snapshot_def Let_def observe_all_count counter_value_of_nat [OF assms(2)])
qed

section \<open>The names in the catalog\<close>

definition catalog_fqns :: "catalog \<Rightarrow> string list" where
  "catalog_fqns c = sort (map fst (fc_current c))"

lemma catalog_fqns_complete:
  "sorted (catalog_fqns c)" "fqn \<in> set (catalog_fqns c) \<longleftrightarrow> catalog_lookup c fqn \<noteq> None"
  by (auto simp: catalog_fqns_def catalog_lookup_def map_of_eq_None_iff)

section \<open>Overrides\<close>

definition override_decision_string :: "override_decision \<Rightarrow> string" where
  "override_decision_string d =
     (case d of OverrideAllow \<Rightarrow> ''allow'' | OverrideDeny \<Rightarrow> ''deny'' | OverrideNone \<Rightarrow> ''none'')"

lemma override_decision_roundtrip:
  "parse_override_decision (override_decision_string d) = (if d = OverrideNone then None else Some d)"
proof -
  have "parse_override_decision ''allow'' = Some OverrideAllow" "parse_override_decision ''deny'' = Some OverrideDeny"
    "parse_override_decision ''none'' = None"
    by code_simp+
  then show ?thesis
    by (cases d) (simp_all add: override_decision_string_def)
qed

definition overrides_load_from_reader ::
  "(string \<Rightarrow> (int \<times> override_row list) option) \<Rightarrow> overrides \<Rightarrow> string option \<Rightarrow> overrides \<times> config_error option" where
  "overrides_load_from_reader yaml = load_reader (parse_overrides yaml)"

definition overrides_load_from_file ::
  "(string \<Rightarrow> (int \<times> override_row list) option) \<Rightarrow> file_system \<Rightarrow> overrides \<Rightarrow> string \<Rightarrow> overrides \<times> config_error option" where
  "overrides_load_from_file yaml fs c path =
     (if path = [] then (c, Some EmptyPath)
      else case fs path of
        None \<Rightarrow> (c, Some (OpenFailed path))
      | Some r \<Rightarrow>
          (case overrides_load_from_reader yaml c r of
             (c', Some e) \<Rightarrow> (c', Some e)
           | (c', None) \<Rightarrow> (c'\<lparr>fc_path := Some path\<rparr>, None)))"

definition overrides_reload ::
  "(string \<Rightarrow> (int \<times> override_row list) option) \<Rightarrow> file_system \<Rightarrow> overrides \<Rightarrow> overrides \<times> config_error option" where
  "overrides_reload yaml fs c =
     (case fc_path c of
        None \<Rightarrow> (c, Some NoStoredPath)
      | Some p \<Rightarrow> if p = [] then (c, Some NoStoredPath) else overrides_load_from_file yaml fs c p)"

lemma overrides_load_generic:
  "overrides_load_from_file yaml = load_file (parse_overrides yaml)" "overrides_reload yaml = reload (parse_overrides yaml)"
proof -
  show from_file: "overrides_load_from_file yaml = load_file (parse_overrides yaml)"
    by (intro ext) (unfold overrides_load_from_file_def overrides_load_from_reader_def load_file_def, rule refl)
  show "overrides_reload yaml = reload (parse_overrides yaml)"
    by (intro ext) (unfold overrides_reload_def reload_def from_file, rule refl)
qed

end
