(* ===== verification/Catalog_Gen.thy ===== *)
theory Catalog_Gen
  imports Authz_Config Rest_Routes "HOL-Library.Char_ord" "HOL-Library.List_Lexorder" "HOL-Library.Product_Lexorder"
    "HOL-Library.Multiset" "HOL-Library.Monad_Syntax"
begin

text \<open>
  The two build-time generators that the gateway's tables come from: the permission catalog
  (\<^verbatim>\<open>cmd/protoc-gen-kacho-permissions/main.go\<close>) and the REST route table
  (\<^verbatim>\<open>cmd/protoc-gen-kacho-rest-routes/main.go\<close>). A generator reads a set of protobuf descriptors, here
  plain data, and writes files. The JSON encoder, the printing of \<^verbatim>\<open>%q\<close> and \<^verbatim>\<open>gofmt\<close> are parameters.
  \<open>sort.Slice\<close> orders equal keys as it likes; \<open>sort_key\<close> keeps their order, and no statement
  below depends on it.
\<close>

section \<open>Descriptors\<close>

datatype extension = E_Permission | E_RequiredRelation | E_RequiredAcrMin | E_ScopeExtractor | E_Http

datatype http_pattern =
    HttpGet string | HttpPut string | HttpPost string | HttpDelete string | HttpPatch string
  | HttpCustom "(string \<times> string) option" \<comment> \<open>kind and path\<close>
  | NoPattern

datatype http_rule = HttpRule (rule_pattern: http_pattern) (additional_bindings: "http_rule list")

datatype ext_value =
    ExtString string
  | ExtScope "scope_extractor option" \<comment> \<open>a message pointer, possibly nil\<close>
  | ExtRule "http_rule option"
  | ExtOther

type_synonym method_options = "(extension \<times> ext_value) list option"

record method_descriptor =
  mt_name :: string
  mt_options :: method_options

record service_descriptor =
  sv_name :: string
  sv_methods :: "method_descriptor list"

record file_descriptor =
  pf_package :: string
  pf_services :: "service_descriptor list"

record gen_request =
  gq_file_to_generate :: "string list"
  gq_proto_files :: "file_descriptor list"

record gen_response =
  gr_error :: "string option"
  gr_files :: "(string \<times> string) list"

definition primary_file :: string where
  "primary_file = ''kacho/iam/authz/catalog/v1/permissions_catalog_root.proto''"

definition should_emit :: "gen_request \<Rightarrow> bool" where
  "should_emit req = list_ex (\<lambda>f. f = primary_file) (gq_file_to_generate req)"

definition rpcs :: "gen_request \<Rightarrow> (string \<times> method_options) list" where
  \<comment> \<open>the three nested loops: every method with its full name, in the order of the descriptors\<close>
  "rpcs req =
     concat (map (\<lambda>fd. concat (map (\<lambda>svc.
       map (\<lambda>m. (pf_package fd @ ''.'' @ sv_name svc @ ''/'' @ mt_name m, mt_options m)) (sv_methods svc))
       (pf_services fd))) (gq_proto_files req))"

section \<open>The permission catalog\<close>

record gen_entry =
  ge_fqn :: string
  ge_permission :: string
  ge_required_relation :: string
  ge_scope :: scope_extractor
  ge_required_acr_min :: string

definition get_string_ext :: "method_options \<Rightarrow> extension \<Rightarrow> string" where
  "get_string_ext opts ext =
     (case opts of
        None \<Rightarrow> []
      | Some m \<Rightarrow> (case map_of m ext of Some (ExtString s) \<Rightarrow> s | _ \<Rightarrow> []))"

definition empty_scope :: scope_extractor where
  "empty_scope = \<lparr>object_type = [], from_request_field = [], object_type_from_request_field = []\<rparr>"

definition get_scope_ext :: "method_options \<Rightarrow> extension \<Rightarrow> scope_extractor" where
  "get_scope_ext opts ext =
     (case opts of
        None \<Rightarrow> empty_scope
      | Some m \<Rightarrow> (case map_of m ext of Some (ExtScope (Some sx)) \<Rightarrow> sx | _ \<Rightarrow> empty_scope))"

definition extract_entry :: "string \<Rightarrow> method_options \<Rightarrow> gen_entry \<times> string" where
  \<comment> \<open>the row, and the warning or the empty string\<close>
  "extract_entry rpcFQN opts =
     (let permission = get_string_ext opts E_Permission;
          requiredRelation = get_string_ext opts E_RequiredRelation;
          scope = get_scope_ext opts E_ScopeExtractor;
          entry = \<lparr>ge_fqn = rpcFQN, ge_permission = permission, ge_required_relation = requiredRelation, ge_scope = scope,
                   ge_required_acr_min = get_string_ext opts E_RequiredAcrMin\<rparr>
      in if permission = ''<exempt>'' then (entry, [])
         else if permission = []
         then (entry, rpcFQN @ '': missing required option (kacho.iam.authz.v1.permission)'')
         else
           (let problems =
                  (if requiredRelation = [] then [''(kacho.iam.authz.v1.required_relation)''] else []) @
                  (if object_type scope = [] then [''(kacho.iam.authz.v1.scope_extractor).object_type''] else []) @
                  (if from_request_field scope = [] then [''(kacho.iam.authz.v1.scope_extractor).from_request_field''] else [])
            in if problems \<noteq> []
               then (entry, rpcFQN @ '': missing required option(s) '' @ join_with '', '' problems)
               else (if ge_required_acr_min entry = [] then entry\<lparr>ge_required_acr_min := ''2''\<rparr> else entry, [])))"

definition collect_entries :: "gen_request \<Rightarrow> gen_entry list \<times> string list" where
  "collect_entries req =
     (let rows = map (\<lambda>(fqn, opts). extract_entry fqn opts) (rpcs req) in
      (map fst rows, filter (\<lambda>w. w \<noteq> []) (map snd rows)))"

definition optional_member :: "string \<Rightarrow> string \<Rightarrow> (string \<times> json) list" where
  \<comment> \<open>the tag \<open>omitempty\<close>\<close>
  "optional_member k s = (if s = [] then [] else [(k, JStr s)])"

definition scope_json :: "scope_extractor \<Rightarrow> json" where
  "scope_json s =
     JObj ([(''object_type'', JStr (object_type s)), (''from_request_field'', JStr (from_request_field s))] @
           optional_member ''object_type_from_request_field'' (object_type_from_request_field s))"

definition entry_json :: "gen_entry \<Rightarrow> json" where
  "entry_json e =
     JObj ([(''fqn'', JStr (ge_fqn e)), (''permission'', JStr (ge_permission e)),
            (''required_relation'', JStr (ge_required_relation e)), (''scope_extractor'', scope_json (ge_scope e))] @
           optional_member ''required_acr_min'' (ge_required_acr_min e))"

definition catalog_json :: "gen_entry list \<Rightarrow> json" where
  \<comment> \<open>a nil slice is written as \<open>null\<close>\<close>
  "catalog_json es = (if es = [] then JNull else JArr (map entry_json es))"

fun nat_decimal :: "nat \<Rightarrow> string" where
  "nat_decimal n =
     (if n < 10 then [char_of (48 + n)] else nat_decimal (n div 10) @ [char_of (48 + n mod 10)])"

declare nat_decimal.simps [simp del]

abbreviation nl :: string where
  "nl \<equiv> [CHR 0x0A]"

definition warnings_content :: "string list \<Rightarrow> string" where
  "warnings_content warnings =
     ''# protoc-gen-kacho-permissions warnings'' @ nl @
     ''# RPCs missing required `(kacho.iam.authz.v1.*)` options.'' @ nl @
     ''# Once annotated, this file disappears on the next `buf generate`.'' @ nl @
     ''# Set KACHO_PERMISSIONS_STRICT=1 to fail the build instead.'' @ nl @ nl @
     join_with nl warnings @ nl"

definition run_permissions :: "(json \<Rightarrow> string) \<Rightarrow> bool \<Rightarrow> gen_request \<Rightarrow> gen_response" where
  \<comment> \<open>\<open>json.MarshalIndent\<close>, and whether \<open>KACHO_PERMISSIONS_STRICT\<close> is \<open>1\<close>\<close>
  "run_permissions marshal strict req =
     (if \<not> should_emit req then \<lparr>gr_error = None, gr_files = []\<rparr>
      else
        (let (collected, warned) = collect_entries req;
             entries = sort_key ge_fqn collected;
             warnings = sort warned
         in if strict \<and> warnings \<noteq> []
            then \<lparr>gr_error = Some (''strict permission catalog check failed ('' @ nat_decimal (length warnings) @
                      '' RPC(s) missing required annotations):'' @ nl @ join_with nl warnings),
                  gr_files = []\<rparr>
            else \<lparr>gr_error = None,
                  gr_files = (''permission_catalog.json'', marshal (catalog_json entries) @ nl) #
                    (if warnings \<noteq> [] then [(''permission_catalog_warnings.txt'', warnings_content warnings)] else [])\<rparr>))"

section \<open>The REST route table\<close>

definition http_rule_of :: "method_options \<Rightarrow> http_rule option" where
  "http_rule_of opts =
     (case opts of
        None \<Rightarrow> None
      | Some m \<Rightarrow> (case map_of m E_Http of Some (ExtRule r) \<Rightarrow> r | _ \<Rightarrow> None))"

definition pattern_binding :: "http_rule \<Rightarrow> (string \<times> string) option" where
  "pattern_binding rule =
     (case rule_pattern rule of
        HttpGet p \<Rightarrow> Some (''GET'', p)
      | HttpPut p \<Rightarrow> Some (''PUT'', p)
      | HttpPost p \<Rightarrow> Some (''POST'', p)
      | HttpDelete p \<Rightarrow> Some (''DELETE'', p)
      | HttpPatch p \<Rightarrow> Some (''PATCH'', p)
      | HttpCustom None \<Rightarrow> None
      | HttpCustom (Some (kind, p)) \<Rightarrow> Some (to_upper kind, p)
      | NoPattern \<Rightarrow> None)"

definition http_bindings :: "method_options \<Rightarrow> (string \<times> string) list" where
  "http_bindings opts =
     (case http_rule_of opts of
        None \<Rightarrow> []
      | Some rule \<Rightarrow> List.map_filter pattern_binding (rule # additional_bindings rule))"

definition collect_routes :: "gen_request \<Rightarrow> rest_route list" where
  "collect_routes req =
     concat (map (\<lambda>(fqn, opts). map (\<lambda>(m, p). \<lparr>rt_method = m, rt_template = p, rt_fqn = fqn\<rparr>) (http_bindings opts)) (rpcs req))"

definition route_key :: "rest_route \<Rightarrow> string \<times> string" where
  "route_key r = (rt_template r, rt_method r)"

definition sort_routes :: "rest_route list \<Rightarrow> rest_route list" where
  "sort_routes routes = sort_key route_key routes"

definition em_dash :: string where
  "em_dash = [CHR 0xE2, CHR 0x80, CHR 0x94]"

definition file_header :: string where
  "file_header = concat (map (\<lambda>l. l @ nl)
     [''// Copyright (c) PRO-Robotech'',
      ''// SPDX-License-Identifier: BUSL-1.1'',
      [],
      ''// Code generated by the route-table extractor. DO NOT EDIT.'',
      ''//'',
      ''// rest_route_table_gen.go '' @ em_dash @ '' static REST-path -> gRPC-FQN routing table for'',
      ''// the api-gateway per-RPC authz middleware.'',
      ''//'',
      ''// Source of truth: `google.api.http` annotations on every service RPC proto.'',
      ''// Regenerate with the route extractor after any proto HTTP-rule change.'',
      ''//'',
      ''// The middleware needs this to translate an incoming REST request'',
      ''// (`POST /iam/v1/accounts`) into the canonical gRPC FQN'',
      ''// (`kacho.cloud.iam.v1.AccountService/Create`) so it can look the method up'',
      ''// in the embedded permission catalog. Without it, REST requests never match'',
      ''// catalog keys and every authenticated REST call is denied.'',
      ''package middleware'',
      [],
      ''// restRoute '' @ em_dash @ '' one (httpMethod, pathTemplate) -> FQN mapping. pathTemplate is'',
      ''// the grpc-gateway path with `{field}` placeholders and optional `:verb`'',
      ''// suffix-action segment.'',
      ''type restRoute struct {'',
      CHR 0x09 # ''Method   string'',
      CHR 0x09 # ''Template string'',
      CHR 0x09 # ''FQN      string'',
      ''}'',
      [],
      ''// generatedRestRoutes '' @ em_dash @ '' full REST<->gRPC route table. Order is'',
      ''// path-then-method for deterministic, longest-prefix-friendly matching.'',
      ''var generatedRestRoutes = []restRoute{''])"

definition render_row :: "(string \<Rightarrow> string) \<Rightarrow> rest_route \<Rightarrow> string" where
  "render_row quote r =
     CHR 0x09 # ''{Method: '' @ quote (rt_method r) @ '', Template: '' @ quote (rt_template r) @ '', FQN: '' @ quote (rt_fqn r) @ ''},'' @ nl"

definition render :: "(string \<Rightarrow> string) \<Rightarrow> (string \<Rightarrow> string option) \<Rightarrow> rest_route list \<Rightarrow> string option" where
  \<comment> \<open>the verb \<open>%q\<close> and \<open>format.Source\<close>, \<open>None\<close> on error\<close>
  "render quote gofmt routes = gofmt (file_header @ concat (map (render_row quote) routes) @ ''}'' @ nl)"

definition run_routes :: "(string \<Rightarrow> string) \<Rightarrow> (string \<Rightarrow> string option) \<Rightarrow> gen_request \<Rightarrow> gen_response option" where
  \<comment> \<open>\<open>None\<close>: the process ends with an error\<close>
  "run_routes quote gofmt req =
     (if \<not> should_emit req then Some \<lparr>gr_error = None, gr_files = []\<rparr>
      else case render quote gofmt (sort_routes (collect_routes req)) of
        None \<Rightarrow> None
      | Some src \<Rightarrow> Some \<lparr>gr_error = None, gr_files = [(''rest_route_table_gen.go'', src)]\<rparr>)"

section \<open>How the gateway reads the catalog\<close>

text \<open>
  \<open>json.Unmarshal\<close> into the structs of \<^verbatim>\<open>permission_catalog.go\<close>, member by member under the exact tags,
  over a parser of the text, which is a parameter.
\<close>

definition json_string :: "(string \<times> json) list \<Rightarrow> string \<Rightarrow> string option" where
  \<comment> \<open>\<open>None\<close>: a type error; an absent member or \<open>null\<close> leaves the zero value\<close>
  "json_string m k =
     (case map_of m k of None \<Rightarrow> Some [] | Some JNull \<Rightarrow> Some [] | Some (JStr s) \<Rightarrow> Some s | Some _ \<Rightarrow> None)"

definition json_bool :: "(string \<times> json) list \<Rightarrow> string \<Rightarrow> bool option" where
  "json_bool m k =
     (case map_of m k of None \<Rightarrow> Some False | Some JNull \<Rightarrow> Some False | Some (JBool b) \<Rightarrow> Some b | Some _ \<Rightarrow> None)"

definition scope_of_json :: "json option \<Rightarrow> scope_extractor option" where
  "scope_of_json j =
     (case j of
        None \<Rightarrow> Some empty_scope
      | Some JNull \<Rightarrow> Some empty_scope
      | Some (JObj m) \<Rightarrow>
          do {
            t \<leftarrow> json_string m ''object_type'';
            f \<leftarrow> json_string m ''from_request_field'';
            tf \<leftarrow> json_string m ''object_type_from_request_field'';
            Some \<lparr>object_type = t, from_request_field = f, object_type_from_request_field = tf\<rparr>
          }
      | Some _ \<Rightarrow> None)"

definition row_of_members :: "(string \<times> json) list \<Rightarrow> catalog_entry option" where
  "row_of_members m =
     do {
       fqn \<leftarrow> json_string m ''fqn'';
       permission \<leftarrow> json_string m ''permission'';
       rel \<leftarrow> json_string m ''required_relation'';
       scope \<leftarrow> scope_of_json (map_of m ''scope_extractor'');
       acr \<leftarrow> json_string m ''required_acr_min'';
       domain \<leftarrow> json_string m ''domain'';
       rtype \<leftarrow> json_string m ''resource_type'';
       action \<leftarrow> json_string m ''action'';
       mfa \<leftarrow> json_bool m ''requires_mfa_fresh'';
       risk \<leftarrow> json_string m ''risk_level'';
       desc \<leftarrow> json_string m ''description'';
       sha \<leftarrow> json_string m ''emitted_build_sha'';
       hide \<leftarrow> json_bool m ''hide_existence'';
       Some \<lparr>ce_fqn = fqn, ce_permission = permission, ce_required_relation = rel, ce_scope = scope, ce_required_acr_min = acr,
             ce_domain = domain, ce_resource_type = rtype, ce_action = action, ce_requires_mfa_fresh = mfa, ce_risk_level = risk,
             ce_description = desc, ce_emitted_build_sha = sha, ce_hide_existence = hide\<rparr>
     }"

definition row_of_json :: "json \<Rightarrow> catalog_entry option" where
  "row_of_json j = (case j of JNull \<Rightarrow> row_of_members [] | JObj m \<Rightarrow> row_of_members m | _ \<Rightarrow> None)"

definition rows_of_json :: "json option \<Rightarrow> catalog_entry list option" where
  "rows_of_json j =
     (case j of None \<Rightarrow> Some [] | Some JNull \<Rightarrow> Some [] | Some (JArr js) \<Rightarrow> those (map row_of_json js) | Some _ \<Rightarrow> None)"

definition critical_ok :: "json option \<Rightarrow> bool" where
  \<comment> \<open>the member \<open>critical\<close> decodes: an object whose \<open>permissions\<close> are strings\<close>
  "critical_ok j =
     (case j of
        None \<Rightarrow> True
      | Some JNull \<Rightarrow> True
      | Some (JObj m) \<Rightarrow>
          (case map_of m ''permissions'' of
             None \<Rightarrow> True
           | Some JNull \<Rightarrow> True
           | Some (JArr ps) \<Rightarrow> list_all (\<lambda>p. case p of JStr _ \<Rightarrow> True | JNull \<Rightarrow> True | _ \<Rightarrow> False) ps
           | Some _ \<Rightarrow> False)
      | Some _ \<Rightarrow> False)"

definition json_catalog_decoder :: "(string \<Rightarrow> json option) \<Rightarrow> catalog_decoder" where
  "json_catalog_decoder parse =
     \<lparr>cd_object = (\<lambda>buf.
        case parse buf of
          Some (JObj m) \<Rightarrow> if critical_ok (map_of m ''critical'') then rows_of_json (map_of m ''entries'') else None
        | Some JNull \<Rightarrow> Some []
        | _ \<Rightarrow> None),
      cd_array = (\<lambda>buf. case parse buf of None \<Rightarrow> None | Some j \<Rightarrow> rows_of_json (Some j))\<rparr>"

definition gateway_row :: "gen_entry \<Rightarrow> catalog_entry" where
  "gateway_row e =
     \<lparr>ce_fqn = ge_fqn e, ce_permission = ge_permission e, ce_required_relation = ge_required_relation e, ce_scope = ge_scope e,
      ce_required_acr_min = ge_required_acr_min e, ce_domain = [], ce_resource_type = [], ce_action = [],
      ce_requires_mfa_fresh = False, ce_risk_level = [], ce_description = [], ce_emitted_build_sha = [], ce_hide_existence = False\<rparr>"

section \<open>The rows of the generated catalog\<close>

definition generated_entries :: "gen_request \<Rightarrow> gen_entry list" where
  "generated_entries req = sort_key ge_fqn (fst (collect_entries req))"

definition annotated :: "method_options \<Rightarrow> bool" where
  "annotated opts \<longleftrightarrow>
     get_string_ext opts E_Permission = ''<exempt>'' \<or>
     get_string_ext opts E_Permission \<noteq> [] \<and> get_string_ext opts E_RequiredRelation \<noteq> [] \<and>
     object_type (get_scope_ext opts E_ScopeExtractor) \<noteq> [] \<and> from_request_field (get_scope_ext opts E_ScopeExtractor) \<noteq> []"

definition complete_row :: "gen_entry \<Rightarrow> bool" where
  "complete_row e \<longleftrightarrow>
     ge_permission e = ''<exempt>'' \<or>
     ge_permission e \<noteq> [] \<and> ge_required_relation e \<noteq> [] \<and> object_type (ge_scope e) \<noteq> [] \<and>
     from_request_field (ge_scope e) \<noteq> [] \<and> ge_required_acr_min e \<noteq> []"

lemma extract_entry_fqn [simp]: "ge_fqn (fst (extract_entry fqn opts)) = fqn"
  by (simp add: extract_entry_def Let_def)

lemma extract_entry_warning: "snd (extract_entry fqn opts) = [] \<longleftrightarrow> annotated opts"
  by (auto simp: extract_entry_def annotated_def Let_def)

lemma extract_entry_complete: "annotated opts \<Longrightarrow> complete_row (fst (extract_entry fqn opts))"
  by (auto simp: extract_entry_def annotated_def complete_row_def Let_def)

lemma collect_entries_simps:
  "fst (collect_entries req) = map (\<lambda>(fqn, opts). fst (extract_entry fqn opts)) (rpcs req)"
  "snd (collect_entries req) = [] \<longleftrightarrow> (\<forall>(fqn, opts) \<in> set (rpcs req). annotated opts)"
  by (auto simp: collect_entries_def Let_def filter_empty_conv extract_entry_warning split_def)

lemma set_generated_entries [simp]:
  "set (generated_entries req) = (\<lambda>(fqn, opts). fst (extract_entry fqn opts)) ` set (rpcs req)"
  by (simp add: generated_entries_def collect_entries_simps)

lemma mset_generated_entries: "mset (map ge_fqn (generated_entries req)) = mset (map fst (rpcs req))"
  by (simp add: generated_entries_def collect_entries_simps image_mset.compositionality comp_def split_def)

lemma sort_empty [simp]: "sort_key f xs = [] \<longleftrightarrow> xs = []"
  by (metis length_0_conv length_sort)

lemma run_permissions_error:
  "should_emit req \<Longrightarrow> gr_error (run_permissions marshal strict req) = None \<longleftrightarrow> \<not> strict \<or> snd (collect_entries req) = []"
  by (auto simp: run_permissions_def Let_def split_def)

lemma run_permissions_file:
  "should_emit req \<Longrightarrow> gr_error (run_permissions marshal strict req) = None \<Longrightarrow>
   map_of (gr_files (run_permissions marshal strict req)) ''permission_catalog.json'' =
     Some (marshal (catalog_json (generated_entries req)) @ nl)"
  by (auto simp: run_permissions_def generated_entries_def Let_def split_def split: if_splits)

text \<open>
  C34: the strict catalog build. It fails exactly if an RPC of the descriptor set lacks an annotation that it
  needs, an exempt one needing none. When it succeeds it writes one file, the catalog, which has one row for
  every RPC, ordered by name, and every row that is not exempt has a permission, a relation, an object type,
  a request field and a level of authentication.
\<close>

theorem strict_catalog_complete:
  assumes "should_emit req"
  shows "(gr_error (run_permissions marshal True req) = None \<longleftrightarrow> (\<forall>(fqn, opts) \<in> set (rpcs req). annotated opts)) \<and>
    (gr_error (run_permissions marshal True req) = None \<longrightarrow>
       (\<exists>es. gr_files (run_permissions marshal True req) = [(''permission_catalog.json'', marshal (catalog_json es) @ nl)] \<and>
          mset (map ge_fqn es) = mset (map fst (rpcs req)) \<and> sorted (map ge_fqn es) \<and> list_all complete_row es))"
proof -
  have "gr_files (run_permissions marshal True req) =
      [(''permission_catalog.json'', marshal (catalog_json (generated_entries req)) @ nl)]"
    if "snd (collect_entries req) = []"
    using assms that by (simp add: run_permissions_def generated_entries_def Let_def split_def)
  moreover have "sorted (map ge_fqn (generated_entries req))"
    by (simp add: generated_entries_def)
  moreover have "list_all complete_row (generated_entries req)" if "snd (collect_entries req) = []"
    using that by (auto simp: collect_entries_simps list_all_iff intro!: extract_entry_complete)
  ultimately show ?thesis
    using mset_generated_entries [of req] run_permissions_error [OF assms] by (auto simp flip: collect_entries_simps(2))
qed

section \<open>From the generator to the gateway\<close>

lemma those_map_Some: "(\<And>x. x \<in> set xs \<Longrightarrow> f x = Some (g x)) \<Longrightarrow> those (map f xs) = Some (map g xs)"
  by (induction xs) auto

lemma scope_of_scope_json: "scope_of_json (Some (scope_json s)) = Some s"
  by (cases s) (auto simp: scope_of_json_def scope_json_def json_string_def optional_member_def)

lemma row_of_entry_json: "row_of_json (entry_json e) = Some (gateway_row e)"
  by (simp add: row_of_json_def row_of_members_def entry_json_def json_string_def json_bool_def optional_member_def
      gateway_row_def scope_of_scope_json)

lemma decode_generated:
  assumes "parse buf = Some (catalog_json es)"
  shows "decode_catalog (json_catalog_decoder parse) buf = Some (map gateway_row es)"
  using assms
  by (auto simp: decode_catalog_def json_catalog_decoder_def catalog_json_def rows_of_json_def comp_def
      row_of_entry_json intro!: those_map_Some)

lemma index_catalog_defined:
  "(\<exists>m. index_catalog es i next = Inr m) \<longleftrightarrow>
   (\<forall>e \<in> set es. ce_fqn e \<noteq> [] \<and> map_of next (ce_fqn e) = None) \<and> distinct (map ce_fqn es)"
proof (induction es arbitrary: i "next")
  case (Cons e es)
  show ?case
    using Cons.IH [of "Suc i" "AList.update (ce_fqn e) e next"] by (auto simp: update_conv split: if_splits) (metis imageI)+
qed simp

lemma rpc_name_nonempty: "(fqn, opts) \<in> set (rpcs req) \<Longrightarrow> fqn \<noteq> []"
  by (auto simp: rpcs_def)

lemma gateway_row_fqn [simp]: "ce_fqn (gateway_row e) = ge_fqn e"
  by (simp add: gateway_row_def)

lemma generated_fqns: "map ce_fqn (map gateway_row es) = map ge_fqn es"
  by simp

lemma generated_rows:
  "(fqn, x) \<in> (\<lambda>e. (ge_fqn e, gateway_row e)) ` (\<lambda>(fqn, opts). fst (extract_entry fqn opts)) ` set (rpcs req) \<longleftrightarrow>
   (\<exists>opts. (fqn, opts) \<in> set (rpcs req) \<and> x = gateway_row (fst (extract_entry fqn opts)))"
  by (auto simp: image_iff split: prod.splits)

text \<open>
  C35: what the generator writes, the gateway reads. The gateway loads the generated catalog exactly if the
  descriptor set has an RPC and no two RPCs share a name, and then a lookup finds for every RPC, and for
  nothing else, the row that the generator extracted from its annotations; otherwise the catalog in force
  stays. The hypothesis on the JSON text is that parsing it gives back the value that was written.
\<close>

theorem generated_catalog_loads:
  assumes "should_emit req" "gr_error (run_permissions marshal strict req) = None"
    and "map_of (gr_files (run_permissions marshal strict req)) ''permission_catalog.json'' = Some buf"
    and "parse (marshal (catalog_json (generated_entries req)) @ nl) = Some (catalog_json (generated_entries req))"
    and "load_bytes (parse_catalog (json_catalog_decoder parse)) c buf = (c', e)"
  shows "(e = None \<longleftrightarrow> rpcs req \<noteq> [] \<and> distinct (map fst (rpcs req))) \<and> (e \<noteq> None \<longrightarrow> c' = c) \<and>
    (e = None \<longrightarrow> (\<forall>fqn x. catalog_lookup c' fqn = Some x \<longleftrightarrow>
       (\<exists>opts. (fqn, opts) \<in> set (rpcs req) \<and> x = gateway_row (fst (extract_entry fqn opts)))))"
proof -
  let ?es = "map gateway_row (generated_entries req)"
  have buf: "buf = marshal (catalog_json (generated_entries req)) @ nl"
    using assms(3) run_permissions_file [OF assms(1,2)] by simp
  have decoded: "decode_catalog (json_catalog_decoder parse) buf = Some ?es"
    using decode_generated assms(4) buf by blast
  have parsed: "parse_catalog (json_catalog_decoder parse) buf = (if ?es = [] then Inl ZeroEntries else index_catalog ?es 0 [])"
    using decoded buf by (simp add: parse_catalog_def)
  have nonempty: "?es = [] \<longleftrightarrow> rpcs req = []"
    by (simp add: generated_entries_def collect_entries_simps)
  have "distinct (map ge_fqn (generated_entries req)) \<longleftrightarrow> distinct (map fst (rpcs req))"
    using mset_generated_entries mset_eq_imp_distinct_iff by blast
  moreover have "\<forall>x \<in> set ?es. ce_fqn x \<noteq> []"
    using rpc_name_nonempty by fastforce
  ultimately have defined: "(\<exists>m. index_catalog ?es 0 [] = Inr m) \<longleftrightarrow> distinct (map fst (rpcs req))"
    unfolding index_catalog_defined generated_fqns by simp
  show ?thesis
  proof (cases "parse_catalog (json_catalog_decoder parse) buf")
    case (Inl err)
    then show ?thesis
      using assms(5) parsed nonempty defined by (auto simp: load_bytes_def split: if_splits)
  next
    case (Inr m)
    then have m: "index_catalog ?es 0 [] = Inr m" "?es \<noteq> []" "e = None" "c' = c\<lparr>fc_current := m\<rparr>"
      using assms(5) parsed by (auto simp: load_bytes_def split: if_splits)
    have "map_of m fqn = Some x \<longleftrightarrow> (\<exists>opts. (fqn, opts) \<in> set (rpcs req) \<and> x = gateway_row (fst (extract_entry fqn opts)))" for fqn x
      using index_catalog_rows(1) [OF m(1), of fqn x] generated_rows [of fqn x req] by simp
    then show ?thesis
      using m nonempty defined by (auto simp: catalog_lookup_def)
  qed
qed

definition demo_options :: "string \<Rightarrow> string \<Rightarrow> method_options" where
  "demo_options x p =
     Some [(E_Permission, ExtString p), (E_RequiredRelation, ExtString ''viewer''),
           (E_ScopeExtractor, ExtScope (Some \<lparr>object_type = ''o'', from_request_field = ''f'', object_type_from_request_field = []\<rparr>)),
           (E_Http, ExtRule (Some (HttpRule (HttpGet (''/'' @ x @ ''/{f}'')) [HttpRule (HttpPost (''/'' @ x)) []])))]"

definition demo_file :: "string \<Rightarrow> string \<Rightarrow> file_descriptor" where
  "demo_file pkg p = \<lparr>pf_package = pkg, pf_services = [\<lparr>sv_name = ''S'', sv_methods = [\<lparr>mt_name = ''G'', mt_options = demo_options pkg p\<rparr>]\<rparr>]\<rparr>"

definition demo_request :: gen_request where
  "demo_request = \<lparr>gq_file_to_generate = [primary_file], gq_proto_files = [demo_file ''q'' ''p.r'', demo_file ''k'' ''<exempt>'']\<rparr>"

lemma demo_request_rpcs: "rpcs demo_request = [(''q.S/G'', demo_options ''q'' ''p.r''), (''k.S/G'', demo_options ''k'' ''<exempt>'')]"
  by (simp add: rpcs_def demo_request_def demo_file_def)

lemma demo_request_emits: "should_emit demo_request"
  by (simp add: should_emit_def demo_request_def)

lemma demo_request_annotated: "\<forall>(fqn, opts) \<in> set (rpcs demo_request). annotated opts"
  by (simp add: demo_request_rpcs annotated_def demo_options_def get_string_ext_def get_scope_ext_def)

theorem strict_catalog_complete_witness:
  "\<exists>es. gr_files (run_permissions (\<lambda>_. ''j'') True demo_request) = [(''permission_catalog.json'', ''j'' @ nl)] \<and>
     mset (map ge_fqn es) = {#''q.S/G'', ''k.S/G''#} \<and> list_all complete_row es"
proof -
  note th = strict_catalog_complete [OF demo_request_emits, of "\<lambda>_. ''j''"]
  have "gr_error (run_permissions (\<lambda>_. ''j'') True demo_request) = None"
    using th demo_request_annotated by blast
  with th obtain es where "gr_files (run_permissions (\<lambda>_. ''j'') True demo_request) = [(''permission_catalog.json'', ''j'' @ nl)]"
    "mset (map ge_fqn es) = mset (map fst (rpcs demo_request))" "list_all complete_row es"
    by blast
  then show ?thesis
    by (auto simp: demo_request_rpcs)
qed

theorem generated_catalog_loads_witness:
  "\<exists>c'. load_bytes (parse_catalog (json_catalog_decoder (\<lambda>_. Some (catalog_json (generated_entries demo_request))))) catalog_new (''j'' @ nl) = (c', None) \<and>
     catalog_lookup c' ''q.S/G'' = Some (gateway_row (fst (extract_entry ''q.S/G'' (demo_options ''q'' ''p.r''))))"
proof -
  let ?parse = "\<lambda>_::string. Some (catalog_json (generated_entries demo_request))"
  obtain c' e where load: "load_bytes (parse_catalog (json_catalog_decoder ?parse)) catalog_new (''j'' @ nl) = (c', e)"
    by fastforce
  have run: "gr_error (run_permissions (\<lambda>_. ''j'') False demo_request) = None"
    using run_permissions_error [OF demo_request_emits] by simp
  have "map_of (gr_files (run_permissions (\<lambda>_. ''j'') False demo_request)) ''permission_catalog.json'' = Some (''j'' @ nl)"
    using run_permissions_file [OF demo_request_emits run] .
  from generated_catalog_loads [OF demo_request_emits run this refl load] load show ?thesis
    by (auto simp: demo_request_rpcs)
qed

section \<open>The order of the route table\<close>

lemma mset_concat_map: "mset xs = mset ys \<Longrightarrow> mset (concat (map f xs)) = mset (concat (map f ys))"
  by (simp add: mset_concat comp_def flip: sum_mset_sum_list)

lemma collect_routes_member:
  "\<lparr>rt_method = m, rt_template = p, rt_fqn = fqn\<rparr> \<in> set (collect_routes req) \<longleftrightarrow>
   (\<exists>opts. (fqn, opts) \<in> set (rpcs req) \<and> (m, p) \<in> set (http_bindings opts))"
  by (force simp: collect_routes_def)

lemma collect_routes_mset:
  assumes "mset (gq_proto_files req') = mset (gq_proto_files req)"
  shows "mset (collect_routes req') = mset (collect_routes req)"
  unfolding collect_routes_def rpcs_def by (intro mset_concat_map assms)

lemma sort_routes_unique:
  assumes "distinct (map route_key rs)" "mset rs' = mset rs"
  shows "sort_routes rs' = sort_routes rs"
proof -
  have "set rs' = set rs"
    using assms(2) by (metis set_mset_mset)
  then have "inj_on route_key (set rs')"
    using assms(1) by (simp add: distinct_map)
  then show ?thesis
    unfolding sort_routes_def by (intro sort_key_inj_key_eq) (simp_all add: assms(2))
qed



section \<open>The committed table\<close>

fun increasing :: "rest_route list \<Rightarrow> bool" where
  \<comment> \<open>each row against the next\<close>
  "increasing (x # y # xs) = (route_key x < route_key y \<and> increasing (y # xs))"
| "increasing _ = True"

lemma increasing_sorted: "increasing rs \<Longrightarrow> sorted_wrt (<) (map route_key rs)"
  by (induction rs rule: increasing.induct) (auto intro: less_trans)

lemma increasing_append:
  "xs \<noteq> [] \<Longrightarrow> ys \<noteq> [] \<Longrightarrow> increasing (xs @ ys) \<longleftrightarrow> increasing xs \<and> increasing ys \<and> route_key (last xs) < route_key (hd ys)"
  by (induction xs rule: increasing.induct) (cases ys; auto)+

lemma parts_increasing:
  "increasing routes_compute_1"
  "increasing routes_compute_2"
  "increasing routes_geo"
  "increasing routes_iam"
  "increasing routes_nlb"
  "increasing routes_operations"
  "increasing routes_registry"
  "increasing routes_storage"
  "increasing routes_vpc"
  by code_simp+

lemma parts_ends:
  "routes_compute_1 \<noteq> []" "route_key (last routes_compute_1) < route_key (hd routes_compute_2)"
  "routes_compute_2 \<noteq> []" "route_key (last routes_compute_2) < route_key (hd routes_geo)"
  "routes_geo \<noteq> []" "route_key (last routes_geo) < route_key (hd routes_iam)"
  "routes_iam \<noteq> []" "route_key (last routes_iam) < route_key (hd routes_nlb)"
  "routes_nlb \<noteq> []" "route_key (last routes_nlb) < route_key (hd routes_operations)"
  "routes_operations \<noteq> []" "route_key (last routes_operations) < route_key (hd routes_registry)"
  "routes_registry \<noteq> []" "route_key (last routes_registry) < route_key (hd routes_storage)"
  "routes_storage \<noteq> []" "route_key (last routes_storage) < route_key (hd routes_vpc)"
  "routes_vpc \<noteq> []"
  by code_simp+

lemma committed_increasing: "increasing generated_rest_routes"
  by (simp add: generated_rest_routes_def increasing_append parts_increasing parts_ends)

text \<open>
  The table that is committed in \<^verbatim>\<open>rest_route_table_gen.go\<close> is in the order of the generator, and no two of
  its rows share a template and an HTTP method.
\<close>

lemma committed_table_in_order:
  "sort_routes generated_rest_routes = generated_rest_routes \<and> distinct (map route_key generated_rest_routes)"
proof -
  have "sorted_wrt (<) (map route_key generated_rest_routes)"
    using committed_increasing by (rule increasing_sorted)
  then have "sorted (map route_key generated_rest_routes)" "distinct (map route_key generated_rest_routes)"
    by (simp_all add: strict_sorted_iff)
  then show ?thesis
    by (simp add: sort_routes_def sorted_sort_id sort_key_id_if_sorted)
qed

end
