(* ===== verification/Spec2Isabelle.thy ===== *)
theory Spec2Isabelle
  imports Idempotency Authz_Monitor Http_Surface Gateway_Main Gateway_Reports Catalog_Gen
begin

text \<open>
  \<^bold>\<open>A verification of the Kacho API gateway.\<close>

  The program (\<^verbatim>\<open>src/\<close>, Go) is the edge of a cloud platform. One process serves gRPC and REST, decides who calls
  and whether the call is permitted, and forwards it to the backends of the domains (vpc, compute,
  storage, geo, iam, loadbalancer, registry). A REST request runs through \<^verbatim>\<open>HTTPRequestID\<close>, \<^verbatim>\<open>HTTPRecovery\<close>, the
  authentication interceptor, the token-binding (DPoP) middleware, the authorization middleware, the access
  log and the idempotency middleware into an \<^verbatim>\<open>http.ServeMux\<close>: health, OIDC and logout endpoints, and the
  grpc-gateway mux for everything else. A gRPC call runs through request identifier, recovery, authentication,
  the cnf interceptor, authorization and the access log into the transparent proxy, which routes an
  allowlist of methods. Beside the request path run the watcher of subject changes, the internal listener
  on which IAM pushes revocations, the reload on SIGHUP and, at build time, two protoc plugins that
  generate the permission catalog and the REST route table from the proto annotations.

  \<^bold>\<open>Conventions.\<close>
  A Go string is a \<open>string\<close> of bytes. A time or duration is an \<open>int\<close> of nanoseconds; every reading of the clock
  is an argument. Counters and the exponent of an RSA key are \<open>64 word\<close>. A struct is a \<open>record\<close>, an
  enumeration or error a \<open>datatype\<close>, a fallible function returns \<open>error + value\<close> or an \<open>option\<close>. A Go map is an
  association list under \<open>map_of\<close>, headers and metadata are association lists with the canonical names of net/http and
  of grpc. State is passed explicitly and returned. What is not under \<^verbatim>\<open>src/\<close> (IAM, Hydra, Kratos and
  backend stubs, signature verification, hashes, encoders and decoders, the file system, dialling) is an
  argument; what a property needs of it is a hypothesis, and its witness gives a concrete instance.
  Log lines are left out.

  \<^bold>\<open>The theories\<close>, in the order of their imports:

  \<^item> \<open>Go_Prelude\<close>: the string, header and metadata functions of Go's library that the code uses, with their lemmas.
  \<^item> \<open>Edge_Context\<close>: HTTP requests and response writers, the listener-origin marker
    (\<^verbatim>\<open>internal/listenerorigin\<close>), principal headers and metadata (\<^verbatim>\<open>internal/principalmeta\<close>).
  \<^item> \<open>Lru_Cache\<close>: \<^verbatim>\<open>internal/lrucache/lrucache.go\<close>, with elements in a list, the key map, and the generation
    counter that guards writes. The map and the list agree and the capacity holds under any run; lookups and
    writes refine a recency list; \<open>cache_holds P\<close> is the invariant its clients use.
  \<^item> \<open>Gateway_Caches\<close>: decision, subject, introspection, session and replay caches (\<^verbatim>\<open>internal/cache\<close>,
    \<^verbatim>\<open>authz_cache.go\<close>, \<^verbatim>\<open>introspection_cache.go\<close>, \<^verbatim>\<open>dpop_replay_cache.go\<close>, \<^verbatim>\<open>kratos_session.go\<close>) over a locale of the
    LRU contract.
  \<^item> \<open>Jwt\<close>, \<open>Dpop\<close>: \<^verbatim>\<open>jwk.go\<close>, \<^verbatim>\<open>jwt_verifier.go\<close>, \<^verbatim>\<open>dpop.go\<close>, \<^verbatim>\<open>mtls_bound.go\<close>, \<^verbatim>\<open>stepup_gate.go\<close>,
    \<^verbatim>\<open>dpop_http_middleware.go\<close>, \<^verbatim>\<open>cnf_grpc_interceptor.go\<close>: what an accepted token, an accepted proof and a
    forwarded request establish, and that a proof is accepted once.
  \<^item> \<open>Subject_Client\<close>, \<open>Authn\<close>: \<^verbatim>\<open>iam_subject_client.go\<close> and \<^verbatim>\<open>auth.go\<close>: lazy creation of users, and where the principal
    that reaches a handler comes from, on gRPC and on REST, in each mode.
  \<^item> \<open>Authz_Config\<close>, \<open>Authz_Extract\<close>, \<open>Authz_Response\<close>, \<open>Authz_Check\<close>: the reloadable tables
    (\<^verbatim>\<open>permission_catalog.go\<close>, \<^verbatim>\<open>authz_overrides.go\<close>), the extractors of subject, resource and context, the
    answers, and the IAM client with its retries and metrics.
  \<^item> \<open>Authz\<close>: \<^verbatim>\<open>authz.go\<close>: the phases of \<open>decide\<close>, one definition each, and the unary, stream and HTTP surfaces.
    \<open>Authz_Safety\<close>: the reachable states under interleaving (\<open>authz_reachable\<close>) and what an allow, a refusal and a
    revocation mean there; the locale \<open>verdict_cache\<close> holds what every property of cached verdicts needs,
    \<open>authorize_checker\<close> extends it by the contract of IAM and is interpreted on the client.
    \<open>Authz_Monitor\<close>: the reference monitor without cache and history, which \<open>decide\<close> implements.
  \<^item> \<open>Idempotency\<close>: \<^verbatim>\<open>idempotency.go\<close>: the store, single flight and replay, as a step relation of concurrent requests.
  \<^item> \<open>Allowlist\<close>, \<open>Rest_Routes\<close>, \<open>Rest_Router\<close>, \<open>Proxy_Routing\<close>: the method allowlist, the generated route table with its
    matcher, the gRPC resolver and proxy, the operations proxy, the REST registrations and the dispatcher
    (\<^verbatim>\<open>internal/allowlist\<close>, \<^verbatim>\<open>rest_route_table_gen.go\<close>, \<^verbatim>\<open>rest_router.go\<close>, \<^verbatim>\<open>internal/proxy\<close>, \<^verbatim>\<open>internal/opsproxy\<close>,
    \<^verbatim>\<open>internal/restmux\<close>).
  \<^item> \<open>Gateway_Chain\<close>: request identifiers, recovery, access logs, and the two chains as \<^verbatim>\<open>main.go\<close> composes them.
  \<^item> \<open>Control_Plane\<close>: watcher, invalidation service, security of the internal listener, dial credentials, derived
    configuration, production checks, readiness.
  \<^item> \<open>Gateway_Start\<close>: start-up: dialling with its clean-up, the construction of the token-binding and
    authorization middleware, posture checks, the internal listener, SIGHUP.
  \<^item> \<open>Http_Surface\<close>: the HTTP mux, challenges and REST dial options; the public paths reach no method, and every REST
    call of a method was decided.
  \<^item> \<open>Gateway_Listeners\<close>: the listeners \<^verbatim>\<open>main.go\<close> opens, the origin of their connections, and the goroutines from start to exit as a
    step relation.
  \<^item> \<open>Session_Endpoints\<close>: \<^verbatim>\<open>logout_handler.go\<close> and \<^verbatim>\<open>oidc_auth.go\<close>.
  \<^item> \<open>Gateway_Config\<close>: the fields of the configuration with their environment variables and defaults, and the loader.
  \<^item> \<open>Gateway_Main\<close>: \<open>main\<close> as one function from the environment to the serving gateway or the error that ends the process, with
    the remaining constructors; the properties that start from the environment.
  \<^item> \<open>Gateway_Reports\<close>: the snapshot of the metrics, which counts what it says, and the loading and rendering of overrides.
  \<^item> \<open>Catalog_Gen\<close>: both protoc plugins (\<^verbatim>\<open>cmd/protoc-gen-*\<close>) and the gateway's reading of the generated catalog.

  \<^bold>\<open>What is shown.\<close>
  Authorization: an allow always has one of five grounds, in every reachable state (\<open>allow_is_justified\<close>); the whole
  REST chain mediates every method (\<open>rest_call_mediated\<close>, \<open>public_surface\<close>); the decision cache is transparent
  (\<open>cache_transparent\<close>) and a revocation is never undone by a check in flight; denials hide resources.
  Authentication: tokens, proofs and principals are authentic, forged identity is stripped, requests without credentials are
  refused. Routing: exactly the allowlist, internal methods only on the internal listener with twelve named
  exceptions, whatever listener a connection came in on. Caching and retries: bounds, refinement, single flight, authentic replays, at most the configured
  number of calls. Start-up and control plane: production starts closed, reloads are all or nothing, changes
  and pushes of IAM empty the caches they should, a dead listener ends the process in bounded time. Build time: the generated tables are complete, deterministic and
  load back. Several theorems state a behaviour that a comment or the intent of the code contradicts; the
  manifest lists them as findings.

  \<^bold>\<open>Loops and bounds.\<close>
  Every definition is total. Loops over data are structural; the IAM retry loop ends by the measure of attempts left
  (\<open>check_attempts\<close>), the binary search of the histogram by the width of its interval. There is no fuel. The
  generation counter wraps at 64 bits: the properties that compare generations assume fewer than \<open>2 ^ 64\<close>
  operations between the snapshot and the write. Concurrency is modelled where locks leave room for it: as lists of
  operations of other requests at the points where a lock is not held, and as step relations for idempotency and for the
  goroutines of the process.

  \<^bold>\<open>Not modelled.\<close>
  Sockets, TLS handshakes, the inside of cmux, signal delivery, keepalive and time-out options, the copying of frames
  by the proxy, JSON marshalling and the generated grpc-gateway handlers (third-party or generated code and I/O);
  log lines; how the core library reads one environment variable, an argument of the loader; the text of the embedded
  catalog, likewise. The idempotency store that \<open>main\<close> mounts is the one of \<open>Idempotency\<close>; the record of the gateway does not repeat it.
\<close>

end
